(* ===== verification/Prelude.thy ===== *)
theory Prelude
  imports Main "HOL-Library.Sublist" "HOL-Library.Char_ord" "HOL-Library.List_Lexorder"
begin

text \<open>
  Shared vocabulary of the development: the outcome of a Go call (a value, an error value or a
  panic), its sequencing, and the string functions of Go's package strings that the repository
  uses. Strings are lists of bytes; case folding is the ASCII part of Go's (every string the code
  folds is a region, an environment name or a resource type).
\<close>

named_theorems outcome_simps "inversion of sequenced outcomes"

section \<open>Outcomes\<close>

text \<open>
  A Go function with results \<open>(value, error)\<close> returns a value with a nil error, or an error;
  an index out of range, a nil dereference or a failed one-result type assertion is a panic, which
  no \<open>err != nil\<close> test sees.
\<close>

datatype ('e, 'a) outcome = Ok 'a | Err 'e | Panic

fun andThen :: "('e, 'a) outcome \<Rightarrow> ('a \<Rightarrow> ('e, 'b) outcome) \<Rightarrow> ('e, 'b) outcome" where
  "andThen (Ok a) f = f a"
| "andThen (Err e) f = Err e"
| "andThen Panic f = Panic"

fun mapErr :: "('e \<Rightarrow> 'f) \<Rightarrow> ('e, 'a) outcome \<Rightarrow> ('f, 'a) outcome" where
  "mapErr h (Ok a) = Ok a"
| "mapErr h (Err e) = Err (h e)"
| "mapErr h Panic = Panic"

fun deref :: "'a option \<Rightarrow> ('e, 'a) outcome" where
  "deref None = Panic"
| "deref (Some a) = Ok a"

definition guard :: "bool \<Rightarrow> 'e \<Rightarrow> ('e, unit) outcome" where
  "guard b e = (if b then Ok () else Err e)"

fun failWith :: "'e option \<Rightarrow> ('e, unit) outcome" where
  "failWith None = Ok ()"
| "failWith (Some e) = Err e"

fun isOk :: "('e, 'a) outcome \<Rightarrow> bool" where
  "isOk (Ok a) = True"
| "isOk _ = False"

fun foldOk :: "('a \<Rightarrow> 's \<Rightarrow> ('e, 's) outcome) \<Rightarrow> 'a list \<Rightarrow> 's \<Rightarrow> ('e, 's) outcome" where
  "foldOk f [] s = Ok s"
| "foldOk f (x # xs) s = andThen (f x s) (foldOk f xs)"

fun mapOk :: "('a \<Rightarrow> ('e, 'b) outcome) \<Rightarrow> 'a list \<Rightarrow> ('e, 'b list) outcome" where
  "mapOk f [] = Ok []"
| "mapOk f (x # xs) = andThen (f x) (\<lambda>y. andThen (mapOk f xs) (\<lambda>ys. Ok (y # ys)))"

lemma andThen_Ok_iff [outcome_simps]: "andThen m f = Ok b \<longleftrightarrow> (\<exists>a. m = Ok a \<and> f a = Ok b)"
  by (cases m) auto

lemma andThen_Err_iff [outcome_simps]:
  "andThen m f = Err e \<longleftrightarrow> m = Err e \<or> (\<exists>a. m = Ok a \<and> f a = Err e)"
  by (cases m) auto

lemma andThen_Panic_iff [outcome_simps]:
  "andThen m f = Panic \<longleftrightarrow> m = Panic \<or> (\<exists>a. m = Ok a \<and> f a = Panic)"
  by (cases m) auto

lemma andThen_assoc: "andThen (andThen m f) g = andThen m (\<lambda>x. andThen (f x) g)"
  by (cases m) auto

lemma andThen_right [simp]: "andThen m Ok = m"
  by (cases m) auto

lemma mapErr_Ok_iff [outcome_simps]: "mapErr h m = Ok a \<longleftrightarrow> m = Ok a"
  by (cases m) auto

lemma mapErr_Err_iff [outcome_simps]: "mapErr h m = Err f \<longleftrightarrow> (\<exists>e. m = Err e \<and> f = h e)"
  by (cases m) auto

lemma mapErr_Panic_iff [outcome_simps]: "mapErr h m = Panic \<longleftrightarrow> m = Panic"
  by (cases m) auto

lemma deref_Ok_iff [outcome_simps]: "deref p = Ok a \<longleftrightarrow> p = Some a"
  by (cases p) auto

lemma deref_not_Err [outcome_simps]: "deref p = Err e \<longleftrightarrow> False"
  by (cases p) auto

lemma deref_Panic_iff [outcome_simps]: "deref p = Panic \<longleftrightarrow> p = None"
  by (cases p) auto

lemma guard_Ok_iff [outcome_simps]: "guard b e = Ok u \<longleftrightarrow> b"
  by (simp add: guard_def)

lemma guard_Err_iff [outcome_simps]: "guard b e = Err e' \<longleftrightarrow> \<not> b \<and> e' = e"
  by (auto simp: guard_def)

lemma guard_not_Panic [outcome_simps]: "guard b e = Panic \<longleftrightarrow> False"
  by (simp add: guard_def)

lemma guard_True [simp]: "guard True e = Ok ()" and guard_False [simp]: "guard False e = Err e"
  by (simp_all add: guard_def)

lemma failWith_Ok_iff [outcome_simps]: "failWith p = Ok u \<longleftrightarrow> p = None"
  by (cases p) auto

lemma failWith_Err_iff [outcome_simps]: "failWith p = Err e \<longleftrightarrow> p = Some e"
  by (cases p) auto

lemma failWith_not_Panic [outcome_simps]: "failWith p = Panic \<longleftrightarrow> False"
  by (cases p) auto

lemma foldOk_append: "foldOk f (xs @ ys) s = andThen (foldOk f xs s) (foldOk f ys)"
proof (induction xs arbitrary: s)
  case (Cons x xs)
  then show ?case by (cases "f x s") simp_all
qed simp

lemma foldOk_total: "(\<And>x s. x \<in> set xs \<Longrightarrow> f x s = Ok (g x s)) \<Longrightarrow> foldOk f xs s = Ok (fold g xs s)"
  by (induction xs arbitrary: s) auto

lemma mapOk_total: "(\<And>x. x \<in> set xs \<Longrightarrow> f x = Ok (g x)) \<Longrightarrow> mapOk f xs = Ok (map g xs)"
  by (induction xs) auto

lemma mapOk_Ok_length: "mapOk f xs = Ok ys \<Longrightarrow> length ys = length xs"
  by (induction xs arbitrary: ys) (auto simp: outcome_simps)

lemma mapOk_Ok_nth: "mapOk f xs = Ok ys \<Longrightarrow> i < length xs \<Longrightarrow> f (xs ! i) = Ok (ys ! i)"
  by (induction xs arbitrary: ys i) (auto simp: outcome_simps nth_Cons split: nat.splits)

end
