(* ===== verification/Go_Strings.thy ===== *)
theory Go_Strings
  imports Prelude
begin

text \<open>
  The functions of Go's packages strings and strconv that the repository calls: splitting and
  joining at a separator byte, the last index of a byte or of a substring, containment, suffix
  trimming, ASCII case folding and decimal printing; with the laws the components use.
\<close>

named_theorems split_simps "splitting and joining"

abbreviation nl :: char where "nl \<equiv> CHR 0x0A"
abbreviation slash :: char where "slash \<equiv> CHR ''/''"
abbreviation comma :: char where "comma \<equiv> CHR '',''"
abbreviation dot :: char where "dot \<equiv> CHR ''.''"

section \<open>Splitting and joining\<close>

fun split_on :: "char \<Rightarrow> string \<Rightarrow> string list" where
  "split_on c [] = [[]]"
| "split_on c (x # xs) =
     (if x = c then [] # split_on c xs
      else (case split_on c xs of [] \<Rightarrow> [[x]] | t # ts \<Rightarrow> (x # t) # ts))"

fun join_with :: "string \<Rightarrow> string list \<Rightarrow> string" where
  "join_with sep [] = []"
| "join_with sep [s] = s"
| "join_with sep (s # t # ts) = s @ sep @ join_with sep (t # ts)"

lemma split_on_not_Nil [simp]: "split_on c s \<noteq> []"
  by (induction s) (auto split: list.splits)

lemma join_split [split_simps]: "join_with [c] (split_on c s) = s"
proof (induction s)
  case (Cons x xs)
  then show ?case
    by (cases "split_on c xs"; cases "tl (split_on c xs)") auto
qed simp

lemma length_split_on [split_simps]: "length (split_on c s) = Suc (count_list s c)"
  by (induction s) (auto split: list.splits)

lemma split_on_free [split_simps]: "t \<in> set (split_on c s) \<Longrightarrow> c \<notin> set t"
  by (induction s arbitrary: t) (auto split: list.splits if_splits)

lemma split_on_noocc [split_simps]: "c \<notin> set s \<Longrightarrow> split_on c s = [s]"
  by (induction s) auto

lemma split_on_append_sep [split_simps]:
  "c \<notin> set s \<Longrightarrow> split_on c (s @ c # t) = s # split_on c t"
  by (induction s) auto

lemma split_join [split_simps]:
  "ts \<noteq> [] \<Longrightarrow> (\<And>t. t \<in> set ts \<Longrightarrow> c \<notin> set t) \<Longrightarrow> split_on c (join_with [c] ts) = ts"
  by (induction "[c]" ts rule: join_with.induct) (auto simp: split_on_noocc split_on_append_sep)

lemma join_with_append:
  "xs \<noteq> [] \<Longrightarrow> ys \<noteq> [] \<Longrightarrow> join_with sep (xs @ ys) = join_with sep xs @ sep @ join_with sep ys"
proof (induction sep xs rule: join_with.induct)
  case (2 sep s)
  then show ?case by (cases ys) auto
qed auto

section \<open>Indices\<close>

text \<open>Go's \<open>-1\<close> for "absent" is \<open>None\<close> here; the callers that compute with it say so.\<close>

fun last_index_byte :: "string \<Rightarrow> char \<Rightarrow> nat option" where
  "last_index_byte [] c = None"
| "last_index_byte (x # xs) c =
     (case last_index_byte xs c of Some i \<Rightarrow> Some (Suc i) | None \<Rightarrow> if x = c then Some 0 else None)"

fun index_byte :: "string \<Rightarrow> char \<Rightarrow> nat option" where
  "index_byte [] c = None"
| "index_byte (x # xs) c = (if x = c then Some 0 else map_option Suc (index_byte xs c))"

fun last_index :: "string \<Rightarrow> string \<Rightarrow> nat option" where
  "last_index [] sub = (if sub = [] then Some 0 else None)"
| "last_index (x # xs) sub =
     (case last_index xs sub of Some i \<Rightarrow> Some (Suc i) | None \<Rightarrow> if prefix sub (x # xs) then Some 0 else None)"

definition contains :: "string \<Rightarrow> string \<Rightarrow> bool" where
  "contains s sub = (last_index s sub \<noteq> None)"

lemma last_index_byte_None: "last_index_byte s c = None \<longleftrightarrow> c \<notin> set s"
  by (induction s) (auto split: option.splits)

lemma last_index_byte_Some:
  "last_index_byte s c = Some i \<Longrightarrow> i < length s \<and> s ! i = c \<and> c \<notin> set (drop (Suc i) s)"
  by (induction s arbitrary: i) (auto split: option.splits if_splits simp: last_index_byte_None)

lemma index_byte_None: "index_byte s c = None \<longleftrightarrow> c \<notin> set s"
  by (induction s) auto

lemma index_byte_Some:
  "index_byte s c = Some i \<Longrightarrow> s = take i s @ c # drop (Suc i) s \<and> c \<notin> set (take i s) \<and> i < length s"
  by (induction s arbitrary: i) (auto split: if_splits)

lemma last_index_Some:
  "last_index s sub = Some i \<Longrightarrow> i \<le> length s \<and> prefix sub (drop i s)"
  by (induction s sub arbitrary: i rule: last_index.induct) (auto split: option.splits if_splits)

lemma last_index_None: "last_index s sub = None \<longleftrightarrow> (\<forall>p q. s \<noteq> p @ sub @ q)"
proof (induction s sub rule: last_index.induct)
  case (2 x xs sub)
  show ?case
  proof
    assume "last_index (x # xs) sub = None"
    then have n: "last_index xs sub = None" and np: "\<not> prefix sub (x # xs)"
      by (auto split: option.splits if_splits)
    show "\<forall>p q. x # xs \<noteq> p @ sub @ q"
    proof (intro allI notI)
      fix p q assume eq: "x # xs = p @ sub @ q"
      then show False using n 2 np by (cases p) (auto simp: prefix_def)
    qed
  next
    assume a: "\<forall>p q. x # xs \<noteq> p @ sub @ q"
    have "\<forall>p q. xs \<noteq> p @ sub @ q"
      using a by (metis append_Cons)
    with 2 have "last_index xs sub = None" by blast
    moreover have "\<not> prefix sub (x # xs)"
      using a by (auto simp: prefix_def) (metis append_Nil)
    ultimately show "last_index (x # xs) sub = None" by simp
  qed
qed simp

lemma contains_iff: "contains s sub \<longleftrightarrow> (\<exists>p q. s = p @ sub @ q)"
  by (auto simp: contains_def last_index_None)

lemma last_index_max:
  "last_index s sub = Some i \<Longrightarrow> i < j \<Longrightarrow> j \<le> length s \<Longrightarrow> \<not> prefix sub (drop j s)"
proof (induction s sub arbitrary: i j rule: last_index.induct)
  case (2 x xs sub)
  then obtain k where j: "j = Suc k" by (cases j) auto
  show ?case
  proof (cases "last_index xs sub")
    case None
    then have "xs \<noteq> take k xs @ sub @ q" for q by (simp add: last_index_None)
    then show ?thesis using j by (auto simp: prefix_def) (metis append_take_drop_id)
  next
    case (Some n)
    then show ?thesis using 2 j by auto
  qed
qed (auto split: if_splits)

lemma last_index_rest:
  assumes "last_index s sub = Some i" "sub \<noteq> []" "drop i s = sub @ q"
  shows "\<not> contains q sub"
proof
  assume "contains q sub"
  then obtain a b where q: "q = a @ sub @ b" by (auto simp: contains_iff)
  let ?j = "i + length sub + length a"
  have "drop ?j s = drop (length sub + length a) (drop i s)" by (simp add: add.commute add.left_commute)
  also have "\<dots> = sub @ b" using assms(3) q by simp
  finally have d: "drop ?j s = sub @ b" .
  then have "prefix sub (drop ?j s)" by simp
  moreover have "?j \<le> length s" using d assms(2)
    by (metis append_is_Nil_conv drop_all nat_le_linear)
  ultimately show False using last_index_max [OF assms(1), of ?j] assms(2) by simp
qed

section \<open>Suffixes, case, numbers\<close>

text \<open>
  Case is changed for the letters of ASCII, which the names of regions, features, levels and modes consist of. Go also
  maps other letters, some of them to ASCII ones (the Kelvin sign to k); a text with such a letter is left as it is here.
\<close>

definition trim_suffix :: "string \<Rightarrow> string \<Rightarrow> string" where
  "trim_suffix s suf = (if suffix suf s then take (length s - length suf) s else s)"

definition lower_char :: "char \<Rightarrow> char" where
  "lower_char c = (let n = of_char c :: nat in if 65 \<le> n \<and> n \<le> 90 then char_of (n + 32) else c)"

definition upper_char :: "char \<Rightarrow> char" where
  "upper_char c = (let n = of_char c :: nat in if 97 \<le> n \<and> n \<le> 122 then char_of (n - 32) else c)"

definition to_lower :: "string \<Rightarrow> string" where "to_lower = map lower_char"
definition to_upper :: "string \<Rightarrow> string" where "to_upper = map upper_char"

definition equal_fold :: "string \<Rightarrow> string \<Rightarrow> bool" where
  "equal_fold s t = (to_lower s = to_lower t)"

lemma trim_suffix_append [simp]: "trim_suffix (s @ suf) suf = s"
  by (simp add: trim_suffix_def suffix_def)

lemma trim_suffix_other: "\<not> suffix suf s \<Longrightarrow> trim_suffix s suf = s"
  by (simp add: trim_suffix_def suffix_def)

lemma lower_char_idem [simp]: "lower_char (lower_char c) = lower_char c"
  by (simp add: lower_char_def Let_def)

lemma to_lower_idem [simp]: "to_lower (to_lower s) = to_lower s"
  by (simp add: to_lower_def)

lemma length_to_lower [simp]: "length (to_lower s) = length s"
  by (simp add: to_lower_def)

lemma to_lower_append [simp]: "to_lower (s @ t) = to_lower s @ to_lower t"
  by (simp add: to_lower_def)

lemma equal_fold_refl [simp]: "equal_fold s s"
  by (simp add: equal_fold_def)

lemma equal_fold_lower [simp]: "equal_fold (to_lower s) t = equal_fold s t"
  by (simp add: equal_fold_def)

text \<open>\<open>%d\<close> of a non-negative number, and \<open>%q\<close> for texts without bytes to escape.\<close>

fun show_nat :: "nat \<Rightarrow> string" where
  "show_nat n = (if n < 10 then [char_of (48 + n)] else show_nat (n div 10) @ [char_of (48 + n mod 10)])"

declare show_nat.simps [simp del]

definition show_int :: "int \<Rightarrow> string" where
  "show_int i = (if i < 0 then ''-'' @ show_nat (nat (- i)) else show_nat (nat i))"

definition quote_text :: "string \<Rightarrow> string" where
  "quote_text s = [CHR 0x22] @ s @ [CHR 0x22]"

lemma show_nat_not_Nil [simp]: "show_nat n \<noteq> []"
  by (subst show_nat.simps) simp

end
