(* ===== verification/Go_Map.thy ===== *)
theory Go_Map
  imports Prelude "HOL-Library.Multiset"
begin

text \<open>
  Go's \<open>map[K]V\<close> as a strictly sorted association list: two maps with the same entries are the
  same list (so structural equality is \<open>reflect.DeepEqual\<close>), and the order is the one in which
  encoding/json writes the keys. The interface the components use is the locale \<open>go_map\<close>; the
  lists interpret it, and the loops over maps (merging, deduplication) are reasoned about there.
\<close>

section \<open>The interface\<close>

locale go_map =
  fixes empty :: "'m"
    and get :: "'m \<Rightarrow> 'k \<Rightarrow> 'v option"
    and put :: "'k \<Rightarrow> 'v \<Rightarrow> 'm \<Rightarrow> 'm"
    and del :: "'k \<Rightarrow> 'm \<Rightarrow> 'm"
    and invar :: "'m \<Rightarrow> bool"
  assumes get_empty: "get empty k = None"
    and get_put: "get (put k v m) j = (if j = k then Some v else get m j)"
    and get_del: "get (del k m) j = (if j = k then None else get m j)"
    and invar_empty: "invar empty"
    and invar_put: "invar m \<Longrightarrow> invar (put k v m)"
    and invar_del: "invar m \<Longrightarrow> invar (del k m)"
    and extensional: "invar m \<Longrightarrow> invar m' \<Longrightarrow> (\<And>k. get m k = get m' k) \<Longrightarrow> m = m'"
begin

lemma get_put_same: "get (put k v m) k = Some v"
  by (simp add: get_put)

lemma invar_puts: "invar m \<Longrightarrow> invar (fold (\<lambda>(k, v). put k v) kvs m)"
  by (induction kvs arbitrary: m) (auto simp: invar_put)

lemma get_puts:
  "get (fold (\<lambda>(k, v). put k v) kvs m) j =
     (case map_of (rev kvs) j of Some v \<Rightarrow> Some v | None \<Rightarrow> get m j)"
proof (induction kvs arbitrary: m)
  case (Cons kv kvs)
  show ?case
    by (cases kv) (simp add: Cons get_put map_add_def split: option.splits)
qed simp

lemma put_put: "invar m \<Longrightarrow> put k v (put k w m) = put k v m"
  by (rule extensional) (auto simp: invar_put get_put)

lemma put_commute: "invar m \<Longrightarrow> j \<noteq> k \<Longrightarrow> put k v (put j w m) = put j w (put k v m)"
  by (rule extensional) (auto simp: invar_put get_put)

lemma put_same: "invar m \<Longrightarrow> get m k = Some v \<Longrightarrow> put k v m = m"
  by (rule extensional) (auto simp: invar_put get_put)

lemma del_absent: "invar m \<Longrightarrow> get m k = None \<Longrightarrow> del k m = m"
  by (rule extensional) (auto simp: invar_del get_del)

lemma del_del: "invar m \<Longrightarrow> del k (del k m) = del k m"
  by (rule extensional) (auto simp: invar_del get_del)

text \<open>Go iterates over a map in an unspecified order; with distinct keys the order is immaterial.\<close>

lemma puts_order_irrelevant:
  assumes "invar m" "distinct (map fst xs)" "mset xs = mset ys"
  shows "fold (\<lambda>(k, v). put k v) xs m = fold (\<lambda>(k, v). put k v) ys m"
proof (rule extensional)
  fix j
  have "distinct (map fst ys)"
    using assms(2,3) by (metis mset_eq_imp_distinct_iff mset_map)
  moreover have "set xs = set ys" using assms(3) by (rule mset_eq_setD)
  ultimately have "map_of (rev xs) = map_of (rev ys)"
    using assms(2) by (subst map_of_inject_set) (simp_all add: rev_map [symmetric])
  then show "get (fold (\<lambda>(k, v). put k v) xs m) j = get (fold (\<lambda>(k, v). put k v) ys m) j"
    by (simp add: get_puts)
qed (simp_all add: invar_puts assms(1))

end

section \<open>Sorted association lists\<close>

type_synonym ('k, 'v) gomap = "('k \<times> 'v) list"

abbreviation sm_get :: "('k, 'v) gomap \<Rightarrow> 'k \<Rightarrow> 'v option" where
  "sm_get \<equiv> map_of"

fun sm_put :: "'k::linorder \<Rightarrow> 'v \<Rightarrow> ('k, 'v) gomap \<Rightarrow> ('k, 'v) gomap" where
  "sm_put k v [] = [(k, v)]"
| "sm_put k v (e # es) =
     (if fst e = k then (k, v) # es
      else if fst e < k then e # sm_put k v es
      else (k, v) # e # es)"

definition sm_del :: "'k \<Rightarrow> ('k, 'v) gomap \<Rightarrow> ('k, 'v) gomap" where
  "sm_del k m = filter (\<lambda>e. fst e \<noteq> k) m"

definition sm_of_list :: "('k::linorder \<times> 'v) list \<Rightarrow> ('k, 'v) gomap" where
  "sm_of_list kvs = fold (\<lambda>(k, v). sm_put k v) kvs []"

definition sm_invar :: "('k::linorder, 'v) gomap \<Rightarrow> bool" where
  "sm_invar m = sorted_wrt (<) (map fst m)"

lemma keys_sm_put: "set (map fst (sm_put k v m)) = insert k (set (map fst m))"
  by (induction m) auto

lemma sm_get_put: "sm_get (sm_put k v m) j = (if j = k then Some v else sm_get m j)"
  by (induction m) auto

lemma sm_invar_put: "sm_invar m \<Longrightarrow> sm_invar (sm_put k v m)"
proof (induction m)
  case (Cons e es)
  have sub: "fst ` set (sm_put k v es) = insert k (fst ` set es)"
    using keys_sm_put [of k v es] by simp
  show ?case
    using Cons by (auto simp: sm_invar_def sub)
qed (simp add: sm_invar_def)

lemma sm_get_del: "sm_get (sm_del k m) j = (if j = k then None else sm_get m j)"
  by (induction m) (auto simp: sm_del_def)

lemma sm_invar_del: "sm_invar m \<Longrightarrow> sm_invar (sm_del k m)"
  by (induction m) (auto simp: sm_invar_def sm_del_def)

lemma sm_invar_distinct: "sm_invar m \<Longrightarrow> distinct (map fst m)"
  by (simp add: sm_invar_def strict_sorted_iff)

lemma sm_extensional:
  assumes "sm_invar m" "sm_invar m'" and eq: "\<And>k. sm_get m k = sm_get m' k"
  shows "m = m'"
proof -
  have d: "distinct (map fst m)" "distinct (map fst m')"
    using assms(1,2) by (simp_all add: sm_invar_distinct)
  have "map_of m = map_of m'" using eq by (rule ext)
  then have "set m = set m'" using d by (simp add: map_of_inject_set)
  then show ?thesis
    using assms(1,2) d
    by (intro map_sorted_distinct_set_unique [of fst])
      (auto simp: sm_invar_def strict_sorted_iff distinct_map)
qed

lemma map_of_rev_distinct: "distinct (map fst xs) \<Longrightarrow> map_of (rev xs) = map_of xs"
  by (subst map_of_inject_set) (simp_all add: rev_map [symmetric])

interpretation sm: go_map "[]" "sm_get :: ('k::linorder, 'v) gomap \<Rightarrow> 'k \<Rightarrow> 'v option" sm_put sm_del sm_invar
  by unfold_locales
    (auto simp: sm_get_put sm_get_del sm_invar_put sm_invar_del sm_extensional, simp add: sm_invar_def)

lemma sm_get_of_list: "sm_get (sm_of_list kvs) k = map_of (rev kvs) k"
  by (simp add: sm_of_list_def sm.get_puts split: option.splits)

lemma sm_invar_of_list: "sm_invar (sm_of_list kvs)"
  by (simp add: sm_of_list_def sm.invar_puts sm.invar_empty)

lemma sm_of_list_id: "sm_invar m \<Longrightarrow> sm_of_list m = m"
  by (rule sm_extensional)
    (auto simp: sm_invar_of_list sm_get_of_list map_of_rev_distinct sm_invar_distinct)

end
