(* ===== verification/Json.thy ===== *)
theory Json
  imports Go_Strings Go_Map
begin

text \<open>
  The part of Go's encoding/json the repository relies on, at the level of text: the grammar of
  RFC 8259 that Unmarshal accepts (white space, escapes with surrogate pairs, number literals) and
  the compact output of Marshal with its HTML-safe escapes. A document keeps the order and the
  duplicates of its members, which typed decoding observes; \<open>canon\<close> is the value Go builds for an
  \<open>interface{}\<close>, whose maps are canonical sorted lists. A number is kept as its literal (as
  json.Number does): Go's rounding to float64 is not modelled. Bytes from 128 up pass through, as
  they do in valid UTF-8.
\<close>

datatype json = JNull | JBool bool | JNum string | JStr string
  | JArr "json list" | JObj "(string \<times> json) list"

abbreviation dquote :: char where "dquote \<equiv> CHR 0x22"
abbreviation backslash :: char where "backslash \<equiv> CHR 0x5C"

section \<open>Printing\<close>

definition hex_digit :: "nat \<Rightarrow> char" where
  "hex_digit n = (if n < 10 then char_of (48 + n) else char_of (87 + n))"

definition escape_char :: "char \<Rightarrow> string" where
  "escape_char c =
     (let n = of_char c :: nat in
      if c = dquote \<or> c = backslash then [backslash, c]
      else if n = 8 then [backslash, CHR ''b'']
      else if n = 12 then [backslash, CHR ''f'']
      else if n = 10 then [backslash, CHR ''n'']
      else if n = 13 then [backslash, CHR ''r'']
      else if n = 9 then [backslash, CHR ''t'']
      else if n < 32 \<or> c = CHR ''<'' \<or> c = CHR ''>'' \<or> c = CHR ''&''
        then [backslash, CHR ''u'', CHR ''0'', CHR ''0'', hex_digit (n div 16), hex_digit (n mod 16)]
      else [c])"

definition print_str :: "string \<Rightarrow> string" where
  "print_str s = [dquote] @ concat (map escape_char s) @ [dquote]"

primrec print_json :: "json \<Rightarrow> string" where
  "print_json JNull = ''null''"
| "print_json (JBool b) = (if b then ''true'' else ''false'')"
| "print_json (JNum s) = s"
| "print_json (JStr s) = print_str s"
| "print_json (JArr vs) = ''['' @ join_with '','' (map print_json vs) @ '']''"
| "print_json (JObj ms) =
     ''{'' @ join_with '','' (map (\<lambda>(k, t). print_str k @ '':'' @ t) (map (map_prod id print_json) ms)) @ ''}''"

section \<open>Parsing\<close>

definition is_ws :: "char \<Rightarrow> bool" where
  "is_ws c = (c \<in> {CHR '' '', CHR 0x09, CHR 0x0A, CHR 0x0D})"

definition skip_ws :: "string \<Rightarrow> string" where "skip_ws = dropWhile is_ws"

definition hex_val :: "char \<Rightarrow> nat option" where
  "hex_val c =
     (let n = of_char c :: nat in
      if 48 \<le> n \<and> n \<le> 57 then Some (n - 48)
      else if 97 \<le> n \<and> n \<le> 102 then Some (n - 87)
      else if 65 \<le> n \<and> n \<le> 70 then Some (n - 55)
      else None)"

definition hex4 :: "char \<Rightarrow> char \<Rightarrow> char \<Rightarrow> char \<Rightarrow> nat option" where
  "hex4 a b c d =
     (case (hex_val a, hex_val b, hex_val c, hex_val d) of
        (Some i, Some j, Some k, Some l) \<Rightarrow> Some (((i * 16 + j) * 16 + k) * 16 + l)
      | _ \<Rightarrow> None)"

definition utf8 :: "nat \<Rightarrow> string" where
  "utf8 n =
     (if n < 128 then [char_of n]
      else if n < 2048 then [char_of (192 + n div 64), char_of (128 + n mod 64)]
      else if n < 65536 then [char_of (224 + n div 4096), char_of (128 + n div 64 mod 64), char_of (128 + n mod 64)]
      else [char_of (240 + n div 262144), char_of (128 + n div 4096 mod 64),
            char_of (128 + n div 64 mod 64), char_of (128 + n mod 64)])"

definition simple_escape :: "char \<Rightarrow> char option" where
  "simple_escape e =
     (if e = dquote \<or> e = backslash \<or> e = CHR ''/'' then Some e
      else if e = CHR ''b'' then Some (char_of (8::nat))
      else if e = CHR ''f'' then Some (char_of (12::nat))
      else if e = CHR ''n'' then Some (char_of (10::nat))
      else if e = CHR ''r'' then Some (char_of (13::nat))
      else if e = CHR ''t'' then Some (char_of (9::nat))
      else None)"

definition high_surrogate :: "nat \<Rightarrow> bool" where "high_surrogate n = (55296 \<le> n \<and> n < 56320)"
definition low_surrogate :: "nat \<Rightarrow> bool" where "low_surrogate n = (56320 \<le> n \<and> n < 57344)"

text \<open>The escape \<open>\uXXXX\<close> after its backslash and \<open>u\<close>: the bytes it stands for and the rest.\<close>

fun unicode_escape :: "string \<Rightarrow> (string \<times> string) option" where
  "unicode_escape (a # b # c # d # r) =
     (case hex4 a b c d of
        None \<Rightarrow> None
      | Some n \<Rightarrow>
          (if high_surrogate n then
             (case r of
                e # f # a' # b' # c' # d' # r' \<Rightarrow>
                  (case hex4 a' b' c' d' of
                     Some m \<Rightarrow>
                       if e = backslash \<and> f = CHR ''u'' \<and> low_surrogate m
                       then Some (utf8 (65536 + (n - 55296) * 1024 + (m - 56320)), r')
                       else Some (utf8 65533, r)
                   | None \<Rightarrow> Some (utf8 65533, r))
              | _ \<Rightarrow> Some (utf8 65533, r))
           else if low_surrogate n then Some (utf8 65533, r)
           else Some (utf8 n, r)))"
| "unicode_escape _ = None"

lemma unicode_escape_shorter:
  "unicode_escape s = Some (t, r) \<Longrightarrow> length r < length s"
  by (induction s rule: unicode_escape.induct) (auto split: option.splits if_splits list.splits)


text \<open>The characters of a string literal after its opening quote, up to its closing one.\<close>

function parse_str :: "string \<Rightarrow> (string \<times> string) option" where
  "parse_str [] = None"
| "parse_str (c # cs) =
     (if c = dquote then Some ([], cs)
      else if c = backslash then
        (case cs of
           [] \<Rightarrow> None
         | e # es \<Rightarrow>
             (if e = CHR ''u'' then
                (case unicode_escape es of
                   None \<Rightarrow> None
                 | Some (t, r) \<Rightarrow> map_option (map_prod ((@) t) id) (parse_str r))
              else
                (case simple_escape e of
                   None \<Rightarrow> None
                 | Some x \<Rightarrow> map_option (map_prod ((#) x) id) (parse_str es))))
      else if (of_char c :: nat) < 32 then None
      else map_option (map_prod ((#) c) id) (parse_str cs))"
  by pat_completeness auto
termination
  by (relation "measure length") (auto dest: unicode_escape_shorter)

definition is_digit :: "char \<Rightarrow> bool" where
  "is_digit c = (48 \<le> (of_char c :: nat) \<and> (of_char c :: nat) \<le> 57)"

definition digits :: "string \<Rightarrow> bool" where
  "digits s = (s \<noteq> [] \<and> list_all is_digit s)"

definition is_num_char :: "char \<Rightarrow> bool" where
  "is_num_char c = (is_digit c \<or> c \<in> {CHR ''-'', CHR ''+'', CHR ''.'', CHR ''e'', CHR ''E''})"

definition exponent_ok :: "string \<Rightarrow> bool" where
  "exponent_ok s =
     (case s of
        [] \<Rightarrow> True
      | e # r \<Rightarrow>
          (e = CHR ''e'' \<or> e = CHR ''E'') \<and>
          (case r of
             [] \<Rightarrow> False
           | g # r' \<Rightarrow> if g = CHR ''+'' \<or> g = CHR ''-'' then digits r' else digits r))"

definition fraction_ok :: "string \<Rightarrow> bool" where
  "fraction_ok s =
     (case s of
        [] \<Rightarrow> True
      | d # r \<Rightarrow>
          if d = dot then takeWhile is_digit r \<noteq> [] \<and> exponent_ok (dropWhile is_digit r)
          else exponent_ok s)"

definition unsigned_ok :: "string \<Rightarrow> bool" where
  "unsigned_ok s =
     (let i = takeWhile is_digit s in
      i \<noteq> [] \<and> (hd i = CHR ''0'' \<longrightarrow> length i = 1) \<and> fraction_ok (dropWhile is_digit s))"

definition number_ok :: "string \<Rightarrow> bool" where
  "number_ok s =
     (list_all is_num_char s \<and>
      (case s of [] \<Rightarrow> False | c # r \<Rightarrow> if c = CHR ''-'' then unsigned_ok r else unsigned_ok s))"

definition strip_prefix :: "string \<Rightarrow> string \<Rightarrow> string option" where
  "strip_prefix p s = (if prefix p s then Some (drop (length p) s) else None)"

text \<open>
  The recursive-descent parser. Its first argument bounds the nesting of calls;
  \<open>parse_json\<close> supplies one more than the length of the input, which is always enough.
\<close>

fun parse_value :: "nat \<Rightarrow> string \<Rightarrow> (json \<times> string) option"
  and parse_elems :: "nat \<Rightarrow> string \<Rightarrow> (json list \<times> string) option"
  and parse_members :: "nat \<Rightarrow> string \<Rightarrow> ((string \<times> json) list \<times> string) option" where
  "parse_value 0 s = None"
| "parse_value (Suc n) s =
     (case s of
        [] \<Rightarrow> None
      | c # cs \<Rightarrow>
          if c = dquote then map_option (map_prod JStr id) (parse_str cs)
          else if c = CHR ''['' then
            (case strip_prefix '']'' (skip_ws cs) of
               Some r \<Rightarrow> Some (JArr [], r)
             | None \<Rightarrow> map_option (map_prod JArr id) (parse_elems n (skip_ws cs)))
          else if c = CHR ''{'' then
            (case strip_prefix ''}'' (skip_ws cs) of
               Some r \<Rightarrow> Some (JObj [], r)
             | None \<Rightarrow> map_option (map_prod JObj id) (parse_members n (skip_ws cs)))
          else if prefix ''null'' s then Some (JNull, drop 4 s)
          else if prefix ''true'' s then Some (JBool True, drop 4 s)
          else if prefix ''false'' s then Some (JBool False, drop 5 s)
          else if number_ok (takeWhile is_num_char s)
            then Some (JNum (takeWhile is_num_char s), dropWhile is_num_char s)
          else None)"
| "parse_elems 0 s = None"
| "parse_elems (Suc n) s =
     (case parse_value n s of
        None \<Rightarrow> None
      | Some (v, r) \<Rightarrow>
          (case strip_prefix '']'' (skip_ws r) of
             Some r' \<Rightarrow> Some ([v], r')
           | None \<Rightarrow>
               (case strip_prefix '','' (skip_ws r) of
                  Some r' \<Rightarrow> map_option (map_prod ((#) v) id) (parse_elems n (skip_ws r'))
                | None \<Rightarrow> None)))"
| "parse_members 0 s = None"
| "parse_members (Suc n) s =
     (case strip_prefix [dquote] s of
        None \<Rightarrow> None
      | Some s' \<Rightarrow>
          (case parse_str s' of
             None \<Rightarrow> None
           | Some (k, r) \<Rightarrow>
               (case strip_prefix '':'' (skip_ws r) of
                  None \<Rightarrow> None
                | Some r1 \<Rightarrow>
                    (case parse_value n (skip_ws r1) of
                       None \<Rightarrow> None
                     | Some (v, r2) \<Rightarrow>
                         (case strip_prefix ''}'' (skip_ws r2) of
                            Some r' \<Rightarrow> Some ([(k, v)], r')
                          | None \<Rightarrow>
                              (case strip_prefix '','' (skip_ws r2) of
                                 Some r' \<Rightarrow> map_option (map_prod ((#) (k, v)) id) (parse_members n (skip_ws r'))
                               | None \<Rightarrow> None))))))"

definition parse_json :: "string \<Rightarrow> json option" where
  "parse_json s =
     (case parse_value (Suc (length s)) (skip_ws s) of
        Some (v, r) \<Rightarrow> if skip_ws r = [] then Some v else None
      | None \<Rightarrow> None)"

section \<open>Values of interface type\<close>

text \<open>Decoding into \<open>interface{}\<close>: objects become maps, in which a later duplicate wins.\<close>

primrec canon :: "json \<Rightarrow> json" where
  "canon JNull = JNull"
| "canon (JBool b) = JBool b"
| "canon (JNum s) = JNum s"
| "canon (JStr s) = JStr s"
| "canon (JArr vs) = JArr (map canon vs)"
| "canon (JObj ms) = JObj (sm_of_list (map (map_prod id canon) ms))"

primrec json_wf :: "json \<Rightarrow> bool" where
  "json_wf JNull = True"
| "json_wf (JBool b) = True"
| "json_wf (JNum s) = number_ok s"
| "json_wf (JStr s) = True"
| "json_wf (JArr vs) = list_all (\<lambda>b. b) (map json_wf vs)"
| "json_wf (JObj ms) = list_all snd (map (map_prod id json_wf) ms)"

lemma json_wf_JArr [simp]: "json_wf (JArr vs) \<longleftrightarrow> (\<forall>v \<in> set vs. json_wf v)"
  by (auto simp: list_all_iff)

lemma json_wf_JObj [simp]: "json_wf (JObj ms) \<longleftrightarrow> (\<forall>(k, v) \<in> set ms. json_wf v)"
  by (auto simp: list_all_iff)

declare json_wf.simps(5,6) [simp del]

section \<open>Round trip\<close>

text \<open>Unmarshal of what Marshal prints is the value printed.\<close>

lemma hex_val_digit: "n < 16 \<Longrightarrow> hex_val (hex_digit n) = Some n"
  by (simp add: hex_val_def hex_digit_def Let_def)

lemma hex4_low: "n < 256 \<Longrightarrow> hex4 (CHR ''0'') (CHR ''0'') (hex_digit (n div 16)) (hex_digit (n mod 16)) = Some n"
proof -
  assume n: "n < 256"
  then have "n div 16 < 16" by (simp add: less_mult_imp_div_less)
  moreover have "hex_val (CHR ''0'') = Some 0" by (simp add: hex_val_def)
  ultimately show ?thesis by (simp add: hex4_def hex_val_digit)
qed

lemma char_of_code: "of_char c = (n::nat) \<Longrightarrow> char_of n = c"
  by (metis char_of_char)

lemma parse_escape_ctl:
  assumes "of_char c < (128::nat)"
  shows "parse_str (backslash # CHR ''u'' # CHR ''0'' # CHR ''0''
      # hex_digit (of_char c div 16) # hex_digit (of_char c mod 16) # s) =
    map_option (map_prod ((#) c) id) (parse_str s)"
proof -
  have "(@) [c] = (#) c" by (rule ext) simp
  with assms hex4_low [of "of_char c"] show ?thesis
    by (simp add: high_surrogate_def low_surrogate_def utf8_def)
qed

lemma parse_escape_simple:
  "e \<noteq> CHR ''u'' \<Longrightarrow> simple_escape e = Some c \<Longrightarrow>
    parse_str (backslash # e # s) = map_option (map_prod ((#) c) id) (parse_str s)"
  by simp

lemma parse_escape: "parse_str (escape_char c @ s) = map_option (map_prod ((#) c) id) (parse_str s)"
proof -
  have lt: "of_char c < (128::nat)" if "c = CHR ''<'' \<or> c = CHR ''>'' \<or> c = CHR ''&''"
    using that by auto
  consider "c = dquote \<or> c = backslash" | "of_char c = (8::nat)" | "of_char c = (12::nat)"
    | "of_char c = (10::nat)" | "of_char c = (13::nat)" | "of_char c = (9::nat)"
    | "of_char c < (32::nat) \<or> c = CHR ''<'' \<or> c = CHR ''>'' \<or> c = CHR ''&''"
      "of_char c \<notin> {8::nat, 12, 10, 13, 9}" "c \<noteq> dquote" "c \<noteq> backslash"
    | "\<not> of_char c < (32::nat)" "c \<notin> {CHR ''<'', CHR ''>'', CHR ''&''}" "c \<noteq> dquote" "c \<noteq> backslash"
    by auto
  then show ?thesis
  proof cases
    case 7
    then have "of_char c < (128::nat)" using lt by auto
    with 7 show ?thesis by (simp add: escape_char_def Let_def parse_escape_ctl del: parse_str.simps)
  next
    case 8
    then show ?thesis by (auto simp: escape_char_def Let_def)
  qed (auto simp: escape_char_def Let_def simple_escape_def parse_escape_simple char_of_code
      simp del: parse_str.simps dest!: char_of_code)
qed

lemma parse_escapes: "parse_str (concat (map escape_char s) @ dquote # r) = Some (s, r)"
  by (induction s) (simp_all add: parse_escape del: parse_str.simps, simp)

definition stops :: "string \<Rightarrow> bool" where
  "stops r = (r = [] \<or> \<not> is_num_char (hd r))"

lemma stops_simps [simp]: "stops []" "stops (CHR '','' # r)" "stops (CHR '']'' # r)" "stops (CHR ''}'' # r)"
  by (simp_all add: stops_def is_num_char_def is_digit_def)

lemma take_number: "number_ok s \<Longrightarrow> stops r \<Longrightarrow> takeWhile is_num_char (s @ r) = s"
  by (cases r) (auto simp: number_ok_def stops_def list_all_iff takeWhile_append)

lemma drop_number: "number_ok s \<Longrightarrow> stops r \<Longrightarrow> dropWhile is_num_char (s @ r) = r"
  by (cases r) (auto simp: number_ok_def stops_def list_all_iff dropWhile_append)

lemma skip_ws_id: "s = [] \<or> \<not> is_ws (hd s) \<Longrightarrow> skip_ws s = s"
  by (cases s) (auto simp: skip_ws_def)

lemma number_head: "number_ok s \<Longrightarrow> s \<noteq> [] \<and> is_num_char (hd s)"
  by (cases s) (auto simp: number_ok_def)

lemma num_char_code: "is_num_char c \<Longrightarrow> of_char c \<in> {43::nat, 45, 46, 69, 101} \<union> {48..57}"
  by (auto simp: is_num_char_def is_digit_def)

lemma num_char_not: "is_num_char c \<Longrightarrow> c \<noteq> dquote \<and> c \<noteq> CHR ''['' \<and> c \<noteq> CHR '']'' \<and> c \<noteq> CHR ''{''
    \<and> c \<noteq> CHR ''}'' \<and> c \<noteq> CHR ''n'' \<and> c \<noteq> CHR ''t'' \<and> c \<noteq> CHR ''f'' \<and> \<not> is_ws c"
  by (auto dest!: num_char_code simp: is_ws_def)

lemma print_head:
  assumes "json_wf v"
  obtains c t where "print_json v = c # t" "\<not> is_ws c" "c \<noteq> CHR '']''" "c \<noteq> CHR ''}''"
proof (cases v)
  case (JNum s)
  with assms have "number_ok s" by simp
  then show thesis using JNum number_head [of s] num_char_not [of "hd s"] that [of "hd s" "tl s"]
    by (cases s) auto
next
  case (JBool b)
  then show thesis by (cases b) (auto intro!: that simp: is_ws_def)
qed (auto intro!: that simp: is_ws_def print_str_def)

lemma skip_print [simp]: "json_wf v \<Longrightarrow> skip_ws (print_json v @ r) = print_json v @ r"
  by (rule print_head [of v]) (auto simp: skip_ws_def)

lemma print_nonempty: "json_wf v \<Longrightarrow> 0 < length (print_json v)"
  by (rule print_head [of v]) auto

abbreviation print_elems :: "json list \<Rightarrow> string" where
  "print_elems vs \<equiv> join_with '','' (map print_json vs)"

abbreviation print_members :: "(string \<times> json) list \<Rightarrow> string" where
  "print_members ms \<equiv> join_with '','' (map (\<lambda>e. print_str (fst e) @ '':'' @ print_json (snd e)) ms)"

lemma print_json_JObj [simp]: "print_json (JObj ms) = ''{'' @ print_members ms @ ''}''"
  by (simp add: comp_def case_prod_beta)

declare print_json.simps(6) [simp del]

lemma skip_ws_punct [simp]:
  "skip_ws ('']'' @ r) = '']'' @ r" "skip_ws (CHR '']'' # r) = CHR '']'' # r"
  "skip_ws (CHR '','' # r) = CHR '','' # r" "skip_ws (CHR ''}'' # r) = CHR ''}'' # r"
  "skip_ws (CHR '':'' # r) = CHR '':'' # r" "skip_ws (dquote # r) = dquote # r"
  by (simp_all add: skip_ws_def is_ws_def)

lemma strip_prefix_Cons [simp]: "strip_prefix [c] (d # r) = (if c = d then Some r else None)"
  by (auto simp: strip_prefix_def)

lemma strip_not_closed: "json_wf v \<Longrightarrow> strip_prefix '']'' (print_json v @ r) = None"
  by (rule print_head [of v]) auto

definition parses_back :: "json \<Rightarrow> bool" where
  "parses_back v = (\<forall>n r. length (print_json v) \<le> n \<longrightarrow> stops r \<longrightarrow>
     parse_value n (print_json v @ r) = Some (v, r))"

lemma parse_elems_back:
  assumes "vs \<noteq> []" "\<forall>v \<in> set vs. json_wf v \<and> parses_back v" "length (print_elems vs) + 1 \<le> n"
  shows "parse_elems n (print_elems vs @ CHR '']'' # r) = Some (vs, r)"
  using assms
proof (induction vs arbitrary: n)
  case (Cons v vs)
  then obtain m where n: "n = Suc m" by (cases n) auto
  from Cons.prems have v: "json_wf v" "parses_back v" by auto
  show ?case
  proof (cases vs)
    case Nil
    with Cons.prems v n show ?thesis by (simp add: parses_back_def)
  next
    case (Cons w ws)
    with Cons.prems v n have len: "length (print_elems vs) + 1 \<le> m" "length (print_json v) \<le> m"
      using print_nonempty [of v] by auto
    have w: "json_wf w" using Cons.prems Cons by simp
    have rec: "parse_elems m (print_elems vs @ CHR '']'' # r) = Some (vs, r)"
      using Cons.IH len Cons.prems Cons by auto
    have hd: "skip_ws (print_elems vs @ CHR '']'' # r) = print_elems vs @ CHR '']'' # r"
      using Cons skip_print [OF w, of "join_with '','' (map print_json ws) @ CHR '']'' # r"]
        skip_print [OF w, of "'','' @ join_with '','' (map print_json ws) @ CHR '']'' # r"]
      by (cases ws) auto
    show ?thesis
      using Cons v n len rec hd by (simp add: parses_back_def)
  qed
qed simp

lemma strip_not_member: "strip_prefix ''}'' (print_str k @ r) = None"
  by (simp add: print_str_def)

lemma parse_members_back:
  assumes "ms \<noteq> []" "\<forall>(k, v) \<in> set ms. json_wf v \<and> parses_back v" "length (print_members ms) + 1 \<le> n"
  shows "parse_members n (print_members ms @ CHR ''}'' # r) = Some (ms, r)"
  using assms
proof (induction ms arbitrary: n)
  case (Cons e ms)
  obtain k v where e: "e = (k, v)" by (cases e)
  from Cons.prems obtain m where n: "n = Suc m" by (cases n) auto
  from Cons.prems e have v: "json_wf v" "parses_back v" by auto
  have q: "\<And>x. parse_str (concat (map escape_char k) @ dquote # x) = Some (k, x)"
    by (rule parse_escapes)
  show ?case
  proof (cases ms)
    case Nil
    with Cons.prems v n e q show ?thesis by (simp add: parses_back_def print_str_def)
  next
    case (Cons w ws)
    with Cons.prems v n e have len: "length (print_members ms) + 1 \<le> m" "length (print_json v) \<le> m"
      using print_nonempty [of v] by (auto split: prod.splits)
    have rec: "parse_members m (print_members ms @ CHR ''}'' # r) = Some (ms, r)"
      using Cons.IH len Cons.prems Cons by auto
    obtain kw vw where w: "w = (kw, vw)" by (cases w)
    have hd: "skip_ws (print_members ms @ CHR ''}'' # r) = print_members ms @ CHR ''}'' # r"
      using Cons w by (cases ws) (auto simp: print_str_def)
    show ?thesis
      using Cons v n len rec hd e q by (simp add: parses_back_def print_str_def)
  qed
qed simp

lemma parse_number:
  assumes "number_ok s" "stops r"
  shows "parse_value (Suc n) (s @ r) = Some (JNum s, r)"
proof -
  obtain c cs where s: "s = c # cs" using number_head assms(1) by (cases s) auto
  then have c: "is_num_char c" using number_head [OF assms(1)] by simp
  note nc = num_char_not [OF c]
  have "takeWhile is_num_char (s @ r) = s" "dropWhile is_num_char (s @ r) = r"
    using assms by (auto simp: take_number drop_number)
  then show ?thesis using s nc assms(1) by (auto simp del: takeWhile.simps dropWhile.simps)
qed

lemma parse_value_back: "json_wf v \<Longrightarrow> parses_back v"
proof (induction v)
  case (JArr vs)
  show ?case
  proof (cases vs)
    case Nil
    then show ?thesis by (auto simp: parses_back_def strip_prefix_def dest!: Suc_le_D)
  next
    case (Cons w ws)
    have hd: "print_elems vs @ CHR '']'' # r = print_json w @
       (if ws = [] then CHR '']'' # r else '','' @ print_elems ws @ CHR '']'' # r)" for r
      using Cons by (cases ws) auto
    have w: "json_wf w" using JArr.prems Cons by simp
    have sk: "skip_ws (print_elems vs @ CHR '']'' # r) = print_elems vs @ CHR '']'' # r"
      "strip_prefix '']'' (print_elems vs @ CHR '']'' # r) = None" for r
      unfolding hd using w by (simp_all only: skip_print strip_not_closed)
    show ?thesis
      unfolding parses_back_def
    proof (intro allI impI)
      fix n r assume n: "length (print_json (JArr vs)) \<le> n"
      then obtain m where m: "n = Suc m" by (cases n) auto
      have "parse_elems m (print_elems vs @ CHR '']'' # r) = Some (vs, r)"
        using n m Cons JArr by (intro parse_elems_back) auto
      then show "parse_value n (print_json (JArr vs) @ r) = Some (JArr vs, r)"
        using sk m by simp
    qed
  qed
next
  case (JObj ms)
  show ?case
  proof (cases ms)
    case Nil
    then show ?thesis by (auto simp: parses_back_def strip_prefix_def dest!: Suc_le_D)
  next
    case (Cons w ws)
    obtain kw vw where w: "w = (kw, vw)" by (cases w)
    have sk: "skip_ws (print_members ms @ CHR ''}'' # r) = print_members ms @ CHR ''}'' # r"
      "strip_prefix ''}'' (print_members ms @ CHR ''}'' # r) = None" for r
      using Cons w by (cases ws; auto simp: print_str_def)+
    show ?thesis
      unfolding parses_back_def
    proof (intro allI impI)
      fix n r assume n: "length (print_json (JObj ms)) \<le> n"
      then obtain m where m: "n = Suc m" by (cases n) auto
      have "parse_members m (print_members ms @ CHR ''}'' # r) = Some (ms, r)"
        using n m Cons JObj by (intro parse_members_back) (force intro: snds.intros)+
      then show "parse_value n (print_json (JObj ms) @ r) = Some (JObj ms, r)"
        using sk m by simp
    qed
  qed
next
  case (JNum s)
  show ?case
    unfolding parses_back_def
  proof (intro allI impI)
    fix n r assume n: "length (print_json (JNum s)) \<le> n" and r: "stops r"
    have ok: "number_ok s" using JNum by simp
    obtain m where m: "n = Suc m" using n number_head [OF ok] by (cases n) auto
    show "parse_value n (print_json (JNum s) @ r) = Some (JNum s, r)"
      using r ok m by (simp only: print_json.simps parse_number)
  qed
next
  case (JStr s)
  then show ?case using parse_escapes [of s]
    by (auto simp: parses_back_def print_str_def dest!: Suc_le_D)
next
  case JNull
  then show ?case by (auto simp: parses_back_def dest!: Suc_le_D)
next
  case (JBool b)
  then show ?case by (cases b) (auto simp: parses_back_def dest!: Suc_le_D)
qed

theorem parse_print:
  assumes "json_wf v"
  shows "parse_json (print_json v) = Some v"
proof -
  have "parse_value (Suc (length (print_json v))) (print_json v @ []) = Some (v, [])"
    using parse_value_back [OF assms] unfolding parses_back_def by (metis le_SucI order_refl stops_simps(1))
  then show ?thesis
    using skip_print [OF assms, of "[]"] by (simp add: parse_json_def skip_ws_def del: parse_value.simps)
qed

section \<open>Well-formedness of what is decoded\<close>

lemma value_shape:
  "(if b1 then map_option (map_prod JStr id) x1
    else if b2 then (case x2 of Some r \<Rightarrow> Some (JArr [], r) | None \<Rightarrow> map_option (map_prod JArr id) x3)
    else if b3 then (case x4 of Some r \<Rightarrow> Some (JObj [], r) | None \<Rightarrow> map_option (map_prod JObj id) x5)
    else if b4 then Some (JNull, r4) else if b5 then Some (JBool True, r5) else if b6 then Some (JBool False, r6)
    else if number_ok t then Some (JNum t, r7) else None) = Some (v, r) \<Longrightarrow>
    (\<And>us q. x3 = Some (us, q) \<Longrightarrow> \<forall>u \<in> set us. json_wf u) \<Longrightarrow>
    (\<And>ms q. x5 = Some (ms, q) \<Longrightarrow> \<forall>m \<in> set ms. json_wf (snd m)) \<Longrightarrow> json_wf v"
  by (auto split: if_splits option.splits) fastforce

lemma parse_wf:
  "parse_value n s = Some (v, r) \<Longrightarrow> json_wf v"
  "parse_elems n s = Some (vs, r) \<Longrightarrow> \<forall>v \<in> set vs. json_wf v"
  "parse_members n s = Some (ms, r) \<Longrightarrow> \<forall>m \<in> set ms. json_wf (snd m)"
proof (induction n arbitrary: s v r vs ms)
  case (Suc n)
  note IH = Suc.IH
  {
    case 1
    show ?case
    proof (cases s)
      case (Cons c cs)
      with 1 show ?thesis
        by (simp only: parse_value.simps list.case) (erule value_shape; use IH(2,3) in metis)
    qed (use 1 in simp)
  next
    case 2
    then obtain w r' where w: "parse_value n s = Some (w, r')" by (auto split: option.splits)
    have "json_wf w" using w by (rule IH(1))
    moreover have "set vs \<subseteq> {w} \<or> (\<exists>us q t. parse_elems n q = Some (us, t) \<and> vs = w # us)"
      using 2 w by (auto split: option.splits)
    ultimately show ?case using IH(2) by auto
  next
    case 3
    then obtain k w q r' where w: "parse_value n q = Some (w, r')"
      "ms = [(k, w)] \<or> (\<exists>us q t. parse_members n q = Some (us, t) \<and> ms = (k, w) # us)"
      by (auto split: option.splits) blast+
    have "json_wf w" using w(1) by (rule IH(1))
    then show ?case using w(2) IH(3) by fastforce
  }
qed simp_all

lemma parse_json_wf: "parse_json s = Some v \<Longrightarrow> json_wf v"
  by (auto simp: parse_json_def split: option.splits if_splits dest: parse_wf(1) simp del: parse_value.simps)

lemma sm_of_list_subset: "set (sm_of_list kvs) \<subseteq> set kvs"
proof -
  have put: "set (sm_put k v m) \<subseteq> insert (k, v) (set m)" for k :: "'a" and v :: 'b and m
    by (induction m) auto
  have "set (fold (\<lambda>(k, v). sm_put k v) kvs m) \<subseteq> set m \<union> set kvs" for m
  proof (induction kvs arbitrary: m)
    case (Cons e kvs)
    obtain k v where "e = (k, v)" by (cases e)
    then show ?case using Cons [of "sm_put k v m"] put [of k v m] by auto
  qed simp
  from this [of "[]"] show ?thesis by (simp add: sm_of_list_def)
qed

lemma canon_wf: "json_wf v \<Longrightarrow> json_wf (canon v)"
proof (induction v)
  case (JObj ms)
  show ?case
  proof (simp, intro ballI, clarify)
    fix k w assume "(k, w) \<in> set (sm_of_list (map (map_prod id canon) ms))"
    then obtain u where "(k, u) \<in> set ms" "w = canon u" using sm_of_list_subset by fastforce
    then show "json_wf w" using JObj by fastforce
  qed
qed auto

lemma canon_idem [simp]: "canon (canon v) = canon v"
proof (induction v)
  case (JObj ms)
  let ?m = "sm_of_list (map (map_prod id canon) ms)"
  have "map (map_prod id canon) ?m = ?m"
  proof (rule map_idI)
    fix e assume "e \<in> set ?m"
    then obtain k u where "(k, u) \<in> set ms" "e = (k, canon u)" using sm_of_list_subset by fastforce
    then show "map_prod id canon e = e" using JObj by fastforce
  qed
  then show ?case by (simp add: sm_of_list_id sm_invar_of_list)
qed (auto intro: map_idI)

end
