(* ===== verification/Go_Errors.thy ===== *)
theory Go_Errors
  imports Json
begin

text \<open>
  Error values and their classification: pkg/util/azureerrors/error.go, and the throttling
  translation of pkg/util/storage/manager.go. An error value keeps what the code inspects: the
  dynamic type seen by a type assertion, the service error inside, the status, and the text of
  \<open>Error()\<close>. A type assertion looks at the outermost value only, so a wrapped error matches none.
\<close>

section \<open>Error values\<close>

text \<open>\<open>azure.ServiceError\<close>: nil slices and maps are \<open>None\<close>.\<close>

record service_error =
  se_code :: string
  se_message :: string
  se_target :: "string option"
  se_details :: "(string, json) gomap list option"
  se_inner :: "(string, json) gomap option"
  se_additional :: "(string, json) gomap list option"

datatype cloud_body = CloudBody (cb_code: string) (cb_message: string) (cb_target: string) (cb_details: "cloud_body list")

record cloud_error =
  ce_status :: nat
  ce_body :: "cloud_body option"

text \<open>
  The texts of autorest and azcore errors are rendered by those libraries and are carried as
  they are. \<open>Wrapped\<close> is an error
  with a message before it, \<open>WithStack\<close> one with a stack trace. \<open>RequestErrPtr\<close> and \<open>RequestErrVal\<close> are the two dynamic types \<open>*azure.RequestError\<close>
  and \<open>azure.RequestError\<close>, which both implement error.
\<close>

datatype go_error =
    ErrMsg string
  | Wrapped string go_error
  | WithStack go_error
  | DeadlineExceeded
  | Canceled
  | WantRefresh
  | DetailedErr string "go_error option"
  | ServiceErr string service_error
  | RequestErrPtr string "service_error option"
  | RequestErrVal string "service_error option"
  | CloudErr cloud_error
  | ResponseErr string nat string

type_synonym 'a result = "(go_error, 'a) outcome"

text \<open>\<open>errors.Wrap\<close>, when there is an error.\<close>

definition wrap :: "string \<Rightarrow> 'a result \<Rightarrow> 'a result" where
  "wrap msg r = mapErr (Wrapped msg) r"

lemma wrap_Ok [outcome_simps]: "wrap msg r = Ok a \<longleftrightarrow> r = Ok a"
  by (simp add: wrap_def outcome_simps)

text \<open>Sequencing of calls that thread the state.\<close>

fun st_bind :: "('a result \<times> 's) \<Rightarrow> ('a \<Rightarrow> 's \<Rightarrow> 'b result \<times> 's) \<Rightarrow> 'b result \<times> 's" where
  "st_bind (Ok a, s) f = f a s"
| "st_bind (Err e, s) f = (Err e, s)"
| "st_bind (Panic, s) f = (Panic, s)"

lemma st_bind_Ok [outcome_simps]:
  "st_bind m f = (Ok b, s') \<longleftrightarrow> (\<exists>a s1. m = (Ok a, s1) \<and> f a s1 = (Ok b, s'))"
  by (induction m f rule: st_bind.induct) auto

primrec cloud_body_text :: "cloud_body \<Rightarrow> string" where
  "cloud_body_text (CloudBody c m t ds) =
     c @ '': '' @ t @ '': '' @ m @
     (if ds = [] then [] else '' Details: '' @ join_with '', '' (map cloud_body_text ds))"

fun err_text :: "go_error \<Rightarrow> string" where
  "err_text (ErrMsg s) = s"
| "err_text (Wrapped p e) = p @ '': '' @ err_text e"
| "err_text (WithStack e) = err_text e"
| "err_text DeadlineExceeded = ''context deadline exceeded''"
| "err_text Canceled = ''context canceled''"
| "err_text WantRefresh = ''want refresh''"
| "err_text (DetailedErr s orig) = s"
| "err_text (ServiceErr s se) = s"
| "err_text (RequestErrPtr s se) = s"
| "err_text (RequestErrVal s se) = s"
| "err_text (CloudErr ce) =
     show_nat (ce_status ce) @ (case ce_body ce of None \<Rightarrow> [] | Some b \<Rightarrow> '': '' @ cloud_body_text b)"
| "err_text (ResponseErr s n c) = s"

text \<open>\<open>errors.Is(err, context.DeadlineExceeded)\<close>: the wrapped errors are unwrapped.\<close>

fun is_deadline :: "go_error \<Rightarrow> bool" where
  "is_deadline DeadlineExceeded = True"
| "is_deadline (Wrapped p e) = is_deadline e"
| "is_deadline (WithStack e) = is_deadline e"
| "is_deadline _ = False"

text \<open>\<open>bloberror.HasCode\<close>: the first response error in the chain has one of the codes.\<close>

fun has_error_code :: "string list \<Rightarrow> go_error \<Rightarrow> bool" where
  "has_error_code cs (ResponseErr t n c) = (c \<in> set cs)"
| "has_error_code cs (Wrapped p e) = has_error_code cs e"
| "has_error_code cs (WithStack e) = has_error_code cs e"
| "has_error_code cs _ = False"

section \<open>Decoding a cloud error\<close>

text \<open>
  \<open>json.Unmarshal\<close> into \<open>*api.CloudError\<close>. The type has one decoded field, \<open>error\<close>, a pointer to
  a body whose strings and nested details must have the right JSON types for the call to return
  nil; keys match without regard to case, null leaves a string as it is and sets a pointer to nil.
\<close>

definition string_or_null :: "json \<Rightarrow> bool" where
  "string_or_null v = (case v of JNull \<Rightarrow> True | JStr s \<Rightarrow> True | _ \<Rightarrow> False)"

fun body_typed :: "json \<Rightarrow> bool" where
  "body_typed JNull = True"
| "body_typed (JObj ms) =
     list_all (\<lambda>(k, v).
       (if equal_fold k ''code'' \<or> equal_fold k ''message'' \<or> equal_fold k ''target'' then string_or_null v
        else if equal_fold k ''details'' then
          (case v of JNull \<Rightarrow> True | JArr ds \<Rightarrow> list_all body_typed ds | _ \<Rightarrow> False)
        else True)) ms"
| "body_typed _ = False"

fun body_code :: "(string \<times> json) list \<Rightarrow> string \<Rightarrow> string" where
  "body_code [] c = c"
| "body_code ((k, v) # ms) c =
     body_code ms (if equal_fold k ''code'' then (case v of JStr s \<Rightarrow> s | _ \<Rightarrow> c) else c)"

fun error_code :: "(string \<times> json) list \<Rightarrow> string option \<Rightarrow> string option" where
  "error_code [] c = c"
| "error_code ((k, v) # ms) c =
     error_code ms
       (if equal_fold k ''error'' then
          (case v of JObj bs \<Rightarrow> Some (body_code bs (case c of None \<Rightarrow> [] | Some x \<Rightarrow> x)) | _ \<Rightarrow> None)
        else c)"

text \<open>
  \<open>Err ()\<close>: the call returns an error; \<open>Ok None\<close>: nil and \<open>ce\<close> is nil; \<open>Ok (Some c)\<close>: nil and
  \<open>c\<close> is the code in the body, if there is a body.
\<close>

definition decode_cloud_error :: "string \<Rightarrow> (unit, string option option) outcome" where
  "decode_cloud_error s =
     (case parse_json s of
        Some JNull \<Rightarrow> Ok None
      | Some (JObj ms) \<Rightarrow>
          if list_all (\<lambda>(k, v). equal_fold k ''error'' \<longrightarrow> body_typed v) ms
          then Ok (Some (error_code ms None)) else Err ()
      | _ \<Rightarrow> Err ())"

section \<open>Classification\<close>

definition detail_matches :: "string \<Rightarrow> (string, json) gomap \<Rightarrow> bool result" where
  "detail_matches authCode d =
     (if sm_get d ''code'' = Some (JStr ''Forbidden'') then
        (case sm_get d ''message'' of
           Some (JStr message) \<Rightarrow>
             (case decode_cloud_error message of
                Ok None \<Rightarrow> Panic
              | Ok (Some c) \<Rightarrow> Ok (c = Some authCode)
              | _ \<Rightarrow> Ok False)
         | _ \<Rightarrow> Ok False)
      else Ok False)"

fun any_detail :: "string \<Rightarrow> (string, json) gomap list \<Rightarrow> bool result" where
  "any_detail authCode [] = Ok False"
| "any_detail authCode (d # ds) =
     andThen (detail_matches authCode d) (\<lambda>b. if b then Ok True else any_detail authCode ds)"

definition original_has_code :: "string \<Rightarrow> go_error option \<Rightarrow> bool" where
  "original_has_code code orig =
     (case orig of
        Some (ServiceErr t se) \<Rightarrow> se_code se = code
      | Some (RequestErrPtr t (Some se)) \<Rightarrow> se_code se = code
      | _ \<Rightarrow> False)"

definition deploymentFailedDueToAuthError :: "go_error option \<Rightarrow> string \<Rightarrow> bool result" where
  "deploymentFailedDueToAuthError err authCode =
     (case err of
        Some (DetailedErr t orig) \<Rightarrow> Ok (original_has_code authCode orig)
      | Some (ServiceErr t se) \<Rightarrow>
          if se_code se = ''DeploymentFailed''
          then any_detail authCode (case se_details se of None \<Rightarrow> [] | Some ds \<Rightarrow> ds)
          else Ok False
      | _ \<Rightarrow> Ok False)"

definition HasAuthorizationFailedError :: "go_error option \<Rightarrow> bool result" where
  "HasAuthorizationFailedError err = deploymentFailedDueToAuthError err ''AuthorizationFailed''"

definition HasLinkedAuthorizationFailedError :: "go_error option \<Rightarrow> bool result" where
  "HasLinkedAuthorizationFailedError err = deploymentFailedDueToAuthError err ''LinkedAuthorizationFailed''"

definition IsDeploymentActiveError :: "go_error option \<Rightarrow> bool" where
  "IsDeploymentActiveError err =
     (case err of
        Some (DetailedErr t (Some (RequestErrVal t' (Some se)))) \<Rightarrow> se_code se = ''DeploymentActive''
      | _ \<Rightarrow> False)"

text \<open>Both call \<open>err.Error()\<close>, so a nil error is a panic.\<close>

definition IsInvalidSecretError :: "go_error option \<Rightarrow> bool result" where
  "IsInvalidSecretError err = andThen (deref err) (\<lambda>e. Ok (contains (err_text e) ''AADSTS7000215''))"

definition IsUnauthorizedClientError :: "go_error option \<Rightarrow> bool result" where
  "IsUnauthorizedClientError err = andThen (deref err) (\<lambda>e. Ok (contains (err_text e) ''AADSTS700016''))"

definition ResourceGroupNotFound :: "go_error option \<Rightarrow> bool" where
  "ResourceGroupNotFound err =
     (case err of
        Some (DetailedErr t orig) \<Rightarrow> original_has_code ''ResourceGroupNotFound'' orig
      | _ \<Rightarrow> False)"

section \<open>Facts\<close>

text \<open>A classification never returns an error; it panics only on a detail whose message is the JSON null.\<close>

lemma detail_matches_not_Err [simp]: "detail_matches c d \<noteq> Err e"
  by (auto simp: detail_matches_def split: option.splits json.splits outcome.splits)

lemma any_detail_not_Err [simp]: "any_detail c ds \<noteq> Err e"
  by (induction ds) (auto simp: outcome_simps split: if_splits)

lemma auth_error_not_Err [simp]: "deploymentFailedDueToAuthError err c \<noteq> Err e"
  by (auto simp: deploymentFailedDueToAuthError_def split: option.splits go_error.splits)

lemma decode_null: "decode_cloud_error s = Ok None \<longleftrightarrow> parse_json s = Some JNull"
  by (auto simp: decode_cloud_error_def split: option.splits json.splits)

definition null_detail :: "(string, json) gomap \<Rightarrow> bool" where
  "null_detail d = (sm_get d ''code'' = Some (JStr ''Forbidden'') \<and>
     (case sm_get d ''message'' of Some (JStr m) \<Rightarrow> parse_json m = Some JNull | _ \<Rightarrow> False))"

lemma detail_Panic: "detail_matches c d = Panic \<longleftrightarrow> null_detail d"
proof (cases "\<exists>m. sm_get d ''message'' = Some (JStr m)")
  case True
  then obtain m where m: "sm_get d ''message'' = Some (JStr m)" ..
  show ?thesis
  proof (cases "decode_cloud_error m")
    case (Ok c)
    then show ?thesis using m decode_null [of m]
      by (cases c) (simp_all add: detail_matches_def null_detail_def)
  qed (use m decode_null [of m] in \<open>simp_all add: detail_matches_def null_detail_def\<close>)
next
  case False
  then show ?thesis
    by (cases "sm_get d ''message''"; cases "the (sm_get d ''message'')")
      (simp_all add: detail_matches_def null_detail_def)
qed

lemma any_detail_Panic: "any_detail c ds = Panic \<Longrightarrow> \<exists>d \<in> set ds. null_detail d"
  by (induction ds) (auto simp: outcome_simps detail_Panic split: if_splits)

lemma any_detail_total:
  "(\<And>d. d \<in> set ds \<Longrightarrow> \<not> null_detail d) \<Longrightarrow>
    any_detail c ds = Ok (\<exists>d \<in> set ds. detail_matches c d = Ok True)"
proof (induction ds)
  case (Cons d ds)
  moreover have "detail_matches c d \<noteq> Panic" using Cons.prems detail_Panic by auto
  ultimately show ?case by (cases "detail_matches c d") auto
qed simp

lemma detail_matches_True:
  "detail_matches c d = Ok True \<longleftrightarrow>
     sm_get d ''code'' = Some (JStr ''Forbidden'') \<and>
     (\<exists>m. sm_get d ''message'' = Some (JStr m) \<and> decode_cloud_error m = Ok (Some (Some c)))"
proof (cases "\<exists>m. sm_get d ''message'' = Some (JStr m)")
  case True
  then obtain m where m: "sm_get d ''message'' = Some (JStr m)" ..
  show ?thesis
  proof (cases "decode_cloud_error m")
    case (Ok x)
    then show ?thesis using m by (cases x) (auto simp: detail_matches_def)
  qed (use m in \<open>auto simp: detail_matches_def\<close>)
next
  case False
  then show ?thesis
    by (cases "sm_get d ''message''"; cases "the (sm_get d ''message'')") (simp_all add: detail_matches_def)
qed

definition mentions_code :: "string \<Rightarrow> go_error option \<Rightarrow> bool" where
  "mentions_code c err \<longleftrightarrow>
     (\<exists>t orig. err = Some (DetailedErr t orig) \<and> original_has_code c orig) \<or>
     (\<exists>t se ds d m. err = Some (ServiceErr t se) \<and> se_code se = ''DeploymentFailed'' \<and>
        se_details se = Some ds \<and> d \<in> set ds \<and>
        sm_get d ''code'' = Some (JStr ''Forbidden'') \<and> sm_get d ''message'' = Some (JStr m) \<and>
        decode_cloud_error m = Ok (Some (Some c)))"

definition has_null_detail :: "go_error option \<Rightarrow> bool" where
  "has_null_detail err =
     (case err of
        Some (ServiceErr t se) \<Rightarrow> se_code se = ''DeploymentFailed'' \<and>
          (case se_details se of Some ds \<Rightarrow> list_ex null_detail ds | None \<Rightarrow> False)
      | _ \<Rightarrow> False)"

section \<open>Properties\<close>

text \<open>C37: Unless an error is a failed deployment with a Forbidden detail whose message is the JSON text null (where the
  code dereferences a nil pointer), classifying it by authorization code does not fail and finds exactly the errors that
  carry the code: a detailed error around a service or request error with it, or a failed deployment one of
  whose Forbidden details has, as its message, the JSON of a cloud error with it.\<close>

theorem auth_error_characterised:
  assumes "\<not> has_null_detail err"
  shows "deploymentFailedDueToAuthError err c = Ok (mentions_code c err)"
proof (cases "\<exists>t se. err = Some (ServiceErr t se)")
  case True
  then obtain t se where err: "err = Some (ServiceErr t se)" by blast
  show ?thesis
  proof (cases "se_details se")
    case (Some ds)
    then have "\<And>d. d \<in> set ds \<Longrightarrow> se_code se = ''DeploymentFailed'' \<Longrightarrow> \<not> null_detail d"
      using assms err by (auto simp: has_null_detail_def list_ex_iff)
    then show ?thesis using err Some any_detail_total [of ds c]
      by (auto simp: deploymentFailedDueToAuthError_def mentions_code_def detail_matches_True)
  qed (use err in \<open>simp add: deploymentFailedDueToAuthError_def mentions_code_def\<close>)
next
  case False
  then show ?thesis
    by (auto simp: deploymentFailedDueToAuthError_def mentions_code_def split: option.splits go_error.splits)
qed

definition forbidden_error :: "string \<Rightarrow> go_error" where
  "forbidden_error m = ServiceErr ''failed'' \<lparr>se_code = ''DeploymentFailed'', se_message = [], se_target = None,
     se_details = Some [[(''code'', JStr ''Forbidden''), (''message'', JStr m)]], se_inner = None, se_additional = None\<rparr>"

abbreviation forbidden_text :: string where
  "forbidden_text \<equiv> print_json (JObj [(''error'', JObj [(''code'', JStr ''AuthorizationFailed'')])])"

lemma forbidden_not_null: "\<not> has_null_detail (Some (forbidden_error forbidden_text))"
  by (simp add: has_null_detail_def forbidden_error_def null_detail_def parse_print del: print_json_JObj)

theorem auth_error_characterised_witness:
  "deploymentFailedDueToAuthError (Some (forbidden_error forbidden_text)) ''AuthorizationFailed''
     = Ok (mentions_code ''AuthorizationFailed'' (Some (forbidden_error forbidden_text)))"
  by (rule auth_error_characterised [OF forbidden_not_null])

text \<open>A failed deployment whose first detail is Forbidden with the JSON text null as its message is a
  nil-pointer panic in the classification, whatever code is looked for.\<close>

theorem auth_error_null_panics:
  assumes "se_code se = ''DeploymentFailed''" "se_details se = Some (d # ds)"
    and "sm_get d ''code'' = Some (JStr ''Forbidden'')" "sm_get d ''message'' = Some (JStr m)"
    and "parse_json m = Some JNull"
  shows "deploymentFailedDueToAuthError (Some (ServiceErr t se)) c = Panic"
proof -
  have "null_detail d" using assms by (simp add: null_detail_def)
  then have "detail_matches c d = Panic" by (simp add: detail_Panic)
  then show ?thesis using assms(1,2) by (simp add: deploymentFailedDueToAuthError_def)
qed

theorem auth_error_null_panics_witness:
  "deploymentFailedDueToAuthError (Some (forbidden_error ''null'')) ''AuthorizationFailed'' = Panic"
  unfolding forbidden_error_def
  by (rule auth_error_null_panics [where m = "''null''" and ds = "[]"
      and d = "[(''code'', JStr ''Forbidden''), (''message'', JStr ''null'')]"]) (simp_all add: parse_print [of JNull, simplified])

end
