(* ===== verification/Polling.thy ===== *)
theory Polling
  imports Go_Errors
begin

text \<open>
  \<open>wait.PollUntilContextTimeout\<close> of k8s.io/apimachinery (non-sliding), the loop under every
  waiting operation of the repository. What the clock does is a schedule: each wake-up of the
  select statement either finds the context live, and the condition is called, or finds it ended
  with an error, and the loop returns that error. A call also learns whether the context is still
  live when the condition asks. A schedule that runs out before the context ends stands for a poll
  that is still waiting: the result is then \<open>None\<close>.
\<close>

datatype wake = Tick (live_after: bool) | Expired go_error

text \<open>A condition function: a step on the state, returning Go's \<open>(bool, error)\<close>.\<close>

type_synonym 's cond = "bool \<Rightarrow> 's \<Rightarrow> bool result \<times> 's"

text \<open>The loop stops on an error or on \<open>true\<close>; \<open>Some\<close> is the value the loop then returns.\<close>

fun poll_stop :: "bool result \<Rightarrow> unit result option" where
  "poll_stop (Ok done) = (if done then Some (Ok ()) else None)"
| "poll_stop (Err e) = Some (Err e)"
| "poll_stop Panic = Some Panic"

fun poll :: "'s cond \<Rightarrow> wake list \<Rightarrow> 's \<Rightarrow> (unit result \<times> 's) option" where
  "poll f [] s = None"
| "poll f (Expired e # ws) s = Some (Err e, s)"
| "poll f (Tick live # ws) s =
     (case f live s of
        (r, s') \<Rightarrow> (case poll_stop r of Some u \<Rightarrow> Some (u, s') | None \<Rightarrow> poll f ws s'))"

definition poll_immediate :: "'s cond \<Rightarrow> bool \<Rightarrow> wake list \<Rightarrow> 's \<Rightarrow> (unit result \<times> 's) option" where
  "poll_immediate f live ws s = poll f (Tick live # ws) s"

text \<open>
  The schedule of an interval and a timeout when the condition takes no time: a tick at every
  multiple of the interval before the timeout, then the end of the deadline context. Durations
  are in nanoseconds, as \<open>time.Duration\<close>.
\<close>

definition ideal_wakes :: "nat \<Rightarrow> nat \<Rightarrow> wake list" where
  "ideal_wakes interval timeout =
     replicate ((timeout - 1) div interval) (Tick True) @ [Expired DeadlineExceeded]"

definition ends :: "wake list \<Rightarrow> bool" where
  "ends ws = list_ex (\<lambda>w. case w of Expired e \<Rightarrow> True | Tick b \<Rightarrow> False) ws"

definition ticks :: "wake list \<Rightarrow> nat" where
  "ticks ws = length (takeWhile (\<lambda>w. case w of Expired e \<Rightarrow> False | Tick b \<Rightarrow> True) ws)"

lemma ends_ideal [simp]: "ends (ideal_wakes i t)"
  by (simp add: ends_def ideal_wakes_def)

lemma ends_Cons [simp]: "ends (Tick b # ws) = ends ws" "ends (Expired e # ws)" "\<not> ends []"
  by (simp_all add: ends_def)

lemma ticks_ideal [simp]: "ticks (ideal_wakes i t) = (t - 1) div i"
  by (simp add: ticks_def ideal_wakes_def takeWhile_append)

text \<open>A poll whose context ends returns, whatever the condition does.\<close>

lemma poll_returns: "ends ws \<Longrightarrow> \<exists>r. poll f ws s = Some r"
proof (induction f ws s rule: poll.induct)
  case (3 f live ws s)
  obtain r s' where f: "f live s = (r, s')" by (cases "f live s")
  show ?case using 3 f by (cases "poll_stop r") auto
qed simp_all

text \<open>A poll whose condition comes true at a call that its schedule has.\<close>

lemma poll_reached:
  assumes "\<forall>j < n. f True (st j) = (Ok False, st (Suc j))" "f True (st n) = (Ok True, t)" "n \<le> k"
  shows "poll f (Tick True # replicate k (Tick True) @ ws) (st 0) = Some (Ok (), t)"
  using assms
proof (induction n arbitrary: st k)
  case (Suc n)
  then obtain k' where k: "k = Suc k'" by (cases k) auto
  have "poll f (Tick True # replicate k' (Tick True) @ ws) (st (Suc 0)) = Some (Ok (), t)"
    using Suc.IH [of "\<lambda>j. st (Suc j)" k'] Suc.prems k by simp
  then show ?case using Suc.prems(1) k by simp
qed simp

text \<open>The number of calls of the condition.\<close>

definition counted :: "'s cond \<Rightarrow> (nat \<times> 's) cond" where
  "counted f live st = (case f live (snd st) of (r, s') \<Rightarrow> (r, (Suc (fst st), s')))"

lemma poll_counted_bound:
  "poll (counted f) ws (n, s) = Some (r, (m, s')) \<Longrightarrow> m \<le> n + ticks ws"
proof (induction ws arbitrary: n s)
  case (Cons w ws)
  show ?case
  proof (cases w)
    case (Tick live)
    obtain q t where f: "f live s = (q, t)" by (cases "f live s")
    show ?thesis
    proof (cases "poll_stop q")
      case None
      then have "m \<le> Suc n + ticks ws"
        using Cons.prems Cons.IH [of "Suc n" t] Tick f by (simp add: counted_def)
      then show ?thesis using Tick by (simp add: ticks_def)
    qed (use Cons.prems Tick f in \<open>simp add: counted_def ticks_def\<close>)
  qed (use Cons.prems in \<open>simp add: ticks_def\<close>)
qed simp

lemma poll_counted_same: "poll (counted f) ws (n, s) = Some (r, (m, s')) \<Longrightarrow> poll f ws s = Some (r, s')"
proof (induction ws arbitrary: n s)
  case (Cons w ws)
  then show ?case
    by (cases w) (auto simp: counted_def split: prod.splits option.splits)
qed simp

section \<open>The contract of a condition\<close>

text \<open>
  While a condition asks for another round it keeps an invariant; when it stops the loop it
  establishes what the loop promises. On expiry the invariant still holds.
\<close>

locale poll_condition =
  fixes cond :: "bool \<Rightarrow> 's \<Rightarrow> bool result \<times> 's"
    and inv :: "'s \<Rightarrow> bool"
    and goal :: "'s \<Rightarrow> bool"
    and bad :: "go_error \<Rightarrow> 's \<Rightarrow> bool"
  assumes keeps: "inv s \<Longrightarrow> cond live s = (Ok False, s') \<Longrightarrow> inv s'"
    and reaches: "inv s \<Longrightarrow> cond live s = (Ok True, s') \<Longrightarrow> goal s'"
    and fails: "inv s \<Longrightarrow> cond live s = (Err e, s') \<Longrightarrow> bad e s'"
begin

lemma poll_Ok: "inv s \<Longrightarrow> poll cond ws s = Some (Ok u, s') \<Longrightarrow> goal s'"
proof (induction ws arbitrary: s)
  case (Cons w ws)
  show ?case
  proof (cases w)
    case (Tick live)
    obtain q t where f: "cond live s = (q, t)" by (cases "cond live s")
    show ?thesis
      using Cons.prems Cons.IH [of t] Tick f keeps [of s live t] reaches [of s live t]
      by (cases q) (auto split: if_splits)
  qed (use Cons.prems in simp)
qed simp

lemma poll_Err:
  "inv s \<Longrightarrow> poll cond ws s = Some (Err e, s') \<Longrightarrow> bad e s' \<or> Expired e \<in> set ws \<and> inv s'"
proof (induction ws arbitrary: s)
  case (Cons w ws)
  show ?case
  proof (cases w)
    case (Tick live)
    obtain q t where f: "cond live s = (q, t)" by (cases "cond live s")
    show ?thesis
      using Cons.prems Cons.IH [of t] Tick f keeps [of s live t] fails [of s live _ t]
      by (cases q) (auto split: if_splits)
  qed (use Cons.prems in simp)
qed simp

end

end
