(* ===== verification/Steps.thy ===== *)
theory Steps
  imports Polling
begin

text \<open>
  pkg/util/steps: the runner and its three kinds of step. A step acts on a state of type \<open>'s\<close>, which
  stands for everything the closures capture and the services they call. A clock gives every
  polling step, from its place in the list, its interval and its timeout, the schedule it meets:
  whether the context is live after the immediate first call, and the wake-ups that follow. Actions and
  conditions are functions: a call that blocks and never returns is not represented.
\<close>

section \<open>Steps\<close>

type_synonym 's action = "'s \<Rightarrow> unit result \<times> 's"
type_synonym 's condition = "'s \<Rightarrow> bool result \<times> 's"
type_synonym clock = "nat \<Rightarrow> nat \<Rightarrow> bool \<times> wake list"

record 's conditionStep =
  cs_f :: "'s condition"
  cs_fail :: bool
  cs_timeout :: nat
  cs_pollInterval :: nat

record 's authorizationRefreshingActionStep =
  as_f :: "'s action"
  as_rebuild :: "'s action"
  as_retryTimeout :: nat
  as_pollInterval :: nat

datatype 's step = ActionStep "'s action" | ConditionStep "'s conditionStep"
  | AuthStep "'s authorizationRefreshingActionStep"

definition Action :: "'s action \<Rightarrow> 's step" where
  "Action f = ActionStep f"

definition Condition :: "'s condition \<Rightarrow> nat \<Rightarrow> bool \<Rightarrow> 's step" where
  "Condition f timeout fail =
     ConditionStep \<lparr>cs_f = f, cs_fail = fail, cs_timeout = timeout, cs_pollInterval = 0\<rparr>"

definition AuthorizationRetryingAction :: "'s action \<Rightarrow> 's action \<Rightarrow> 's step" where
  "AuthorizationRetryingAction rebuild f =
     AuthStep \<lparr>as_f = f, as_rebuild = rebuild, as_retryTimeout = 0, as_pollInterval = 0\<rparr>"

definition second :: nat where "second = 1000000000"
definition minute :: nat where "minute = 60 * second"

definition defaulted :: "nat \<Rightarrow> nat \<Rightarrow> nat" where
  "defaulted d configured = (if configured = 0 then d else configured)"

subsection \<open>condition.go\<close>

definition condition_call :: "'s condition \<Rightarrow> 's cond" where
  "condition_call f live s =
     (case f s of
        (Err e, s') \<Rightarrow>
          (Err (if is_deadline e then Wrapped ''condition encountered internal timeout'' e else e), s')
      | (r, s') \<Rightarrow> (r, s'))"

definition run_condition :: "clock \<Rightarrow> 's conditionStep \<Rightarrow> 's \<Rightarrow> (unit result \<times> 's) option" where
  "run_condition clock c s =
     (case clock (defaulted (10 * second) (cs_pollInterval c)) (cs_timeout c) of
        (live, wakes) \<Rightarrow>
          (case poll_immediate (condition_call (cs_f c)) live wakes s of
             Some (Err e, s') \<Rightarrow> Some (if cs_fail c then Err e else Ok (), s')
           | r \<Rightarrow> r))"

subsection \<open>refreshing.go\<close>

text \<open>The disjunction of the three classifications and the sentinel, left to right.\<close>

definition retryable :: "go_error \<Rightarrow> bool result" where
  "retryable e =
     andThen (IsUnauthorizedClientError (Some e)) (\<lambda>b. if b then Ok True else
     andThen (HasAuthorizationFailedError (Some e)) (\<lambda>b. if b then Ok True else
     andThen (IsInvalidSecretError (Some e)) (\<lambda>b. if b then Ok True else
     Ok (e = WantRefresh))))"

definition auth_call :: "'s action \<Rightarrow> 's action \<Rightarrow> 's cond" where
  "auth_call f rebuild live s =
     (case f s of
        (Ok u, s') \<Rightarrow> (Ok True, s')
      | (Panic, s') \<Rightarrow> (Panic, s')
      | (Err e, s') \<Rightarrow>
          (if live then
             (case retryable e of
                Ok True \<Rightarrow>
                  (case rebuild s' of
                     (Ok u, s'') \<Rightarrow> (Ok False, s'')
                   | (Err e', s'') \<Rightarrow> (Err e', s'')
                   | (Panic, s'') \<Rightarrow> (Panic, s''))
              | Ok False \<Rightarrow> (Err e, s')
              | _ \<Rightarrow> (Panic, s'))
           else (Err e, s')))"

definition run_auth :: "clock \<Rightarrow> 's authorizationRefreshingActionStep \<Rightarrow> 's \<Rightarrow> (unit result \<times> 's) option" where
  "run_auth clock a s =
     (case clock (defaulted (30 * second) (as_pollInterval a)) (defaulted (10 * minute) (as_retryTimeout a)) of
        (live, wakes) \<Rightarrow> poll_immediate (auth_call (as_f a) (as_rebuild a)) live wakes s)"

subsection \<open>runner.go\<close>

fun run_step :: "clock \<Rightarrow> 's step \<Rightarrow> 's \<Rightarrow> (unit result \<times> 's) option" where
  "run_step clock (ActionStep f) s = Some (f s)"
| "run_step clock (ConditionStep c) s = run_condition clock c s"
| "run_step clock (AuthStep a) s = run_auth clock a s"

fun Run :: "clock list \<Rightarrow> 's step list \<Rightarrow> 's \<Rightarrow> (unit result \<times> 's) option" where
  "Run clocks [] s = Some (Ok (), s)"
| "Run [] (st # sts) s = None"
| "Run (clock # clocks) (st # sts) s =
     (case run_step clock st s of
        Some (Ok u, s') \<Rightarrow> Run clocks sts s'
      | r \<Rightarrow> r)"

text \<open>The clock of a machine that is never held up: every context lives until its timeout.\<close>

definition ideal_clock :: clock where
  "ideal_clock interval timeout = (True, ideal_wakes interval timeout)"

lemma run_condition_reached:
  assumes "\<forall>j < n. f (st j) = (Ok False, st (Suc j))" "f (st n) = (Ok True, t)" "n \<le> (timeout - 1) div (10 * second)"
  shows "run_step ideal_clock (Condition f timeout fail) (st 0) = Some (Ok (), t)"
proof -
  have "poll (condition_call f) (Tick True # ideal_wakes (10 * second) timeout) (st 0) = Some (Ok (), t)"
    unfolding ideal_wakes_def by (rule poll_reached [where n = n]) (use assms in \<open>simp_all add: condition_call_def\<close>)
  then show ?thesis
    by (simp add: Condition_def run_condition_def ideal_clock_def defaulted_def poll_immediate_def del: poll.simps)
qed

section \<open>The runner as a state machine\<close>

datatype 's runner = Running nat 's | Finished "unit result" 's

inductive runner_step :: "clock list \<Rightarrow> 's step list \<Rightarrow> 's runner \<Rightarrow> 's runner \<Rightarrow> bool"
  for clocks :: "clock list" and sts :: "'s step list" where
  advance: "i < length sts \<Longrightarrow> run_step (clocks ! i) (sts ! i) s = Some (Ok (), s') \<Longrightarrow>
     runner_step clocks sts (Running i s) (Running (Suc i) s')"
| abort: "i < length sts \<Longrightarrow> run_step (clocks ! i) (sts ! i) s = Some (r, s') \<Longrightarrow> r \<noteq> Ok () \<Longrightarrow>
     runner_step clocks sts (Running i s) (Finished r s')"
| complete: "i = length sts \<Longrightarrow> runner_step clocks sts (Running i s) (Finished (Ok ()) s)"

inductive_cases runner_stepE: "runner_step clocks sts (Running i s) c"
inductive_simps runner_step_Finished [simp]: "runner_step clocks sts (Finished r s) c"

lemma runner_deterministic:
  "runner_step clocks sts c c1 \<Longrightarrow> runner_step clocks sts c c2 \<Longrightarrow> c1 = c2"
  by (induction rule: runner_step.induct) (auto elim!: runner_stepE)

lemma runner_finished_star [simp]:
  "(runner_step clocks sts)\<^sup>*\<^sup>* (Finished q t) c \<longleftrightarrow> c = Finished q t"
  by (auto elim: converse_rtranclpE)

lemma runner_running_star:
  "(runner_step clocks sts)\<^sup>*\<^sup>* (Running i s) (Finished r s') \<longleftrightarrow>
     (\<exists>c. runner_step clocks sts (Running i s) c \<and> (runner_step clocks sts)\<^sup>*\<^sup>* c (Finished r s'))"
  by (metis converse_rtranclpE converse_rtranclp_into_rtranclp runner.distinct(1))

lemma Run_from:
  assumes "length sts \<le> length clocks" "i \<le> length sts"
  shows "Run (drop i clocks) (drop i sts) s = Some (r, s') \<longleftrightarrow>
    (runner_step clocks sts)\<^sup>*\<^sup>* (Running i s) (Finished r s')"
  using assms(2)
proof (induction "length sts - i" arbitrary: i s)
  case 0
  then have "i = length sts" by simp
  then show ?case
    by (auto simp: runner_running_star elim!: runner_stepE intro: runner_step.complete)
next
  case (Suc n)
  then have i: "i < length sts" "i < length clocks" using assms(1) by auto
  then have d: "drop i sts = sts ! i # drop (Suc i) sts" "drop i clocks = clocks ! i # drop (Suc i) clocks"
    by (simp_all add: Cons_nth_drop_Suc)
  have IH: "Run (drop (Suc i) clocks) (drop (Suc i) sts) t = Some (r, s') \<longleftrightarrow>
      (runner_step clocks sts)\<^sup>*\<^sup>* (Running (Suc i) t) (Finished r s')" for t
    using Suc by simp
  show ?case
  proof (cases "run_step (clocks ! i) (sts ! i) s")
    case None
    then show ?thesis using i by (auto simp: d runner_running_star elim!: runner_stepE)
  next
    case (Some q)
    obtain o1 t where q: "q = (o1, t)" by (cases q)
    show ?thesis
    proof (cases o1)
      case (Ok u)
      then have "runner_step clocks sts (Running i s) (Running (Suc i) t)"
        using Some q i by (simp add: runner_step.advance)
      then have "(runner_step clocks sts)\<^sup>*\<^sup>* (Running i s) (Finished r s') \<longleftrightarrow>
          (runner_step clocks sts)\<^sup>*\<^sup>* (Running (Suc i) t) (Finished r s')"
        unfolding runner_running_star [of _ _ i] by (auto dest: runner_deterministic)
      then show ?thesis using Some q Ok IH d by simp
    qed (use Some q i in \<open>auto simp: d runner_running_star elim!: runner_stepE intro!: runner_step.abort\<close>)
  qed
qed

lemma poll_immediate_returns: "ends ws \<Longrightarrow> \<exists>r s'. poll_immediate f live ws s = Some (r, s')"
  unfolding poll_immediate_def using poll_returns [of "Tick live # ws" f s] by auto

lemma run_condition_returns:
  assumes ends: "\<And>i t. ends (snd (clock i t))"
  shows "\<exists>r. run_condition clock c s = Some r"
proof -
  obtain live ws where k: "clock (defaulted (10 * second) (cs_pollInterval c)) (cs_timeout c) = (live, ws)"
    by fastforce
  have "ends ws" using ends by (metis k snd_conv)
  then obtain r s' where p: "poll_immediate (condition_call (cs_f c)) live ws s = Some (r, s')"
    using poll_immediate_returns [of ws "condition_call (cs_f c)" live s] by auto
  show ?thesis
    unfolding run_condition_def k prod.case p by (cases r) simp_all
qed

lemma run_auth_returns:
  assumes ends: "\<And>i t. ends (snd (clock i t))"
  shows "\<exists>r. run_auth clock a s = Some r"
proof -
  obtain live ws where k: "clock (defaulted (30 * second) (as_pollInterval a)) (defaulted (10 * minute) (as_retryTimeout a)) = (live, ws)"
    by fastforce
  have "ends ws" using ends by (metis k snd_conv)
  then show ?thesis
    unfolding run_auth_def k prod.case
    using poll_immediate_returns [of ws "auth_call (as_f a) (as_rebuild a)" live s] by auto
qed

lemma run_step_returns:
  assumes "\<And>i t. ends (snd (clock i t))"
  shows "\<exists>r. run_step clock st s = Some r"
  using assms by (cases st) (simp_all add: run_condition_returns run_auth_returns del: split_paired_Ex)

lemma Run_returns:
  "length sts \<le> length clocks \<Longrightarrow> (\<And>k i t. k \<in> set clocks \<Longrightarrow> ends (snd (k i t))) \<Longrightarrow>
    \<exists>r s'. Run clocks sts s = Some (r, s')"
proof (induction clocks sts s rule: Run.induct)
  case (3 clock clocks st sts s)
  have "\<And>i t. ends (snd (clock i t))" using "3.prems" by simp
  then obtain q where q: "run_step clock st s = Some q"
    using run_step_returns [of clock st s] by blast
  show ?case
  proof (cases q)
    case (Pair o1 t)
    then show ?thesis using 3 q by (cases o1) auto
  qed
qed simp_all

section \<open>What a polling step does to the calls it makes\<close>

text \<open>A condition that records its results, and an action and a rebuild that record theirs.\<close>

definition traced :: "'s condition \<Rightarrow> (bool result list \<times> 's) condition" where
  "traced f st = (case f (snd st) of (r, s') \<Rightarrow> (r, (fst st @ [r], s')))"

definition internal_timeout :: "go_error \<Rightarrow> go_error" where
  "internal_timeout e = (if is_deadline e then Wrapped ''condition encountered internal timeout'' e else e)"

lemma condition_call_Err:
  "condition_call f live s = (Err e, s') \<longleftrightarrow> (\<exists>e'. f s = (Err e', s') \<and> e = internal_timeout e')"
  by (auto simp: condition_call_def internal_timeout_def split: prod.splits outcome.splits)

interpretation tc: poll_condition "condition_call (traced f)"
  "\<lambda>st. \<exists>n. fst st = replicate n (Ok False)"
  "\<lambda>st. \<exists>n. fst st = replicate n (Ok False) @ [Ok True]"
  "\<lambda>e st. \<exists>n e'. fst st = replicate n (Ok False) @ [Err e'] \<and> e = internal_timeout e'" for f
proof
  fix s live s'
  assume "\<exists>n. fst s = replicate n (Ok False)" "condition_call (traced f) live s = (Ok False, s')"
  then show "\<exists>n. fst s' = replicate n (Ok False)"
    by (auto simp: condition_call_def traced_def replicate_append_same intro: exI [of _ "Suc _"]
        split: prod.splits outcome.splits)
next
  fix s live s'
  assume "\<exists>n. fst s = replicate n (Ok False)" "condition_call (traced f) live s = (Ok True, s')"
  then show "\<exists>n. fst s' = replicate n (Ok False) @ [Ok True]"
    by (auto simp: condition_call_def traced_def split: prod.splits outcome.splits)
next
  fix s live e s'
  assume "\<exists>n. fst s = replicate n (Ok False)" "condition_call (traced f) live s = (Err e, s')"
  then show "\<exists>n e'. fst s' = replicate n (Ok False) @ [Err e'] \<and> e = internal_timeout e'"
    by (auto simp: condition_call_Err traced_def split: prod.splits outcome.splits)
qed

datatype auth_event = Acted "unit result" | Rebuilt "unit result"

definition traced_action :: "'s action \<Rightarrow> (auth_event list \<times> 's) action" where
  "traced_action f st = (case f (snd st) of (r, s') \<Rightarrow> (r, (fst st @ [Acted r], s')))"

definition traced_rebuild :: "'s action \<Rightarrow> (auth_event list \<times> 's) action" where
  "traced_rebuild f st = (case f (snd st) of (r, s') \<Rightarrow> (r, (fst st @ [Rebuilt r], s')))"

text \<open>The rounds of a retried action: an authorization error, then a successful rebuild.\<close>

definition rounds :: "go_error list \<Rightarrow> auth_event list" where
  "rounds es = concat (map (\<lambda>e. [Acted (Err e), Rebuilt (Ok ())]) es)"

definition all_retryable :: "go_error list \<Rightarrow> bool" where
  "all_retryable es = list_all (\<lambda>e. retryable e = Ok True) es"

lemma rounds_snoc: "rounds (es @ [e]) = rounds es @ [Acted (Err e), Rebuilt (Ok ())]"
  by (simp add: rounds_def)

lemma all_retryable_snoc: "all_retryable (es @ [e]) \<longleftrightarrow> all_retryable es \<and> retryable e = Ok True"
  by (simp add: all_retryable_def)

interpretation ac: poll_condition "auth_call (traced_action f) (traced_rebuild g)"
  "\<lambda>st. \<exists>es. all_retryable es \<and> fst st = rounds es"
  "\<lambda>st. \<exists>es. all_retryable es \<and> fst st = rounds es @ [Acted (Ok ())]"
  "\<lambda>e st. \<exists>es. all_retryable es \<and>
     (fst st = rounds es @ [Acted (Err e)] \<or>
      (\<exists>e'. retryable e' = Ok True \<and> fst st = rounds es @ [Acted (Err e'), Rebuilt (Err e)]))" for f g
proof
  fix s live s'
  assume "\<exists>es. all_retryable es \<and> fst s = rounds es"
    and c: "auth_call (traced_action f) (traced_rebuild g) live s = (Ok False, s')"
  then obtain es where es: "all_retryable es" "fst s = rounds es" by blast
  from c obtain e where "retryable e = Ok True" "fst s' = fst s @ [Acted (Err e), Rebuilt (Ok ())]"
    by (auto simp: auth_call_def traced_action_def traced_rebuild_def
        split: prod.splits outcome.splits if_splits bool.splits)
  then show "\<exists>es. all_retryable es \<and> fst s' = rounds es"
    using es by (intro exI [of _ "es @ [e]"]) (simp add: rounds_snoc all_retryable_snoc)
qed (auto simp: auth_call_def traced_action_def traced_rebuild_def
      split: prod.splits outcome.splits if_splits bool.splits)

section \<open>Properties\<close>

text \<open>C1: \<open>Run\<close> executes the steps in order, each on the state the previous one left, stops at the
  first one that does not return nil with that step's result, and otherwise returns nil: its
  result is exactly the final configuration of the step machine.\<close>

theorem Run_machine:
  assumes "length clocks = length sts"
  shows "Run clocks sts s = Some (r, s') \<longleftrightarrow>
    (runner_step clocks sts)\<^sup>*\<^sup>* (Running 0 s) (Finished r s')"
  using Run_from [of sts clocks 0 s r s'] assms by simp

definition demo_fail :: "nat action" where "demo_fail n = (if 2 \<le> n then Err WantRefresh else Ok (), Suc n)"

definition demo_clock :: clock where "demo_clock i t = (True, ideal_wakes i t)"

theorem Run_machine_witness:
  "(runner_step (replicate 3 demo_clock) (replicate 3 (Action demo_fail)))\<^sup>*\<^sup>*
     (Running 0 1) (Finished (Err WantRefresh) (3::nat))"
  using Run_machine [of "replicate 3 demo_clock" "replicate 3 (Action demo_fail)" 1 "Err WantRefresh" 3]
  by (simp add: eval_nat_numeral Action_def demo_fail_def)

text \<open>A condition that must not fail lets the run go on only after its function has returned
  (true, nil), and never calls it again after that.\<close>

theorem condition_success:
  assumes "run_condition clock \<lparr>cs_f = traced f, cs_fail = True, cs_timeout = t, cs_pollInterval = i\<rparr> ([], s)
      = Some (Ok u, (tr, s'))"
  shows "\<exists>n. tr = replicate n (Ok False) @ [Ok True]"
proof -
  obtain live ws where k: "clock (defaulted (10 * second) i) t = (live, ws)" by fastforce
  from assms have "poll (condition_call (traced f)) (Tick live # ws) ([], s) = Some (Ok u, (tr, s'))"
    by (auto simp: run_condition_def k poll_immediate_def simp del: poll.simps
        split: option.splits prod.splits outcome.splits)
  from tc.poll_Ok [OF _ this] show ?thesis by (auto intro: exI [of _ 0])
qed

definition demo_cond :: "nat condition" where "demo_cond n = (Ok (2 \<le> n), Suc n)"

theorem condition_success_witness:
  "\<exists>n. [Ok False, Ok False, Ok True] = replicate n (Ok False) @ [Ok True :: bool result]"
  using condition_success [of "\<lambda>i t. (True, replicate 5 (Tick True))" demo_cond 1 1 0 "()" _ 3]
  by (simp add: eval_nat_numeral run_condition_def poll_immediate_def condition_call_def traced_def demo_cond_def)

text \<open>A condition that must not fail and returns an unwrapped deadline error has only seen its
  function ask for more: the error is the step's own timeout. A deadline error of the function
  itself comes back wrapped, so the two cannot be confused.\<close>

theorem condition_timeout:
  assumes "run_condition clock \<lparr>cs_f = traced f, cs_fail = True, cs_timeout = t, cs_pollInterval = i\<rparr> ([], s)
      = Some (Err DeadlineExceeded, (tr, s'))"
  shows "\<exists>n. tr = replicate n (Ok False) \<and> Expired DeadlineExceeded \<in> set (snd (clock (defaulted (10 * second) i) t))"
proof -
  obtain live ws where k: "clock (defaulted (10 * second) i) t = (live, ws)" by fastforce
  from assms have "poll (condition_call (traced f)) (Tick live # ws) ([], s) = Some (Err DeadlineExceeded, (tr, s'))"
    by (auto simp: run_condition_def k poll_immediate_def simp del: poll.simps
        split: option.splits prod.splits outcome.splits)
  from tc.poll_Err [OF _ this] show ?thesis
    by (auto simp: k internal_timeout_def intro: exI [of _ 0] split: if_splits)
qed

theorem condition_timeout_witness:
  "\<exists>n. [Ok False, Ok False] = replicate n (Ok False :: bool result) \<and>
     Expired DeadlineExceeded \<in> set (snd ((\<lambda>i t. (True, [Tick True, Expired DeadlineExceeded])) (defaulted (10 * second) 0) minute))"
  using condition_timeout [of "\<lambda>i t. (True, [Tick True, Expired DeadlineExceeded])"
      "\<lambda>n. (Ok False, n)" minute 0 "0::nat" "[Ok False, Ok False]" 0]
  by (simp add: run_condition_def poll_immediate_def condition_call_def traced_def)

text \<open>C35: An authorization-retrying action calls its function again only after a retryable error and
  a successful rebuild of the authorizer. Its result is nil after a call that returned nil, the
  error of the last call, the error of a failed rebuild, or the end of the context.\<close>

theorem retrying_action_trace:
  assumes "run_auth clock \<lparr>as_f = traced_action f, as_rebuild = traced_rebuild g,
      as_retryTimeout = t, as_pollInterval = i\<rparr> ([], s) = Some (r, (tr, s'))"
    and "r \<noteq> Panic"
  shows "\<exists>es. all_retryable es \<and>
    (case r of
       Ok u \<Rightarrow> tr = rounds es @ [Acted (Ok ())]
     | Err e \<Rightarrow> tr = rounds es @ [Acted (Err e)]
         \<or> (\<exists>e'. retryable e' = Ok True \<and> tr = rounds es @ [Acted (Err e'), Rebuilt (Err e)])
         \<or> tr = rounds es \<and> Expired e \<in> set (snd (clock (defaulted (30 * second) i) (defaulted (10 * minute) t)))
     | Panic \<Rightarrow> False)"
proof -
  obtain live ws where k: "clock (defaulted (30 * second) i) (defaulted (10 * minute) t) = (live, ws)"
    by fastforce
  from assms(1) have p: "poll (auth_call (traced_action f) (traced_rebuild g)) (Tick live # ws) ([], s) = Some (r, (tr, s'))"
    by (simp add: run_auth_def k poll_immediate_def del: poll.simps)
  have start: "\<exists>es. all_retryable es \<and> fst (([], s) :: auth_event list \<times> 'a) = rounds es"
    by (rule exI [of _ "[]"]) (simp add: all_retryable_def rounds_def)
  show ?thesis
  proof (cases r)
    case (Ok u)
    then show ?thesis using ac.poll_Ok [OF start] p by fastforce
  next
    case (Err e)
    then have "(\<exists>es. all_retryable es \<and>
       (tr = rounds es @ [Acted (Err e)] \<or>
        (\<exists>e'. retryable e' = Ok True \<and> tr = rounds es @ [Acted (Err e'), Rebuilt (Err e)]))) \<or>
       (Expired e \<in> set ws \<and> (\<exists>es. all_retryable es \<and> tr = rounds es))"
      using ac.poll_Err [OF start] p by fastforce
    then show ?thesis using Err k by fastforce
  qed (use assms(2) in simp)
qed

definition demo_action :: "nat action" where
  "demo_action n = (if n < 2 then Err (ErrMsg ''AADSTS700016: not found'') else Ok (), Suc n)"

theorem retrying_action_trace_witness:
  "\<exists>es. all_retryable es \<and> [Acted (Err (ErrMsg ''AADSTS700016: not found'')), Rebuilt (Ok ()),
      Acted (Err (ErrMsg ''AADSTS700016: not found'')), Rebuilt (Ok ()), Acted (Ok ())] = rounds es @ [Acted (Ok ())]"
  using retrying_action_trace [of "\<lambda>i t. (True, replicate 5 (Tick True))" demo_action "\<lambda>n. (Ok (), n)" 0 0 0 "Ok ()" _ 3]
  by (simp add: eval_nat_numeral run_auth_def poll_immediate_def auth_call_def traced_action_def traced_rebuild_def
      demo_action_def retryable_def IsUnauthorizedClientError_def contains_def)

text \<open>With its default timeout (10 minutes) and interval (30 seconds) a retrying action calls its
  function at most 20 times, and it always returns.\<close>

theorem retrying_action_bound:
  "\<exists>r m s'. run_auth (\<lambda>i t. (live, ideal_wakes i t))
      \<lparr>as_f = \<lambda>(n, s). (case f s of (r, s') \<Rightarrow> (r, (Suc n, s'))), as_rebuild = \<lambda>(n, s). (case g s of (r, s') \<Rightarrow> (r, (n, s'))),
       as_retryTimeout = 0, as_pollInterval = 0\<rparr> (0, s) = Some (r, (m, s')) \<and> m \<le> (20::nat)"
proof -
  let ?F = "\<lambda>(n, s). (case f s of (r, s') \<Rightarrow> (r, (Suc n, s')))"
  let ?G = "\<lambda>(n, s). (case g s of (r, s') \<Rightarrow> (r, (n, s')))"
  have eq: "auth_call ?F ?G = counted (auth_call f g)"
    by (intro ext) (auto simp: auth_call_def counted_def split: prod.splits outcome.splits bool.splits)
  let ?ws = "ideal_wakes (30 * second) (10 * minute)"
  have n: "ticks (Tick live # ?ws) = 20"
    by (simp add: ticks_def ideal_wakes_def takeWhile_append second_def minute_def)
  have "ends (Tick live # ?ws)" by simp
  then obtain r m s' where p: "poll (counted (auth_call f g)) (Tick live # ?ws) (0, s) = Some (r, (m, s'))"
    using poll_returns [of "Tick live # ?ws" "counted (auth_call f g)" "(0, s)"] by auto
  then have "m \<le> 20" using poll_counted_bound [OF p] n by simp
  with p show ?thesis
    unfolding run_auth_def by (simp add: defaulted_def poll_immediate_def eq del: poll.simps)
qed

end
