(* ===== verification/Deployments.thy ===== *)
theory Deployments
  imports Polling
begin

text \<open>
  Deploying an ARM template: pkg/util/arm/deploy.go over the deployments client of
  pkg/util/azureclient/mgmt/features (deployments_addons.go). The client's remote calls are
  functions on a state of type \<open>'s\<close>; the template is opaque here (theory Arm_Template models it).
\<close>

section \<open>The client\<close>

record ('t, 's) deploymentsClient =
  dc_CreateOrUpdate :: "string \<Rightarrow> string \<Rightarrow> 't \<Rightarrow> 's \<Rightarrow> unit result \<times> 's"
  dc_WaitForCompletion :: "'s \<Rightarrow> unit result \<times> 's"
  dc_Delete :: "string \<Rightarrow> string \<Rightarrow> 's \<Rightarrow> unit result \<times> 's"
  dc_Get :: "string \<Rightarrow> string \<Rightarrow> 's \<Rightarrow> string option result \<times> 's"
  dc_PollingDelay :: nat
  dc_PollingDuration :: nat

text \<open>A call and the wait for its future, which is skipped when the call fails.\<close>

definition and_wait :: "(unit result \<times> 's) \<Rightarrow> ('s \<Rightarrow> unit result \<times> 's) \<Rightarrow> unit result \<times> 's" where
  "and_wait r w = (case r of (Ok u, s) \<Rightarrow> w s | (Err e, s) \<Rightarrow> (Err e, s) | (Panic, s) \<Rightarrow> (Panic, s))"

definition CreateOrUpdateAndWait ::
  "('t, 's) deploymentsClient \<Rightarrow> string \<Rightarrow> string \<Rightarrow> 't \<Rightarrow> 's \<Rightarrow> unit result \<times> 's" where
  "CreateOrUpdateAndWait c rg name params s =
     and_wait (dc_CreateOrUpdate c rg name params s) (dc_WaitForCompletion c)"

definition DeleteAndWait :: "('t, 's) deploymentsClient \<Rightarrow> string \<Rightarrow> string \<Rightarrow> 's \<Rightarrow> unit result \<times> 's" where
  "DeleteAndWait c rg name s = and_wait (dc_Delete c rg name s) (dc_WaitForCompletion c)"

text \<open>
  The polled function of \<open>Wait\<close>. \<open>Get\<close> yields the provisioning state behind two pointers; a nil
  one is \<open>None\<close> and its dereference panics.
\<close>

definition provisioning_result :: "string option \<Rightarrow> bool result" where
  "provisioning_result st =
     andThen (deref st) (\<lambda>p.
       if p = ''Canceled'' \<or> p = ''Failed''
       then Err (ErrMsg (''got provisioningState '' @ quote_text p))
       else Ok (p = ''Succeeded''))"

definition wait_call :: "('t, 's) deploymentsClient \<Rightarrow> string \<Rightarrow> string \<Rightarrow> 's cond" where
  "wait_call c rg name live s =
     (case dc_Get c rg name s of
        (Ok st, s') \<Rightarrow> (provisioning_result st, s')
      | (Err e, s') \<Rightarrow> (Err e, s')
      | (Panic, s') \<Rightarrow> (Panic, s'))"

definition Wait ::
  "(nat \<Rightarrow> nat \<Rightarrow> wake list) \<Rightarrow> ('t, 's) deploymentsClient \<Rightarrow> string \<Rightarrow> string \<Rightarrow> 's \<Rightarrow> (unit result \<times> 's) option" where
  "Wait clock c rg name s =
     poll (wait_call c rg name) (clock (dc_PollingDelay c) (dc_PollingDuration c)) s"

section \<open>DeployTemplate\<close>

text \<open>\<open>json.Marshal\<close> of a service error: every field, in order; nil slices, maps and pointers as null.\<close>

definition map_json :: "(string, json) gomap option \<Rightarrow> json" where
  "map_json m = (case m of None \<Rightarrow> JNull | Some kvs \<Rightarrow> JObj kvs)"

definition maps_json :: "(string, json) gomap list option \<Rightarrow> json" where
  "maps_json ms = (case ms of None \<Rightarrow> JNull | Some xs \<Rightarrow> JArr (map JObj xs))"

definition service_error_json :: "service_error \<Rightarrow> json" where
  "service_error_json se =
     JObj [(''code'', JStr (se_code se)), (''message'', JStr (se_message se)),
           (''target'', case se_target se of None \<Rightarrow> JNull | Some t \<Rightarrow> JStr t),
           (''details'', maps_json (se_details se)), (''innererror'', map_json (se_inner se)),
           (''additionalInfo'', maps_json (se_additional se))]"

definition deployment_failed :: "service_error \<Rightarrow> go_error" where
  "deployment_failed se =
     CloudErr \<lparr>ce_status = 400,
       ce_body = Some (CloudBody ''DeploymentFailed'' ''Deployment failed.'' []
         [CloudBody [] (print_json (service_error_json se)) [] []])\<rparr>"

definition service_error_of :: "go_error option \<Rightarrow> service_error option" where
  "service_error_of err =
     (case err of
        Some (ServiceErr t se) \<Rightarrow> Some se
      | Some (DetailedErr t (Some (ServiceErr t' se))) \<Rightarrow> Some se
      | _ \<Rightarrow> None)"

text \<open>What becomes of the error of the deployment.\<close>

definition deploy_error :: "go_error option \<Rightarrow> unit result" where
  "deploy_error err =
     andThen (HasAuthorizationFailedError err) (\<lambda>b. if b then failWith err else
     andThen (HasLinkedAuthorizationFailedError err) (\<lambda>b. if b then failWith err else
     (case service_error_of err of
        Some se \<Rightarrow> Err (deployment_failed se)
      | None \<Rightarrow> failWith err)))"

definition error_of :: "unit result \<Rightarrow> go_error option" where
  "error_of r = (case r of Err e \<Rightarrow> Some e | _ \<Rightarrow> None)"

fun finish_deploy :: "unit result \<times> 's \<Rightarrow> unit result \<times> 's" where
  "finish_deploy (Panic, s) = (Panic, s)"
| "finish_deploy (r, s) = (deploy_error (error_of r), s)"

definition DeployTemplate ::
  "(nat \<Rightarrow> nat \<Rightarrow> wake list) \<Rightarrow> ('t, 's) deploymentsClient \<Rightarrow> string \<Rightarrow> string \<Rightarrow> 't \<Rightarrow> 's \<Rightarrow> (unit result \<times> 's) option" where
  "DeployTemplate clock c rg name template s =
     (case CreateOrUpdateAndWait c rg name template s of
        (r, s') \<Rightarrow>
          if IsDeploymentActiveError (error_of r)
          then map_option finish_deploy (Wait clock c rg name s')
          else Some (finish_deploy (r, s')))"

section \<open>Lemmas\<close>

lemma deploy_error_None [simp]: "deploy_error None = Ok ()"
  by (simp add: deploy_error_def HasAuthorizationFailedError_def HasLinkedAuthorizationFailedError_def
      deploymentFailedDueToAuthError_def service_error_of_def)

lemma deploy_error_Ok: "deploy_error err = Ok u \<Longrightarrow> err = None"
  by (auto simp: deploy_error_def outcome_simps split: if_splits option.splits)

lemma finish_deploy_Ok: "finish_deploy (r, s) = (Ok u, s') \<longleftrightarrow> r = Ok () \<and> s = s'"
  by (cases r) (auto simp: error_of_def dest: deploy_error_Ok)

lemma active_not_Ok: "IsDeploymentActiveError (error_of r) \<Longrightarrow> r \<noteq> Ok u"
  by (auto simp: IsDeploymentActiveError_def error_of_def)

text \<open>A client that records the provisioning states it reads.\<close>

definition record_get :: "(string option result \<times> 's) \<Rightarrow> string option list \<Rightarrow> string option result \<times> (string option list \<times> 's)" where
  "record_get q tr = (case q of (Ok p, s') \<Rightarrow> (Ok p, (tr @ [p], s')) | (r, s') \<Rightarrow> (r, (tr, s')))"

definition lift_call :: "(unit result \<times> 's) \<Rightarrow> 'tr \<Rightarrow> unit result \<times> ('tr \<times> 's)" where
  "lift_call q tr = (case q of (r, s') \<Rightarrow> (r, (tr, s')))"

definition traced_client :: "('t, 's) deploymentsClient \<Rightarrow> ('t, string option list \<times> 's) deploymentsClient" where
  "traced_client c =
     \<lparr>dc_CreateOrUpdate = \<lambda>rg n t st. lift_call (dc_CreateOrUpdate c rg n t (snd st)) (fst st),
      dc_WaitForCompletion = \<lambda>st. lift_call (dc_WaitForCompletion c (snd st)) (fst st),
      dc_Delete = \<lambda>rg n st. lift_call (dc_Delete c rg n (snd st)) (fst st),
      dc_Get = \<lambda>rg n st. record_get (dc_Get c rg n (snd st)) (fst st),
      dc_PollingDelay = dc_PollingDelay c, dc_PollingDuration = dc_PollingDuration c\<rparr>"

definition in_progress :: "string option \<Rightarrow> bool" where
  "in_progress p = (provisioning_result p = Ok False)"

lemma provisioning_done: "provisioning_result p = Ok True \<longleftrightarrow> p = Some ''Succeeded''"
  by (cases p) (auto simp: provisioning_result_def)

lemma provisioning_failed: "provisioning_result p = Err e \<Longrightarrow> p = Some ''Canceled'' \<or> p = Some ''Failed''"
  by (cases p) (auto simp: provisioning_result_def split: if_splits)

definition failed_read :: "string option list \<Rightarrow> bool" where
  "failed_read tr = (\<exists>ps. list_all in_progress ps \<and> tr \<in> {ps, ps @ [Some ''Canceled''], ps @ [Some ''Failed'']})"

lemma failed_readI: "list_all in_progress ps \<Longrightarrow> failed_read ps"
  "list_all in_progress ps \<Longrightarrow> provisioning_result p = Err e \<Longrightarrow> failed_read (ps @ [p])"
  by (auto simp: failed_read_def dest: provisioning_failed)

lemma wait_call_traced:
  "wait_call (traced_client c) rg name live st =
     (case dc_Get c rg name (snd st) of
        (Ok p, s') \<Rightarrow> (provisioning_result p, (fst st @ [p], s'))
      | (Err e, s') \<Rightarrow> (Err e, (fst st, s'))
      | (Panic, s') \<Rightarrow> (Panic, (fst st, s')))"
  by (simp add: wait_call_def traced_client_def record_get_def split: prod.splits outcome.splits)

interpretation wc: poll_condition "wait_call (traced_client c) rg name"
  "\<lambda>st. list_all in_progress (fst st)"
  "\<lambda>st. \<exists>ps. list_all in_progress ps \<and> fst st = ps @ [Some ''Succeeded'']"
  "\<lambda>e st. failed_read (fst st)"
  for c rg name
proof
  fix s live e s'
  assume "list_all in_progress (fst s)" "wait_call (traced_client c) rg name live s = (Err e, s')"
  then show "failed_read (fst s')"
    by (auto simp: wait_call_traced failed_readI split: prod.splits outcome.splits)
qed (auto simp: wait_call_traced in_progress_def provisioning_done split: prod.splits outcome.splits)

lemma failed_read_not_done: "failed_read tr \<Longrightarrow> Some ''Succeeded'' \<notin> set tr"
  using provisioning_done [of "Some ''Succeeded''"]
  by (auto simp: failed_read_def list_all_iff in_progress_def)

section \<open>Properties\<close>

text \<open>\<open>Wait\<close> returns nil exactly after reading Succeeded, having read only states of a deployment
  in progress before; when it returns an error it has never read Succeeded.\<close>

theorem Wait_reads:
  assumes "Wait clock (traced_client c) rg name ([], s) = Some (r, (tr, s'))"
  shows "case r of
      Ok u \<Rightarrow> \<exists>ps. list_all in_progress ps \<and> tr = ps @ [Some ''Succeeded'']
    | Err e \<Rightarrow> Some ''Succeeded'' \<notin> set tr
    | Panic \<Rightarrow> True"
proof (cases r)
  case (Ok u)
  then show ?thesis using wc.poll_Ok [of "([], s)"] assms by (fastforce simp: Wait_def)
next
  case (Err e)
  then have "failed_read tr \<or> list_all in_progress tr"
    using wc.poll_Err [of "([], s)"] assms by (fastforce simp: Wait_def)
  then have "failed_read tr" by (auto simp: failed_read_def)
  then show ?thesis using Err failed_read_not_done by simp
qed simp

definition demo_client :: "(nat, nat) deploymentsClient" where
  "demo_client =
     \<lparr>dc_CreateOrUpdate = \<lambda>rg n t s. (Ok (), s + t), dc_WaitForCompletion = \<lambda>s. (Ok (), s),
      dc_Delete = \<lambda>rg n s. (Ok (), 0),
      dc_Get = \<lambda>rg n s. (Ok (Some (if s = 0 then ''Succeeded'' else ''Running'')), s - 1),
      dc_PollingDelay = 1, dc_PollingDuration = 4\<rparr>"

theorem Wait_reads_witness:
  "\<exists>ps. list_all in_progress ps \<and> [Some ''Running'', Some ''Succeeded''] = ps @ [Some ''Succeeded'']"
  using Wait_reads [of ideal_wakes demo_client "''rg''" "''storage''" 1 "Ok ()" "[Some ''Running'', Some ''Succeeded'']" 0]
  by (simp add: Wait_def ideal_wakes_def eval_nat_numeral wait_call_def record_get_def demo_client_def traced_client_def provisioning_result_def in_progress_def)

text \<open>\<open>DeployTemplate\<close> returns nil only when the deployment succeeded: the create call and its future
  returned nil, or the create call met an active deployment and the wait for that one succeeded.\<close>

theorem DeployTemplate_success:
  "DeployTemplate clock c rg name template s = Some (Ok (), s') \<longleftrightarrow>
     CreateOrUpdateAndWait c rg name template s = (Ok (), s') \<or>
     (\<exists>e s1. CreateOrUpdateAndWait c rg name template s = (Err e, s1) \<and> IsDeploymentActiveError (Some e) \<and>
       Wait clock c rg name s1 = Some (Ok (), s'))"
proof -
  obtain r s1 where c: "CreateOrUpdateAndWait c rg name template s = (r, s1)" by fastforce
  show ?thesis
    using c by (cases r)
      (auto simp: DeployTemplate_def error_of_def IsDeploymentActiveError_def [of None] finish_deploy_Ok dest: deploy_error_Ok)
qed

text \<open>A failed deployment is reported as a cloud error with status 400 and code DeploymentFailed whose
  detail is JSON text that parses back to the service error, unless it is an authorization error,
  which is passed on unchanged.\<close>

theorem deploy_error_reported:
  assumes "service_error_of err = Some se" "json_wf (service_error_json se)"
    and "HasAuthorizationFailedError err = Ok False" "HasLinkedAuthorizationFailedError err = Ok False"
  shows "\<exists>m. deploy_error err = Err (CloudErr \<lparr>ce_status = 400,
       ce_body = Some (CloudBody ''DeploymentFailed'' ''Deployment failed.'' [] [CloudBody [] m [] []])\<rparr>) \<and>
     parse_json m = Some (service_error_json se)"
  using assms by (simp add: deploy_error_def deployment_failed_def parse_print)

definition demo_service_error :: service_error where
  "demo_service_error = \<lparr>se_code = ''Conflict'', se_message = ''quota'', se_target = None,
     se_details = Some [[(''code'', JStr ''QuotaExceeded'')]], se_inner = None, se_additional = None\<rparr>"

theorem deploy_error_reported_witness:
  "\<exists>m. deploy_error (Some (ServiceErr ''Conflict'' demo_service_error)) = Err (CloudErr \<lparr>ce_status = 400,
       ce_body = Some (CloudBody ''DeploymentFailed'' ''Deployment failed.'' [] [CloudBody [] m [] []])\<rparr>) \<and>
     parse_json m = Some (service_error_json demo_service_error)"
  using deploy_error_reported [of "Some (ServiceErr ''Conflict'' demo_service_error)" demo_service_error]
  by (simp add: service_error_of_def demo_service_error_def service_error_json_def map_json_def maps_json_def
      HasAuthorizationFailedError_def HasLinkedAuthorizationFailedError_def deploymentFailedDueToAuthError_def)

text \<open>The pointer that autorest's responder returns for a response with code DeploymentActive is not
  recognised as an active deployment: the conflict is returned to the caller and nothing waits.\<close>

theorem active_pointer_not_waited:
  assumes "CreateOrUpdateAndWait c rg name template s =
      (Err (DetailedErr t (Some (RequestErrPtr t' (Some se)))), s')" "se_code se = ''DeploymentActive''"
  shows "DeployTemplate clock c rg name template s =
     Some (Err (DetailedErr t (Some (RequestErrPtr t' (Some se)))), s')"
  using assms
  by (simp add: DeployTemplate_def error_of_def IsDeploymentActiveError_def deploy_error_def service_error_of_def
      HasAuthorizationFailedError_def HasLinkedAuthorizationFailedError_def deploymentFailedDueToAuthError_def
      original_has_code_def)

definition conflict_client :: "(nat, nat) deploymentsClient" where
  "conflict_client = demo_client\<lparr>dc_CreateOrUpdate := \<lambda>rg n t s.
     (Err (DetailedErr ''conflict'' (Some (RequestErrPtr ''conflict'' (Some (demo_service_error\<lparr>se_code := ''DeploymentActive''\<rparr>))))), s)\<rparr>"

theorem active_pointer_not_waited_witness:
  "DeployTemplate ideal_wakes conflict_client ''rg'' ''storage'' 0 5 =
     Some (Err (DetailedErr ''conflict'' (Some (RequestErrPtr ''conflict'' (Some (demo_service_error\<lparr>se_code := ''DeploymentActive''\<rparr>))))), 5)"
  using active_pointer_not_waited [of conflict_client "''rg''" "''storage''" 0 5 "''conflict''" "''conflict''"
      "demo_service_error\<lparr>se_code := ''DeploymentActive''\<rparr>" 5 ideal_wakes]
  by (simp add: conflict_client_def CreateOrUpdateAndWait_def and_wait_def)

end
