(* ===== verification/Base64.thy ===== *)
theory Base64
  imports Go_Errors
begin

text \<open>
  \<open>base64.StdEncoding\<close> of Go's encoding/base64, which the pull secret, the key vault secrets and the
  generated files go through: padded encoding, and decoding that skips carriage returns and line
  feeds and ignores the unused bits before the padding. The error value does not carry the offset
  that Go appends to its text.
\<close>

definition b64_char :: "nat \<Rightarrow> char" where
  "b64_char n =
     (if n < 26 then char_of (65 + n) else if n < 52 then char_of (71 + n)
      else if n < 62 then char_of (n - 4) else if n = 62 then CHR ''+'' else CHR ''/'')"

definition b64_val :: "char \<Rightarrow> nat option" where
  "b64_val c =
     (let n = of_char c in
      if 65 \<le> n \<and> n \<le> 90 then Some (n - 65)
      else if 97 \<le> n \<and> n \<le> 122 then Some (n - 71)
      else if 48 \<le> n \<and> n \<le> 57 then Some (n + 4)
      else if n = 43 then Some 62
      else if n = 47 then Some 63
      else None)"

abbreviation pad :: char where "pad \<equiv> CHR ''=''"

abbreviation code :: "char \<Rightarrow> nat" where "code \<equiv> of_char"

fun b64_encode :: "string \<Rightarrow> string" where
  "b64_encode [] = []"
| "b64_encode [a] = [b64_char (code a div 4), b64_char (code a mod 4 * 16), pad, pad]"
| "b64_encode [a, b] =
     [b64_char (code a div 4), b64_char (code a mod 4 * 16 + code b div 16), b64_char (code b mod 16 * 4), pad]"
| "b64_encode (a # b # c # r) =
     b64_char (code a div 4) # b64_char (code a mod 4 * 16 + code b div 16)
     # b64_char (code b mod 16 * 4 + code c div 64) # b64_char (code c mod 64) # b64_encode r"

definition byte1 :: "nat \<Rightarrow> nat \<Rightarrow> char" where "byte1 x y = char_of (x * 4 + y div 16)"
definition byte2 :: "nat \<Rightarrow> nat \<Rightarrow> char" where "byte2 y z = char_of (y mod 16 * 16 + z div 4)"
definition byte3 :: "nat \<Rightarrow> nat \<Rightarrow> char" where "byte3 z w = char_of (z mod 4 * 64 + w)"

fun b64_groups :: "string \<Rightarrow> string option" where
  "b64_groups [] = Some []"
| "b64_groups (a # b # c # d # r) =
     (case (b64_val a, b64_val b) of
        (Some x, Some y) \<Rightarrow>
          (if c = pad then (if d = pad \<and> r = [] then Some [byte1 x y] else None)
           else (case b64_val c of
              None \<Rightarrow> None
            | Some z \<Rightarrow>
                (if d = pad then (if r = [] then Some [byte1 x y, byte2 y z] else None)
                 else (case b64_val d of
                    None \<Rightarrow> None
                  | Some w \<Rightarrow> map_option (\<lambda>t. byte1 x y # byte2 y z # byte3 z w # t) (b64_groups r)))))
      | _ \<Rightarrow> None)"
| "b64_groups _ = None"

definition b64_decode :: "string \<Rightarrow> string result" where
  "b64_decode s =
     (case b64_groups (filter (\<lambda>c. code c \<noteq> 10 \<and> code c \<noteq> 13) s) of
        Some t \<Rightarrow> Ok t
      | None \<Rightarrow> Err (ErrMsg ''illegal base64 data''))"

section \<open>Round trip\<close>

lemma b64_val_char [simp]: "n < 64 \<Longrightarrow> b64_val (b64_char n) = Some n"
  by (simp add: b64_val_def b64_char_def Let_def; presburger)

lemma b64_char_not_pad [simp]: "n < 64 \<Longrightarrow> b64_char n \<noteq> pad"
  using b64_val_char [of n] by (auto simp: b64_val_def)

lemma b64_char_no_break [simp]: "n < 64 \<Longrightarrow> code (b64_char n) \<noteq> 10" "n < 64 \<Longrightarrow> code (b64_char n) \<noteq> 13"
  using b64_val_char [of n] by (auto simp: b64_val_def)

lemma code_lt [simp]: "code a < 256"
  by (rule nat_of_char_less_256)

lemma code_div [simp]: "code a div 4 < 64" "code a div 16 < 16" "code a div 64 < 4"
  using code_lt [of a] by (simp_all add: less_mult_imp_div_less del: code_lt)

lemma sextets [simp]:
  "code a mod 4 * 16 < 64" "code a mod 4 * 16 + code b div 16 < 64"
  "code b mod 16 * 4 < 64" "code b mod 16 * 4 + code c div 64 < 64" "code c mod 64 < 64"
proof -
  have "code a mod 4 < 4" "code b mod 16 < 16" "code b div 16 < 16" "code c div 64 < 4" by simp_all
  then show "code a mod 4 * 16 < 64" "code a mod 4 * 16 + code b div 16 < 64"
    "code b mod 16 * 4 < 64" "code b mod 16 * 4 + code c div 64 < 64" "code c mod 64 < 64"
    by linarith+
qed

lemma bytes_back [simp]:
  "byte1 (code a div 4) (code a mod 4 * 16 + code b div 16) = a"
  "byte2 (code a mod 4 * 16 + code b div 16) (code b mod 16 * 4 + code c div 64) = b"
  "byte3 (code b mod 16 * 4 + code c div 64) (code c mod 64) = c"
proof -
  have "(code a mod 4 * 16 + code b div 16) div 16 = code a mod 4" by simp
  then show "byte1 (code a div 4) (code a mod 4 * 16 + code b div 16) = a" by (simp add: byte1_def)
  have "(code a mod 4 * 16 + code b div 16) mod 16 = code b div 16" by simp
  moreover have "(code b mod 16 * 4 + code c div 64) div 4 = code b mod 16" by simp
  ultimately show "byte2 (code a mod 4 * 16 + code b div 16) (code b mod 16 * 4 + code c div 64) = b"
    by (simp add: byte2_def)
  have "(code b mod 16 * 4 + code c div 64) mod 4 = code c div 64" by simp
  then show "byte3 (code b mod 16 * 4 + code c div 64) (code c mod 64) = c" by (simp add: byte3_def)
qed

lemma bytes_last [simp]:
  "byte1 (code a div 4) (code a mod 4 * 16) = a"
  "byte2 (code a mod 4 * 16 + code b div 16) (code b mod 16 * 4) = b"
  using bytes_back(1) [of a "char_of (0::nat)"] bytes_back(2) [of a b "char_of (0::nat)"] by simp_all

lemma b64_groups_encode: "b64_groups (b64_encode s) = Some s"
  by (induction s rule: b64_encode.induct) simp_all

lemma b64_no_breaks: "filter (\<lambda>c. code c \<noteq> 10 \<and> code c \<noteq> 13) (b64_encode s) = b64_encode s"
  by (induction s rule: b64_encode.induct) simp_all

lemma b64_char_no_comma [simp]: "n < 64 \<Longrightarrow> b64_char n \<noteq> CHR '',''"
  using b64_val_char [of n] by (auto simp: b64_val_def)

lemma b64_no_comma: "CHR '','' \<notin> set (b64_encode s)"
proof (induction s rule: b64_encode.induct)
  case (2 a)
  then show ?case using b64_char_no_comma [of "code a div 4"] b64_char_no_comma [of "code a mod 4 * 16"] by (auto dest: sym)
next
  case (3 a b)
  then show ?case
    using b64_char_no_comma [of "code a div 4"] b64_char_no_comma [of "code a mod 4 * 16 + code b div 16"]
      b64_char_no_comma [of "code b mod 16 * 4"] by (auto dest: sym)
next
  case (4 a b c r)
  then show ?case
    using b64_char_no_comma [of "code a div 4"] b64_char_no_comma [of "code a mod 4 * 16 + code b div 16"]
      b64_char_no_comma [of "code b mod 16 * 4 + code c div 64"] b64_char_no_comma [of "code c mod 64"] by (auto dest: sym)
qed simp

theorem b64_round_trip: "b64_decode (b64_encode s) = Ok s"
  by (simp add: b64_decode_def b64_no_breaks b64_groups_encode)

end
