(* ===== verification/Azure_Clients.thy ===== *)
theory Azure_Clients
  imports Go_Errors
begin

text \<open>
  The loop of every list call under pkg/util/azureclient, which drains a pager. A remote call is a
  function on a state \<open>'s\<close>; a page is the list of its values, and a pager is done at an empty page.
\<close>

section \<open>Pagers\<close>

type_synonym ('a, 's) page_call = "'s \<Rightarrow> 'a list result \<times> 's"

text \<open>
  The loop of every list call. It ends when the service sends an empty page or an error; for a
  service that never does it is undefined, \<open>None\<close>.
\<close>

partial_function (option) page_loop ::
  "('s \<Rightarrow> 'a list result \<times> 's) \<Rightarrow> 'a list \<Rightarrow> 'a list \<Rightarrow> 's \<Rightarrow> ('a list result \<times> 's) option" where
  "page_loop next vs acc s =
     (if vs = [] then Some (Ok acc, s)
      else (case next s of
          (Ok vs', s') \<Rightarrow> page_loop next vs' (acc @ vs) s'
        | (Err e, s') \<Rightarrow> Some (Err e, s')
        | (Panic, s') \<Rightarrow> Some (Panic, s')))"

definition list_all_pages :: "('a, 's) page_call \<Rightarrow> ('a, 's) page_call \<Rightarrow> 's \<Rightarrow> ('a list result \<times> 's) option" where
  "list_all_pages first next s =
     (case first s of
        (Ok vs, s') \<Rightarrow> page_loop next vs [] s'
      | (Err e, s') \<Rightarrow> Some (Err e, s')
      | (Panic, s') \<Rightarrow> Some (Panic, s'))"

text \<open>A service whose state is the list of pages (or failures) it still has to send, and then empty ones.\<close>

fun send :: "('a, 'a list result list) page_call" where
  "send [] = (Ok [], [])"
| "send (p # ps) = (p, ps)"

text \<open>What the pages up to the first empty one amount to.\<close>

fun drain :: "'a list result list \<Rightarrow> 'a list result" where
  "drain [] = Ok []"
| "drain (Ok vs # ps) = (if vs = [] then Ok [] else andThen (drain ps) (\<lambda>ws. Ok (vs @ ws)))"
| "drain (r # ps) = r"

lemma page_loop_drain:
  "\<exists>ps'. page_loop send vs acc ps = Some (andThen (drain (Ok vs # ps)) (\<lambda>ws. Ok (acc @ ws)), ps')"
proof (induction ps arbitrary: vs acc)
  case Nil
  show ?case by (simp add: page_loop.simps)
next
  case (Cons p ps)
  show ?case
  proof (cases p)
    case (Ok ws)
    then show ?thesis
      using Cons.IH [of ws "acc @ vs"]
      by (subst page_loop.simps) (auto simp: andThen_assoc)
  qed (simp_all add: page_loop.simps)
qed

end
