(* ===== verification/Key_Vault.thy ===== *)
theory Key_Vault
  imports Base64 Steps
begin

text \<open>
  pkg/util/keyvault/keyvault.go: the manager over an Azure key vault. The vault client's calls are
  functions on a state \<open>'s\<close>. Pointers in the SDK's types are options; the code dereferences some of
  them without a test, which is a panic.
\<close>

section \<open>Data\<close>

record secret_item =
  si_ID :: "string option"
  si_Enabled :: "bool option"

datatype kv_error = KvError (kve_Code: "string option") (kve_Message: "string option") (kve_Inner: "kv_error option")

record certificate_operation =
  op_Status :: "string option"
  op_StatusDetails :: "string option"
  op_Error :: "kv_error option"

record certificate_params =
  cp_Exportable :: bool
  cp_KeyType :: string
  cp_KeySize :: nat
  cp_ContentType :: string
  cp_Subject :: string
  cp_Ekus :: "string list"
  cp_DNSNames :: "string list"
  cp_KeyUsage :: "string list"
  cp_ValidityInMonths :: nat
  cp_DaysBeforeExpiry :: nat
  cp_ActionType :: string
  cp_Issuer :: string

record 's kv_client =
  kv_CreateCertificate :: "string \<Rightarrow> string \<Rightarrow> certificate_params \<Rightarrow> 's \<Rightarrow> certificate_operation result \<times> 's"
  kv_DeleteCertificate :: "string \<Rightarrow> string \<Rightarrow> 's \<Rightarrow> unit result \<times> 's"
  kv_GetSecret :: "string \<Rightarrow> string \<Rightarrow> string \<Rightarrow> 's \<Rightarrow> string option result \<times> 's"
  kv_GetSecretVersions :: "string \<Rightarrow> string \<Rightarrow> 's \<Rightarrow> secret_item list result \<times> 's"
  kv_GetSecrets :: "string \<Rightarrow> 's \<Rightarrow> secret_item list result \<times> 's"
  kv_GetCertificateOperation :: "string \<Rightarrow> string \<Rightarrow> 's \<Rightarrow> certificate_operation result \<times> 's"
  kv_SetSecret :: "string \<Rightarrow> string \<Rightarrow> string \<Rightarrow> 's \<Rightarrow> unit result \<times> 's"

record 's kv_manager =
  km_kv :: "'s kv_client"
  km_uri :: string

section \<open>Certificates\<close>

definition getShortCommonName :: "string \<Rightarrow> string result" where
  "getShortCommonName commonName =
     (if 64 < length commonName then
        (case last_index commonName ''aroapp'' of
           None \<Rightarrow> Panic
         | Some i \<Rightarrow> Ok (''reserved.'' @ drop i commonName))
      else Ok commonName)"

text \<open>\<open>pkix.Name.String\<close> of a name with a common name only (RFC 2253 escapes).\<close>

definition rdn_special :: "char \<Rightarrow> bool" where
  "rdn_special c = (c \<in> {comma, CHR ''+'', CHR 0x22, CHR 0x5C, CHR ''<'', CHR ''>'', CHR '';''})"

fun rdn_escape :: "bool \<Rightarrow> string \<Rightarrow> string" where
  "rdn_escape first [] = []"
| "rdn_escape first (c # cs) =
     (if rdn_special c \<or> (c = CHR '' '' \<and> (first \<or> cs = [])) \<or> (c = CHR ''#'' \<and> first)
      then [CHR 0x5C, c] else [c]) @ rdn_escape False cs"

definition pkix_common_name :: "string \<Rightarrow> string" where
  "pkix_common_name cn = (if cn = [] then [] else ''CN='' @ rdn_escape True cn)"

primrec keyvaultError :: "kv_error \<Rightarrow> string" where
  "keyvaultError (KvError c m i) =
     (let s1 = (case c of None \<Rightarrow> [] | Some t \<Rightarrow> t);
          s2 = (case m of None \<Rightarrow> s1 | Some t \<Rightarrow> (if s1 \<noteq> [] then s1 @ '': '' else s1) @ t);
          inner = (case map_option keyvaultError i of None \<Rightarrow> [] | Some t \<Rightarrow> t)
      in if inner \<noteq> [] then (if s2 \<noteq> [] then s2 @ '': '' else s2) @ inner else s2)"

definition checkOperation :: "certificate_operation \<Rightarrow> bool result" where
  "checkOperation op =
     andThen (deref (op_Status op)) (\<lambda>status.
       if status = ''inProgress'' then Ok False
       else if status = ''completed'' then Ok True
       else
         let err = (case op_Error op of None \<Rightarrow> [] | Some e \<Rightarrow> keyvaultError e);
             err' = (case op_StatusDetails op of
                None \<Rightarrow> err | Some d \<Rightarrow> (if err \<noteq> [] then err @ '': '' else err) @ d)
         in Err (ErrMsg (''certificateOperation '' @ status @ '': '' @ err')))"

definition certificate_params_for :: "string \<Rightarrow> string \<Rightarrow> string \<Rightarrow> string \<Rightarrow> certificate_params" where
  "certificate_params_for issuer shortCommonName commonName eku =
     \<lparr>cp_Exportable = True, cp_KeyType = ''RSA'', cp_KeySize = 2048,
      cp_ContentType = ''application/x-pem-file'', cp_Subject = pkix_common_name shortCommonName,
      cp_Ekus = [eku], cp_DNSNames = [commonName],
      cp_KeyUsage = [''digitalSignature'', ''keyEncipherment''],
      cp_ValidityInMonths = 12, cp_DaysBeforeExpiry = 365 - 90, cp_ActionType = ''AutoRenew'',
      cp_Issuer = issuer\<rparr>"

definition CreateSignedCertificate ::
  "'s kv_manager \<Rightarrow> string \<Rightarrow> string \<Rightarrow> string \<Rightarrow> string \<Rightarrow> 's \<Rightarrow> unit result \<times> 's" where
  "CreateSignedCertificate m issuer name commonName eku s =
     st_bind (getShortCommonName commonName, s) (\<lambda>short s.
     st_bind (kv_CreateCertificate (km_kv m) (km_uri m) name (certificate_params_for issuer short commonName eku) s)
       (\<lambda>op s. (andThen (checkOperation op) (\<lambda>_. Ok ()), s)))"

definition EnsureCertificateDeleted :: "'s kv_manager \<Rightarrow> string \<Rightarrow> 's \<Rightarrow> unit result \<times> 's" where
  "EnsureCertificateDeleted m name s =
     (case kv_DeleteCertificate (km_kv m) (km_uri m) name s of
        (Err (DetailedErr t (Some (RequestErrPtr t' (Some se)))), s') \<Rightarrow>
          (if se_code se = ''CertificateNotFound'' then Ok ()
           else Err (DetailedErr t (Some (RequestErrPtr t' (Some se)))), s')
      | r \<Rightarrow> r)"

definition operation_call :: "'s kv_manager \<Rightarrow> string \<Rightarrow> 's cond" where
  "operation_call m name live s =
     st_bind (kv_GetCertificateOperation (km_kv m) (km_uri m) name s) (\<lambda>op s. (checkOperation op, s))"

definition WaitForCertificateOperation :: "clock \<Rightarrow> 's kv_manager \<Rightarrow> string \<Rightarrow> 's \<Rightarrow> (unit result \<times> 's) option" where
  "WaitForCertificateOperation clock m name s =
     (case clock (10 * second) (15 * minute) of
        (live, wakes) \<Rightarrow> poll_immediate (operation_call m name) live wakes s)"

section \<open>Secrets\<close>

text \<open>\<open>filepath.Base\<close>: trailing slashes are dropped, then the text after the last slash is taken.\<close>

definition path_base :: "string \<Rightarrow> string" where
  "path_base p =
     (if p = [] then ''.''
      else let q = rev (dropWhile (\<lambda>c. c = slash) (rev p))
           in if q = [] then [slash] else last (split_on slash q))"

definition GetBase64Secret :: "'s kv_manager \<Rightarrow> string \<Rightarrow> string \<Rightarrow> 's \<Rightarrow> string result \<times> 's" where
  "GetBase64Secret m name version s =
     st_bind (kv_GetSecret (km_kv m) (km_uri m) name version s) (\<lambda>value s.
       (andThen (deref value) b64_decode, s))"

fun secrets_of_versions ::
  "'s kv_manager \<Rightarrow> string \<Rightarrow> secret_item list \<Rightarrow> 's \<Rightarrow> string list result \<times> 's" where
  "secrets_of_versions m name [] s = (Ok [], s)"
| "secrets_of_versions m name (v # vs) s =
     st_bind (deref (si_Enabled v), s) (\<lambda>enabled s.
       if \<not> enabled then secrets_of_versions m name vs s
       else
         st_bind (deref (si_ID v), s) (\<lambda>ident s.
         st_bind (GetBase64Secret m name (path_base ident) s) (\<lambda>b s.
         st_bind (secrets_of_versions m name vs s) (\<lambda>bs s. (Ok (b # bs), s)))))"

definition GetBase64Secrets :: "'s kv_manager \<Rightarrow> string \<Rightarrow> 's \<Rightarrow> string list result \<times> 's" where
  "GetBase64Secrets m name s =
     st_bind (kv_GetSecretVersions (km_kv m) (km_uri m) name s) (\<lambda>versions s.
       secrets_of_versions m name versions s)"

definition GetSecret :: "'s kv_manager \<Rightarrow> string \<Rightarrow> 's \<Rightarrow> string option result \<times> 's" where
  "GetSecret m name s = kv_GetSecret (km_kv m) (km_uri m) name [] s"

definition GetSecrets :: "'s kv_manager \<Rightarrow> 's \<Rightarrow> secret_item list result \<times> 's" where
  "GetSecrets m s = kv_GetSecrets (km_kv m) (km_uri m) s"

definition SetSecret :: "'s kv_manager \<Rightarrow> string \<Rightarrow> string \<Rightarrow> 's \<Rightarrow> unit result \<times> 's" where
  "SetSecret m name value s = kv_SetSecret (km_kv m) (km_uri m) name value s"

text \<open>The call of the client is a parameter: no other operation needs it.\<close>

definition SetCertificateIssuer ::
  "(string \<Rightarrow> string \<Rightarrow> 'p \<Rightarrow> 's \<Rightarrow> 'b result \<times> 's) \<Rightarrow> 's kv_manager \<Rightarrow> string \<Rightarrow> 'p \<Rightarrow> 's \<Rightarrow> 'b result \<times> 's" where
  "SetCertificateIssuer call m issuerName parameters s = call (km_uri m) issuerName parameters s"

text \<open>\<open>uri.go\<close>: the vault's address from the prefix in the environment and the cloud's DNS suffix.\<close>

definition URI :: "(string \<Rightarrow> string option) \<Rightarrow> string \<Rightarrow> string \<Rightarrow> string result" where
  "URI env dns_suffix suf =
     (case env ''ARO_KEYVAULT_PREFIX'' of
        None \<Rightarrow> Err (ErrMsg (''environment variable '' @ quote_text ''ARO_KEYVAULT_PREFIX'' @ '' unset''))
      | Some pre \<Rightarrow> Ok (''https://'' @ pre @ suf @ ''.'' @ dns_suffix @ ''/''))"

section \<open>Lemmas\<close>

text \<open>The non-empty parts of an error, outermost first.\<close>

primrec error_parts :: "kv_error \<Rightarrow> string list" where
  "error_parts (KvError c m i) =
     (case c of None \<Rightarrow> [] | Some t \<Rightarrow> [t]) @ (case m of None \<Rightarrow> [] | Some t \<Rightarrow> [t]) @
     (case map_option error_parts i of None \<Rightarrow> [] | Some ts \<Rightarrow> ts)"

lemma join_nonempty: "[] \<notin> set ts \<Longrightarrow> ts \<noteq> [] \<Longrightarrow> join_with sep ts \<noteq> []"
  by (cases "(sep, ts)" rule: join_with.cases) auto

lemma keyvaultError_parts: "[] \<notin> set (error_parts e) \<Longrightarrow> keyvaultError e = join_with '': '' (error_parts e)"
proof (induction e)
  case (KvError c m i)
  show ?case
  proof (cases i)
    case None
    then show ?thesis using KvError.prems by (cases c; cases m) auto
  next
    case (Some e)
    have "[] \<notin> set (error_parts e)" using KvError.prems Some by auto
    then have IH: "keyvaultError e = join_with '': '' (error_parts e)" using KvError.IH Some by auto
    show ?thesis
    proof (cases "error_parts e")
      case Nil
      then show ?thesis using Some IH KvError.prems by (cases c; cases m) auto
    next
      case (Cons t ts)
      then have "join_with '': '' (error_parts e) \<noteq> []"
        using \<open>[] \<notin> set (error_parts e)\<close> by (intro join_nonempty) simp_all
      then show ?thesis using Some IH Cons KvError.prems by (cases c; cases m) auto
    qed
  qed
qed

text \<open>The versions that are read, when the calls succeed.\<close>

definition enabled_ids :: "secret_item list \<Rightarrow> string list" where
  "enabled_ids vs = map (\<lambda>v. path_base (the (si_ID v))) (filter (\<lambda>v. si_Enabled v = Some True) vs)"

lemma secrets_of_versions_pure:
  assumes "\<And>ver s. GetBase64Secret m name ver s = (Ok (secret ver), s)"
    and "\<And>v. v \<in> set vs \<Longrightarrow> si_Enabled v \<noteq> None \<and> si_ID v \<noteq> None"
  shows "secrets_of_versions m name vs s = (Ok (map secret (enabled_ids vs)), s)"
  using assms(2)
proof (induction vs)
  case (Cons v vs)
  then have "secrets_of_versions m name vs s = (Ok (map secret (enabled_ids vs)), s)" by simp
  moreover obtain b ident where "si_Enabled v = Some b" "si_ID v = Some ident" using Cons.prems [of v] by auto
  ultimately show ?case by (cases b) (simp_all add: assms(1) enabled_ids_def)
qed (simp add: enabled_ids_def)

lemma length_drop_last_index: "last_index s sub = Some i \<Longrightarrow> \<exists>p. drop i s = sub @ p"
  using last_index_Some by (fastforce simp: prefix_def)

section \<open>Properties\<close>

text \<open>A common name of at most 64 bytes is used as it is. A longer one is replaced by the reserved
  name in the base domain that starts at its last aroapp; without an aroapp in it the slice
  expression has the bound -1 and the call panics.\<close>

theorem short_common_name:
  "(case getShortCommonName cn of
      Ok s \<Rightarrow> (length cn \<le> 64 \<and> s = cn) \<or>
        (64 < length cn \<and> (\<exists>p q. cn = p @ ''aroapp'' @ q \<and> s = ''reserved.aroapp'' @ q \<and> \<not> contains q ''aroapp''))
    | Err e \<Rightarrow> False
    | Panic \<Rightarrow> 64 < length cn \<and> \<not> contains cn ''aroapp'')"
proof (cases "64 < length cn")
  case True
  show ?thesis
  proof (cases "last_index cn ''aroapp''")
    case (Some i)
    then obtain q where q: "drop i cn = ''aroapp'' @ q" using length_drop_last_index by blast
    then have eq: "cn = take i cn @ ''aroapp'' @ q" by (metis append_take_drop_id)
    have "\<not> contains q ''aroapp''"
      using last_index_rest [OF Some _ q] by simp
    then show ?thesis using True Some q eq by (auto simp: getShortCommonName_def)
  qed (use True in \<open>simp add: getShortCommonName_def contains_def\<close>)
qed (simp add: getShortCommonName_def)

text \<open>The text of a nested key vault error whose strings are not empty is the list of its codes and
  messages, outermost first, joined by a colon and a space.\<close>

theorem keyvaultError_joined:
  assumes "[] \<notin> set (error_parts e)"
  shows "keyvaultError e = join_with '': '' (error_parts e)"
  using assms by (rule keyvaultError_parts)

theorem keyvaultError_joined_witness:
  "keyvaultError (KvError (Some ''Forbidden'') None (Some (KvError None (Some ''policy'') None))) = ''Forbidden: policy''"
  using keyvaultError_joined [of "KvError (Some ''Forbidden'') None (Some (KvError None (Some ''policy'') None))"]
  by simp

text \<open>\<open>GetBase64Secrets\<close> returns the decoded values of exactly the enabled versions, in the order the
  vault lists them, when every version has its attributes and every value is base64.\<close>

theorem base64_secrets_enabled:
  assumes "\<And>s. kv_GetSecretVersions (km_kv m) (km_uri m) name s = (Ok vs, s)"
    and "\<And>ver s. kv_GetSecret (km_kv m) (km_uri m) name ver s = (Ok (Some (b64_encode (secret ver))), s)"
    and "\<forall>v \<in> set vs. si_Enabled v \<noteq> None \<and> si_ID v \<noteq> None"
  shows "GetBase64Secrets m name s = (Ok (map secret (enabled_ids vs)), s)"
proof -
  have "GetBase64Secret m name ver s = (Ok (secret ver), s)" for ver s
    using assms(2) by (simp add: GetBase64Secret_def b64_round_trip)
  then show ?thesis
    using assms(1,3) secrets_of_versions_pure [of m name secret vs s]
    by (simp add: GetBase64Secrets_def)
qed

definition demo_vault :: "unit kv_manager" where
  "demo_vault = \<lparr>km_kv =
     \<lparr>kv_CreateCertificate = \<lambda>u n p s. (Err Canceled, s), kv_DeleteCertificate = \<lambda>u n s. (Ok (), s),
      kv_GetSecret = \<lambda>u n ver s. (Ok (Some (b64_encode (''key of '' @ ver))), s),
      kv_GetSecretVersions = \<lambda>u n s. (Ok [\<lparr>si_ID = Some ''https://v/secrets/k/1'', si_Enabled = Some True\<rparr>,
         \<lparr>si_ID = Some ''https://v/secrets/k/2'', si_Enabled = Some False\<rparr>], s),
      kv_GetSecrets = \<lambda>u s. (Ok [], s), kv_GetCertificateOperation = \<lambda>u n s. (Err Canceled, s),
      kv_SetSecret = \<lambda>u n v s. (Ok (), s)\<rparr>, km_uri = ''https://v''\<rparr>"

theorem base64_secrets_enabled_witness: "GetBase64Secrets demo_vault ''k'' () = (Ok [''key of 1''], ())"
  using base64_secrets_enabled [of demo_vault "''k''"
      "[\<lparr>si_ID = Some ''https://v/secrets/k/1'', si_Enabled = Some True\<rparr>,
        \<lparr>si_ID = Some ''https://v/secrets/k/2'', si_Enabled = Some False\<rparr>]" "\<lambda>ver. ''key of '' @ ver" "()"]
  by (simp add: demo_vault_def enabled_ids_def path_base_def del: not_None_eq b64_encode.simps)

end
