(* ===== verification/Encryption.thy ===== *)
theory Encryption
  imports Key_Vault
begin

text \<open>
  pkg/util/encryption: authenticated encryption of what the wrapper stores. The ciphers (etm,
  chacha20poly1305) and their constructors are parameters; the wrappers around them, the choice of a
  key by \<open>multi\<close> and its construction from the key vault are modelled. The source of randomness is
  the string of bytes still to be read from it.
\<close>

section \<open>The AEADs\<close>

record cipher =
  ci_nonce_size :: nat
  ci_seal :: "string \<Rightarrow> string \<Rightarrow> string"
  ci_open :: "string \<Rightarrow> string \<Rightarrow> string result"

datatype aead = Aes256Sha512 cipher | XChaCha20Poly1305 cipher | Multi (sealer: aead) (openers: "aead list")

text \<open>\<open>io.ReadFull\<close> into a nonce.\<close>

definition read_full :: "nat \<Rightarrow> string \<Rightarrow> string result \<times> string" where
  "read_full n r =
     (if n \<le> length r then (Ok (take n r), drop n r)
      else if r = [] then (Err (ErrMsg ''EOF''), [])
      else (Err (ErrMsg ''unexpected EOF''), []))"

definition too_short :: go_error where "too_short = ErrMsg ''encrypted value too short''"

definition aes_Open :: "cipher \<Rightarrow> string \<Rightarrow> string result" where
  [simp]: "aes_Open c input = (if length input < 32 then Err too_short else ci_open c [] input)"

definition aes_Seal :: "cipher \<Rightarrow> string \<Rightarrow> string \<Rightarrow> string result \<times> string" where
  [simp]: "aes_Seal c input r = st_bind (read_full (ci_nonce_size c) r) (\<lambda>nonce r. (Ok (ci_seal c nonce input), r))"

definition xchacha_Open :: "cipher \<Rightarrow> string \<Rightarrow> string result" where
  [simp]: "xchacha_Open c input =
     (if length input < ci_nonce_size c then Err too_short
      else ci_open c (take (ci_nonce_size c) input) (drop (ci_nonce_size c) input))"

definition xchacha_Seal :: "cipher \<Rightarrow> string \<Rightarrow> string \<Rightarrow> string result \<times> string" where
  [simp]: "xchacha_Seal c input r = st_bind (read_full (ci_nonce_size c) r) (\<lambda>nonce r. (Ok (nonce @ ci_seal c nonce input), r))"

fun aead_open :: "aead \<Rightarrow> string \<Rightarrow> string result"
  and open_any :: "aead list \<Rightarrow> string \<Rightarrow> go_error option \<Rightarrow> string result" where
  "aead_open (Aes256Sha512 c) input = aes_Open c input"
| "aead_open (XChaCha20Poly1305 c) input = xchacha_Open c input"
| "aead_open (Multi sl ops) input = open_any ops input None"
| "open_any [] input err = (case err of None \<Rightarrow> Ok [] | Some e \<Rightarrow> Err e)"
| "open_any (a # as) input err =
     (case aead_open a input of
        Ok b \<Rightarrow> Ok b
      | Err e \<Rightarrow> open_any as input (Some e)
      | Panic \<Rightarrow> Panic)"

fun aead_seal :: "aead \<Rightarrow> string \<Rightarrow> string \<Rightarrow> string result \<times> string" where
  "aead_seal (Aes256Sha512 c) input r = aes_Seal c input r"
| "aead_seal (XChaCha20Poly1305 c) input r = xchacha_Seal c input r"
| "aead_seal (Multi sl ops) input r = aead_seal sl input r"

section \<open>Construction\<close>

definition NewAES256SHA512 :: "(string \<Rightarrow> cipher result) \<Rightarrow> string \<Rightarrow> aead result" where
  "NewAES256SHA512 etm_new key = andThen (etm_new key) (\<lambda>c. Ok (Aes256Sha512 c))"

definition NewXChaCha20Poly1305 :: "(string \<Rightarrow> cipher result) \<Rightarrow> string \<Rightarrow> aead result" where
  "NewXChaCha20Poly1305 chacha_new key = andThen (chacha_new key) (\<lambda>c. Ok (XChaCha20Poly1305 c))"

definition NewMulti ::
  "(string \<Rightarrow> cipher result) \<Rightarrow> (string \<Rightarrow> cipher result) \<Rightarrow> 's kv_manager \<Rightarrow> string \<Rightarrow> string \<Rightarrow> 's \<Rightarrow> aead result \<times> 's" where
  "NewMulti etm_new chacha_new kv secretName legacySecretName s =
     st_bind (GetBase64Secret kv secretName [] s) (\<lambda>key s.
     st_bind (NewAES256SHA512 etm_new key, s) (\<lambda>sl s.
     st_bind (GetBase64Secrets kv secretName s) (\<lambda>keys s.
     st_bind (mapOk (NewAES256SHA512 etm_new) keys, s) (\<lambda>as s.
     st_bind (GetBase64Secrets kv legacySecretName s) (\<lambda>legacy s.
     st_bind (mapOk (NewXChaCha20Poly1305 chacha_new) legacy, s) (\<lambda>bs s.
       (Ok (Multi sl (as @ bs)), s)))))))"

section \<open>The contract\<close>

text \<open>What a client of an AEAD relies on: a well-formed one opens what it sealed.\<close>

locale aead_contract =
  fixes wf :: "'a \<Rightarrow> bool"
    and unseal :: "'a \<Rightarrow> string \<Rightarrow> string result"
    and seal :: "'a \<Rightarrow> string \<Rightarrow> string \<Rightarrow> string result \<times> string"
  assumes open_seal: "wf a \<Longrightarrow> seal a x r = (Ok c, r') \<Longrightarrow> unseal a c = Ok x"
begin

lemma seal_injective: "wf a \<Longrightarrow> seal a x r = (Ok c, r') \<Longrightarrow> seal a y q = (Ok c, q') \<Longrightarrow> x = y"
  using open_seal [of a x r c r'] open_seal [of a y q c q'] by simp

text \<open>A document sealed for storage is read back.\<close>

lemma sealed_text:
  assumes "wf a" "seal a (show t) r = (Ok c, r')" "parse (show t) = Some t"
  shows "\<exists>b. unseal a c = Ok b \<and> parse b = Some t"
  using assms open_seal by auto

end

definition aes_ok :: "cipher \<Rightarrow> bool" where
  "aes_ok c = (\<forall>n x. length n = ci_nonce_size c \<longrightarrow>
     32 \<le> length (ci_seal c n x) \<and> ci_open c [] (ci_seal c n x) = Ok x)"

definition xchacha_ok :: "cipher \<Rightarrow> bool" where
  "xchacha_ok c = (\<forall>n x. length n = ci_nonce_size c \<longrightarrow> ci_open c n (ci_seal c n x) = Ok x)"

text \<open>An AEAD that refuses everything another one seals.\<close>

definition rejects :: "aead \<Rightarrow> aead \<Rightarrow> bool" where
  "rejects p a = (\<forall>x r c r'. aead_seal a x r = (Ok c, r') \<longrightarrow> (\<exists>e. aead_open p c = Err e))"

lemma rejectsD: "rejects p a \<Longrightarrow> aead_seal a x r = (Ok c, r') \<Longrightarrow> \<exists>e. aead_open p c = Err e"
  unfolding rejects_def by (elim allE, drule mp)

fun lawful :: "aead \<Rightarrow> bool" where
  "lawful (Aes256Sha512 c) = aes_ok c"
| "lawful (XChaCha20Poly1305 c) = xchacha_ok c"
| "lawful (Multi sl ops) = (lawful sl \<and> (\<exists>pre post. ops = pre @ sl # post \<and> (\<forall>p \<in> set pre. rejects p sl)))"

lemma read_full_Ok: "read_full n r = (Ok b, r') \<Longrightarrow> length b = n"
  by (auto simp: read_full_def split: if_splits)

lemma open_any_first:
  "(\<And>p. p \<in> set pre \<Longrightarrow> \<exists>e. aead_open p c = Err e) \<Longrightarrow> aead_open a c = Ok x \<Longrightarrow>
    open_any (pre @ a # post) c err = Ok x"
proof (induction pre arbitrary: err)
  case (Cons p pre)
  then obtain e where "aead_open p c = Err e" by force
  with Cons show ?case by simp
qed simp

interpretation aead: aead_contract lawful aead_open aead_seal
proof
  fix a x r c r'
  assume "lawful a" "aead_seal a x r = (Ok c, r')"
  then show "aead_open a c = Ok x"
  proof (induction a arbitrary: c)
    case (Aes256Sha512 ci)
    then obtain n where n: "length n = ci_nonce_size ci" "c = ci_seal ci n x"
      by (auto simp: outcome_simps dest!: read_full_Ok)
    then have "32 \<le> length c" "ci_open ci [] c = Ok x" using Aes256Sha512 by (simp_all add: aes_ok_def)
    then show ?case by simp
  next
    case (XChaCha20Poly1305 ci)
    then obtain n where "length n = ci_nonce_size ci" "c = n @ ci_seal ci n x"
      by (auto simp: outcome_simps dest!: read_full_Ok)
    then show ?case using XChaCha20Poly1305 by (auto simp: xchacha_ok_def)
  next
    case (Multi sl ops)
    then obtain pre post where ops: "ops = pre @ sl # post" "\<forall>p \<in> set pre. rejects p sl" by auto
    have "aead_open sl c = Ok x" using Multi by simp
    moreover have "\<exists>e. aead_open p c = Err e" if "p \<in> set pre" for p
      using ops(2) that Multi.prems(2) rejectsD [of p sl x r c r'] by simp
    ultimately show ?case using ops(1) open_any_first by simp
  qed
qed

lemma NewMulti_value:
  assumes "\<And>s. GetBase64Secret kv secretName [] s = (Ok key, s)"
    and "\<And>s. GetBase64Secrets kv secretName s = (Ok keys, s)"
    and "\<And>s. GetBase64Secrets kv legacy s = (Ok legacy_keys, s)"
    and "\<And>k. k \<in> insert key (set keys) \<Longrightarrow> etm_new k = Ok (etm k)"
    and "\<And>k. k \<in> set legacy_keys \<Longrightarrow> chacha_new k = Ok (chacha k)"
  shows "NewMulti etm_new chacha_new kv secretName legacy s =
    (Ok (Multi (Aes256Sha512 (etm key)) (map (Aes256Sha512 \<circ> etm) keys @ map (XChaCha20Poly1305 \<circ> chacha) legacy_keys)), s)"
proof -
  have "mapOk (NewAES256SHA512 etm_new) keys = Ok (map (Aes256Sha512 \<circ> etm) keys)"
    using assms(4) by (intro mapOk_total) (simp add: NewAES256SHA512_def)
  moreover have "mapOk (NewXChaCha20Poly1305 chacha_new) legacy_keys = Ok (map (XChaCha20Poly1305 \<circ> chacha) legacy_keys)"
    using assms(5) by (intro mapOk_total) (simp add: NewXChaCha20Poly1305_def)
  moreover have "NewAES256SHA512 etm_new key = Ok (Aes256Sha512 (etm key))"
    using assms(4) [of key] by (simp add: NewAES256SHA512_def)
  ultimately show ?thesis using assms(1-3) by (simp add: NewMulti_def)
qed

lemma open_any_listed:
  assumes "k \<in> set keys" "lawful (f k)" "\<And>j. j \<in> set keys \<Longrightarrow> j \<noteq> k \<Longrightarrow> rejects (f j) (f k)"
    and "aead_seal (f k) x r = (Ok c, r')"
  shows "open_any (map f keys @ rest) c err = Ok x"
proof -
  obtain pre post where keys: "keys = pre @ k # post" "k \<notin> set pre" using assms(1) by (metis split_list_first)
  have "aead_open (f k) c = Ok x" using assms(2,4) by (rule aead.open_seal)
  moreover have "\<exists>e. aead_open p c = Err e" if "p \<in> set (map f pre)" for p
  proof -
    from that obtain j where j: "j \<in> set pre" "p = f j" by auto
    then have "rejects (f j) (f k)" using keys assms(3) [of j] by auto
    then show ?thesis using rejectsD assms(4) j(2) by simp
  qed
  ultimately show ?thesis
    using open_any_first [of "map f pre" c "f k" x "map f post @ rest" err] by (simp add: keys(1))
qed

section \<open>Properties\<close>

text \<open>C31: Key rotation. The AEAD built from the key vault opens everything sealed with any key that is
  still listed under the secret's name, if the cipher of every key is correct and rejects what another
  key sealed. It seals with the latest key, exactly as that key's cipher does; so, if the latest key is
  listed, it opens everything that it seals itself.\<close>

theorem multi_opens_rotated:
  assumes "\<And>s. GetBase64Secret kv secretName [] s = (Ok key, s)"
    and "\<And>s. GetBase64Secrets kv secretName s = (Ok keys, s)"
    and "\<And>s. GetBase64Secrets kv legacy s = (Ok legacy_keys, s)"
    and "\<And>k. k \<in> insert key (set keys) \<Longrightarrow> etm_new k = Ok (etm k)"
    and "\<And>k. k \<in> set legacy_keys \<Longrightarrow> chacha_new k = Ok (chacha k)"
    and "\<And>j. j \<in> set keys \<Longrightarrow> aes_ok (etm j)"
    and "\<And>i j. i \<in> set keys \<Longrightarrow> j \<in> set keys \<Longrightarrow> i \<noteq> j \<Longrightarrow> rejects (Aes256Sha512 (etm i)) (Aes256Sha512 (etm j))"
    and "NewMulti etm_new chacha_new kv secretName legacy s = (Ok m, s')"
    and "k \<in> set keys" "aead_seal (Aes256Sha512 (etm k)) x r = (Ok c, r')"
  shows "aead_open m c = Ok x \<and> (\<forall>y q. aead_seal m y q = aead_seal (Aes256Sha512 (etm key)) y q)
    \<and> (key \<in> set keys \<longrightarrow> (\<forall>y q c' q'. aead_seal m y q = (Ok c', q') \<longrightarrow> aead_open m c' = Ok y))"
proof -
  have m: "m = Multi (Aes256Sha512 (etm key)) (map (Aes256Sha512 \<circ> etm) keys @ map (XChaCha20Poly1305 \<circ> chacha) legacy_keys)"
    using NewMulti_value [OF assms(1-5)] assms(8) by simp
  have opens: "aead_open m c' = Ok y" if "j \<in> set keys" "aead_seal (Aes256Sha512 (etm j)) y q = (Ok c', q')" for j y q c' q'
    unfolding m aead_open.simps
    by (rule open_any_listed [where f = "Aes256Sha512 \<circ> etm" and k = j])
      (use assms(6,7) that in auto)
  have seals: "aead_seal m y q = aead_seal (Aes256Sha512 (etm key)) y q" for y q
    unfolding m by simp
  show ?thesis
  proof (intro conjI allI impI)
    show "aead_open m c = Ok x" by (rule opens [OF assms(9,10)])
    show "aead_seal m y q = aead_seal (Aes256Sha512 (etm key)) y q" for y q by (rule seals)
    show "aead_open m c' = Ok y" if "key \<in> set keys" "aead_seal m y q = (Ok c', q')" for y q c' q'
      using opens [OF that(1)] that(2) unfolding seals by blast
  qed
qed

text \<open>A cipher for the witness: the key and 32 bytes of tag in front of the text.\<close>

definition tag_cipher :: "string \<Rightarrow> cipher" where
  "tag_cipher k = \<lparr>ci_nonce_size = 0, ci_seal = \<lambda>n x. replicate 32 (CHR ''t'') @ k @ CHR '':'' # x,
     ci_open = \<lambda>n y. if prefix (replicate 32 (CHR ''t'') @ k @ '':'') y
       then Ok (drop (33 + length k) y) else Err (ErrMsg ''message authentication failed'')\<rparr>"

lemma tag_cipher_ok: "aes_ok (tag_cipher k)"
  by (simp add: aes_ok_def tag_cipher_def prefix_def)

definition no_legacy_vault :: "unit kv_manager" where
  "no_legacy_vault = demo_vault\<lparr>km_kv := (km_kv demo_vault)\<lparr>kv_GetSecret := \<lambda>u n ver s. (Ok (Some (b64_encode ''k'')), s),
     kv_GetSecretVersions := \<lambda>u n s. (if n = ''aes'' then Ok [\<lparr>si_ID = Some ''1'', si_Enabled = Some True\<rparr>] else Ok [], s)\<rparr>\<rparr>"

lemma no_legacy_vault_simps:
  "GetBase64Secret no_legacy_vault ''aes'' ver s = (Ok ''k'', s)"
  "GetBase64Secrets no_legacy_vault ''aes'' s = (Ok [''k''], s)"
  "GetBase64Secrets no_legacy_vault ''legacy'' s = (Ok [], s)"
  by (simp_all add: GetBase64Secret_def GetBase64Secrets_def no_legacy_vault_def demo_vault_def b64_round_trip
      del: b64_encode.simps)

theorem multi_opens_rotated_witness:
  "\<exists>m. NewMulti (\<lambda>k. Ok (tag_cipher k)) (\<lambda>k. Ok (tag_cipher k)) no_legacy_vault ''aes'' ''legacy'' () = (Ok m, ())
     \<and> aead_open m (replicate 32 (CHR ''t'') @ ''k:graph'') = Ok ''graph''
     \<and> aead_seal m ''text'' [] = (Ok (replicate 32 (CHR ''t'') @ ''k:text''), [])"
proof -
  have built: "NewMulti (\<lambda>k. Ok (tag_cipher k)) (\<lambda>k. Ok (tag_cipher k)) no_legacy_vault ''aes'' ''legacy'' () =
    (Ok (Multi (Aes256Sha512 (tag_cipher ''k'')) [Aes256Sha512 (tag_cipher ''k'')]), ())"
    by (simp add: NewMulti_def no_legacy_vault_simps NewAES256SHA512_def)
  have sealed: "aead_seal (Aes256Sha512 (tag_cipher ''k'')) x [] = (Ok (replicate 32 (CHR ''t'') @ ''k:'' @ x), [])" for x
    by (simp add: tag_cipher_def read_full_def)
  let ?m = "Multi (Aes256Sha512 (tag_cipher ''k'')) [Aes256Sha512 (tag_cipher ''k'')]"
  have "aead_open ?m (replicate 32 (CHR ''t'') @ ''k:'' @ ''graph'') = Ok ''graph''
     \<and> (\<forall>y q. aead_seal ?m y q = aead_seal (Aes256Sha512 (tag_cipher ''k'')) y q)
     \<and> (''k'' \<in> set [''k''] \<longrightarrow> (\<forall>y q c' q'. aead_seal ?m y q = (Ok c', q') \<longrightarrow> aead_open ?m c' = Ok y))"
    by (rule multi_opens_rotated [of no_legacy_vault "''aes''" "''k''" "[''k'']" "''legacy''" "[]"
          "\<lambda>k. Ok (tag_cipher k)" tag_cipher "\<lambda>k. Ok (tag_cipher k)" tag_cipher "()" _ "()" "''k''" "''graph''" "[]" _ "[]", OF _ _ _ _ _ _ _ built])
      (simp_all add: no_legacy_vault_simps tag_cipher_ok sealed del: aead_seal.simps)
  then show ?thesis using built sealed [of "''text''"] by (intro exI [of _ ?m] conjI) (simp_all only: append.simps)
qed

text \<open>An opener list that is empty opens every input, to no bytes and without an error; any other list
  returns the text of its first success or the error of its last opener.\<close>

theorem multi_open_result:
  assumes "\<forall>a \<in> set ops. aead_open a c \<noteq> Panic"
  shows "aead_open (Multi sl ops) c =
    (case filter isOk (map (\<lambda>a. aead_open a c) ops) of
       r # _ \<Rightarrow> r
     | [] \<Rightarrow> if ops = [] then Ok [] else aead_open (last ops) c)"
proof -
  have "open_any ops c err =
    (case filter isOk (map (\<lambda>a. aead_open a c) ops) of
       r # _ \<Rightarrow> r
     | [] \<Rightarrow> if ops = [] then (case err of None \<Rightarrow> Ok [] | Some e \<Rightarrow> Err e) else aead_open (last ops) c)" for err
    using assms
  proof (induction ops arbitrary: err)
    case (Cons a ops)
    then show ?case
      by (cases "aead_open a c") (auto split: list.splits)
  qed simp
  then show ?thesis by simp
qed

theorem multi_open_result_witness: "aead_open (Multi (Aes256Sha512 (tag_cipher [])) []) ''anything'' = Ok []"
  using multi_open_result [of "[]" "''anything''" "Aes256Sha512 (tag_cipher [])"] by simp

end
