(* ===== verification/Storage.thy ===== *)
theory Storage
  imports Key_Vault
begin

text \<open>
  Access to the cluster's storage account: pkg/util/storage/manager.go and the blobs client of
  pkg/util/azureclient/azuresdk/azblob. The storage service is a parameter: functions on a state
  \<open>'s\<close>; what the code relies on is collected in \<open>blob_laws\<close>.
\<close>

section \<open>The blobs client\<close>

record 's blobs_client =
  bc_GetProperties :: "string \<Rightarrow> string \<Rightarrow> 's \<Rightarrow> unit result \<times> 's"
  bc_DownloadStream :: "string \<Rightarrow> string \<Rightarrow> 's \<Rightarrow> string result \<times> 's"
  bc_UploadBuffer :: "string \<Rightarrow> string \<Rightarrow> string \<Rightarrow> 's \<Rightarrow> unit result \<times> 's"
  bc_DeleteContainer :: "string \<Rightarrow> 's \<Rightarrow> unit result \<times> 's"

definition BlobExists :: "'s blobs_client \<Rightarrow> string \<Rightarrow> string \<Rightarrow> 's \<Rightarrow> bool result \<times> 's" where
  "BlobExists c container blob s =
     (case bc_GetProperties c container blob s of
        (Ok u, s') \<Rightarrow> (Ok True, s')
      | (Err e, s') \<Rightarrow>
          (if has_error_code [''BlobNotFound'', ''ContainerNotFound'', ''ResourceNotFound'', ''CannotVerifyCopySource''] e
           then Ok False else Err e, s')
      | (Panic, s') \<Rightarrow> (Panic, s'))"

definition DeleteContainer :: "'s blobs_client \<Rightarrow> string \<Rightarrow> 's \<Rightarrow> unit result \<times> 's" where
  "DeleteContainer c container s =
     (case bc_DeleteContainer c container s of
        (Err e, s') \<Rightarrow> (if has_error_code [''ContainerNotFound'', ''ResourceNotFound''] e then Ok () else Err e, s')
      | r \<Rightarrow> r)"

section \<open>manager.go\<close>

definition throttled_message :: string where
  "throttled_message =
     ''Requests are being throttled due to Azure Storage limits being exceeded. Please visit https://learn.microsoft.com/en-us/azure/openshift/troubleshoot#exceeding-azure-storage-limits for more details.''"

definition getCorrectErrWhenTooManyRequests :: "go_error \<Rightarrow> go_error" where
  "getCorrectErrWhenTooManyRequests err =
     (case err of
        ResponseErr t status c \<Rightarrow>
          if status \<noteq> 429 then err
          else CloudErr \<lparr>ce_status = 429,
            ce_body = Some (CloudBody ''ThrottlingLimitExceeded'' ''ThrottlingLimitExceeded'' []
              [CloudBody [] throttled_message [] []])\<rparr>
      | _ \<Rightarrow> err)"

text \<open>\<open>url.ParseQuery\<close>: the first error of a piece with a semicolon or a malformed escape.\<close>

definition is_hex :: "char \<Rightarrow> bool" where "is_hex c = (hex_val c \<noteq> None)"

fun bad_escape :: "string \<Rightarrow> string option" where
  "bad_escape [] = None"
| "bad_escape (c # cs) =
     (if c = CHR ''%'' then
        (case cs of
           a # b # r \<Rightarrow> if is_hex a \<and> is_hex b then bad_escape r else Some (take 3 (c # cs))
         | _ \<Rightarrow> Some (c # cs))
      else bad_escape cs)"

definition query_piece_error :: "string \<Rightarrow> go_error option" where
  "query_piece_error p =
     (if p = [] then None
      else if CHR '';'' \<in> set p then Some (ErrMsg ''invalid semicolon separator in query'')
      else
        let key = takeWhile (\<lambda>c. c \<noteq> CHR ''='') p; val = tl (dropWhile (\<lambda>c. c \<noteq> CHR ''='') p) in
        (case bad_escape key of
           Some x \<Rightarrow> Some (ErrMsg (''invalid URL escape '' @ quote_text x))
         | None \<Rightarrow> map_option (\<lambda>x. ErrMsg (''invalid URL escape '' @ quote_text x)) (bad_escape val)))"

definition ParseQuery :: "string \<Rightarrow> go_error option" where
  "ParseQuery q =
     (case List.map_filter query_piece_error (split_on (CHR ''&'') q) of [] \<Rightarrow> None | e # _ \<Rightarrow> Some e)"

text \<open>
  The account client lists a SAS token behind a pointer; the constructors of the SDK's blob client
  take the service URL with Entra credentials or the URL with the token.
\<close>

record ('c, 's) storage_manager =
  sm_ListAccountSAS :: "string \<Rightarrow> string \<Rightarrow> string \<Rightarrow> string \<Rightarrow> 's \<Rightarrow> string option result \<times> 's"
  sm_NewUsingEntra :: "string \<Rightarrow> 'c result"
  sm_NewUsingSAS :: "string \<Rightarrow> 'c result"
  sm_usesWorkloadIdentity :: bool
  sm_storageEndpointSuffix :: string

definition BlobService ::
  "('c, 's) storage_manager \<Rightarrow> string \<Rightarrow> string \<Rightarrow> string \<Rightarrow> string \<Rightarrow> 's \<Rightarrow> 'c result \<times> 's" where
  "BlobService m resourceGroup account perms types s =
     (let serviceURL = ''https://'' @ account @ ''.blob.'' @ sm_storageEndpointSuffix m in
      if sm_usesWorkloadIdentity m then (sm_NewUsingEntra m serviceURL, s)
      else
        (case sm_ListAccountSAS m resourceGroup account perms types s of
           (Err e, s') \<Rightarrow> (Err (getCorrectErrWhenTooManyRequests e), s')
         | (Panic, s') \<Rightarrow> (Panic, s')
         | (Ok token, s') \<Rightarrow>
             (andThen (deref token) (\<lambda>t.
              andThen (failWith (ParseQuery t)) (\<lambda>_.
              sm_NewUsingSAS m (serviceURL @ ''/?'' @ t))), s')))"

section \<open>What the service promises\<close>

text \<open>
  The content of a blob as far as it is known: an upload that succeeds sets it, and no call changes
  another blob; a download returns it, and the properties are found exactly when there is a blob.
\<close>

definition blob_laws :: "('s \<Rightarrow> string \<Rightarrow> string \<Rightarrow> string option) \<Rightarrow> 's blobs_client \<Rightarrow> bool" where
  "blob_laws content c \<longleftrightarrow>
     (\<forall>k b d s s'. bc_UploadBuffer c k b d s = (Ok (), s') \<longrightarrow> content s' k b = Some d) \<and>
     (\<forall>k b d s r s' k' b'. bc_UploadBuffer c k b d s = (r, s') \<longrightarrow> (k', b') \<noteq> (k, b) \<longrightarrow> content s' k' b' = content s k' b') \<and>
     (\<forall>k b s x s'. bc_DownloadStream c k b s = (Ok x, s') \<longrightarrow> content s k b = Some x) \<and>
     (\<forall>k b s r s'. bc_DownloadStream c k b s = (r, s') \<longrightarrow> content s' = content s) \<and>
     (\<forall>k b s r s'. bc_GetProperties c k b s = (r, s') \<longrightarrow> content s' = content s) \<and>
     (\<forall>k b s s'. bc_GetProperties c k b s = (Ok (), s') \<longrightarrow> content s k b \<noteq> None) \<and>
     (\<forall>k b s e s'. bc_GetProperties c k b s = (Err e, s') \<longrightarrow>
        has_error_code [''BlobNotFound'', ''ContainerNotFound'', ''ResourceNotFound'', ''CannotVerifyCopySource''] e \<longrightarrow>
        content s k b = None)"

lemma blob_uploaded: "blob_laws content c \<Longrightarrow> bc_UploadBuffer c k b d s = (Ok (), s') \<Longrightarrow> content s' k b = Some d"
  unfolding blob_laws_def by metis

lemma blob_other:
  "blob_laws content c \<Longrightarrow> bc_UploadBuffer c k b d s = (r, s') \<Longrightarrow> (k', b') \<noteq> (k, b) \<Longrightarrow> content s' k' b' = content s k' b'"
  unfolding blob_laws_def by metis

lemma blob_downloaded:
  "blob_laws content c \<Longrightarrow> bc_DownloadStream c k b s = (Ok x, s') \<Longrightarrow> content s k b = Some x \<and> content s' = content s"
  unfolding blob_laws_def by metis

lemma blob_properties:
  assumes "blob_laws content c" "bc_GetProperties c k b s = (r, s')"
  shows "content s' = content s" "r = Ok u \<Longrightarrow> content s k b \<noteq> None"
    "r = Err e \<Longrightarrow> has_error_code [''BlobNotFound'', ''ContainerNotFound'', ''ResourceNotFound'', ''CannotVerifyCopySource''] e \<Longrightarrow>
      content s k b = None"
proof -
  note laws = assms(1) [unfolded blob_laws_def]
  show "content s' = content s" using laws [THEN conjunct2, THEN conjunct2, THEN conjunct2, THEN conjunct2, THEN conjunct1] assms(2) by simp
  show "content s k b \<noteq> None" if "r = Ok u"
    using laws [THEN conjunct2, THEN conjunct2, THEN conjunct2, THEN conjunct2, THEN conjunct2, THEN conjunct1, rule_format, of k b s s'] assms(2) that by simp
  show "content s k b = None"
    if "r = Err e" "has_error_code [''BlobNotFound'', ''ContainerNotFound'', ''ResourceNotFound'', ''CannotVerifyCopySource''] e"
    using laws [THEN conjunct2, THEN conjunct2, THEN conjunct2, THEN conjunct2, THEN conjunct2, THEN conjunct2, rule_format, of k b s e s'] assms(2) that by simp
qed

lemma BlobExists_sound:
  assumes "blob_laws content c" "BlobExists c k b s = (Ok e, s')"
  shows "content s' = content s \<and> e = (content s k b \<noteq> None)"
proof -
  obtain r s1 where g: "bc_GetProperties c k b s = (r, s1)" by fastforce
  note p = blob_properties [OF assms(1) g]
  show ?thesis
    using assms(2) g p by (cases r) (auto simp: BlobExists_def split: if_splits)
qed

section \<open>A store in memory\<close>

text \<open>The reference instance of the laws: a map from container and blob to content.\<close>

type_synonym memory = "string \<times> string \<Rightarrow> string option"

definition memory_client :: "memory blobs_client" where
  "memory_client =
     \<lparr>bc_GetProperties = \<lambda>k b s. (if s (k, b) = None then Err (ResponseErr ''not found'' 404 ''BlobNotFound'') else Ok (), s),
      bc_DownloadStream = \<lambda>k b s. (case s (k, b) of None \<Rightarrow> Err (ResponseErr ''not found'' 404 ''BlobNotFound'') | Some d \<Rightarrow> Ok d, s),
      bc_UploadBuffer = \<lambda>k b d s. (Ok (), s((k, b) \<mapsto> d)),
      bc_DeleteContainer = \<lambda>k s. (Ok (), \<lambda>(k', b). if k' = k then None else s (k', b))\<rparr>"

lemma memory_client_laws: "blob_laws (\<lambda>s k b. s (k, b)) memory_client"
  unfolding blob_laws_def memory_client_def by (auto split: option.splits if_splits)

section \<open>Properties\<close>

text \<open>Getting the blob service. With workload identity no SAS token is requested. Otherwise the
  service is reached at the account's URL with the token listed, throttling (status 429) comes back as the
  cloud error with code ThrottlingLimitExceeded, every other error of the listing unchanged, and a
  missing token is a nil dereference.\<close>

theorem blob_service_outcomes:
  assumes "\<not> sm_usesWorkloadIdentity m" "sm_ListAccountSAS m rg acc p t s = (r, s')"
  shows "BlobService m rg acc p t s =
    ((case r of
        Err (ResponseErr x status c) \<Rightarrow>
          (if status = 429
           then Err (CloudErr \<lparr>ce_status = 429, ce_body = Some (CloudBody ''ThrottlingLimitExceeded''
             ''ThrottlingLimitExceeded'' [] [CloudBody [] throttled_message [] []])\<rparr>)
           else Err (ResponseErr x status c))
      | Err e \<Rightarrow> Err e
      | Panic \<Rightarrow> Panic
      | Ok None \<Rightarrow> Panic
      | Ok (Some token) \<Rightarrow>
          (case ParseQuery token of
             Some e \<Rightarrow> Err e
           | None \<Rightarrow> sm_NewUsingSAS m (''https://'' @ acc @ ''.blob.'' @ sm_storageEndpointSuffix m @ ''/?'' @ token))), s')"
proof (cases r)
  case (Ok tok)
  then show ?thesis using assms
    by (cases tok) (simp_all add: BlobService_def Let_def split: option.splits)
next
  case (Err e)
  then show ?thesis using assms
    by (cases e) (simp_all add: BlobService_def Let_def getCorrectErrWhenTooManyRequests_def)
qed (use assms in \<open>simp add: BlobService_def Let_def\<close>)

definition throttled_storage :: "(unit, unit) storage_manager" where
  "throttled_storage = \<lparr>sm_ListAccountSAS = \<lambda>rg acc p t s. (Err (ResponseErr ''slow down'' 429 ''TooManyRequests''), s),
     sm_NewUsingEntra = \<lambda>u. Ok (), sm_NewUsingSAS = \<lambda>u. Ok (), sm_usesWorkloadIdentity = False,
     sm_storageEndpointSuffix = ''core.windows.net''\<rparr>"

theorem blob_service_outcomes_witness:
  "BlobService throttled_storage ''rg'' ''cluster1'' ''r'' ''o'' () =
     (Err (CloudErr \<lparr>ce_status = 429, ce_body = Some (CloudBody ''ThrottlingLimitExceeded''
        ''ThrottlingLimitExceeded'' [] [CloudBody [] throttled_message [] []])\<rparr>), ())"
  using blob_service_outcomes [of throttled_storage "''rg''" "''cluster1''" "''r''" "''o''" "()"
      "Err (ResponseErr ''slow down'' 429 ''TooManyRequests'')" "()"]
  by (simp add: throttled_storage_def)

end
