(* ===== verification/Resource_Ids.thy ===== *)
theory Resource_Ids
  imports Go_Errors
begin

text \<open>
  Resource identifiers and the tables looked up by them: pkg/util/stringutils, pkg/util/subnet,
  pkg/util/azureclient (apiversions.go, environments.go) and pkg/util/version.
\<close>

section \<open>Tokens\<close>

definition LastTokenByte :: "string \<Rightarrow> char \<Rightarrow> string" where
  "LastTokenByte s sep = (case last_index_byte s sep of None \<Rightarrow> s | Some i \<Rightarrow> drop (i + 1) s)"

lemma LastTokenByte_append: "sep \<notin> set t \<Longrightarrow> LastTokenByte (s @ sep # t) sep = t"
proof -
  assume t: "sep \<notin> set t"
  have "last_index_byte (s @ sep # t) sep = Some (length s)"
  proof (induction s)
    case Nil
    then show ?case using t last_index_byte_None [of t sep] by (cases "last_index_byte t sep") auto
  qed simp
  then show ?thesis by (simp add: LastTokenByte_def)
qed

lemma LastTokenByte_free: "sep \<notin> set s \<Longrightarrow> LastTokenByte s sep = s"
  using last_index_byte_None [of s sep] by (cases "last_index_byte s sep") (auto simp: LastTokenByte_def)

lemma LastTokenByte_last: "LastTokenByte s sep = last (split_on sep s)"
proof (cases "sep \<in> set s")
  case True
  then obtain a t where s: "s = a @ sep # t" "sep \<notin> set t" by (metis split_list_last)
  have "split_on sep (a @ sep # t) = split_on sep a @ [t]"
    using s(2)
  proof (induction a)
    case (Cons x a)
    then show ?case by (cases "split_on sep a") auto
  qed (simp add: split_on_noocc)
  then show ?thesis using s LastTokenByte_append by simp
qed (simp add: LastTokenByte_free split_on_noocc)

section \<open>Subnets\<close>

definition Split :: "string \<Rightarrow> (string \<times> string) result" where
  "Split subnetID =
     (let parts = split_on slash subnetID in
      if length parts \<noteq> 11
      then Err (ErrMsg (''subnet ID '' @ quote_text subnetID @ '' has incorrect length''))
      else Ok (join_with [slash] (take (length parts - 2) parts), last parts))"

section \<open>API versions\<close>

definition apiVersions :: "(string, string) gomap" where
  "apiVersions =
     [(''microsoft.authorization'', ''2018-09-01-preview''),
      (''microsoft.authorization/denyassignments'', ''2018-07-01-preview''),
      (''microsoft.authorization/roledefinitions'', ''2018-01-01-preview''),
      (''microsoft.compute'', ''2020-12-01''),
      (''microsoft.compute/disks'', ''2019-03-01''),
      (''microsoft.compute/snapshots'', ''2020-05-01''),
      (''microsoft.compute/diskencryptionsets'', ''2021-04-01''),
      (''microsoft.containerregistry'', ''2020-11-01-preview''),
      (''microsoft.documentdb'', ''2021-01-15''),
      (''microsoft.insights'', ''2018-03-01''),
      (''microsoft.keyvault'', ''2019-09-01''),
      (''microsoft.managedidentity'', ''2018-11-30''),
      (''microsoft.network'', ''2020-08-01''),
      (''microsoft.network/dnszones'', ''2018-05-01''),
      (''microsoft.network/privatednszones'', ''2018-09-01''),
      (''microsoft.storage'', ''2019-04-01'')]"

text \<open>The loop drops one path segment at a time; it ends because the text gets shorter.\<close>

function version_loop :: "(string, string) gomap \<Rightarrow> string \<Rightarrow> string" where
  "version_loop vs t =
     (case sm_get vs t of
        Some v \<Rightarrow> v
      | None \<Rightarrow> (case last_index_byte t slash of None \<Rightarrow> [] | Some i \<Rightarrow> version_loop vs (take i t)))"
  by pat_completeness auto
termination
  by (relation "measure (\<lambda>(vs, t). length t)") (auto dest: last_index_byte_Some)

declare version_loop.simps [simp del]

definition APIVersion :: "string \<Rightarrow> string" where
  "APIVersion typ = version_loop apiVersions (to_lower typ)"

text \<open>Specification: the version of the longest prefix, in whole segments, that the table has.\<close>

definition segment_prefixes :: "string \<Rightarrow> string list" where
  "segment_prefixes t = map (\<lambda>n. join_with [slash] (take n (split_on slash t))) (rev [1..<Suc (length (split_on slash t))])"

lemma version_step:
  "last_index_byte t slash = Some i \<Longrightarrow> t = take i t @ slash # drop (Suc i) t \<and> slash \<notin> set (drop (Suc i) t)"
  using last_index_byte_Some [of t slash i] by (metis id_take_nth_drop)

lemma split_snoc: "slash \<notin> set b \<Longrightarrow> split_on slash (a @ slash # b) = split_on slash a @ [b]"
proof (induction a)
  case (Cons x a)
  then show ?case by (cases "split_on slash a") auto
qed (simp add: split_on_noocc)

lemma segment_prefixes_step:
  "slash \<notin> set b \<Longrightarrow> segment_prefixes (a @ slash # b) = (a @ slash # b) # segment_prefixes a"
proof -
  assume b: "slash \<notin> set b"
  let ?P = "split_on slash a"
  have full: "join_with [slash] (?P @ [b]) = a @ slash # b"
    using join_with_append [of ?P "[b]" "[slash]"] join_split [of slash a] by simp
  have "map (\<lambda>n. join_with [slash] (take n (?P @ [b]))) (rev [1..<Suc (length ?P)])
      = map (\<lambda>n. join_with [slash] (take n ?P)) (rev [1..<Suc (length ?P)])"
    by (rule map_cong) auto
  then show ?thesis using b full by (simp add: segment_prefixes_def split_snoc)
qed

lemma segment_prefixes_base: "slash \<notin> set t \<Longrightarrow> segment_prefixes t = [t]"
  by (simp add: segment_prefixes_def split_on_noocc)

lemma version_loop_prefixes:
  "version_loop vs t = (case List.map_filter (sm_get vs) (segment_prefixes t) of v # _ \<Rightarrow> v | [] \<Rightarrow> [])"
proof (induction vs t rule: version_loop.induct)
  case (1 vs t)
  show ?case
  proof (cases "last_index_byte t slash")
    case None
    then have "segment_prefixes t = [t]" using segment_prefixes_base last_index_byte_None by blast
    then show ?thesis using None by (subst version_loop.simps) (simp split: option.splits)
  next
    case (Some i)
    then have "segment_prefixes t = t # segment_prefixes (take i t)"
      using version_step [OF Some] segment_prefixes_step by metis
    then show ?thesis using Some 1
      by (subst version_loop.simps) (simp split: option.splits)
  qed
qed

section \<open>Clouds\<close>

record environment =
  env_Name :: string
  env_ActiveDirectoryEndpoint :: string
  env_ResourceManagerEndpoint :: string
  env_ContainerRegistryDNSSuffix :: string
  env_StorageEndpointSuffix :: string
  env_KeyVaultDNSSuffix :: string
  env_ActualCloudName :: string
  env_GenevaMonitoringEndpoint :: string
  env_AppSuffix :: string
  env_ResourceManagerScope :: string
  env_KeyVaultScope :: string
  env_ActiveDirectoryGraphScope :: string
  env_Cloud :: string

definition PublicCloud :: environment where
  "PublicCloud = \<lparr>env_Name = ''AzurePublicCloud'',
     env_ActiveDirectoryEndpoint = ''https://login.microsoftonline.com/'',
     env_ResourceManagerEndpoint = ''https://management.azure.com/'',
     env_ContainerRegistryDNSSuffix = ''azurecr.io'',
     env_StorageEndpointSuffix = ''core.windows.net'', env_KeyVaultDNSSuffix = ''vault.azure.net'',
     env_ActualCloudName = ''AzureCloud'',
     env_GenevaMonitoringEndpoint = ''https://gcs.prod.monitoring.core.windows.net/'',
     env_AppSuffix = ''aro.azure.com'',
     env_ResourceManagerScope = ''https://management.azure.com/'' @ ''/.default'',
     env_KeyVaultScope = ''https://vault.azure.net'' @ ''/.default'',
     env_ActiveDirectoryGraphScope = ''https://graph.windows.net/'' @ ''/.default'', env_Cloud = ''AzurePublic''\<rparr>"

definition USGovernmentCloud :: environment where
  "USGovernmentCloud = \<lparr>env_Name = ''AzureUSGovernmentCloud'',
     env_ActiveDirectoryEndpoint = ''https://login.microsoftonline.us/'',
     env_ResourceManagerEndpoint = ''https://management.usgovcloudapi.net/'',
     env_ContainerRegistryDNSSuffix = ''azurecr.us'',
     env_StorageEndpointSuffix = ''core.usgovcloudapi.net'', env_KeyVaultDNSSuffix = ''vault.usgovcloudapi.net'',
     env_ActualCloudName = ''AzureUSGovernment'',
     env_GenevaMonitoringEndpoint = ''https://gcs.monitoring.core.usgovcloudapi.net/'',
     env_AppSuffix = ''aro.azure.us'',
     env_ResourceManagerScope = ''https://management.usgovcloudapi.net/'' @ ''/.default'',
     env_KeyVaultScope = ''https://vault.usgovcloudapi.net'' @ ''/.default'',
     env_ActiveDirectoryGraphScope = ''https://graph.windows.net/'' @ ''/.default'', env_Cloud = ''AzureGovernment''\<rparr>"

definition EnvironmentFromName :: "string \<Rightarrow> environment result" where
  "EnvironmentFromName name =
     (if to_upper name = ''AZUREPUBLICCLOUD'' then Ok PublicCloud
      else if to_upper name = ''AZUREUSGOVERNMENTCLOUD'' then Ok USGovernmentCloud
      else Err (ErrMsg (''cloud environment '' @ quote_text name @ '' is unsupported by ARO'')))"

text \<open>The options for the SDK's clients and credentials: the cloud, and whether the chain is sent.\<close>

record client_options =
  co_Cloud :: string

record credential_options = client_options +
  co_SendCertificateChain :: bool

definition ClientCertificateCredentialOptions :: "environment \<Rightarrow> credential_options" where
  "ClientCertificateCredentialOptions e = \<lparr>co_Cloud = env_Cloud e, co_SendCertificateChain = True\<rparr>"

definition ClientSecretCredentialOptions :: "environment \<Rightarrow> client_options" where
  "ClientSecretCredentialOptions e = \<lparr>co_Cloud = env_Cloud e\<rparr>"

definition EnvironmentCredentialOptions :: "environment \<Rightarrow> client_options" where
  "EnvironmentCredentialOptions e = \<lparr>co_Cloud = env_Cloud e\<rparr>"

definition ManagedIdentityCredentialOptions :: "environment \<Rightarrow> client_options" where
  "ManagedIdentityCredentialOptions e = \<lparr>co_Cloud = env_Cloud e\<rparr>"

definition ArmClientOptions :: "environment \<Rightarrow> client_options" where
  "ArmClientOptions e = \<lparr>co_Cloud = env_Cloud e\<rparr>"

section \<open>Images\<close>

definition FluentbitImage :: "string \<Rightarrow> string" where
  "FluentbitImage acrDomain =
     acrDomain @ ''/fluentbit:4.0.4-cm20250701@sha256:72e56529c56b43eb6e375807dc1924b24705138ec3f3788c8a6cdf7c4ad36e63''"

definition MdsdImage :: "string \<Rightarrow> string" where
  "MdsdImage acrDomain =
     acrDomain @ ''/distroless/genevamdsd:mariner_20250225.2@sha256:da59ef7cfe3b0b9b6b453930cc629605cf3528ed11dbb88cdc50a38633198add''"

lemma length_two: "length xs = 2 \<Longrightarrow> \<exists>a b. xs = [a, b]"
  by (cases xs; cases "tl xs") auto

section \<open>Properties\<close>

text \<open>\<open>APIVersion\<close> terminates on every type and returns the version of its longest prefix, in whole
  path segments and without regard to case, that the table has; the empty text if it has none.\<close>

theorem APIVersion_longest_prefix:
  "APIVersion typ =
    (case List.map_filter (sm_get apiVersions) (segment_prefixes (to_lower typ)) of v # _ \<Rightarrow> v | [] \<Rightarrow> [])"
  by (simp add: APIVersion_def version_loop_prefixes)

text \<open>\<open>Split\<close> of a subnet ID accepts exactly the identifiers of eleven segments and splits off the
  last two: the network's identifier, the segment that is dropped, and the subnet's name put
  together again give the input.\<close>

theorem subnet_split_round_trip:
  "(case Split s of
      Ok (vnet, name) \<Rightarrow> \<exists>t. split_on slash s = split_on slash vnet @ [t, name] \<and> s = vnet @ slash # t @ slash # name
        \<and> length (split_on slash vnet) = 9
    | Err e \<Rightarrow> count_list s slash \<noteq> 10
    | Panic \<Rightarrow> False)"
proof (cases "length (split_on slash s) = 11")
  case True
  let ?P = "split_on slash s"
  obtain vs t n where P: "?P = vs @ [t, n]" "length vs = 9"
  proof -
    have "length (drop 9 ?P) = 2" "length (take 9 ?P) = 9" using True by simp_all
    then obtain t n where "drop 9 ?P = [t, n]" using length_two by blast
    then show thesis using that [of "take 9 ?P" t n] \<open>length (take 9 ?P) = 9\<close>
      by (metis append_take_drop_id)
  qed
  have free: "\<And>x. x \<in> set vs \<Longrightarrow> slash \<notin> set x" using split_on_free [of _ slash s] P by auto
  have vs: "split_on slash (join_with [slash] vs) = vs" using P(2) free by (intro split_join) auto
  have "s = join_with [slash] (vs @ [t, n])" using join_split [of slash s] P by simp
  also have "\<dots> = join_with [slash] vs @ slash # t @ slash # n"
    using P(2) join_with_append [of vs "[t, n]" "[slash]"] by (cases vs) auto
  finally show ?thesis using True P vs by (auto simp: Split_def Let_def)
next
  case False
  then show ?thesis by (simp add: Split_def Let_def length_split_on)
qed

end
