(* ===== verification/Asset_Graph.thy ===== *)
theory Asset_Graph
  imports Encryption Storage Resource_Ids
begin

text \<open>
  The graph of installer assets (pkg/cluster/graph/graph.go), its persisted form
  (persistedgraph.go), its storage next to the bootstrap ignition (manager.go) and the step that
  persists it (pkg/installer/graph.go). A graph maps the name of an asset's type to the asset; what
  an asset depends on, how it is generated and how it is encoded belong to the OpenShift installer
  and are parameters.
\<close>

section \<open>Resolution\<close>

type_synonym 'a graph = "(string, 'a) gomap"

record 'a assets =
  as_deps :: "string \<Rightarrow> string list"
  as_generate :: "string \<Rightarrow> 'a graph \<Rightarrow> 'a result"

abbreviation graph_Get :: "'a graph \<Rightarrow> string \<Rightarrow> 'a option" where
  "graph_Get \<equiv> sm_get"

definition graph_Set :: "(string \<times> 'a) list \<Rightarrow> 'a graph \<Rightarrow> 'a graph" where
  "graph_Set as g = fold (\<lambda>(k, v). sm_put k v) as g"

text \<open>
  \<open>Resolve\<close> recurses through \<open>Dependencies\<close>; the first argument bounds the depth of the recursion, and
  \<open>None\<close> is a recursion deeper than that. The graph is a Go map shared by the calls: what was
  resolved before an error stays in it.
\<close>

function Resolve :: "nat \<Rightarrow> 'a assets \<Rightarrow> string \<Rightarrow> 'a graph \<Rightarrow> (unit result \<times> 'a graph) option"
  and Resolve_deps :: "nat \<Rightarrow> 'a assets \<Rightarrow> string list \<Rightarrow> 'a graph \<Rightarrow> (unit result \<times> 'a graph) option" where
  "Resolve 0 A a g = None"
| "Resolve (Suc k) A a g =
     (if graph_Get g a \<noteq> None then Some (Ok (), g)
      else
        (case Resolve_deps k A (as_deps A a) g of
           None \<Rightarrow> None
         | Some (r, g') \<Rightarrow>
             (case r of
                Ok u \<Rightarrow>
                  (case as_generate A a g' of
                     Ok v \<Rightarrow> Some (Ok (), graph_Set [(a, v)] g')
                   | Err e \<Rightarrow> Some (Err e, g')
                   | Panic \<Rightarrow> Some (Panic, g'))
              | _ \<Rightarrow> Some (r, g'))))"
| "Resolve_deps k A [] g = Some (Ok (), g)"
| "Resolve_deps k A (d # ds) g =
     (case Resolve k A d g of
        None \<Rightarrow> None
      | Some (r, g') \<Rightarrow> (case r of Ok u \<Rightarrow> Resolve_deps k A ds g' | _ \<Rightarrow> Some (r, g')))"
  by pat_completeness auto
termination
  by (relation "measures [\<lambda>x. case x of Inl (k, _) \<Rightarrow> k | Inr (k, _) \<Rightarrow> k,
       \<lambda>x. case x of Inl _ \<Rightarrow> 0 | Inr (_, _, ds, _) \<Rightarrow> Suc (length ds)]") auto

text \<open>
  What a call may do to the graph: nothing that was there changes; what is new is an asset that was
  asked for or that one depends on, generated from parents that had all its dependencies.
\<close>

definition grows :: "'a assets \<Rightarrow> 'a graph \<Rightarrow> 'a graph \<Rightarrow> bool" where
  "grows A g g' \<longleftrightarrow>
     (\<forall>x v. sm_get g x = Some v \<longrightarrow> sm_get g' x = Some v) \<and>
     (\<forall>x v. sm_get g x = None \<longrightarrow> sm_get g' x = Some v \<longrightarrow>
        (\<exists>p. as_generate A x p = Ok v \<and> (\<forall>d \<in> set (as_deps A x). sm_get p d \<noteq> None) \<and>
             (\<forall>y w. sm_get p y = Some w \<longrightarrow> sm_get g' y = Some w)))"

lemma grows_refl [simp]: "grows A g g"
  by (simp add: grows_def)

lemma grows_mono: "grows A g g' \<Longrightarrow> sm_get g x = Some v \<Longrightarrow> sm_get g' x = Some v"
  by (simp add: grows_def)

lemma grows_new:
  "grows A g g' \<Longrightarrow> sm_get g x = None \<Longrightarrow> sm_get g' x = Some v \<Longrightarrow>
    \<exists>p. as_generate A x p = Ok v \<and> (\<forall>d \<in> set (as_deps A x). sm_get p d \<noteq> None) \<and>
      (\<forall>y w. sm_get p y = Some w \<longrightarrow> sm_get g' y = Some w)"
  by (simp add: grows_def)

lemma grows_trans:
  assumes "grows A g1 g2" "grows A g2 g3"
  shows "grows A g1 g3"
  unfolding grows_def
proof (intro conjI allI impI)
  fix x v assume "sm_get g1 x = Some v"
  then show "sm_get g3 x = Some v" using assms by (meson grows_mono)
next
  fix x v assume n: "sm_get g1 x = None" and s: "sm_get g3 x = Some v"
  show "\<exists>p. as_generate A x p = Ok v \<and> (\<forall>d \<in> set (as_deps A x). sm_get p d \<noteq> None) \<and>
      (\<forall>y w. sm_get p y = Some w \<longrightarrow> sm_get g3 y = Some w)"
  proof (cases "sm_get g2 x")
    case None
    then show ?thesis using grows_new [OF assms(2) _ s] by simp
  next
    case (Some w)
    then have "w = v" using grows_mono [OF assms(2) Some] s by simp
    then obtain p where "as_generate A x p = Ok v" "\<forall>d \<in> set (as_deps A x). sm_get p d \<noteq> None"
      "\<forall>y w. sm_get p y = Some w \<longrightarrow> sm_get g2 y = Some w"
      using grows_new [OF assms(1) n] Some by metis
    then show ?thesis using grows_mono [OF assms(2)] by metis
  qed
qed

lemma grows_put:
  "sm_get g a = None \<Longrightarrow> as_generate A a g = Ok v \<Longrightarrow> (\<forall>d \<in> set (as_deps A a). sm_get g d \<noteq> None) \<Longrightarrow>
    grows A g (graph_Set [(a, v)] g)"
  unfolding grows_def graph_Set_def by (auto simp: sm_get_put)

text \<open>Dependencies are ranked: the graph of asset types has no cycle.\<close>

definition ranked :: "(string \<Rightarrow> nat) \<Rightarrow> 'a assets \<Rightarrow> bool" where
  "ranked rk A = (\<forall>a. \<forall>d \<in> set (as_deps A a). rk d < rk a)"

definition new_below :: "(string \<Rightarrow> nat) \<Rightarrow> nat \<Rightarrow> 'a graph \<Rightarrow> 'a graph \<Rightarrow> bool" where
  "new_below rk n g g' = (\<forall>x. sm_get g x = None \<longrightarrow> sm_get g' x \<noteq> None \<longrightarrow> rk x < n)"

lemma new_below_refl [simp]: "new_below rk n g g"
  by (simp add: new_below_def)

lemma new_below_trans: "new_below rk n g1 g2 \<Longrightarrow> new_below rk n g2 g3 \<Longrightarrow> new_below rk n g1 g3"
  unfolding new_below_def by metis

lemma new_below_le: "new_below rk n g g' \<Longrightarrow> n \<le> m \<Longrightarrow> new_below rk m g g'"
  unfolding new_below_def by (meson order_less_le_trans)

lemma new_below_put: "rk a < n \<Longrightarrow> new_below rk n g g' \<Longrightarrow> new_below rk n g (graph_Set [(a, v)] g')"
  unfolding new_below_def by (auto simp: graph_Set_def sm_get_put split: if_splits)

definition resolved :: "'a assets \<Rightarrow> (string \<Rightarrow> nat) \<Rightarrow> nat \<Rightarrow> string list \<Rightarrow> 'a graph \<Rightarrow> unit result \<Rightarrow> 'a graph \<Rightarrow> bool" where
  "resolved A rk n ds g r g' \<longleftrightarrow> grows A g g' \<and> new_below rk n g g' \<and>
     (r = Ok () \<longrightarrow> (\<forall>d \<in> set ds. sm_get g' d \<noteq> None)) \<and> (sm_invar g \<longrightarrow> sm_invar g')"

lemma resolved_generated:
  assumes "resolved A rk (rk a) (as_deps A a) g (Ok ()) g1" "sm_get g a = None" "as_generate A a g1 = Ok v"
  shows "resolved A rk (Suc (rk a)) [a] g (Ok ()) (graph_Set [(a, v)] g1)"
proof -
  have "sm_get g1 a = None" using assms(1,2) unfolding resolved_def new_below_def by (metis less_irrefl)
  then have "grows A g1 (graph_Set [(a, v)] g1)"
    using assms(1,3) by (intro grows_put) (auto simp: resolved_def)
  then have "grows A g (graph_Set [(a, v)] g1)" using assms(1) grows_trans by (auto simp: resolved_def)
  moreover have "new_below rk (Suc (rk a)) g (graph_Set [(a, v)] g1)"
    using assms(1) new_below_le [of rk "rk a" g g1 "Suc (rk a)"]
    by (intro new_below_put) (simp_all add: resolved_def)
  ultimately show ?thesis
    using assms(1) by (auto simp: resolved_def graph_Set_def sm_get_put sm_invar_put)
qed

lemma resolved_weaken:
  "resolved A rk n ds g r g' \<Longrightarrow> n \<le> m \<Longrightarrow> r \<noteq> Ok () \<Longrightarrow> resolved A rk m es g r g'"
  by (auto simp: resolved_def intro: new_below_le)

lemma Resolve_resolved:
  "ranked rk A \<Longrightarrow> Resolve k A a g = Some (r, g') \<Longrightarrow> resolved A rk (Suc (rk a)) [a] g r g'"
  "ranked rk A \<Longrightarrow> Resolve_deps k A ds g = Some (r, g') \<Longrightarrow> \<forall>d \<in> set ds. rk d < n \<Longrightarrow> resolved A rk n ds g r g'"
proof (induction k A a g and k A ds g arbitrary: r g' and r g' n rule: Resolve_Resolve_deps.induct)
  case (2 k A a g)
  show ?case
  proof (cases "graph_Get g a")
    case None
    with "2.prems" obtain r1 g1 where d: "Resolve_deps k A (as_deps A a) g = Some (r1, g1)"
      by (auto split: option.splits)
    have IH: "resolved A rk (rk a) (as_deps A a) g r1 g1"
      using "2.IH" [of r1 g1 "rk a"] None d "2.prems"(1) by (simp add: ranked_def)
    show ?thesis
    proof (cases r1)
      case (Ok u)
      show ?thesis
      proof (cases "as_generate A a g1")
        case gen: (Ok v)
        then have "r = Ok ()" "g' = graph_Set [(a, v)] g1" using "2.prems" None d Ok by simp_all
        then show ?thesis using resolved_generated [of A rk a g g1 v] IH None gen Ok by simp
      qed (use "2.prems" None d Ok IH in \<open>auto simp: resolved_def intro: new_below_le\<close>)
    qed (use "2.prems" None d IH in \<open>auto intro: resolved_weaken\<close>)
  qed (use "2.prems" in \<open>auto simp: resolved_def\<close>)
next
  case (4 k A d ds g)
  then obtain r1 g1 where d: "Resolve k A d g = Some (r1, g1)" by (auto split: option.splits)
  have "resolved A rk (Suc (rk d)) [d] g r1 g1" using 4 d by simp
  then have IH1: "resolved A rk n [d] g r1 g1"
    using "4.prems"(3) new_below_le [of rk "Suc (rk d)" g g1 n] by (simp add: resolved_def)
  show ?case
  proof (cases r1)
    case (Ok u)
    then have eq: "Resolve_deps k A ds g1 = Some (r, g')" using 4 d by simp
    have IH2: "resolved A rk n ds g1 r g'" using "4.IH"(2) d Ok eq "4.prems" by simp
    obtain w where w: "sm_get g1 d = Some w" using IH1 Ok by (auto simp: resolved_def)
    have "grows A g g'" using IH1 IH2 grows_trans [of A g g1 g'] by (simp add: resolved_def)
    moreover have "new_below rk n g g'" using IH1 IH2 new_below_trans [of rk n g g1 g'] by (simp add: resolved_def)
    moreover have "sm_get g' d = Some w" using IH2 w grows_mono [of A g1 g' d w] by (simp add: resolved_def)
    ultimately show ?thesis using IH1 IH2 by (auto simp: resolved_def)
  qed (use 4 d IH1 in \<open>auto simp: resolved_def\<close>)
qed (auto simp: resolved_def)

lemma Resolve_terminates:
  "ranked rk A \<Longrightarrow> rk a < k \<Longrightarrow> Resolve k A a g \<noteq> None"
  "ranked rk A \<Longrightarrow> \<forall>d \<in> set ds. rk d < k \<Longrightarrow> Resolve_deps k A ds g \<noteq> None"
proof (induction k A a g and k A ds g rule: Resolve_Resolve_deps.induct)
  case (2 k A a g)
  have "Resolve_deps k A (as_deps A a) g \<noteq> None" if "graph_Get g a = None"
    using "2.IH" that "2.prems" by (force simp: ranked_def)
  then show ?case by (cases "graph_Get g a") (auto split: outcome.splits)
qed (auto split: option.splits outcome.splits)

text \<open>Asking again for what is there changes nothing.\<close>

lemma Resolve_again: "graph_Get g a \<noteq> None \<Longrightarrow> Resolve (Suc k) A a g = Some (Ok (), g)"
  by simp

section \<open>The persisted graph\<close>

text \<open>
  The JSON of every asset by the name of its type. A missing asset is an empty document, on which
  the decoder reports the end of the input. \<open>dec\<close> is the strict decoder of the type with that name.
\<close>

type_synonym persisted = "(string, json) gomap"

definition persisted_Get :: "(string \<Rightarrow> json \<Rightarrow> 'a result) \<Rightarrow> string list \<Rightarrow> persisted \<Rightarrow> 'a list result" where
  "persisted_Get dec names pg =
     mapOk (\<lambda>n. case sm_get pg n of None \<Rightarrow> Err (ErrMsg ''EOF'') | Some j \<Rightarrow> dec n j) names"

definition persisted_Set :: "('a \<Rightarrow> json result) \<Rightarrow> (string \<times> 'a) list \<Rightarrow> persisted \<Rightarrow> persisted result" where
  "persisted_Set enc as pg =
     foldOk (\<lambda>(n, a) pg. andThen (enc a) (\<lambda>j. Ok (sm_put n j pg))) as pg"

section \<open>The manager\<close>

text \<open>
  A graph manager seals what it stores with its AEAD. The state is the storage service's and the
  randomness left. White space in the stored document is not modelled: the document is the compact
  one, which the decoder reads as it reads the indented one.
\<close>

record ('a, 's) graph_manager =
  gm_aead :: aead
  gm_storage :: "('s blobs_client, 's) storage_manager"
  gm_encode :: "'a \<Rightarrow> json result"
  gm_ignition :: "'a \<Rightarrow> string option"

definition graphContainer :: string where "graphContainer = ''aro''"
definition graphBlob :: string where "graphBlob = ''graph''"
definition ignitionContainer :: string where "ignitionContainer = ''ignition''"
definition ignitionBlob :: string where "ignitionBlob = ''bootstrap.ign''"

definition bootstrap_asset :: string where "bootstrap_asset = ''*bootstrap.Bootstrap''"

definition Exists :: "('a, 's) graph_manager \<Rightarrow> string \<Rightarrow> string \<Rightarrow> 's \<Rightarrow> bool result \<times> 's" where
  "Exists m resourceGroup account s =
     st_bind (BlobService (gm_storage m) resourceGroup account ''r'' ''o'' s) (\<lambda>blobs s.
       BlobExists blobs graphContainer graphBlob s)"

definition graph_document :: "('a \<Rightarrow> json result) \<Rightarrow> 'a graph \<Rightarrow> string result" where
  "graph_document enc g =
     andThen (mapOk (\<lambda>(n, a). andThen (enc a) (\<lambda>j. Ok (n, j))) g) (\<lambda>ms. Ok (print_json (JObj ms)))"

definition Save ::
  "('a, 's) graph_manager \<Rightarrow> string \<Rightarrow> string \<Rightarrow> 'a graph \<Rightarrow> 's \<Rightarrow> string \<Rightarrow> unit result \<times> 's \<times> string" where
  "Save m resourceGroup account g s rnd =
     st_bind (case BlobService (gm_storage m) resourceGroup account ''cw'' ''o'' s of (r, s') \<Rightarrow> (r, s', rnd)) (\<lambda>blobs st.
     st_bind (andThen (deref (graph_Get g bootstrap_asset)) (\<lambda>a. deref (gm_ignition m a)), st) (\<lambda>ign st.
     st_bind (case bc_UploadBuffer blobs ignitionContainer ignitionBlob ign (fst st) of (r, s') \<Rightarrow> (r, s', snd st)) (\<lambda>_ st.
     st_bind (graph_document (gm_encode m) g, st) (\<lambda>b st.
     st_bind (case aead_seal (gm_aead m) b (snd st) of (r, rnd') \<Rightarrow> (r, fst st, rnd')) (\<lambda>c st.
     (case bc_UploadBuffer blobs graphContainer graphBlob c (fst st) of (r, s') \<Rightarrow> (r, s', snd st)))))))"

definition decode_persisted :: "string \<Rightarrow> persisted result" where
  "decode_persisted b =
     (case parse_json b of
        Some JNull \<Rightarrow> Ok []
      | Some (JObj ms) \<Rightarrow> Ok (sm_of_list ms)
      | Some v \<Rightarrow> Err (ErrMsg ''json: cannot unmarshal into Go value of type graph.PersistedGraph'')
      | None \<Rightarrow> Err (ErrMsg ''invalid JSON''))"

definition LoadPersisted :: "('a, 's) graph_manager \<Rightarrow> string \<Rightarrow> string \<Rightarrow> 's \<Rightarrow> persisted result \<times> 's" where
  "LoadPersisted m resourceGroup account s =
     st_bind (BlobService (gm_storage m) resourceGroup account ''r'' ''o'' s) (\<lambda>blobs s.
     st_bind (bc_DownloadStream blobs graphContainer graphBlob s) (\<lambda>b s.
     (andThen (aead_open (gm_aead m) b) decode_persisted, s)))"

text \<open>The user-delegated SAS of the ignition blob: the SDK's URL parser, credential and signature are parameters.\<close>

record sas_values =
  sv_Protocol :: string
  sv_StartTime :: int
  sv_ExpiryTime :: int
  sv_Permissions :: string
  sv_ContainerName :: string
  sv_BlobName :: string

record ('u, 'k, 'q, 's) sas_sdk =
  sdk_ParseURL :: "string \<Rightarrow> 'u result"
  sdk_GetUserDelegationCredential :: "'s blobs_client \<Rightarrow> int \<Rightarrow> int \<Rightarrow> 's \<Rightarrow> 'k result \<times> 's"
  sdk_Sign :: "sas_values \<Rightarrow> 'k \<Rightarrow> 'q result"
  sdk_String :: "'u \<Rightarrow> 'q \<Rightarrow> string"

text \<open>\<open>now\<close> has the two readings of the clock, for the start and for the end.\<close>

definition GetUserDelegatedSASIgnitionBlobURL ::
  "('u, 'k, 'q, 's) sas_sdk \<Rightarrow> int \<times> int \<Rightarrow> ('a, 's) graph_manager \<Rightarrow> string \<Rightarrow> string \<Rightarrow> string \<Rightarrow> bool \<Rightarrow> 's \<Rightarrow> string result \<times> 's" where
  "GetUserDelegatedSASIgnitionBlobURL sdk now m resourceGroup account blobURL usesWorkloadIdentity s =
     (if \<not> usesWorkloadIdentity
      then (Err (ErrMsg ''getUserDelegatedSASIgnitionBlobURL called for a Cluster Service Principal cluster''), s)
      else
        st_bind (sdk_ParseURL sdk blobURL, s) (\<lambda>urlParts s.
        let start = fst now - 10; expiry = snd now + 3600;
            vals = \<lparr>sv_Protocol = ''https'', sv_StartTime = start, sv_ExpiryTime = expiry, sv_Permissions = ''r'',
                    sv_ContainerName = ignitionContainer, sv_BlobName = ignitionBlob\<rparr>
        in st_bind (BlobService (gm_storage m) resourceGroup account [] [] s) (\<lambda>blobs s.
           st_bind (sdk_GetUserDelegationCredential sdk blobs start expiry s) (\<lambda>udc s.
           (andThen (sdk_Sign sdk vals udc) (\<lambda>q. Ok (sdk_String sdk urlParts q)), s)))))"

text \<open>\<open>persistGraph\<close> of the installer: an existing graph is never overwritten.\<close>

definition persistGraph ::
  "('a, 's) graph_manager \<Rightarrow> string \<Rightarrow> string \<Rightarrow> 'a graph \<Rightarrow> 's \<Rightarrow> string \<Rightarrow> unit result \<times> 's \<times> string" where
  "persistGraph m resourceGroupID storageSuffix g s rnd =
     (let resourceGroup = LastTokenByte resourceGroupID slash; account = ''cluster'' @ storageSuffix in
      (case Exists m resourceGroup account s of
         (Err e, s') \<Rightarrow> (Err e, s', rnd)
       | (Panic, s') \<Rightarrow> (Panic, s', rnd)
       | (Ok ex, s') \<Rightarrow> if ex then (Ok (), s', rnd) else Save m resourceGroup account g s' rnd))"

section \<open>Lemmas on the manager\<close>

definition serves :: "('a, 's) graph_manager \<Rightarrow> string \<Rightarrow> string \<Rightarrow> 's blobs_client \<Rightarrow> bool" where
  "serves m rg acc blobs = (\<forall>p t s. BlobService (gm_storage m) rg acc p t s = (Ok blobs, s))"

definition encoded :: "('a \<Rightarrow> json) \<Rightarrow> 'a graph \<Rightarrow> persisted" where
  "encoded enc g = map (map_prod id enc) g"

lemma graph_document_Ok:
  assumes "\<And>n a. (n, a) \<in> set g \<Longrightarrow> f a = Ok (enc a)"
  shows "graph_document f g = Ok (print_json (JObj (encoded enc g)))"
proof -
  have "mapOk (\<lambda>(n, a). andThen (f a) (\<lambda>j. Ok (n, j))) g = Ok (map (map_prod id enc) g)"
    by (rule mapOk_total) (auto simp: assms)
  then show ?thesis by (simp add: graph_document_def encoded_def del: print_json_JObj)
qed

lemma encoded_keys [simp]: "map fst (encoded enc g) = map fst g"
  by (simp add: encoded_def)

lemma encoded_get: "sm_get (encoded enc g) n = map_option enc (sm_get g n)"
  by (induction g) (auto simp: encoded_def)

lemma encoded_invar: "sm_invar g \<Longrightarrow> sm_invar (encoded enc g)"
  by (simp add: sm_invar_def)

text \<open>The run of \<open>Save\<close> over a service that is there: the two uploads, in this order.\<close>

lemma Save_cases:
  assumes "serves m rg acc blobs" "Save m rg acc g s rnd = (r, s', rnd')"
  obtains (nothing) "s' = s" "r \<noteq> Ok ()"
  | (ignition) a d r1 where "graph_Get g bootstrap_asset = Some a" "gm_ignition m a = Some d"
      "bc_UploadBuffer blobs ignitionContainer ignitionBlob d s = (r1, s')" "r \<noteq> Ok ()"
  | (both) a d s1 b c rnd1 where "graph_Get g bootstrap_asset = Some a" "gm_ignition m a = Some d"
      "bc_UploadBuffer blobs ignitionContainer ignitionBlob d s = (Ok (), s1)"
      "graph_document (gm_encode m) g = Ok b" "aead_seal (gm_aead m) b rnd = (Ok c, rnd1)"
      "bc_UploadBuffer blobs graphContainer graphBlob c s1 = (r, s')"
proof -
  have b: "BlobService (gm_storage m) rg acc ''cw'' ''o'' s = (Ok blobs, s)"
    using assms(1) by (simp add: serves_def)
  show thesis
  proof (cases "andThen (deref (graph_Get g bootstrap_asset)) (\<lambda>a. deref (gm_ignition m a)) :: string result")
    case (Ok d)
    then obtain a where a: "graph_Get g bootstrap_asset = Some a" "gm_ignition m a = Some d"
      by (auto simp: outcome_simps)
    obtain r1 s1 where u: "bc_UploadBuffer blobs ignitionContainer ignitionBlob d s = (r1, s1)" by fastforce
    show thesis
    proof (cases r1)
      case Ok1: (Ok x)
      then have u1: "bc_UploadBuffer blobs ignitionContainer ignitionBlob d s = (Ok (), s1)" using u by simp
      show thesis
      proof (cases "graph_document (gm_encode m) g")
        case doc: (Ok t)
        obtain r2 rnd1 where seal: "aead_seal (gm_aead m) t rnd = (r2, rnd1)" by fastforce
        show thesis
        proof (cases r2)
          case sealed: (Ok c)
          obtain r3 s3 where "bc_UploadBuffer blobs graphContainer graphBlob c s1 = (r3, s3)" by fastforce
          then show thesis using both [of a d s1 t c rnd1] a u1 doc seal sealed assms(2) b Ok
            by (simp add: Save_def)
        qed (use ignition [of a d "Ok ()"] a u1 doc seal assms(2) b Ok in \<open>auto simp: Save_def\<close>)
      qed (use ignition [of a d "Ok ()"] a u1 assms(2) b Ok in \<open>auto simp: Save_def\<close>)
    qed (use ignition [of a d r1] a u assms(2) b Ok in \<open>auto simp: Save_def\<close>)
  next
    case (Err e)
    then have "s' = s" "r \<noteq> Ok ()" using assms(2) b by (auto simp: Save_def)
    then show thesis by (rule nothing)
  next
    case Panic
    then have "s' = s" "r \<noteq> Ok ()" using assms(2) b by (auto simp: Save_def)
    then show thesis by (rule nothing)
  qed
qed

lemma containers_differ [simp]: "(graphContainer, graphBlob) \<noteq> (ignitionContainer, ignitionBlob)"
  by (simp add: graphContainer_def ignitionContainer_def)

section \<open>Properties\<close>

text \<open>C9: Resolving an asset of an acyclic family terminates (the rank of the asset bounds the depth),
  never changes an asset that was there, and adds only assets generated from parents that held all
  their dependencies; without an error the asset is in the graph afterwards.\<close>

theorem Resolve_correct:
  assumes "ranked rk A" "sm_invar g"
  shows "\<exists>r g'. Resolve (Suc (rk a)) A a g = Some (r, g') \<and> grows A g g' \<and> sm_invar g' \<and>
    (r = Ok () \<longrightarrow> graph_Get g' a \<noteq> None)"
proof -
  obtain r g' where R: "Resolve (Suc (rk a)) A a g = Some (r, g')"
    using Resolve_terminates(1) [OF assms(1), of a "Suc (rk a)" g] by (auto simp del: Resolve.simps)
  then show ?thesis
    using Resolve_resolved(1) [OF assms(1) R] assms(2) by (auto simp: resolved_def simp del: Resolve.simps)
qed

definition demo_assets :: "nat assets" where
  "demo_assets = \<lparr>as_deps = \<lambda>n. if n = ''*b'' then [''*a''] else [],
     as_generate = \<lambda>n g. Ok (case graph_Get g ''*a'' of None \<Rightarrow> 1 | Some v \<Rightarrow> v + 1)\<rparr>"

theorem Resolve_correct_witness:
  "\<exists>r g'. Resolve 2 demo_assets ''*b'' [] = Some (r, g') \<and> grows demo_assets [] g' \<and> sm_invar g' \<and>
    (r = Ok () \<longrightarrow> graph_Get g' ''*b'' \<noteq> None)"
  using Resolve_correct [of "\<lambda>n. if n = ''*b'' then 1 else 0" demo_assets "[]" "''*b''"]
  by (simp add: ranked_def demo_assets_def sm_invar_def numeral_2_eq_2 del: Resolve.simps)

text \<open>C10: What \<open>Save\<close> stored is what \<open>LoadPersisted\<close> returns: the JSON of every asset under the name
  of its type, provided the AEAD is lawful, every asset encodes to a JSON value and the download succeeds.\<close>

theorem save_load_round_trip:
  assumes "blob_laws content blobs" "serves m rg acc blobs" "lawful (gm_aead m)" "sm_invar g"
    and "\<forall>(n, a) \<in> set g. gm_encode m a = Ok (enc a) \<and> json_wf (enc a)"
    and "Save m rg acc g s rnd = (Ok (), s1, rnd1)"
    and "bc_DownloadStream blobs graphContainer graphBlob s1 = (Ok b, s2)"
  shows "LoadPersisted m rg acc s1 = (Ok (encoded enc g), s2)"
  using assms(2,6)
proof (cases rule: Save_cases)
  case (both a d s1' t c rnd1')
  have enc: "\<And>n a. (n, a) \<in> set g \<Longrightarrow> gm_encode m a = Ok (enc a)" using assms(5) by auto
  then have t: "t = print_json (JObj (encoded enc g))" using both(4) graph_document_Ok [of g "gm_encode m" enc] by simp
  have wf: "json_wf (JObj (encoded enc g))" using assms(5) by (auto simp: encoded_def)
  have "b = c" using blob_uploaded [OF assms(1) both(6)] blob_downloaded [OF assms(1,7)] by simp
  moreover obtain x where "aead_open (gm_aead m) c = Ok x" "parse_json x = Some (JObj (encoded enc g))"
    using aead.sealed_text [of _ print_json _ _ _ _ parse_json, OF assms(3) both(5) [unfolded t] parse_print [OF wf]]
    by auto
  moreover have "BlobService (gm_storage m) rg acc ''r'' ''o'' s1 = (Ok blobs, s1)"
    using assms(2) by (simp add: serves_def)
  ultimately show ?thesis
    using assms(4,7) by (simp add: LoadPersisted_def decode_persisted_def sm_of_list_id encoded_invar)
qed simp_all

definition demo_manager :: "(string, memory) graph_manager" where
  "demo_manager = \<lparr>gm_aead = Aes256Sha512 (tag_cipher ''k''),
     gm_storage = \<lparr>sm_ListAccountSAS = \<lambda>rg acc p t s. (Err Canceled, s), sm_NewUsingEntra = \<lambda>u. Ok memory_client,
       sm_NewUsingSAS = \<lambda>u. Ok memory_client, sm_usesWorkloadIdentity = True, sm_storageEndpointSuffix = ''x''\<rparr>,
     gm_encode = \<lambda>a. Ok (JStr a), gm_ignition = \<lambda>a. Some a\<rparr>"

lemma demo_serves: "serves demo_manager rg acc memory_client"
  by (simp add: serves_def demo_manager_def BlobService_def)

definition demo_graph :: "string graph" where "demo_graph = [(bootstrap_asset, ''ign'')]"

definition demo_saved :: memory where
  "demo_saved = fst (snd (Save demo_manager ''rg'' ''acc'' demo_graph (\<lambda>_. None) []))"

lemma demo_Save: "Save demo_manager rg acc demo_graph (\<lambda>_. None) [] = (Ok (), demo_saved, [])"
  by (simp add: demo_saved_def Save_def demo_manager_def BlobService_def demo_graph_def graph_document_def
      tag_cipher_def read_full_def memory_client_def)

lemma demo_saved_graph: "demo_saved (graphContainer, graphBlob) \<noteq> None"
  by (simp add: demo_saved_def Save_def demo_manager_def BlobService_def demo_graph_def graph_document_def
      tag_cipher_def read_full_def memory_client_def)

theorem save_load_round_trip_witness:
  "LoadPersisted demo_manager ''rg'' ''acc'' demo_saved = (Ok (encoded JStr demo_graph), demo_saved)"
proof (rule save_load_round_trip [OF memory_client_laws demo_serves])
  show "Save demo_manager ''rg'' ''acc'' demo_graph (\<lambda>_. None) [] = (Ok (), demo_saved, [])"
    by (rule demo_Save)
  show "bc_DownloadStream memory_client graphContainer graphBlob demo_saved =
      (Ok (the (demo_saved (graphContainer, graphBlob))), demo_saved)"
    using demo_saved_graph by (auto simp: memory_client_def)
qed (simp_all add: demo_manager_def demo_graph_def tag_cipher_ok sm_invar_def)

text \<open>C18: The graph is written after the ignition: if a call of \<open>Save\<close> leaves a graph blob where there was
  none, then the ignition blob holds the bootstrap ignition of the graph that was saved.\<close>

theorem graph_implies_ignition:
  assumes "blob_laws content blobs" "serves m rg acc blobs" "Save m rg acc g s rnd = (r, s', rnd')"
    and "content s graphContainer graphBlob = None" "content s' graphContainer graphBlob \<noteq> None"
  shows "\<exists>a d. graph_Get g bootstrap_asset = Some a \<and> gm_ignition m a = Some d \<and>
    content s' ignitionContainer ignitionBlob = Some d"
  using assms(2,3)
proof (cases rule: Save_cases)
  case (ignition a d r1)
  then show ?thesis using blob_other [OF assms(1) ignition(3) containers_differ] assms(4,5) by simp
next
  case (both a d s1 t c rnd1)
  then show ?thesis
    using blob_uploaded [OF assms(1) both(3)] blob_other [OF assms(1) both(6) containers_differ [symmetric]]
    by simp
qed (use assms(4,5) in simp)

theorem graph_implies_ignition_witness:
  "\<exists>a d. graph_Get demo_graph bootstrap_asset = Some a \<and> gm_ignition demo_manager a = Some d \<and>
    demo_saved (ignitionContainer, ignitionBlob) = Some d"
  by (rule graph_implies_ignition [OF memory_client_laws demo_serves demo_Save]) (use demo_saved_graph in simp_all)

lemma persistGraph_kept:
  assumes "blob_laws content blobs" "serves m (LastTokenByte rgID slash) (''cluster'' @ suf) blobs"
    and "content s graphContainer graphBlob \<noteq> None" "persistGraph m rgID suf g s rnd = (r, s', rnd')"
  shows "content s' = content s \<and> (isOk (fst (BlobExists blobs graphContainer graphBlob s)) \<longrightarrow> r = Ok ())"
proof -
  obtain q s1 where e: "BlobExists blobs graphContainer graphBlob s = (q, s1)" by fastforce
  have "Exists m (LastTokenByte rgID slash) (''cluster'' @ suf) s = (q, s1)"
    using assms(2) e by (simp add: Exists_def serves_def)
  moreover have "content s1 = content s"
    using e assms(1) blob_properties(1) [OF assms(1)]
    by (auto simp: BlobExists_def split: prod.splits outcome.splits)
  moreover have "x" if "q = Ok x" for x
    using BlobExists_sound [OF assms(1)] e that assms(3) by blast
  ultimately show ?thesis using assms(4) e by (cases q) (auto simp: persistGraph_def Let_def)
qed

text \<open>Persisting never overwrites: when a graph is stored already, \<open>persistGraph\<close> changes no blob, and
  if the check for it succeeds it returns nil.\<close>

theorem persist_keeps_existing:
  assumes "blob_laws content blobs" "serves m (LastTokenByte rgID slash) (''cluster'' @ suf) blobs"
    and "content s graphContainer graphBlob \<noteq> None" "persistGraph m rgID suf g s rnd = (r, s', rnd')"
  shows "content s' = content s \<and> (isOk (fst (BlobExists blobs graphContainer graphBlob s)) \<longrightarrow> r = Ok ())"
  using persistGraph_kept [OF assms] .

theorem persist_keeps_existing_witness:
  "\<exists>s'. persistGraph demo_manager ''/x/rg'' ''1'' demo_graph demo_saved [] = (Ok (), s', [])
     \<and> (\<lambda>k b. s' (k, b)) = (\<lambda>k b. demo_saved (k, b))"
proof -
  have p: "persistGraph demo_manager ''/x/rg'' ''1'' demo_graph demo_saved [] = (Ok (), demo_saved, [])"
    using demo_saved_graph
    by (auto simp: persistGraph_def Exists_def demo_manager_def BlobService_def BlobExists_def memory_client_def)
  from persist_keeps_existing [OF memory_client_laws demo_serves demo_saved_graph p] p show ?thesis by blast
qed

end
