(* ===== verification/Pull_Secret.thy ===== *)
theory Pull_Secret
  imports Base64
begin

text \<open>
  pkg/util/pullsecret: pull secrets are JSON documents whose field \<open>auths\<close> maps registries to maps of
  interface values. The typed decoding (case-insensitive field, null, duplicates), nil maps against
  empty ones as \<open>reflect.DeepEqual\<close> sees them, and the \<open>omitempty\<close> encoding are modelled; the loops over Go
  maps are folds over the sorted entries, and their order is shown not to matter.
\<close>

section \<open>Data\<close>

type_synonym auth_entry = "(string, json) gomap option"
type_synonym auths = "(string, auth_entry) gomap"

text \<open>\<open>pullSecret\<close>: the map, \<open>None\<close> when it is nil.\<close>

record pullSecret = Auths :: "auths option"

record registry_profile =
  rp_Name :: string
  rp_Username :: string
  rp_Password :: string

section \<open>Decoding and encoding\<close>

text \<open>
  Decoding keeps going after a value of the wrong type and reports it at the end; the flag says that
  none was met. Every entry is decoded into a fresh element; an \<open>auths\<close> that is null makes the map
  nil, a second \<open>auths\<close> adds to the first.
\<close>

fun decode_entry :: "json \<Rightarrow> auth_entry option" where
  "decode_entry JNull = Some None"
| "decode_entry (JObj ms) = Some (Some (sm_of_list (map (map_prod id canon) ms)))"
| "decode_entry _ = None"

fun decode_entries :: "(string \<times> json) list \<Rightarrow> auths \<times> bool \<Rightarrow> auths \<times> bool" where
  "decode_entries [] st = st"
| "decode_entries ((k, v) # ms) (as, ok) =
     decode_entries ms
       (case decode_entry v of Some e \<Rightarrow> (sm_put k e as, ok) | None \<Rightarrow> (as, False))"

fun decode_fields :: "(string \<times> json) list \<Rightarrow> auths option \<times> bool \<Rightarrow> auths option \<times> bool" where
  "decode_fields [] st = st"
| "decode_fields ((k, v) # ms) (as, ok) =
     decode_fields ms
       (if equal_fold k ''auths'' then
          (case v of
             JNull \<Rightarrow> (None, ok)
           | JObj es \<Rightarrow>
               (case decode_entries es (case as of None \<Rightarrow> [] | Some m \<Rightarrow> m, ok) of (m, ok') \<Rightarrow> (Some m, ok'))
           | _ \<Rightarrow> (as, False))
        else (as, ok))"

definition bad_json :: go_error where "bad_json = ErrMsg ''invalid JSON''"
definition bad_type :: go_error where "bad_type = ErrMsg ''json: cannot unmarshal value''"

text \<open>\<open>json.Unmarshal\<close> into a nil \<open>*pullSecret\<close>: the JSON null leaves the pointer nil.\<close>

definition unmarshal_ps :: "string \<Rightarrow> pullSecret option result" where
  "unmarshal_ps s =
     (case parse_json s of
        None \<Rightarrow> Err bad_json
      | Some JNull \<Rightarrow> Ok None
      | Some (JObj ms) \<Rightarrow>
          (case decode_fields ms (None, True) of
             (as, ok) \<Rightarrow> if ok then Ok (Some \<lparr>Auths = as\<rparr>) else Err bad_type)
      | Some _ \<Rightarrow> Err bad_type)"

definition entry_json :: "auth_entry \<Rightarrow> json" where
  "entry_json e = (case e of None \<Rightarrow> JNull | Some m \<Rightarrow> JObj m)"

definition ps_json :: "pullSecret \<Rightarrow> json" where
  "ps_json ps =
     (case Auths ps of
        None \<Rightarrow> JObj []
      | Some as \<Rightarrow> if as = [] then JObj [] else JObj [(''auths'', JObj (map (map_prod id entry_json) as))])"

definition marshal_ps :: "pullSecret \<Rightarrow> string" where
  "marshal_ps ps = print_json (ps_json ps)"

definition or_empty :: "string \<Rightarrow> string" where
  "or_empty s = (if s = [] then ''{}'' else s)"

section \<open>Operations\<close>

text \<open>Indexing a Go map: the zero value, a nil map, for an absent key.\<close>

definition auth_at :: "auths \<Rightarrow> string \<Rightarrow> auth_entry" where
  "auth_at as k = (case sm_get as k of None \<Rightarrow> None | Some e \<Rightarrow> e)"

definition set_auth :: "string \<Rightarrow> auth_entry \<Rightarrow> auths \<times> bool \<Rightarrow> auths \<times> bool" where
  "set_auth k v st = (if auth_at (fst st) k = v then st else (sm_put k v (fst st), True))"

definition profile_entry :: "registry_profile \<Rightarrow> auth_entry" where
  "profile_entry rp = Some [(''auth'', JStr (b64_encode (rp_Username rp @ '':'' @ rp_Password rp)))]"

definition set_profile :: "registry_profile \<Rightarrow> auths \<times> bool \<Rightarrow> auths \<times> bool" where
  "set_profile rp st =
     (sm_put (rp_Name rp) (profile_entry rp) (fst st),
      snd st \<or> auth_at (fst st) (rp_Name rp) \<noteq> profile_entry rp)"

definition SetRegistryProfiles :: "string \<Rightarrow> registry_profile list \<Rightarrow> (string \<times> bool) result" where
  "SetRegistryProfiles s rps =
     andThen (unmarshal_ps (or_empty s)) (\<lambda>p.
     andThen (deref p) (\<lambda>ps.
       let as = (case Auths ps of None \<Rightarrow> [] | Some m \<Rightarrow> m);
           (as', changed) = fold set_profile rps (as, False)
       in Ok (marshal_ps \<lparr>Auths = Some as'\<rparr>, changed)))"

text \<open>The loop of \<open>Merge\<close>; the base's map is made on the first round if it is nil.\<close>

definition merge_auths :: "auths option \<Rightarrow> auths option \<Rightarrow> auths option \<times> bool" where
  "merge_auths base over =
     (case over of
        None \<Rightarrow> (base, False)
      | Some [] \<Rightarrow> (base, False)
      | Some (e # es) \<Rightarrow>
          (case fold (\<lambda>(k, v). set_auth k v) (e # es) (case base of None \<Rightarrow> [] | Some m \<Rightarrow> m, False) of
             (m, changed) \<Rightarrow> (Some m, changed)))"

definition Merge :: "string \<Rightarrow> string \<Rightarrow> (string \<times> bool) result" where
  "Merge base over =
     andThen (unmarshal_ps (or_empty base)) (\<lambda>b.
     andThen (unmarshal_ps (or_empty over)) (\<lambda>p.
     andThen (deref p) (\<lambda>ps.
       (case b of
          Some bs \<Rightarrow>
            (case merge_auths (Auths bs) (Auths ps) of
               (as, changed) \<Rightarrow> Ok (marshal_ps \<lparr>Auths = as\<rparr>, changed))
        | None \<Rightarrow>
            if Auths ps = None \<or> Auths ps = Some [] then Ok (print_json JNull, False) else Panic))))"

definition RemoveKey :: "string \<Rightarrow> string \<Rightarrow> string result" where
  "RemoveKey s key =
     andThen (unmarshal_ps (or_empty s)) (\<lambda>p.
     andThen (deref p) (\<lambda>ps.
       Ok (marshal_ps \<lparr>Auths = map_option (sm_del key) (Auths ps)\<rparr>)))"

definition Validate :: "string \<Rightarrow> unit result" where
  "Validate s = andThen (unmarshal_ps (or_empty s)) (\<lambda>_. Ok ())"

text \<open>\<open>Build\<close>: the secret of the environment, the customer's over it, then the registry profiles.\<close>

definition Build :: "(string \<Rightarrow> string option) \<Rightarrow> registry_profile list \<Rightarrow> string \<Rightarrow> string result" where
  "Build env profiles ps =
     andThen (Merge (case env ''ARO_PULL_SECRET'' of None \<Rightarrow> [] | Some v \<Rightarrow> v) ps) (\<lambda>(merged, _).
     andThen (SetRegistryProfiles merged profiles) (\<lambda>(secret, _). Ok secret))"

text \<open>
  \<open>UnmarshalSecretData\<close>: here the target is a struct, so null leaves it as it is. An \<open>auth\<close> that is
  not a string fails the type assertion.
\<close>

definition auth_text :: "auth_entry \<Rightarrow> string option result" where
  "auth_text e =
     (case e of
        None \<Rightarrow> Ok None
      | Some m \<Rightarrow>
          (case sm_get m ''auth'' of
             None \<Rightarrow> Ok None
           | Some JNull \<Rightarrow> Ok None
           | Some (JStr t) \<Rightarrow> Ok (Some t)
           | Some _ \<Rightarrow> Panic))"

definition secret_auths :: "auths \<Rightarrow> (string, string) gomap result" where
  "secret_auths as =
     foldOk (\<lambda>(k, e) m. andThen (auth_text e) (\<lambda>t. Ok (case t of None \<Rightarrow> m | Some x \<Rightarrow> sm_put k x m))) as []"

definition UnmarshalSecretData :: "string option option \<Rightarrow> (string, string) gomap result" where
  "UnmarshalSecretData secret =
     (case secret of
        Some (Some data) \<Rightarrow>
          if data = [] then Ok []
          else andThen (unmarshal_ps data) (\<lambda>p.
            secret_auths (case p of None \<Rightarrow> [] | Some ps \<Rightarrow> (case Auths ps of None \<Rightarrow> [] | Some m \<Rightarrow> m)))
      | _ \<Rightarrow> Ok [])"

section \<open>The loops over maps\<close>

lemma auth_at_put [simp]: "auth_at (sm_put k v m) j = (if j = k then v else auth_at m j)"
  by (simp add: auth_at_def sm_get_put)

lemma set_auth_get:
  "sm_get (fst (set_auth k v st)) j =
     (if j = k \<and> auth_at (fst st) k \<noteq> v then Some v else sm_get (fst st) j)"
  by (simp add: set_auth_def sm_get_put)

lemma set_auth_invar: "sm_invar (fst st) \<Longrightarrow> sm_invar (fst (set_auth k v st))"
  by (simp add: set_auth_def sm_invar_put)

text \<open>What merging one map over another means, key by key.\<close>

definition over :: "auths \<Rightarrow> auths \<Rightarrow> string \<Rightarrow> auth_entry option" where
  "over ps base k =
     (case sm_get ps k of
        None \<Rightarrow> sm_get base k
      | Some v \<Rightarrow> if v = None \<and> sm_get base k = None then None else Some v)"

lemma fold_set_auth_get:
  "distinct (map fst ps) \<Longrightarrow>
    sm_get (fst (fold (\<lambda>(k, v). set_auth k v) ps (base, c))) j = over ps base j"
proof (induction ps arbitrary: base c)
  case Nil
  then show ?case by (simp add: over_def)
next
  case (Cons e ps)
  obtain k v where e: "e = (k, v)" by (cases e)
  obtain base' c' where s: "set_auth k v (base, c) = (base', c')" by fastforce
  have g: "sm_get base' j = (if j = k \<and> auth_at base k \<noteq> v then Some v else sm_get base j)"
    using set_auth_get [of k v "(base, c)" j] s by simp
  have k: "sm_get ps k = None" using Cons.prems e by (auto simp: map_of_eq_None_iff)
  have "sm_get (fst (fold (\<lambda>(k, v). set_auth k v) ps (base', c'))) j = over ps base' j"
    using Cons by simp
  then show ?case
    using e s g k by (auto simp: over_def auth_at_def split: option.splits if_splits)
qed

lemma fold_set_auth_invar: "sm_invar base \<Longrightarrow> sm_invar (fst (fold (\<lambda>(k, v). set_auth k v) ps (base, c)))"
proof (induction ps arbitrary: base c)
  case (Cons e ps)
  obtain k v where e: "e = (k, v)" by (cases e)
  obtain base' c' where s: "set_auth k v (base, c) = (base', c')" by fastforce
  then have "sm_invar base'" using set_auth_invar [of "(base, c)" k v] Cons.prems by simp
  then show ?case using Cons.IH e s by simp
qed simp

lemma fold_set_auth_changed:
  "distinct (map fst ps) \<Longrightarrow>
    snd (fold (\<lambda>(k, v). set_auth k v) ps (base, c)) = (c \<or> (\<exists>(k, v) \<in> set ps. auth_at base k \<noteq> v))"
proof (induction ps arbitrary: base c)
  case (Cons e ps)
  obtain k v where e: "e = (k, v)" by (cases e)
  have k: "k \<notin> fst ` set ps" using Cons.prems e by simp
  have same: "(\<exists>(j, w) \<in> set ps. auth_at (sm_put k v base) j \<noteq> w) = (\<exists>(j, w) \<in> set ps. auth_at base j \<noteq> w)"
    using k by (force simp: image_iff)
  show ?case
    using Cons e same by (auto simp: set_auth_def)
qed simp

text \<open>Go visits the entries of a map in any order; the merged map is the same.\<close>

lemma merge_order_irrelevant:
  assumes "sm_invar base" "distinct (map fst ps)" "mset qs = mset ps"
  shows "fold (\<lambda>(k, v). set_auth k v) qs (base, c) = fold (\<lambda>(k, v). set_auth k v) ps (base, c)"
proof (rule prod_eqI)
  have d: "distinct (map fst qs)" using assms(2,3) by (metis mset_eq_imp_distinct_iff mset_map)
  have s: "set qs = set ps" using assms(3) by (rule mset_eq_setD)
  then have "sm_get qs = sm_get ps" using assms(2) d by (simp add: map_of_inject_set)
  then have "over qs base = over ps base" by (simp add: over_def fun_eq_iff)
  then show "fst (fold (\<lambda>(k, v). set_auth k v) qs (base, c)) = fst (fold (\<lambda>(k, v). set_auth k v) ps (base, c))"
    using assms d by (intro sm_extensional) (simp_all add: fold_set_auth_invar fold_set_auth_get)
  show "snd (fold (\<lambda>(k, v). set_auth k v) qs (base, c)) = snd (fold (\<lambda>(k, v). set_auth k v) ps (base, c))"
    using assms(2) d s by (simp add: fold_set_auth_changed)
qed

section \<open>Decoded maps and the round trip\<close>

definition entry_wf :: "auth_entry \<Rightarrow> bool" where
  "entry_wf e = (case e of None \<Rightarrow> True | Some m \<Rightarrow> sm_invar m \<and> (\<forall>(k, v) \<in> set m. canon v = v \<and> json_wf v))"

definition auths_wf :: "auths \<Rightarrow> bool" where
  "auths_wf as = (sm_invar as \<and> (\<forall>(k, e) \<in> set as. entry_wf e))"

definition ps_wf :: "pullSecret \<Rightarrow> bool" where
  "ps_wf ps = (case Auths ps of None \<Rightarrow> True | Some as \<Rightarrow> auths_wf as)"

definition entries :: "pullSecret \<Rightarrow> auths" where
  "entries ps = (case Auths ps of None \<Rightarrow> [] | Some as \<Rightarrow> as)"

lemma set_sm_put: "set (sm_put k v m) \<subseteq> insert (k, v) (set m)"
  by (induction m) auto

lemma auths_wf_put: "auths_wf as \<Longrightarrow> entry_wf e \<Longrightarrow> auths_wf (sm_put k e as)"
  using set_sm_put [of k e as] by (auto simp: auths_wf_def sm_invar_put)

lemma auths_wf_Nil [simp]: "auths_wf []"
  by (simp add: auths_wf_def sm_invar_def)

lemma ps_wf_entries: "ps_wf ps \<Longrightarrow> auths_wf (entries ps)"
  by (auto simp: ps_wf_def entries_def split: option.splits)

lemma decode_entry_wf: "decode_entry v = Some e \<Longrightarrow> json_wf v \<Longrightarrow> entry_wf e"
proof (induction v rule: decode_entry.induct)
  case (2 ms)
  have "canon w = w \<and> json_wf w" if "(k, w) \<in> set (sm_of_list (map (map_prod id canon) ms))" for k w
  proof -
    from that obtain u where "(k, u) \<in> set ms" "w = canon u" using sm_of_list_subset by fastforce
    then show ?thesis using 2 by (auto intro: canon_wf)
  qed
  then show ?case using 2 by (auto simp: entry_wf_def sm_invar_of_list)
qed (auto simp: entry_wf_def)

lemma decode_entries_wf:
  "decode_entries ms (as, ok) = (as', ok') \<Longrightarrow> auths_wf as \<Longrightarrow> \<forall>m \<in> set ms. json_wf (snd m) \<Longrightarrow> auths_wf as'"
proof (induction ms arbitrary: as ok)
  case (Cons m ms)
  obtain k v where m: "m = (k, v)" by (cases m)
  show ?case
  proof (cases "decode_entry v")
    case (Some e)
    then have "entry_wf e" using decode_entry_wf Cons.prems m by simp
    then show ?thesis using Cons m Some auths_wf_put [of as e k] by simp
  qed (use Cons m in simp)
qed simp

lemma decode_fields_wf:
  "decode_fields ms (as, ok) = (as', ok') \<Longrightarrow> ps_wf \<lparr>Auths = as\<rparr> \<Longrightarrow> \<forall>m \<in> set ms. json_wf (snd m) \<Longrightarrow>
    ps_wf \<lparr>Auths = as'\<rparr>"
proof (induction ms arbitrary: as ok)
  case (Cons m ms)
  obtain k v where m: "m = (k, v)" by (cases m)
  show ?case
  proof (cases "equal_fold k ''auths''")
    case True
    show ?thesis
    proof (cases v)
      case (JObj es)
      obtain as1 ok1 where d: "decode_entries es (entries \<lparr>Auths = as\<rparr>, ok) = (as1, ok1)" by fastforce
      have "auths_wf (entries \<lparr>Auths = as\<rparr>)" using Cons.prems(2) by (rule ps_wf_entries)
      moreover have "\<forall>e \<in> set es. json_wf (snd e)" using Cons.prems(3) m JObj by auto
      ultimately have "auths_wf as1" using decode_entries_wf [OF d] by blast
      then show ?thesis using Cons m True JObj d by (simp add: entries_def ps_wf_def)
    qed (use Cons m True in \<open>auto simp: ps_wf_def\<close>)
  qed (use Cons m in simp)
qed simp

lemma unmarshal_wf: "unmarshal_ps s = Ok (Some ps) \<Longrightarrow> ps_wf ps"
proof -
  assume u: "unmarshal_ps s = Ok (Some ps)"
  then obtain ms where p: "parse_json s = Some (JObj ms)"
    by (auto simp: unmarshal_ps_def split: option.splits json.splits)
  obtain as ok where d: "decode_fields ms (None, True) = (as, ok)" by fastforce
  have "json_wf (JObj ms)" using p by (rule parse_json_wf)
  then have "ps_wf \<lparr>Auths = as\<rparr>"
    using decode_fields_wf [OF d] by (fastforce simp: ps_wf_def)
  moreover have "ps = \<lparr>Auths = as\<rparr>" using u p d by (simp add: unmarshal_ps_def split: if_splits)
  ultimately show ?thesis by simp
qed

lemma decode_entry_json: "entry_wf e \<Longrightarrow> decode_entry (entry_json e) = Some e"
proof (cases e)
  case (Some m)
  assume "entry_wf e"
  then have m: "sm_invar m" "\<forall>(k, v) \<in> set m. canon v = v" using Some by (auto simp: entry_wf_def)
  then have "map (map_prod id canon) m = m" by (intro map_idI) auto
  then show ?thesis using Some m by (simp add: entry_json_def sm_of_list_id)
qed (simp add: entry_json_def)

lemma decode_entries_json:
  "\<forall>(k, e) \<in> set es. entry_wf e \<Longrightarrow>
    decode_entries (map (map_prod id entry_json) es) (as, ok) = (fold (\<lambda>(k, v). sm_put k v) es as, ok)"
  by (induction es arbitrary: as) (auto simp: decode_entry_json)

lemma entry_json_wf: "entry_wf e \<Longrightarrow> json_wf (entry_json e)"
  by (auto simp: entry_wf_def entry_json_def split: option.splits)

lemma ps_json_wf: "ps_wf ps \<Longrightarrow> json_wf (ps_json ps)"
proof (cases "Auths ps")
  case (Some as)
  assume "ps_wf ps"
  then have "\<forall>(k, e) \<in> set as. entry_wf e" using Some by (auto simp: ps_wf_def auths_wf_def)
  then have "\<forall>(k, e) \<in> set as. json_wf (entry_json e)"
    using entry_json_wf by blast
  then show ?thesis using Some by (auto simp: ps_json_def)
qed (simp add: ps_json_def)

text \<open>Reading back what was written: only an empty map becomes a nil one.\<close>

lemma marshal_round_trip:
  assumes "ps_wf ps"
  shows "unmarshal_ps (marshal_ps ps) = Ok (Some \<lparr>Auths = if entries ps = [] then None else Some (entries ps)\<rparr>)"
proof -
  have p: "parse_json (marshal_ps ps) = Some (ps_json ps)"
    unfolding marshal_ps_def using assms by (intro parse_print ps_json_wf)
  show ?thesis
  proof (cases "entries ps = []")
    case True
    then have "ps_json ps = JObj []" by (auto simp: entries_def ps_json_def split: option.splits)
    then show ?thesis using p True by (simp add: unmarshal_ps_def)
  next
    case False
    then have j: "ps_json ps = JObj [(''auths'', JObj (map (map_prod id entry_json) (entries ps)))]"
      by (auto simp: entries_def ps_json_def split: option.splits)
    have wf: "auths_wf (entries ps)" using assms by (rule ps_wf_entries)
    then have "decode_entries (map (map_prod id entry_json) (entries ps)) ([], True) = (sm_of_list (entries ps), True)"
      by (subst decode_entries_json) (auto simp: auths_wf_def sm_of_list_def)
    then have "decode_entries (map (map_prod id entry_json) (entries ps)) ([], True) = (entries ps, True)"
      using wf by (simp add: sm_of_list_id auths_wf_def)
    then show ?thesis using p False j by (simp add: unmarshal_ps_def)
  qed
qed

lemma marshal_nonempty: "ps_wf ps \<Longrightarrow> or_empty (marshal_ps ps) = marshal_ps ps"
  using print_nonempty [OF ps_json_wf] by (simp add: or_empty_def marshal_ps_def)

lemma fold_set_auth_wf:
  "auths_wf m \<Longrightarrow> \<forall>(k, e) \<in> set es. entry_wf e \<Longrightarrow> auths_wf (fst (fold (\<lambda>(k, v). set_auth k v) es (m, c)))"
proof (induction es arbitrary: m c)
  case (Cons e es)
  obtain k v where e: "e = (k, v)" by (cases e)
  have "auths_wf (fst (set_auth k v (m, c)))" using Cons.prems e auths_wf_put by (simp add: set_auth_def)
  then show ?case using Cons e by (cases "set_auth k v (m, c)") simp
qed simp

lemma ps_json_entries:
  "ps_json ps = (if entries ps = [] then JObj [] else JObj [(''auths'', JObj (map (map_prod id entry_json) (entries ps)))])"
  by (auto simp: ps_json_def entries_def split: option.splits)

lemma merge_auths_get:
  assumes "ps_wf b" "ps_wf p"
  shows "sm_get (entries \<lparr>Auths = fst (merge_auths (Auths b) (Auths p))\<rparr>) k = over (entries p) (entries b) k"
    and "snd (merge_auths (Auths b) (Auths p)) = (\<exists>k. over (entries p) (entries b) k \<noteq> sm_get (entries b) k)"
    and "ps_wf \<lparr>Auths = fst (merge_auths (Auths b) (Auths p))\<rparr>"
proof -
  have d: "distinct (map fst (entries p))"
    using ps_wf_entries [OF assms(2)] by (simp add: auths_wf_def sm_invar_distinct)
  have nil: "over [] m = sm_get m" for m by (simp add: over_def fun_eq_iff)
  let ?f = "fold (\<lambda>(k, v). set_auth k v) (entries p) (entries b, False)"
  have eq: "merge_auths (Auths b) (Auths p) = (if entries p = [] then (Auths b, False) else (Some (fst ?f), snd ?f))"
    by (auto simp: merge_auths_def entries_def split: option.splits list.splits prod.splits)
  have get: "sm_get (fst ?f) j = over (entries p) (entries b) j" for j
    using d by (rule fold_set_auth_get)
  show "sm_get (entries \<lparr>Auths = fst (merge_auths (Auths b) (Auths p))\<rparr>) k = over (entries p) (entries b) k"
    using get eq nil by (simp add: entries_def)
  have ex: "(\<exists>(k, v) \<in> set (entries p). auth_at (entries b) k \<noteq> v) \<longleftrightarrow> (\<exists>k. over (entries p) (entries b) k \<noteq> sm_get (entries b) k)"
  proof
    assume "\<exists>(k, v) \<in> set (entries p). auth_at (entries b) k \<noteq> v"
    then obtain k v where "(k, v) \<in> set (entries p)" "auth_at (entries b) k \<noteq> v" by blast
    then show "\<exists>k. over (entries p) (entries b) k \<noteq> sm_get (entries b) k"
      using d by (cases v; intro exI [of _ k]) (auto simp: over_def auth_at_def split: option.splits)
  next
    assume "\<exists>k. over (entries p) (entries b) k \<noteq> sm_get (entries b) k"
    then obtain k where k: "over (entries p) (entries b) k \<noteq> sm_get (entries b) k" by blast
    then obtain v where "sm_get (entries p) k = Some v" by (auto simp: over_def split: option.splits)
    moreover from this k have "auth_at (entries b) k \<noteq> v"
      by (auto simp: over_def auth_at_def split: option.splits if_splits)
    ultimately show "\<exists>(k, v) \<in> set (entries p). auth_at (entries b) k \<noteq> v" by (auto dest: map_of_SomeD)
  qed
  show "snd (merge_auths (Auths b) (Auths p)) = (\<exists>k. over (entries p) (entries b) k \<noteq> sm_get (entries b) k)"
    using eq ex fold_set_auth_changed [OF d, of "entries b" False] nil by simp
  have "auths_wf (fst ?f)"
    by (rule fold_set_auth_wf [OF ps_wf_entries [OF assms(1)]])
      (rule conjunct2 [OF ps_wf_entries [OF assms(2), unfolded auths_wf_def]])
  then show "ps_wf \<lparr>Auths = fst (merge_auths (Auths b) (Auths p))\<rparr>"
    using eq assms(1) by (simp add: ps_wf_def)
qed

lemma entries_norm [simp]: "entries \<lparr>Auths = if as = [] then None else Some as\<rparr> = as"
  by (simp add: entries_def)

lemma entries_Some [simp]: "entries \<lparr>Auths = Some as\<rparr> = as"
  by (simp add: entries_def)

text \<open>Merge on texts that decode.\<close>

lemma Merge_value:
  assumes "unmarshal_ps (or_empty base) = Ok (Some b)" "unmarshal_ps (or_empty ps) = Ok (Some p)"
  shows "Merge base ps = Ok (marshal_ps \<lparr>Auths = fst (merge_auths (Auths b) (Auths p))\<rparr>, snd (merge_auths (Auths b) (Auths p)))"
  using assms by (simp add: Merge_def split: prod.splits)

lemma set_profiles_get:
  "sm_get (fst (fold set_profile rps (as, c))) k =
     (case map_of (rev (map (\<lambda>rp. (rp_Name rp, profile_entry rp)) rps)) k of Some e \<Rightarrow> Some e | None \<Rightarrow> sm_get as k)"
proof -
  have "fst (fold set_profile rps (as, c)) = fold (\<lambda>(k, v). sm_put k v) (map (\<lambda>rp. (rp_Name rp, profile_entry rp)) rps) as"
    by (induction rps arbitrary: as c) (simp_all add: set_profile_def)
  then show ?thesis by (simp add: sm.get_puts)
qed

lemma profile_entry_wf [simp]: "entry_wf (profile_entry rp)"
  by (simp add: entry_wf_def profile_entry_def sm_invar_def)

lemma set_profiles_wf: "auths_wf as \<Longrightarrow> auths_wf (fst (fold set_profile rps (as, c)))"
  by (induction rps arbitrary: as c) (simp_all add: set_profile_def auths_wf_put)

section \<open>Properties\<close>

text \<open>C8: \<open>Merge\<close> of two pull secrets is the second over the first: its text decodes to the map that has
  the second's value for every registry the second has (a null for one the first lacks adds nothing) and
  the first's for the others, and it reports a change exactly when some entry differs from the first's.\<close>

theorem Merge_correct:
  assumes "unmarshal_ps (or_empty base) = Ok (Some b)" "unmarshal_ps (or_empty ps) = Ok (Some p)"
  shows "\<exists>t changed m. Merge base ps = Ok (t, changed) \<and> unmarshal_ps t = Ok (Some m) \<and>
    (\<forall>k. sm_get (entries m) k = over (entries p) (entries b) k) \<and>
    (changed \<longleftrightarrow> (\<exists>k. sm_get (entries m) k \<noteq> sm_get (entries b) k))"
proof -
  let ?r = "merge_auths (Auths b) (Auths p)"
  have wf: "ps_wf b" "ps_wf p" using assms by (simp_all add: unmarshal_wf)
  note g = merge_auths_get [OF wf]
  have "unmarshal_ps (marshal_ps \<lparr>Auths = fst ?r\<rparr>) =
      Ok (Some \<lparr>Auths = if entries \<lparr>Auths = fst ?r\<rparr> = [] then None else Some (entries \<lparr>Auths = fst ?r\<rparr>)\<rparr>)"
    using g(3) by (rule marshal_round_trip)
  moreover have "Merge base ps = Ok (marshal_ps \<lparr>Auths = fst ?r\<rparr>, snd ?r)" by (rule Merge_value [OF assms])
  ultimately show ?thesis using g
    by (intro exI [of _ "marshal_ps \<lparr>Auths = fst ?r\<rparr>"] exI [of _ "snd ?r"]
        exI [of _ "\<lparr>Auths = if entries \<lparr>Auths = fst ?r\<rparr> = [] then None else Some (entries \<lparr>Auths = fst ?r\<rparr>)\<rparr>"]) simp
qed

abbreviation base_secret :: string where
  "base_secret \<equiv> marshal_ps \<lparr>Auths = Some [(''quay.io'', Some [(''auth'', JStr ''b2xk'')])]\<rparr>"

abbreviation other_secret :: string where
  "other_secret \<equiv> marshal_ps \<lparr>Auths = Some [(''quay.io'', Some [(''auth'', JStr ''bmV3'')])]\<rparr>"

lemma one_secret: "unmarshal_ps (or_empty (marshal_ps \<lparr>Auths = Some [(k, Some [(''auth'', JStr v)])]\<rparr>)) =
    Ok (Some \<lparr>Auths = Some [(k, Some [(''auth'', JStr v)])]\<rparr>)"
proof -
  have "ps_wf \<lparr>Auths = Some [(k, Some [(''auth'', JStr v)])]\<rparr>"
    by (simp add: ps_wf_def auths_wf_def entry_wf_def sm_invar_def)
  from marshal_round_trip [OF this] marshal_nonempty [OF this] show ?thesis by (simp add: entries_def)
qed

theorem Merge_correct_witness:
  "\<exists>t changed m. Merge base_secret other_secret = Ok (t, changed) \<and> unmarshal_ps t = Ok (Some m) \<and>
    (\<forall>k. sm_get (entries m) k = over [(''quay.io'', Some [(''auth'', JStr ''bmV3'')])] [(''quay.io'', Some [(''auth'', JStr ''b2xk'')])] k) \<and>
    (changed \<longleftrightarrow> (\<exists>k. sm_get (entries m) k \<noteq> sm_get [(''quay.io'', Some [(''auth'', JStr ''b2xk'')])] k))"
  using Merge_correct [OF one_secret one_secret, of "''quay.io''" "''b2xk''" "''quay.io''" "''bmV3''"]
  by (simp only: entries_def pullSecret.simps option.case)

text \<open>Merging the same secret a second time changes nothing: it reports no change and returns the
  same text.\<close>

theorem Merge_idempotent:
  assumes "unmarshal_ps (or_empty base) = Ok (Some b)" "unmarshal_ps (or_empty ps) = Ok (Some p)"
    and "Merge base ps = Ok (t, changed)"
  shows "Merge t ps = Ok (t, False)"
proof -
  let ?r = "merge_auths (Auths b) (Auths p)" and ?E = "\<lambda>as. entries \<lparr>Auths = as\<rparr>"
  have wf: "ps_wf b" "ps_wf p" using assms by (simp_all add: unmarshal_wf)
  note g = merge_auths_get [OF wf]
  define m where "m = \<lparr>Auths = if ?E (fst ?r) = [] then None else Some (?E (fst ?r))\<rparr>"
  have t: "t = marshal_ps \<lparr>Auths = fst ?r\<rparr>" using Merge_value [OF assms(1,2)] assms(3) by simp
  have u: "unmarshal_ps (or_empty t) = Ok (Some m)"
    using marshal_round_trip [OF g(3)] marshal_nonempty [OF g(3)] t by (simp add: m_def)
  have wfm: "ps_wf m" using u by (rule unmarshal_wf)
  have em: "entries m = ?E (fst ?r)" by (simp add: m_def)
  have over2: "over (entries p) (entries m) k = sm_get (entries m) k" for k
    using g(1) [of k] by (auto simp: em over_def split: option.splits if_splits)
  note g2 = merge_auths_get [OF wfm wf(2)]
  have unchanged: "\<not> snd (merge_auths (Auths m) (Auths p))" using g2(2) over2 by simp
  have "sm_get (?E (fst (merge_auths (Auths m) (Auths p)))) k = sm_get (entries m) k" for k
    using g2(1) [of k] over2 by simp
  then have "?E (fst (merge_auths (Auths m) (Auths p))) = entries m"
    using ps_wf_entries [OF g2(3)] ps_wf_entries [OF wfm]
    by (intro sm_extensional) (simp_all add: auths_wf_def)
  then have "marshal_ps \<lparr>Auths = fst (merge_auths (Auths m) (Auths p))\<rparr> = t"
    by (simp only: t em marshal_ps_def ps_json_entries)
  then show ?thesis using Merge_value [OF u assms(2)] unchanged by simp
qed

theorem Merge_idempotent_witness:
  "Merge (fst (case Merge base_secret other_secret of Ok r \<Rightarrow> r)) other_secret =
     Ok (fst (case Merge base_secret other_secret of Ok r \<Rightarrow> r), False)"
proof -
  obtain t c where "Merge base_secret other_secret = Ok (t, c)"
    using Merge_value [OF one_secret one_secret] by metis
  then show ?thesis using Merge_idempotent [OF one_secret one_secret, of "''quay.io''" "''b2xk''" "''quay.io''" "''bmV3''" t c]
    by simp
qed

text \<open>C17: The secret that \<open>Build\<close> returns carries, for every registry profile, the base64 of its user
  name and password (of the last profile with that name), and for every other registry what the
  customer's secret over the environment's has.\<close>

theorem Build_correct:
  assumes "unmarshal_ps (or_empty (case env ''ARO_PULL_SECRET'' of None \<Rightarrow> [] | Some v \<Rightarrow> v)) = Ok (Some b)"
    and "unmarshal_ps (or_empty ps) = Ok (Some p)"
  shows "\<exists>t m. Build env profiles ps = Ok t \<and> unmarshal_ps t = Ok (Some m) \<and>
    (\<forall>k. sm_get (entries m) k =
       (case map_of (rev (map (\<lambda>rp. (rp_Name rp, profile_entry rp)) profiles)) k of
          Some e \<Rightarrow> Some e | None \<Rightarrow> over (entries p) (entries b) k))"
proof -
  let ?r = "merge_auths (Auths b) (Auths p)" and ?E = "\<lambda>as. entries \<lparr>Auths = as\<rparr>"
  have wf: "ps_wf b" "ps_wf p" using assms by (simp_all add: unmarshal_wf)
  note g = merge_auths_get [OF wf]
  let ?m = "\<lparr>Auths = if ?E (fst ?r) = [] then None else Some (?E (fst ?r))\<rparr>"
  let ?t = "marshal_ps \<lparr>Auths = fst ?r\<rparr>"
  have u: "unmarshal_ps (or_empty ?t) = Ok (Some ?m)"
    using marshal_round_trip [OF g(3)] marshal_nonempty [OF g(3)] by simp
  let ?f = "fst (fold set_profile profiles (?E (fst ?r), False))"
  have "auths_wf ?f" using ps_wf_entries [OF g(3)] by (intro set_profiles_wf) simp
  then have wff: "ps_wf \<lparr>Auths = Some ?f\<rparr>" by (simp add: ps_wf_def)
  have as: "(case Auths ?m of None \<Rightarrow> [] | Some m \<Rightarrow> m) = ?E (fst ?r)" by simp
  have "\<exists>c. SetRegistryProfiles ?t profiles = Ok (marshal_ps \<lparr>Auths = Some ?f\<rparr>, c)"
    using u by (auto simp: SetRegistryProfiles_def Let_def as simp del: pullSecret.simps split: prod.splits)
  then have "Build env profiles ps = Ok (marshal_ps \<lparr>Auths = Some ?f\<rparr>)"
    using Merge_value [OF assms] by (auto simp: Build_def)
  moreover have "unmarshal_ps (marshal_ps \<lparr>Auths = Some ?f\<rparr>) = Ok (Some \<lparr>Auths = if ?f = [] then None else Some ?f\<rparr>)"
    using marshal_round_trip [OF wff] by simp
  ultimately show ?thesis using g(1)
    by (intro exI [of _ "marshal_ps \<lparr>Auths = Some ?f\<rparr>"] exI [of _ "\<lparr>Auths = if ?f = [] then None else Some ?f\<rparr>"])
      (simp only: entries_norm set_profiles_get simp_thms)
qed

theorem Build_correct_witness:
  "\<exists>t m. Build (\<lambda>_. None) [\<lparr>rp_Name = ''arosvc.azurecr.io'', rp_Username = ''u'', rp_Password = ''p''\<rparr>] other_secret = Ok t \<and>
    unmarshal_ps t = Ok (Some m) \<and> sm_get (entries m) ''arosvc.azurecr.io'' = Some (Some [(''auth'', JStr (b64_encode ''u:p''))])"
proof -
  have "unmarshal_ps (or_empty []) = Ok (Some \<lparr>Auths = None\<rparr>)"
    using marshal_round_trip [of "\<lparr>Auths = None\<rparr>"] by (simp add: ps_wf_def entries_def or_empty_def marshal_ps_def ps_json_def)
  then show ?thesis
    using Build_correct [of "\<lambda>_. None" "\<lparr>Auths = None\<rparr>" other_secret _
        "[\<lparr>rp_Name = ''arosvc.azurecr.io'', rp_Username = ''u'', rp_Password = ''p''\<rparr>]", OF _ one_secret]
    by (fastforce simp: profile_entry_def simp del: b64_encode.simps)
qed

text \<open>The text null is a valid pull secret to \<open>Validate\<close>, but as a pull secret it is a nil-pointer
  panic in \<open>Merge\<close> (whatever the base, if that decodes), \<open>SetRegistryProfiles\<close> and \<open>RemoveKey\<close>.\<close>

theorem null_secret_panics:
  assumes "unmarshal_ps (or_empty base) = Ok b"
  shows "Validate ''null'' = Ok () \<and> Merge base ''null'' = Panic \<and> SetRegistryProfiles ''null'' rps = Panic \<and>
    RemoveKey ''null'' key = Panic"
proof -
  have "unmarshal_ps (or_empty ''null'') = Ok None"
    using parse_print [of JNull] by (simp add: unmarshal_ps_def or_empty_def)
  then show ?thesis using assms
    by (simp add: Validate_def Merge_def SetRegistryProfiles_def RemoveKey_def)
qed

theorem null_secret_panics_witness:
  "Validate ''null'' = Ok () \<and> Merge base_secret ''null'' = Panic \<and> SetRegistryProfiles ''null'' [] = Panic \<and>
    RemoveKey ''null'' ''quay.io'' = Panic"
  by (rule null_secret_panics [OF one_secret])

lemma RemoveKey_value:
  assumes "unmarshal_ps (or_empty s) = Ok (Some p)"
  shows "\<exists>t m. RemoveKey s key = Ok t \<and> unmarshal_ps t = Ok (Some m) \<and> entries m = sm_del key (entries p)"
proof -
  have wf: "ps_wf p" using assms by (rule unmarshal_wf)
  have sub: "set (sm_del key m) \<subseteq> set m" for m :: auths by (auto simp: sm_del_def)
  have "ps_wf \<lparr>Auths = map_option (sm_del key) (Auths p)\<rparr>"
    using wf sub by (fastforce simp: ps_wf_def auths_wf_def sm_invar_del split: option.splits)
  from marshal_round_trip [OF this]
  have "unmarshal_ps (marshal_ps \<lparr>Auths = map_option (sm_del key) (Auths p)\<rparr>) =
      Ok (Some \<lparr>Auths = if sm_del key (entries p) = [] then None else Some (sm_del key (entries p))\<rparr>)"
    by (auto simp: entries_def sm_del_def split: option.splits)
  moreover have "RemoveKey s key = Ok (marshal_ps \<lparr>Auths = map_option (sm_del key) (Auths p)\<rparr>)"
    using assms by (simp add: RemoveKey_def)
  ultimately show ?thesis using entries_norm by blast
qed

lemma RemoveKey_without:
  "RemoveKey s key = Ok t \<Longrightarrow> \<exists>m. unmarshal_ps t = Ok (Some m) \<and> sm_get (entries m) key = None"
proof -
  assume r: "RemoveKey s key = Ok t"
  then obtain p where "unmarshal_ps (or_empty s) = Ok (Some p)" by (auto simp: RemoveKey_def outcome_simps)
  from RemoveKey_value [OF this, of key] r show ?thesis by (auto simp: sm_get_del)
qed

text \<open>\<open>RemoveKey\<close> removes exactly the entry of that registry.\<close>

theorem RemoveKey_correct:
  assumes "unmarshal_ps (or_empty s) = Ok (Some p)"
  shows "\<exists>t m. RemoveKey s key = Ok t \<and> unmarshal_ps t = Ok (Some m) \<and> entries m = sm_del key (entries p)"
  using assms by (rule RemoveKey_value)

theorem RemoveKey_correct_witness:
  "\<exists>t m. RemoveKey base_secret ''quay.io'' = Ok t \<and> unmarshal_ps t = Ok (Some m) \<and>
    entries m = sm_del ''quay.io'' [(''quay.io'', Some [(''auth'', JStr ''b2xk'')])]"
  using RemoveKey_correct [OF one_secret, of "''quay.io''" "''b2xk''" "''quay.io''"]
  by (simp only: entries_def pullSecret.simps option.case)

end
