(* ===== verification/Compute_Skus.thy ===== *)
theory Compute_Skus
  imports Go_Errors
begin

text \<open>
  VM sizes: pkg/util/computeskus, and the choices pkg/installer/generateconfig.go makes from them
  (networking type, image generation, availability zones). Pointers of the SDK's types are options,
  and a nil dereference is a panic. The zones are modelled with the array they share: sorting and
  deleting happen in place, in the arrays of the environment's cached SKUs.
\<close>

section \<open>SKUs\<close>

record location_info =
  li_Location :: "string option"
  li_Zones :: "string list option"

record restriction =
  re_Locations :: "string list option option"

record resource_sku =
  rs_Name :: "string option"
  rs_ResourceType :: "string option"
  rs_Locations :: "string list option"
  rs_LocationInfo :: "location_info list option"
  rs_Capabilities :: "(string option \<times> string option) list option"
  rs_Restrictions :: "restriction list option"

type_synonym skus = "(string, resource_sku) gomap"

definition Zones :: "resource_sku \<Rightarrow> string list" where
  "Zones sku =
     (case rs_LocationInfo sku of
        Some (li # lis) \<Rightarrow> (case li_Zones li of None \<Rightarrow> [] | Some zs \<Rightarrow> zs)
      | _ \<Rightarrow> [])"

fun find_capability :: "string \<Rightarrow> (string option \<times> string option) list \<Rightarrow> bool result" where
  "find_capability name [] = Ok False"
| "find_capability name ((n, v) # cs) =
     andThen (deref n) (\<lambda>n'.
       if n' = name then andThen (deref v) (\<lambda>v'. Ok (v' = ''True'')) else find_capability name cs)"

definition HasCapability :: "resource_sku \<Rightarrow> string \<Rightarrow> bool result" where
  "HasCapability sku name =
     (case rs_Capabilities sku of None \<Rightarrow> Ok False | Some cs \<Rightarrow> find_capability name cs)"

fun restricted_in :: "string \<Rightarrow> restriction list \<Rightarrow> bool result" where
  "restricted_in location [] = Ok False"
| "restricted_in location (r # rs) =
     andThen (deref (re_Locations r)) (\<lambda>ls.
     andThen (deref ls) (\<lambda>locations.
       if location \<in> set locations then Ok True else restricted_in location rs))"

definition IsRestricted :: "skus \<Rightarrow> string \<Rightarrow> string \<Rightarrow> bool result" where
  "IsRestricted m location VMSize =
     andThen (deref (sm_get m VMSize)) (\<lambda>sku.
     andThen (deref (rs_Restrictions sku)) (\<lambda>rs. restricted_in location rs))"

definition GetCapabilityMap :: "resource_sku \<Rightarrow> (string, string) gomap \<times> bool" where
  "GetCapabilityMap sku =
     (case rs_Capabilities sku of
        None \<Rightarrow> ([], False)
      | Some cs \<Rightarrow>
          let m = sm_of_list (List.map_filter (\<lambda>c. case c of (Some n, Some v) \<Rightarrow> Some (n, v) | _ \<Rightarrow> None) cs)
          in if cs = [] then ([], False) else (m, m \<noteq> []))"

text \<open>The loop of \<open>FilterVMSizes\<close>: the test of one SKU, then the copy of a part of it.\<close>

definition skipped :: "string \<Rightarrow> resource_sku \<Rightarrow> bool result" where
  "skipped location sku =
     andThen (deref (rs_Locations sku)) (\<lambda>ls.
       case ls of
         [] \<Rightarrow> Ok True
       | l # _ \<Rightarrow>
           if \<not> equal_fold l location then Ok True
           else
             andThen (deref (rs_ResourceType sku)) (\<lambda>t.
               if t \<noteq> ''virtualMachines'' then Ok True
               else andThen (deref (rs_LocationInfo sku)) (\<lambda>lis. Ok (lis = []))))"

definition kept_part :: "resource_sku \<Rightarrow> resource_sku" where
  "kept_part sku = sku\<lparr>rs_ResourceType := None, rs_Locations := None\<rparr>"

definition FilterVMSizes :: "resource_sku list \<Rightarrow> string \<Rightarrow> skus result" where
  "FilterVMSizes skus location =
     foldOk (\<lambda>sku m.
       andThen (skipped location sku) (\<lambda>skip.
         if skip then Ok m
         else andThen (deref (rs_Name sku)) (\<lambda>name. Ok (sm_put name (kept_part sku) m)))) skus []"

section \<open>Choices from a SKU\<close>

definition determineVMNetworkingType :: "resource_sku \<Rightarrow> string result" where
  "determineVMNetworkingType sku =
     andThen (HasCapability sku ''AcceleratedNetworkingEnabled'') (\<lambda>b.
       Ok (if b then ''Accelerated'' else ''Basic''))"

text \<open>\<open>GetHyperVGenerationVersions\<close> of the OpenShift installer: trimmed, upper-cased parts.\<close>

definition is_space :: "char \<Rightarrow> bool" where
  "is_space c = (c \<in> {CHR '' '', CHR 0x09, CHR 0x0A, CHR 0x0B, CHR 0x0C, CHR 0x0D})"

definition trim_space :: "string \<Rightarrow> string" where
  "trim_space s = rev (dropWhile is_space (rev (dropWhile is_space s)))"

definition hyperv_generations :: "(string, string) gomap \<Rightarrow> string list result" where
  "hyperv_generations caps =
     (case sm_get caps ''HyperVGenerations'' of
        None \<Rightarrow> Err (ErrMsg ''unable to determine HyperVGeneration version'')
      | Some v \<Rightarrow> Ok (map (\<lambda>g. to_upper (trim_space g)) (split_on comma v)))"

definition determineSkuSupportsV2Only :: "resource_sku \<Rightarrow> bool result" where
  "determineSkuSupportsV2Only sku =
     (case GetCapabilityMap sku of
        (caps, ok) \<Rightarrow>
          if \<not> ok
          then andThen (deref (rs_Name sku)) (\<lambda>n. Err (ErrMsg (''no capabilities found for SKU '' @ n)))
          else
            (case hyperv_generations caps of
               Err e \<Rightarrow> andThen (deref (rs_Name sku)) (\<lambda>n.
                 Err (Wrapped (''could not fetch HyperV generations for SKU '' @ n) e))
             | Ok gs \<Rightarrow> Ok (''V2'' \<in> set gs \<and> ''V1'' \<notin> set gs)
             | Panic \<Rightarrow> Panic))"

section \<open>Availability zones\<close>

text \<open>
  A slice of a heap of arrays: the array it starts at and its length. \<open>slices.Sort\<close> permutes it in
  place; \<open>slices.DeleteFunc\<close> moves the elements it keeps to the front, clears the rest (as Go does
  from 1.22 on) and returns the shorter slice.
\<close>

type_synonym heap = "nat \<Rightarrow> string list"

record slice =
  sl_array :: nat
  sl_len :: nat

definition contents :: "heap \<Rightarrow> slice \<Rightarrow> string list" where
  "contents h s = take (sl_len s) (h (sl_array s))"

definition slice_ok :: "heap \<Rightarrow> slice \<Rightarrow> bool" where
  "slice_ok h s = (sl_len s \<le> length (h (sl_array s)))"

definition store :: "slice \<Rightarrow> string list \<Rightarrow> heap \<Rightarrow> heap" where
  "store s xs h = h(sl_array s := xs @ drop (length xs) (h (sl_array s)))"

definition slices_Sort :: "slice \<Rightarrow> heap \<Rightarrow> heap" where
  "slices_Sort s h = store s (sort (contents h s)) h"

definition slices_DeleteFunc :: "(string \<Rightarrow> bool) \<Rightarrow> slice \<Rightarrow> heap \<Rightarrow> slice \<times> heap" where
  "slices_DeleteFunc del s h =
     (let kept = filter (\<lambda>x. \<not> del x) (contents h s) in
      (s\<lparr>sl_len := length kept\<rparr>, store s (kept @ replicate (sl_len s - length kept) []) h))"

definition CONTROL_PLANE_MACHINE_COUNT :: nat where "CONTROL_PLANE_MACHINE_COUNT = 3"

definition basicAZs :: "string list" where "basicAZs = [''1'', ''2'', ''3'']"

definition control_plane_error :: "nat \<Rightarrow> go_error" where
  "control_plane_error n = ErrMsg (''cluster creation with '' @ show_nat n @ '' zones and '' @
     show_nat CONTROL_PLANE_MACHINE_COUNT @ '' control plane replicas is unsupported'')"

definition worker_error :: "nat \<Rightarrow> go_error" where
  "worker_error n = ErrMsg (''cluster creation with a worker SKU available on less than 3 zones is unsupported (available: '' @
     show_nat n @ '')'')"

text \<open>A variable holding a slice: of a SKU's array, or one made here.\<close>

datatype zones_var = Shared slice | Fresh "string list"

fun zones_read :: "heap \<Rightarrow> zones_var \<Rightarrow> string list" where
  "zones_read h (Shared s) = contents h s"
| "zones_read h (Fresh xs) = xs"

fun zones_sort :: "zones_var \<Rightarrow> heap \<Rightarrow> zones_var \<times> heap" where
  "zones_sort (Shared s) h = (Shared s, slices_Sort s h)"
| "zones_sort (Fresh xs) h = (Fresh (sort xs), h)"

definition determineAvailabilityZones ::
  "string \<Rightarrow> slice \<Rightarrow> slice \<Rightarrow> heap \<Rightarrow> (string list \<times> string list) result \<times> heap" where
  "determineAvailabilityZones expanded cp w h0 =
     (let h1 = slices_Sort cp h0;
          h2 = slices_Sort w h1;
          onlyBasicAZs = (\<lambda>s. s \<notin> set basicAZs);
          (cp', h3) = (if expanded = [] then slices_DeleteFunc onlyBasicAZs cp h2 else (cp, h2));
          (w', h4) = (if expanded = [] then slices_DeleteFunc onlyBasicAZs w h3 else (w, h3))
      in
        if sl_len cp' \<noteq> 0 \<and> sl_len cp' < CONTROL_PLANE_MACHINE_COUNT
        then (Err (control_plane_error (sl_len cp')), h4)
        else
          let cpz = (if sl_len cp' = 0 then Fresh [[]] else Shared (cp'\<lparr>sl_len := CONTROL_PLANE_MACHINE_COUNT\<rparr>)) in
          if sl_len w' \<noteq> 0 \<and> sl_len w' < 3
          then (Err (worker_error (sl_len w')), h4)
          else
            let wz = (if sl_len w' = 0 then Fresh [[]] else Shared w');
                (wz', h5) = zones_sort wz h4
            in (Ok (zones_read h5 cpz, zones_read h5 wz'), h5))"

text \<open>Specification, on lists: which zones are eligible, and what is chosen from them.\<close>

definition eligible :: "string \<Rightarrow> string list \<Rightarrow> string list" where
  "eligible expanded zs = sort (if expanded = [] then filter (\<lambda>z. z \<in> set basicAZs) zs else zs)"

definition chosen_zones :: "string list \<Rightarrow> string list \<Rightarrow> (string list \<times> string list) result" where
  "chosen_zones cps ws =
     (if cps \<noteq> [] \<and> length cps < 3 then Err (control_plane_error (length cps))
      else if ws \<noteq> [] \<and> length ws < 3 then Err (worker_error (length ws))
      else Ok (if cps = [] then [[]] else take 3 cps, if ws = [] then [[]] else ws))"

section \<open>Lemmas\<close>

lemma contents_store:
  "slice_ok h s \<Longrightarrow> length xs = sl_len s \<Longrightarrow> contents (store s xs h) t =
     (if sl_array t = sl_array s then take (sl_len t) (xs @ drop (sl_len s) (h (sl_array s))) else contents h t)"
  by (simp add: contents_def store_def)

lemma slice_ok_store [simp]: "length xs = sl_len s \<Longrightarrow> slice_ok h s \<Longrightarrow> slice_ok h t \<Longrightarrow> slice_ok (store s xs h) t"
  by (auto simp: slice_ok_def store_def)

lemma length_contents [simp]: "slice_ok h s \<Longrightarrow> length (contents h s) = sl_len s"
  by (simp add: contents_def slice_ok_def)

lemma contents_store_same: "slice_ok h s \<Longrightarrow> length xs = sl_len s \<Longrightarrow> contents (store s xs h) s = xs"
  by (simp add: contents_store)

lemma contents_store_other: "sl_array t \<noteq> sl_array s \<Longrightarrow> contents (store s xs h) t = contents h t"
  by (simp add: contents_def store_def)

lemma store_contents: "slice_ok h s \<Longrightarrow> store s (contents h s) h = h"
  by (auto simp: store_def contents_def slice_ok_def)

lemma sort_filter: "sort (filter P (xs :: string list)) = filter P (sort xs)"
  by (rule properties_for_sort) (simp_all add: sorted_wrt_filter)

lemma filter_padded: "\<not> P x \<Longrightarrow> filter P (filter P ys @ replicate n x) = filter P ys"
  by (induction n) simp_all

text \<open>Sorting both slices, whether or not they are the same one.\<close>

lemma sort_both:
  assumes "slice_ok h cp" "slice_ok h w" "sl_array cp = sl_array w \<longrightarrow> cp = w"
  defines "h2 \<equiv> slices_Sort w (slices_Sort cp h)"
  shows "contents h2 cp = sort (contents h cp)" "contents h2 w = sort (contents h w)" "slice_ok h2 cp" "slice_ok h2 w"
proof -
  let ?h1 = "slices_Sort cp h"
  have ok: "slice_ok ?h1 cp" "slice_ok ?h1 w" using assms(1,2) by (simp_all add: slices_Sort_def)
  have c1: "contents ?h1 cp = sort (contents h cp)"
    using assms(1) by (simp add: slices_Sort_def contents_store_same)
  have w1: "sort (contents ?h1 w) = sort (contents h w)"
    using assms(3) c1 by (cases "sl_array cp = sl_array w") (simp_all add: slices_Sort_def contents_store_other sorted_sort_id)
  show "slice_ok h2 cp" "slice_ok h2 w" using ok by (simp_all add: h2_def slices_Sort_def [of w])
  show w2: "contents h2 w = sort (contents h w)"
    using ok w1 assms(2) by (simp add: h2_def slices_Sort_def [of w] contents_store_same)
  show "contents h2 cp = sort (contents h cp)"
    using c1 w2 assms(3) by (cases "sl_array cp = sl_array w")
      (simp_all add: h2_def slices_Sort_def [of w] contents_store_other)
qed

lemma delete_one:
  assumes "slice_ok h s" "slices_DeleteFunc del s h = (s', h')"
  shows "contents h' s' = filter (\<lambda>x. \<not> del x) (contents h s)" "sl_array s' = sl_array s"
    "sl_len s' = length (filter (\<lambda>x. \<not> del x) (contents h s))" "slice_ok h' s'" "slice_ok h t \<Longrightarrow> slice_ok h' t"
    "contents h' s = contents h' s' @ replicate (sl_len s - sl_len s') []"
    "sl_array t \<noteq> sl_array s \<Longrightarrow> contents h' t = contents h t"
proof -
  let ?k = "filter (\<lambda>x. \<not> del x) (contents h s)"
  have le: "length ?k \<le> sl_len s" using length_filter_le [of _ "contents h s"] assms(1) by simp
  have s': "s' = s\<lparr>sl_len := length ?k\<rparr>" and h': "h' = store s (?k @ replicate (sl_len s - length ?k) []) h"
    using assms(2) by (simp_all add: slices_DeleteFunc_def Let_def)
  have len: "length (?k @ replicate (sl_len s - length ?k) []) = sl_len s" using le by simp
  show "sl_array s' = sl_array s" "sl_len s' = length ?k" using s' by simp_all
  have all: "contents h' s = ?k @ replicate (sl_len s - length ?k) []"
    using assms(1) len h' contents_store_same by metis
  have "contents h' s' = take (length ?k) (contents h' s)"
    using s' le by (simp add: contents_def min_def)
  then show c: "contents h' s' = ?k" using all by simp
  show "contents h' s = contents h' s' @ replicate (sl_len s - sl_len s') []" using all c s' by simp
  show "slice_ok h' t" if "slice_ok h t" for t using that assms(1) len h' slice_ok_store by metis
  then have "slice_ok h' s" using assms(1) by blast
  then show "slice_ok h' s'" using s' le by (simp add: slice_ok_def)
  show "contents h' t = contents h t" if "sl_array t \<noteq> sl_array s" using that h' contents_store_other by metis
qed

lemma delete_both:
  assumes ok: "slice_ok h cp" "slice_ok h w" and al: "sl_array cp = sl_array w \<longrightarrow> cp = w" and del: "del []"
    and d1: "slices_DeleteFunc del cp h = (cp', h3)" and d2: "slices_DeleteFunc del w h3 = (w', h4)"
  shows "contents h4 cp' = filter (\<lambda>x. \<not> del x) (contents h cp)" "contents h4 w' = filter (\<lambda>x. \<not> del x) (contents h w)"
    "slice_ok h4 cp'" "slice_ok h4 w'"
proof -
  note D1 = delete_one [OF ok(1) d1]
  have okw: "slice_ok h3 w" using D1(5) ok(2) .
  note D2 = delete_one [OF okw d2]
  show "slice_ok h4 w'" "slice_ok h4 cp'" using D2(4) D2(5) D1(4) by blast+
  show "contents h4 w' = filter (\<lambda>x. \<not> del x) (contents h w)"
  proof (cases "sl_array cp = sl_array w")
    case True
    then have "cp = w" using al by simp
    then have "contents h3 w = filter (\<lambda>x. \<not> del x) (contents h w) @ replicate (sl_len w - sl_len cp') []"
      using D1(1,6) by simp
    then show ?thesis using D2(1) del filter_padded [of "\<lambda>x. \<not> del x"] by simp
  next
    case False
    then show ?thesis using D2(1) D1(7) [of w] by simp
  qed
  show "contents h4 cp' = filter (\<lambda>x. \<not> del x) (contents h cp)"
  proof (cases "sl_array cp = sl_array w")
    case True
    then have cw: "cp = w" using al by simp
    have "sl_len w' = sl_len cp'"
      using D2(3) D1(1,3,6) cw del filter_padded [of "\<lambda>x. \<not> del x"] by simp
    moreover have "sl_array w' = sl_array cp'" using D1(2) D2(2) cw by simp
    ultimately have "contents h4 cp' = contents h4 w'" by (simp add: contents_def)
    then show ?thesis using \<open>contents h4 w' = filter (\<lambda>x. \<not> del x) (contents h w)\<close> cw by simp
  next
    case False
    then show ?thesis using D2(7) [of cp'] D1(1,2) by simp
  qed
qed

lemma take_slice: "slice_ok h s \<Longrightarrow> n \<le> sl_len s \<Longrightarrow> contents h (s\<lparr>sl_len := n\<rparr>) = take n (contents h s)"
  by (simp add: contents_def min_def)

lemma final_sort: "slice_ok h s \<Longrightarrow> sorted (contents h s) \<Longrightarrow> slices_Sort s h = h"
  by (simp add: slices_Sort_def sorted_sort_id store_contents)

lemma zones_choice:
  assumes ok: "slice_ok h4 cp'" "slice_ok h4 w'" and c: "contents h4 cp' = cps" "contents h4 w' = ws" "sorted ws"
  shows "(if sl_len cp' \<noteq> 0 \<and> sl_len cp' < CONTROL_PLANE_MACHINE_COUNT
        then (Err (control_plane_error (sl_len cp')), h4)
        else
          let cpz = (if sl_len cp' = 0 then Fresh [[]] else Shared (cp'\<lparr>sl_len := CONTROL_PLANE_MACHINE_COUNT\<rparr>)) in
          if sl_len w' \<noteq> 0 \<and> sl_len w' < 3
          then (Err (worker_error (sl_len w')), h4)
          else
            let wz = (if sl_len w' = 0 then Fresh [[]] else Shared w');
                (wz', h5) = zones_sort wz h4
            in (Ok (zones_read h5 cpz, zones_read h5 wz'), h5)) = (chosen_zones cps ws, h4)"
proof -
  have len: "sl_len cp' = length cps" "sl_len w' = length ws" using ok c by (metis length_contents)+
  have t: "contents h4 (cp'\<lparr>sl_len := 3\<rparr>) = take 3 cps" if "3 \<le> length cps"
    using take_slice [OF ok(1)] c(1) len that by simp
  have s: "slices_Sort w' h4 = h4" using final_sort [OF ok(2)] c by simp
  show ?thesis
    using c len t s by (auto simp: chosen_zones_def Let_def CONTROL_PLANE_MACHINE_COUNT_def)
qed

section \<open>Properties\<close>

lemma zones_spec:
  assumes "slice_ok h cp" "slice_ok h w" "sl_array cp = sl_array w \<longrightarrow> cp = w"
  shows "fst (determineAvailabilityZones expanded cp w h) =
    chosen_zones (eligible expanded (contents h cp)) (eligible expanded (contents h w))"
proof -
  let ?h2 = "slices_Sort w (slices_Sort cp h)" and ?del = "\<lambda>s. s \<notin> set basicAZs"
  note S = sort_both [OF assms]
  show ?thesis
  proof (cases "expanded = []")
    case True
    obtain cp' h3 where d1: "slices_DeleteFunc ?del cp ?h2 = (cp', h3)" by fastforce
    obtain w' h4 where d2: "slices_DeleteFunc ?del w h3 = (w', h4)" by fastforce
    have "?del []" by (simp add: basicAZs_def)
    note D = delete_both [OF S(3,4) assms(3) this d1 d2]
    have "eligible expanded zs = filter (\<lambda>x. \<not> ?del x) (sort zs)" for zs
      using True by (simp add: eligible_def sort_filter)
    then have "contents h4 cp' = eligible expanded (contents h cp)" "contents h4 w' = eligible expanded (contents h w)"
      using D(1,2) S(1,2) by simp_all
    moreover have "sorted (eligible expanded zs)" for zs by (simp add: eligible_def)
    ultimately show ?thesis
      using zones_choice [OF D(3,4)] True d1 d2 by (simp add: determineAvailabilityZones_def Let_def)
  next
    case False
    then show ?thesis
      using zones_choice [OF S(3,4) S(1,2)] S by (simp add: determineAvailabilityZones_def Let_def eligible_def)
  qed
qed

text \<open>C14: Choosing the availability zones: the result depends on the SKUs' zones only as lists. It is the
  eligible zones in order (the first three for the control plane), the non-zonal marker where there are
  none, and an error where there are one or two. Sorting and deleting in place do no harm, even when
  both SKUs are the same cached object and share one array.\<close>

theorem zones_correct:
  assumes "slice_ok h cp" "slice_ok h w" "sl_array cp = sl_array w \<longrightarrow> cp = w"
  shows "fst (determineAvailabilityZones expanded cp w h) =
    chosen_zones (eligible expanded (contents h cp)) (eligible expanded (contents h w))"
  using assms by (rule zones_spec)

theorem zones_correct_witness:
  "fst (determineAvailabilityZones [] \<lparr>sl_array = 0, sl_len = 4\<rparr> \<lparr>sl_array = 0, sl_len = 4\<rparr> (\<lambda>_. [''4'', ''3'', ''1'', ''2''])) =
    chosen_zones (eligible [] [''4'', ''3'', ''1'', ''2'']) (eligible [] [''4'', ''3'', ''1'', ''2''])"
  using zones_correct [of "\<lambda>_. [''4'', ''3'', ''1'', ''2'']" "\<lparr>sl_array = 0, sl_len = 4\<rparr>" "\<lparr>sl_array = 0, sl_len = 4\<rparr>" "[]"]
  by (simp add: slice_ok_def contents_def)

definition complete_sku :: "resource_sku \<Rightarrow> bool" where
  "complete_sku sku = (rs_Name sku \<noteq> None \<and> rs_ResourceType sku \<noteq> None \<and> rs_Locations sku \<noteq> None \<and> rs_LocationInfo sku \<noteq> None)"

definition vm_in :: "string \<Rightarrow> resource_sku \<Rightarrow> bool" where
  "vm_in location sku =
     ((case the (rs_Locations sku) of [] \<Rightarrow> False | l # _ \<Rightarrow> equal_fold l location) \<and>
      rs_ResourceType sku = Some ''virtualMachines'' \<and> rs_LocationInfo sku \<noteq> Some [])"

lemma skipped_vm: "complete_sku sku \<Longrightarrow> skipped location sku = Ok (\<not> vm_in location sku)"
  by (auto simp: skipped_def complete_sku_def vm_in_def split: list.splits)

text \<open>C16: \<open>FilterVMSizes\<close> of SKUs without nil pointers keeps exactly the virtual machine sizes whose first
  location is the region (without regard to case) and that have location information, by name; the
  part it copies has the zones and the capabilities of the SKU, so the choices made from it are the same.\<close>

theorem FilterVMSizes_correct:
  assumes "\<forall>sku \<in> set skus. complete_sku sku"
  shows "FilterVMSizes skus location =
      Ok (sm_of_list (map (\<lambda>sku. (the (rs_Name sku), kept_part sku)) (filter (vm_in location) skus))) \<and>
    (\<forall>sku. Zones (kept_part sku) = Zones sku \<and> GetCapabilityMap (kept_part sku) = GetCapabilityMap sku \<and>
      determineVMNetworkingType (kept_part sku) = determineVMNetworkingType sku)"
proof
  let ?step = "\<lambda>sku m. if vm_in location sku then sm_put (the (rs_Name sku)) (kept_part sku) m else m"
  have "foldOk (\<lambda>sku m.
       andThen (skipped location sku) (\<lambda>skip.
         if skip then Ok m
         else andThen (deref (rs_Name sku)) (\<lambda>name. Ok (sm_put name (kept_part sku) m)))) skus [] = Ok (fold ?step skus [])"
    by (rule foldOk_total) (use assms in \<open>auto simp: skipped_vm complete_sku_def\<close>)
  moreover have "fold ?step skus m = fold (\<lambda>(k, v). sm_put k v) (map (\<lambda>sku. (the (rs_Name sku), kept_part sku)) (filter (vm_in location) skus)) m" for m
    by (induction skus arbitrary: m) simp_all
  ultimately show "FilterVMSizes skus location =
      Ok (sm_of_list (map (\<lambda>sku. (the (rs_Name sku), kept_part sku)) (filter (vm_in location) skus)))"
    by (simp add: FilterVMSizes_def sm_of_list_def)
qed (simp add: Zones_def GetCapabilityMap_def determineVMNetworkingType_def HasCapability_def kept_part_def)

definition demo_sku :: resource_sku where
  "demo_sku = \<lparr>rs_Name = Some ''Standard_D8s_v3'', rs_ResourceType = Some ''virtualMachines'',
     rs_Locations = Some [''eastus''], rs_LocationInfo = Some [\<lparr>li_Location = Some ''eastus'', li_Zones = Some [''1'', ''3'', ''2'']\<rparr>],
     rs_Capabilities = Some [(Some ''HyperVGenerations'', Some ''V1,V2'')], rs_Restrictions = Some []\<rparr>"

theorem FilterVMSizes_correct_witness:
  "FilterVMSizes [demo_sku] ''eastus'' = Ok [(''Standard_D8s_v3'', kept_part demo_sku)]"
proof -
  have "complete_sku demo_sku" "vm_in ''eastus'' demo_sku" "the (rs_Name demo_sku) = ''Standard_D8s_v3''"
    by (simp_all add: complete_sku_def demo_sku_def vm_in_def)
  then show ?thesis using FilterVMSizes_correct [of "[demo_sku]" "''eastus''"] by (simp add: sm_of_list_def)
qed

end
