(* ===== verification/Pem.thy ===== *)
theory Pem
  imports Key_Vault
begin

text \<open>
  PEM texts and the certificates in them: pkg/util/pem/pem.go and pkg/util/tls, with the parts of Go's
  encoding/pem they use, and the key vault's certificate secret. Keys and certificates are carried
  by their DER bytes; the ASN.1 functions of crypto/x509 are the parameters of \<open>x509_lib\<close>.
\<close>

section \<open>encoding/pem\<close>

record block =
  pb_Type :: string
  pb_Bytes :: string

text \<open>\<open>bytes.Cut\<close>: the text before and after the first occurrence of a separator.\<close>

fun cut :: "string \<Rightarrow> string \<Rightarrow> (string \<times> string) option" where
  "cut [] sep = (if sep = [] then Some ([], []) else None)"
| "cut (x # xs) sep =
     (if prefix sep (x # xs) then Some ([], drop (length sep) (x # xs))
      else map_option (\<lambda>(a, b). (x # a, b)) (cut xs sep))"

definition blank :: "char \<Rightarrow> bool" where
  "blank c = (c = CHR '' '' \<or> c = CHR 0x09)"

definition trim_right :: "string \<Rightarrow> string" where
  "trim_right s = rev (dropWhile blank (rev s))"

definition getLine :: "string \<Rightarrow> string \<times> string" where
  "getLine s =
     (case index_byte s nl of
        None \<Rightarrow> (trim_right s, [])
      | Some i \<Rightarrow> (trim_right (take (if 0 < i \<and> s ! (i - 1) = CHR 0x0D then i - 1 else i) s), drop (Suc i) s))"

definition dashes :: string where "dashes = ''-----''"
definition pem_begin :: string where "pem_begin = ''-----BEGIN ''"
definition pem_end :: string where "pem_end = ''-----END ''"

lemma getLine_shorter: "s \<noteq> [] \<Longrightarrow> length (snd (getLine s)) < length s"
  using index_byte_Some [of s nl] by (auto simp: getLine_def split: option.splits)

lemma getLine_le: "length (snd (getLine s)) \<le> length s"
  using getLine_shorter [of s] by (cases s) (auto simp: getLine_def)

lemma cut_shorter: "cut s sep = Some (a, b) \<Longrightarrow> length b + length sep \<le> length s"
  by (induction s sep arbitrary: a b rule: cut.induct)
    (auto split: if_splits prod.splits dest: prefix_length_le)

text \<open>The header lines: whether there is one, and the text after them; none if the text ends.\<close>

function pem_headers :: "string \<Rightarrow> (bool \<times> string) option" where
  "pem_headers s =
     (if s = [] then None
      else if CHR '':'' \<notin> set (fst (getLine s)) then Some (False, s)
      else map_option (\<lambda>(h, r). (True, r)) (pem_headers (snd (getLine s))))"
  by pat_completeness auto
termination
  by (relation "measure length") (auto simp: getLine_shorter)

declare pem_headers.simps [simp del]

datatype attempt = Found block string | Retry string | NoBlock

text \<open>The body and the text after the end marker; without headers the marker may be the first line.\<close>

definition pem_body :: "bool \<Rightarrow> string \<Rightarrow> (string \<times> string) option" where
  "pem_body headers rest =
     (if \<not> headers \<and> prefix pem_end rest then Some ([], drop (length pem_end) rest)
      else cut rest (nl # pem_end))"

text \<open>What the decoder makes of the text after \<open>-----BEGIN \<close>: a block, another try further on, or the end.\<close>

definition pem_attempt :: "string \<Rightarrow> attempt" where
  "pem_attempt s =
     (let (typeLine, rest) = getLine s in
      if \<not> suffix dashes typeLine then Retry rest
      else
        let typ = take (length typeLine - length dashes) typeLine in
        (case pem_headers rest of
           None \<Rightarrow> NoBlock
         | Some (headers, rest) \<Rightarrow>
             (case pem_body headers rest of
                None \<Rightarrow> Retry rest
              | Some (body, trailer) \<Rightarrow>
                  let n = length typ + length dashes in
                  if length trailer < n \<or> \<not> prefix typ (take n trailer) \<or> \<not> suffix dashes (take n trailer)
                    \<or> fst (getLine (drop n trailer)) \<noteq> []
                  then Retry rest
                  else (case b64_decode (filter (\<lambda>c. \<not> blank c) body) of
                     Ok bytes \<Rightarrow> Found \<lparr>pb_Type = typ, pb_Bytes = bytes\<rparr> (snd (getLine trailer))
                   | _ \<Rightarrow> Retry rest))))"

definition pem_start :: "string \<Rightarrow> string option" where
  "pem_start s =
     (if prefix pem_begin s then Some (drop (length pem_begin) s) else map_option snd (cut s (nl # pem_begin)))"

lemma pem_headers_le: "pem_headers s = Some (h, r) \<Longrightarrow> length r \<le> length s"
proof (induction s arbitrary: h r rule: pem_headers.induct)
  case (1 s)
  from "1.prems" have ne: "s \<noteq> []" by (auto simp: pem_headers.simps)
  show ?case
  proof (cases "CHR '':'' \<in> set (fst (getLine s))")
    case True
    then obtain h' where "pem_headers (snd (getLine s)) = Some (h', r)"
      using "1.prems" ne by (subst (asm) pem_headers.simps) (auto split: prod.splits)
    then show ?thesis using "1.IH" [OF ne] True getLine_shorter [OF ne] by fastforce
  next
    case False
    then show ?thesis using "1.prems" ne by (subst (asm) pem_headers.simps) auto
  qed
qed

lemma pem_attempt_shorter:
  "pem_attempt s = Retry r \<Longrightarrow> length r \<le> length s" and pem_found_shorter: "pem_attempt s = Found b r \<Longrightarrow> length r \<le> length s"
proof -
  obtain line rest where gl: "getLine s = (line, rest)" by fastforce
  have rest: "length rest \<le> length s" using getLine_le [of s] gl by simp
  have tr: "length t \<le> length q" if "pem_body h q = Some (bd, t)" for h q bd t
    using that cut_shorter [of q "nl # pem_end" bd t] by (auto simp: pem_body_def split: if_splits)
  show "pem_attempt s = Retry r \<Longrightarrow> length r \<le> length s"
    using rest by (auto simp: pem_attempt_def gl Let_def split: if_splits option.splits outcome.splits dest!: pem_headers_le)
  assume "pem_attempt s = Found b r"
  then obtain h q bd t where "pem_headers rest = Some (h, q)" "pem_body h q = Some (bd, t)" "r = snd (getLine t)"
    by (auto simp: pem_attempt_def gl Let_def split: if_splits option.splits prod.splits outcome.splits)
  then show "length r \<le> length s" using tr getLine_le [of t] rest pem_headers_le by fastforce
qed

lemma pem_start_shorter: "pem_start s = Some r \<Longrightarrow> length r < length s"
  using cut_shorter [of s "nl # pem_begin"] prefix_length_le [of pem_begin s]
  by (fastforce simp: pem_start_def pem_begin_def split: if_splits)

function pem_decode :: "string \<Rightarrow> (block \<times> string) option" where
  "pem_decode s =
     (case pem_start s of
        None \<Rightarrow> None
      | Some r \<Rightarrow>
          (case pem_attempt r of
             Found b r' \<Rightarrow> Some (b, r')
           | Retry r' \<Rightarrow> pem_decode r'
           | NoBlock \<Rightarrow> None))"
  by pat_completeness auto
termination
  by (relation "measure length") (auto dest!: pem_start_shorter pem_attempt_shorter)

declare pem_decode.simps [simp del]

lemma pem_decode_shorter: "pem_decode s = Some (b, r) \<Longrightarrow> length r < length s"
proof (induction s arbitrary: b r rule: pem_decode.induct)
  case (1 s)
  then obtain r1 where r1: "pem_start s = Some r1" by (subst (asm) pem_decode.simps) (auto split: option.splits)
  show ?case
    using "1.prems" "1.IH" [OF r1] pem_start_shorter [OF r1] pem_attempt_shorter [of r1] pem_found_shorter [of r1]
    by (subst (asm) pem_decode.simps) (fastforce simp: r1 split: attempt.splits)
qed

fun lines64 :: "string \<Rightarrow> string" where
  "lines64 [] = []"
| "lines64 (c # cs) = take 64 (c # cs) @ nl # lines64 (drop 64 (c # cs))"

definition pem_encode :: "block \<Rightarrow> string" where
  "pem_encode b =
     pem_begin @ pb_Type b @ dashes @ [nl] @ lines64 (b64_encode (pb_Bytes b))
     @ pem_end @ pb_Type b @ dashes @ [nl]"

text \<open>The decoder inverts the encoder on every type without a line feed or a colon.\<close>

lemma cut_body:
  "CHR ''-'' \<notin> set body \<Longrightarrow> cut (body @ nl # pem_end @ x) (nl # pem_end) = Some (body, x)"
proof (induction body)
  case Nil
  show ?case by (simp add: pem_end_def)
next
  case (Cons c cs)
  have "\<not> prefix (nl # pem_end) ((c # cs) @ nl # pem_end @ x)"
    using Cons.prems by (cases cs) (auto simp: pem_end_def)
  then show ?case using Cons by simp
qed

lemma lines64_set: "set (lines64 s) \<subseteq> insert nl (set s)"
proof (induction s rule: lines64.induct)
  case (2 c cs)
  then show ?case using set_take_subset [of 64 "c # cs"] set_drop_subset [of 64 "c # cs"] by auto
qed simp

lemma lines64_filter: "nl \<notin> set s \<Longrightarrow> filter (\<lambda>c. c \<noteq> nl) (lines64 s) = s"
proof (induction s rule: lines64.induct)
  case (2 c cs)
  have "nl \<notin> set (take 64 (c # cs))" "nl \<notin> set (drop 64 (c # cs))"
    using 2(2) set_take_subset [of 64 "c # cs"] set_drop_subset [of 64 "c # cs"] by blast+
  then have "filter (\<lambda>d. d \<noteq> nl) (take 64 (c # cs)) = take 64 (c # cs)"
    "filter (\<lambda>d. d \<noteq> nl) (lines64 (drop 64 (c # cs))) = drop 64 (c # cs)"
    using 2(1) by (auto simp: filter_id_conv simp del: take_Suc_Cons drop_Suc_Cons)
  moreover have "filter (\<lambda>d. d \<noteq> nl) (t @ nl # l) = filter (\<lambda>d. d \<noteq> nl) t @ filter (\<lambda>d. d \<noteq> nl) l" for t l
    by simp
  ultimately have "filter (\<lambda>d. d \<noteq> nl) (lines64 (c # cs)) = take 64 (c # cs) @ drop 64 (c # cs)"
    unfolding lines64.simps by metis
  then show ?case by (simp only: append_take_drop_id)
qed simp

lemma lines64_snoc: "s \<noteq> [] \<Longrightarrow> \<exists>body. lines64 s = body @ [nl] \<and> set body \<subseteq> insert nl (set s) \<and> body \<noteq> []"
proof (induction s rule: lines64.induct)
  case (2 c cs)
  show ?case
  proof (cases "drop 64 (c # cs) = []")
    case True
    then show ?thesis
      by (intro exI [of _ "take 64 (c # cs)"]) (auto simp del: drop_Suc_Cons dest: in_set_takeD)
  next
    case False
    then obtain b where "lines64 (drop 64 (c # cs)) = b @ [nl]" "set b \<subseteq> insert nl (set (drop 64 (c # cs)))"
      using 2(1) by auto
    then show ?thesis
      using set_drop_subset [of 64 "c # cs"]
      by (intro exI [of _ "take 64 (c # cs) @ nl # b"]) (auto simp del: drop_Suc_Cons dest: in_set_takeD)
  qed
qed simp

definition b64_plain :: "char \<Rightarrow> bool" where
  "b64_plain c = (c \<noteq> nl \<and> c \<noteq> CHR 0x0D \<and> c \<noteq> CHR ''-'' \<and> c \<noteq> CHR '':'' \<and> \<not> blank c)"

lemma b64_char_plain: "n < 64 \<Longrightarrow> b64_plain (b64_char n)"
  using b64_val_char [of n] by (auto simp: b64_plain_def blank_def b64_val_def simp del: b64_val_char)

lemma b64_encode_plain: "list_all b64_plain (b64_encode s)"
proof (induction s rule: b64_encode.induct)
  case (2 a)
  show ?case by (simp add: b64_char_plain) (simp add: b64_plain_def blank_def)
next
  case (3 a b)
  show ?case by (simp add: b64_char_plain) (simp add: b64_plain_def blank_def)
qed (simp_all add: b64_char_plain)

lemma getLine_plain: "nl \<notin> set l \<Longrightarrow> l \<noteq> [] \<Longrightarrow> \<not> blank (last l) \<Longrightarrow> last l \<noteq> CHR 0x0D \<Longrightarrow> getLine (l @ nl # r) = (l, r)"
proof -
  assume l: "nl \<notin> set l" "l \<noteq> []" "\<not> blank (last l)" "last l \<noteq> CHR 0x0D"
  have "index_byte (l @ nl # r) nl = Some (length l)" using l(1) by (induction l) auto
  moreover have "(l @ nl # r) ! (length l - 1) = last l" using l(2) by (simp add: nth_append last_conv_nth)
  moreover have "trim_right l = l"
    using l(2,3) by (cases l rule: rev_cases) (simp_all add: trim_right_def)
  ultimately show ?thesis using l(2,4) by (simp add: getLine_def)
qed

lemma getLine_nl [simp]: "getLine (nl # r) = ([], r)"
  by (simp add: getLine_def trim_right_def)

lemma trim_right_set: "set (trim_right t) \<subseteq> set t"
  by (auto simp: trim_right_def dest: set_dropWhileD)

lemma first_line_set: "nl \<in> set a \<Longrightarrow> set (fst (getLine (a @ b))) \<subseteq> set a"
proof -
  assume "nl \<in> set a"
  then obtain u v where a: "a = u @ nl # v" "nl \<notin> set u" by (metis split_list_first)
  have i: "index_byte (a @ b) nl = Some (length u)" using a(2) unfolding a(1) by (induction u) auto
  define n where "n = (if 0 < length u \<and> (a @ b) ! (length u - 1) = CHR 0x0D then length u - 1 else length u)"
  have n: "n \<le> length u" by (simp add: n_def)
  have "fst (getLine (a @ b)) = trim_right (take n (a @ b))" by (simp add: getLine_def i n_def)
  moreover have "take n (a @ b) = take n u" using n by (simp add: a(1))
  ultimately have "set (fst (getLine (a @ b))) \<subseteq> set (take n u)" using trim_right_set by metis
  then show ?thesis using set_take_subset [of n u] by (auto simp: a(1))
qed

definition type_ok :: "string \<Rightarrow> bool" where
  "type_ok t = (nl \<notin> set t \<and> CHR '':'' \<notin> set t)"

lemma char_of_breaks: "char_of (10::nat) = nl" "char_of (13::nat) = CHR 0x0D"
  by (simp_all add: char_of_def bit_iff_odd)

lemma pem_attempt_encoded:
  assumes t: "type_ok (pb_Type b)"
  shows "pem_attempt (pb_Type b @ dashes @ [nl] @ lines64 (b64_encode (pb_Bytes b)) @ pem_end @ pb_Type b @ dashes @ nl # r)
    = Found b r"
proof -
  let ?t = "pb_Type b" and ?e = "b64_encode (pb_Bytes b)"
  let ?rest = "lines64 ?e @ pem_end @ ?t @ dashes @ nl # r"
  have line: "getLine ((?t @ dashes) @ nl # q) = (?t @ dashes, q)" for q
    using t by (intro getLine_plain) (auto simp: type_ok_def dashes_def blank_def)
  have plain: "\<And>c. c \<in> set ?e \<Longrightarrow> b64_plain c" using b64_encode_plain by (auto simp: list_all_iff)
  have head: "pem_headers ?rest = Some (False, ?rest)"
  proof -
    let ?p = "lines64 ?e @ pem_end @ ?t @ dashes @ [nl]"
    have "CHR '':'' \<notin> set ?p"
      using t lines64_set [of ?e] plain by (auto simp: type_ok_def dashes_def pem_end_def b64_plain_def)
    moreover have "set (fst (getLine (?p @ r))) \<subseteq> set ?p" by (rule first_line_set) simp
    ultimately have "CHR '':'' \<notin> set (fst (getLine (?p @ r)))" by blast
    then show ?thesis by (subst pem_headers.simps) (simp add: pem_end_def)
  qed
  obtain body where body: "pem_body False ?rest = Some (body, ?t @ dashes @ nl # r)"
    "filter (\<lambda>c. c \<noteq> nl) body = ?e" "set body \<subseteq> insert nl (set ?e)"
  proof (cases "?e = []")
    case True
    then show thesis using that [of "[]"] by (simp add: pem_body_def)
  next
    case False
    then obtain bd where bd: "lines64 ?e = bd @ [nl]" "set bd \<subseteq> insert nl (set ?e)" "bd \<noteq> []"
      using lines64_snoc by blast
    have nd: "CHR ''-'' \<notin> set bd" using bd(2) plain by (auto simp: b64_plain_def)
    have "\<not> prefix pem_end ?rest" using bd(1,3) nd by (cases bd) (auto simp: pem_end_def)
    then have "pem_body False ?rest = Some (bd, ?t @ dashes @ nl # r)"
      using cut_body [OF nd] bd(1) by (simp add: pem_body_def)
    moreover have "filter (\<lambda>c. c \<noteq> nl) bd = ?e"
      using lines64_filter [of ?e] bd(1) plain by (auto simp: b64_plain_def)
    ultimately show thesis using that bd(2) by blast
  qed
  have "filter (\<lambda>c. \<not> blank c) body = body"
    using body(3) plain by (auto simp: filter_id_conv b64_plain_def blank_def)
  moreover have "b64_decode body = b64_decode ?e"
  proof -
    have "filter (\<lambda>c. code c \<noteq> 10 \<and> code c \<noteq> 13) body = filter (\<lambda>c. c \<noteq> nl) body"
    proof (rule filter_cong [OF refl])
      fix x assume "x \<in> set body"
      then have "x = nl \<or> b64_plain x" using body(3) plain by blast
      then have "x \<noteq> CHR 0x0D" by (auto simp: b64_plain_def)
      moreover have "code x = 10 \<longleftrightarrow> x = nl" "code x = 13 \<longleftrightarrow> x = CHR 0x0D"
        using char_of_code [of x 10] char_of_code [of x 13] char_of_breaks by auto
      ultimately show "(code x \<noteq> 10 \<and> code x \<noteq> 13) = (x \<noteq> nl)" by simp
    qed
    then show ?thesis using body(2) by (simp add: b64_decode_def b64_no_breaks)
  qed
  ultimately show ?thesis
    using line [of ?rest] line [of r] head body(1) b64_round_trip
    by (simp add: pem_attempt_def Let_def suffix_def)
qed

lemma pem_round_trip: "type_ok (pb_Type b) \<Longrightarrow> pem_decode (pem_encode b @ r) = Some (b, r)"
  using pem_attempt_encoded [of b r]
  by (subst pem_decode.simps) (simp add: pem_encode_def pem_start_def)

end
