(* ===== verification/Certificates.thy ===== *)
theory Certificates
  imports Pem
begin

text \<open>
  Keys and certificates: pkg/util/pem/pem.go, pkg/util/tls and the key vault's certificate secret. A
  key is carried by its PKCS#1 form and a certificate by the fields the code sets and its DER bytes;
  the ASN.1 functions of crypto/x509 are the parameters of \<open>x509_lib\<close>.
\<close>

unbundle bit_operations_syntax

section \<open>Keys, certificates\<close>

datatype rsa_key = RsaKey (pkcs1: string)

datatype pkcs8_key = RsaPkcs8 rsa_key | OtherPkcs8 string

record x509_cert =
  cert_Raw :: string
  cert_SerialNumber :: nat
  cert_NotBefore :: int
  cert_NotAfter :: int
  cert_CommonName :: string
  cert_BasicConstraintsValid :: bool
  cert_KeyUsage :: int
  cert_ExtKeyUsage :: "int list"
  cert_IsCA :: bool
  cert_DNSNames :: "string list"

record x509_lib =
  x_ParsePKCS1PrivateKey :: "string \<Rightarrow> rsa_key result"
  x_ParsePKCS8PrivateKey :: "string \<Rightarrow> pkcs8_key result"
  x_ParseCertificate :: "string \<Rightarrow> x509_cert result"

section \<open>pem.go\<close>

definition parse_block ::
  "x509_lib \<Rightarrow> block \<Rightarrow> rsa_key option \<times> x509_cert list \<Rightarrow> (rsa_key option \<times> x509_cert list) result" where
  "parse_block x b st =
     (let (key, certs) = st in
      if pb_Type b = ''RSA PRIVATE KEY'' then
        andThen (x_ParsePKCS1PrivateKey x (pb_Bytes b)) (\<lambda>k. Ok (Some k, certs))
      else if pb_Type b = ''PRIVATE KEY'' then
        andThen (x_ParsePKCS8PrivateKey x (pb_Bytes b)) (\<lambda>k.
          case k of
            RsaPkcs8 r \<Rightarrow> Ok (Some r, certs)
          | OtherPkcs8 t \<Rightarrow> Err (ErrMsg (''unimplemented private key type '' @ t @ '' in PKCS#8 wrapping'')))
      else if pb_Type b = ''CERTIFICATE'' then
        andThen (x_ParseCertificate x (pb_Bytes b)) (\<lambda>c. Ok (key, certs @ [c]))
      else Err (ErrMsg (''unimplemented block type '' @ pb_Type b)))"

function parse_blocks ::
  "x509_lib \<Rightarrow> string \<Rightarrow> rsa_key option \<times> x509_cert list \<Rightarrow> (rsa_key option \<times> x509_cert list) result" where
  "parse_blocks x s st =
     (case pem_decode s of
        None \<Rightarrow> Ok st
      | Some (b, r) \<Rightarrow>
          (case parse_block x b st of
             Ok st' \<Rightarrow> parse_blocks x r st'
           | Err e \<Rightarrow> Err e
           | Panic \<Rightarrow> Panic))"
  by pat_completeness auto
termination
  by (relation "measure (\<lambda>(x, s, st). length s)") (auto dest: pem_decode_shorter)

declare parse_blocks.simps [simp del]

definition Parse :: "x509_lib \<Rightarrow> string \<Rightarrow> (rsa_key option \<times> x509_cert list) result" where
  "Parse x b = parse_blocks x b (None, [])"

text \<open>
  The values \<open>Encode\<close> takes: a certificate, a request (its DER bytes), a private key, and a public key
  with what \<open>MarshalPKIXPublicKey\<close> makes of it. The writer is a function on a state, given one block
  at a time.
\<close>

datatype encodable =
    Certificate x509_cert
  | CertificateRequest string
  | PrivateKey rsa_key
  | PublicKey "string result"

definition encodable_block :: "encodable \<Rightarrow> block result" where
  "encodable_block v =
     (case v of
        Certificate c \<Rightarrow> Ok \<lparr>pb_Type = ''CERTIFICATE'', pb_Bytes = cert_Raw c\<rparr>
      | CertificateRequest raw \<Rightarrow> Ok \<lparr>pb_Type = ''CERTIFICATE REQUEST'', pb_Bytes = raw\<rparr>
      | PrivateKey k \<Rightarrow> Ok \<lparr>pb_Type = ''RSA PRIVATE KEY'', pb_Bytes = pkcs1 k\<rparr>
      | PublicKey m \<Rightarrow> andThen m (\<lambda>raw. Ok \<lparr>pb_Type = ''RSA PUBLIC KEY'', pb_Bytes = raw\<rparr>))"

fun Encode :: "(string \<Rightarrow> 's \<Rightarrow> unit result \<times> 's) \<Rightarrow> encodable list \<Rightarrow> 's \<Rightarrow> unit result \<times> 's" where
  "Encode w [] s = (Ok (), s)"
| "Encode w (v # vs) s =
     (case encodable_block v of
        Ok b \<Rightarrow>
          (case w (pem_encode b) s of
             (Ok u, s') \<Rightarrow> Encode w vs s'
           | r \<Rightarrow> r)
      | Err e \<Rightarrow> (Err e, s)
      | Panic \<Rightarrow> (Panic, s))"

text \<open>A writer that keeps what it is given: \<open>bytes.Buffer\<close>.\<close>

definition buffer :: "string \<Rightarrow> string \<Rightarrow> unit result \<times> string" where
  "buffer t s = (Ok (), s @ t)"

section \<open>pkg/util/tls/marshal.go\<close>

text \<open>A deferred \<open>recover\<close> turns a panic (a nil pointer here) into an error.\<close>

definition recovered :: "string \<Rightarrow> 'a result \<Rightarrow> 'a result" where
  "recovered name r =
     (case r of
        Panic \<Rightarrow> Err (ErrMsg (name @ '': runtime error: invalid memory address or nil pointer dereference''))
      | _ \<Rightarrow> r)"

definition CertAsBytes :: "x509_cert option list \<Rightarrow> string result" where
  "CertAsBytes certs =
     recovered ''CertAsBytes''
       (foldOk (\<lambda>cert buf. andThen (deref cert)
          (\<lambda>c. Ok (buf @ pem_encode \<lparr>pb_Type = ''CERTIFICATE'', pb_Bytes = cert_Raw c\<rparr>))) certs [])"

definition PrivateKeyAsBytes :: "rsa_key option \<Rightarrow> string result" where
  "PrivateKeyAsBytes key =
     recovered ''PrivateKeyAsBytes''
       (andThen (deref key) (\<lambda>k. Ok (pem_encode \<lparr>pb_Type = ''RSA PRIVATE KEY'', pb_Bytes = pkcs1 k\<rparr>)))"

section \<open>pkg/util/tls/tls.go\<close>

text \<open>
  The sources of randomness, the clock and \<open>x509.CreateCertificate\<close> are parameters: it is given the
  template, the parent (the template itself, for a self-signed certificate), the key the certificate
  is for and the key that signs, which panics when it is nil.
\<close>

record tls_lib =
  tl_GenerateKey :: "rsa_key result"
  tl_RandInt :: "nat \<Rightarrow> nat result"
  tl_now :: int
  tl_add_year :: "int \<Rightarrow> int"
  tl_CreateCertificate :: "x509_cert \<Rightarrow> x509_cert \<Rightarrow> rsa_key \<Rightarrow> rsa_key \<Rightarrow> string result"

definition KeyUsageDigitalSignature :: int where "KeyUsageDigitalSignature = 1"
definition KeyUsageKeyEncipherment :: int where "KeyUsageKeyEncipherment = 4"
definition KeyUsageCertSign :: int where "KeyUsageCertSign = 32"
definition ExtKeyUsageServerAuth :: int where "ExtKeyUsageServerAuth = 1"
definition ExtKeyUsageClientAuth :: int where "ExtKeyUsageClientAuth = 2"

definition certificate_template ::
  "int \<Rightarrow> int \<Rightarrow> nat \<Rightarrow> string \<Rightarrow> bool \<Rightarrow> bool \<Rightarrow> (x509_cert \<Rightarrow> x509_cert) option \<Rightarrow> x509_cert" where
  "certificate_template now notAfter serial commonName isCA isClient tweak =
     (let t = \<lparr>cert_Raw = [], cert_SerialNumber = serial, cert_NotBefore = now, cert_NotAfter = notAfter,
               cert_CommonName = commonName, cert_BasicConstraintsValid = True,
               cert_KeyUsage = KeyUsageDigitalSignature OR KeyUsageKeyEncipherment,
               cert_ExtKeyUsage = [], cert_IsCA = isCA, cert_DNSNames = [commonName]\<rparr>;
          t = (case tweak of None \<Rightarrow> t | Some f \<Rightarrow> f t)
      in if isCA then t\<lparr>cert_KeyUsage := cert_KeyUsage t OR KeyUsageCertSign\<rparr>
         else if isClient then t\<lparr>cert_ExtKeyUsage := [ExtKeyUsageClientAuth]\<rparr>
         else t\<lparr>cert_ExtKeyUsage := [ExtKeyUsageServerAuth]\<rparr>)"

definition generateKeyAndCertificate ::
  "tls_lib \<Rightarrow> x509_lib \<Rightarrow> string \<Rightarrow> rsa_key option \<Rightarrow> x509_cert option \<Rightarrow> bool \<Rightarrow> bool
     \<Rightarrow> (x509_cert \<Rightarrow> x509_cert) option \<Rightarrow> (rsa_key \<times> x509_cert list) result" where
  "generateKeyAndCertificate l x commonName parentKey parentCert isCA isClient tweak =
     (if isCA \<and> isClient then Err (ErrMsg ''cannot generate CA client certificate'')
      else
        andThen (tl_GenerateKey l) (\<lambda>key.
        andThen (tl_RandInt l (2 ^ 128)) (\<lambda>serial.
          let now = tl_now l;
              notAfter = tl_add_year l now;
              notAfter = (case parentCert of
                 Some p \<Rightarrow> if cert_NotAfter p < notAfter then cert_NotAfter p else notAfter
               | None \<Rightarrow> notAfter);
              template = certificate_template now notAfter serial commonName isCA isClient tweak;
              (parentCert, parentKey) =
                (if parentCert = None \<and> parentKey = None then (Some template, Some key) else (parentCert, parentKey))
          in
            andThen (deref parentCert) (\<lambda>pc.
            andThen (deref parentKey) (\<lambda>pk.
            andThen (tl_CreateCertificate l template pc key pk) (\<lambda>b.
            andThen (x_ParseCertificate x b) (\<lambda>cert. Ok (key, [cert]))))))))"

definition GenerateKeyAndCertificate ::
  "tls_lib \<Rightarrow> x509_lib \<Rightarrow> string \<Rightarrow> rsa_key option \<Rightarrow> x509_cert option \<Rightarrow> bool \<Rightarrow> bool
     \<Rightarrow> (rsa_key \<times> x509_cert list) result" where
  "GenerateKeyAndCertificate l x commonName parentKey parentCert isCA isClient =
     generateKeyAndCertificate l x commonName parentKey parentCert isCA isClient None"

section \<open>The key vault's certificate secret\<close>

definition GetCertificateSecret ::
  "x509_lib \<Rightarrow> 's kv_manager \<Rightarrow> string \<Rightarrow> 's \<Rightarrow> (rsa_key \<times> x509_cert list) result \<times> 's" where
  "GetCertificateSecret x m secretName s =
     st_bind (kv_GetSecret (km_kv m) (km_uri m) secretName [] s) (\<lambda>value s.
       (andThen (deref value) (\<lambda>v.
        andThen (Parse x v) (\<lambda>(key, certs).
          case key of
            None \<Rightarrow> Err (ErrMsg ''no private key found'')
          | Some k \<Rightarrow> if certs = [] then Err (ErrMsg ''no certificate found'') else Ok (k, certs))), s))"

section \<open>Properties\<close>

fun encoded_pem :: "encodable list \<Rightarrow> string result" where
  "encoded_pem [] = Ok []"
| "encoded_pem (v # vs) = andThen (encodable_block v) (\<lambda>b. andThen (encoded_pem vs) (\<lambda>t. Ok (pem_encode b @ t)))"

lemma Encode_buffer: "encoded_pem vs = Ok t \<Longrightarrow> Encode buffer vs s = (Ok (), s @ t)"
  by (induction vs arbitrary: s t) (auto simp: outcome_simps buffer_def)

text \<open>What the parser finds in the text of a list of values.\<close>

fun absorb :: "encodable \<Rightarrow> rsa_key option \<times> x509_cert list \<Rightarrow> rsa_key option \<times> x509_cert list" where
  "absorb (Certificate c) (k, cs) = (k, cs @ [c])"
| "absorb (PrivateKey p) (k, cs) = (Some p, cs)"
| "absorb _ st = st"

definition parseable :: "x509_lib \<Rightarrow> encodable \<Rightarrow> bool" where
  "parseable x v =
     (case v of
        Certificate c \<Rightarrow> x_ParseCertificate x (cert_Raw c) = Ok c
      | PrivateKey k \<Rightarrow> x_ParsePKCS1PrivateKey x (pkcs1 k) = Ok k
      | _ \<Rightarrow> False)"

lemma encodable_types: "encodable_block v = Ok b \<Longrightarrow> type_ok (pb_Type b)"
  by (auto simp: encodable_block_def type_ok_def outcome_simps split: encodable.splits)

lemma parse_blocks_step:
  "encodable_block v = Ok b \<Longrightarrow> parse_blocks x (pem_encode b @ r) st =
     (case parse_block x b st of Ok st' \<Rightarrow> parse_blocks x r st' | Err e \<Rightarrow> Err e | Panic \<Rightarrow> Panic)"
  using pem_round_trip [OF encodable_types] by (subst parse_blocks.simps) simp

lemma parse_block_absorb:
  "parseable x v \<Longrightarrow> \<exists>b. encodable_block v = Ok b \<and> parse_block x b st = Ok (absorb v st)"
  by (cases v; cases st) (simp_all add: parseable_def encodable_block_def parse_block_def)

lemma Parse_nothing: "parse_blocks x [] st = Ok st"
  by (subst parse_blocks.simps, subst pem_decode.simps) (simp add: pem_start_def pem_begin_def)

lemma Parse_absorbs:
  "\<forall>v \<in> set vs. parseable x v \<Longrightarrow> \<exists>t. encoded_pem vs = Ok t \<and> parse_blocks x t st = Ok (fold absorb vs st)"
proof (induction vs arbitrary: st)
  case (Cons v vs)
  obtain b where b: "encodable_block v = Ok b" "parse_block x b st = Ok (absorb v st)"
    using Cons.prems parse_block_absorb by (metis list.set_intros(1))
  obtain t where "encoded_pem vs = Ok t" "parse_blocks x t (absorb v st) = Ok (fold absorb vs (absorb v st))"
    using Cons.IH [of "absorb v st"] Cons.prems by (metis list.set_intros(2))
  then show ?case using b by (simp add: parse_blocks_step)
qed (simp add: Parse_nothing)

text \<open>C34: What \<open>Encode\<close> writes to a buffer for certificates and private keys, \<open>Parse\<close> reads back: every
  certificate in order, and the last of the keys.\<close>

theorem Parse_Encode:
  assumes "\<forall>v \<in> set vs. parseable x v"
  shows "\<exists>t. Encode buffer vs [] = (Ok (), t) \<and> Parse x t = Ok (fold absorb vs (None, []))"
proof -
  obtain t where "encoded_pem vs = Ok t" "parse_blocks x t (None, []) = Ok (fold absorb vs (None, []))"
    using Parse_absorbs [OF assms, of "(None, [])"] by blast
  then show ?thesis using Encode_buffer [of vs t "[]"] by (simp add: Parse_def)
qed

definition demo_cert :: x509_cert where
  "demo_cert = \<lparr>cert_Raw = ''DER'', cert_SerialNumber = 1, cert_NotBefore = 0, cert_NotAfter = 9,
     cert_CommonName = ''cn'', cert_BasicConstraintsValid = True, cert_KeyUsage = 5, cert_ExtKeyUsage = [1],
     cert_IsCA = False, cert_DNSNames = [''cn'']\<rparr>"

definition demo_x509 :: x509_lib where
  "demo_x509 = \<lparr>x_ParsePKCS1PrivateKey = (\<lambda>t. if t = ''key'' then Ok (RsaKey t) else Err (ErrMsg ''asn1'')),
     x_ParsePKCS8PrivateKey = (\<lambda>t. Err (ErrMsg ''asn1'')),
     x_ParseCertificate = (\<lambda>t. if t = ''DER'' then Ok demo_cert else Err (ErrMsg ''asn1''))\<rparr>"

theorem Parse_Encode_witness:
  "\<exists>t. Encode buffer [Certificate demo_cert, PrivateKey (RsaKey ''key'')] [] = (Ok (), t)
     \<and> Parse demo_x509 t = Ok (Some (RsaKey ''key''), [demo_cert])"
proof -
  have "\<forall>v \<in> set [Certificate demo_cert, PrivateKey (RsaKey ''key'')]. parseable demo_x509 v"
    by (simp add: parseable_def demo_x509_def demo_cert_def)
  from Parse_Encode [OF this] show ?thesis by simp
qed

text \<open>A certificate secret that a key vault returns has a key and at least one certificate; whoever
  indexes the first certificate of a successful call does not panic.\<close>

theorem certificate_secret_complete:
  "fst (GetCertificateSecret x m name s) = Ok (key, certs) \<Longrightarrow> certs \<noteq> []"
  by (cases "kv_GetSecret (km_kv m) (km_uri m) name [] s"; cases "fst (kv_GetSecret (km_kv m) (km_uri m) name [] s)")
    (auto simp: GetCertificateSecret_def outcome_simps split: option.splits if_splits)

definition demo_secrets :: "string \<Rightarrow> unit kv_manager" where
  "demo_secrets v = \<lparr>km_kv = \<lparr>
     kv_CreateCertificate = (\<lambda>u n p s. (Err Canceled, s)), kv_DeleteCertificate = (\<lambda>u n s. (Ok (), s)),
     kv_GetSecret = (\<lambda>u n ver s. (Ok (Some v), s)), kv_GetSecretVersions = (\<lambda>u n s. (Ok [], s)),
     kv_GetSecrets = (\<lambda>u s. (Ok [], s)), kv_GetCertificateOperation = (\<lambda>u n s. (Err Canceled, s)),
     kv_SetSecret = (\<lambda>u n v s. (Ok (), s))\<rparr>, km_uri = ''uri''\<rparr>"

theorem certificate_secret_complete_witness:
  "\<exists>v certs. fst (GetCertificateSecret demo_x509 (demo_secrets v) ''n'' ()) = Ok (RsaKey ''key'', certs) \<and> certs \<noteq> []"
proof -
  let ?vs = "[Certificate demo_cert, PrivateKey (RsaKey ''key'')]"
  have "\<forall>v \<in> set ?vs. parseable demo_x509 v" by (simp add: parseable_def demo_x509_def demo_cert_def)
  from Parse_absorbs [OF this, of "(None, [])"] obtain t
    where t: "parse_blocks demo_x509 t (None, []) = Ok (Some (RsaKey ''key''), [demo_cert])" by auto
  then have "fst (GetCertificateSecret demo_x509 (demo_secrets t) ''n'' ()) = Ok (RsaKey ''key'', [demo_cert])"
    by (simp add: GetCertificateSecret_def demo_secrets_def Parse_def)
  from this certificate_secret_complete [OF this] show ?thesis by blast
qed

text \<open>A generated certificate: never a client certificate of an authority; it expires no later than
  its issuer or a year from now; it is signed by the given parent with the given key or, without
  either, by itself with the new key; and one of the two alone is never accepted.\<close>

theorem generated_certificate:
  assumes "GenerateKeyAndCertificate l x commonName parentKey parentCert isCA isClient = Ok (key, certs)"
  shows "\<not> (isCA \<and> isClient) \<and> tl_GenerateKey l = Ok key \<and> (parentKey = None \<longleftrightarrow> parentCert = None)
    \<and> (\<exists>template parent signer b cert.
        certs = [cert] \<and> x_ParseCertificate x b = Ok cert
        \<and> tl_CreateCertificate l template parent key signer = Ok b
        \<and> parent = (case parentCert of None \<Rightarrow> template | Some p \<Rightarrow> p)
        \<and> signer = (case parentKey of None \<Rightarrow> key | Some k \<Rightarrow> k)
        \<and> cert_IsCA template = isCA \<and> cert_CommonName template = commonName
        \<and> cert_NotAfter template =
            (case parentCert of None \<Rightarrow> tl_add_year l (tl_now l)
             | Some p \<Rightarrow> min (cert_NotAfter p) (tl_add_year l (tl_now l))))"
proof -
  let ?na = "case parentCert of None \<Rightarrow> tl_add_year l (tl_now l) | Some p \<Rightarrow> min (cert_NotAfter p) (tl_add_year l (tl_now l))"
  have na: "(case parentCert of Some p \<Rightarrow> if cert_NotAfter p < tl_add_year l (tl_now l) then cert_NotAfter p else tl_add_year l (tl_now l)
     | None \<Rightarrow> tl_add_year l (tl_now l)) = ?na"
    by (auto split: option.splits)
  have T: "cert_IsCA (certificate_template n a i c isCA isClient None) = isCA"
    "cert_CommonName (certificate_template n a i c isCA isClient None) = c"
    "cert_NotAfter (certificate_template n a i c isCA isClient None) = a" for n a i c
    by (simp_all add: certificate_template_def Let_def)
  from assms have c: "\<not> (isCA \<and> isClient)"
    by (auto simp: GenerateKeyAndCertificate_def generateKeyAndCertificate_def)
  from assms have k: "tl_GenerateKey l = Ok key"
    by (auto simp: GenerateKeyAndCertificate_def generateKeyAndCertificate_def Let_def outcome_simps split: if_splits prod.splits)
  from assms obtain serial where r: "tl_RandInt l (2 ^ 128) = Ok serial"
    by (cases "tl_RandInt l (2 ^ 128)")
      (auto simp: GenerateKeyAndCertificate_def generateKeyAndCertificate_def Let_def outcome_simps split: if_splits)
  define t where "t = certificate_template (tl_now l) ?na serial commonName isCA isClient None"
  have s: "(let (pc, pk) = (if parentCert = None \<and> parentKey = None then (Some t, Some key) else (parentCert, parentKey)) in
        andThen (deref pc) (\<lambda>pc. andThen (deref pk) (\<lambda>pk.
        andThen (tl_CreateCertificate l t pc key pk) (\<lambda>b.
        andThen (x_ParseCertificate x b) (\<lambda>cert. Ok (key, [cert])))))) = Ok (key, certs)"
    using assms c unfolding GenerateKeyAndCertificate_def generateKeyAndCertificate_def Let_def na r k andThen.simps t_def
    by metis
  have "\<exists>parent signer b cert. certs = [cert] \<and> x_ParseCertificate x b = Ok cert
        \<and> tl_CreateCertificate l t parent key signer = Ok b
        \<and> parent = (case parentCert of None \<Rightarrow> t | Some p \<Rightarrow> p)
        \<and> signer = (case parentKey of None \<Rightarrow> key | Some k \<Rightarrow> k) \<and> (parentKey = None \<longleftrightarrow> parentCert = None)"
    using s by (cases parentCert; cases parentKey) (auto simp: outcome_simps)
  then show ?thesis using c k T t_def by metis
qed

definition demo_tls :: tls_lib where
  "demo_tls = \<lparr>tl_GenerateKey = Ok (RsaKey ''new''), tl_RandInt = (\<lambda>n. Ok 7), tl_now = 100, tl_add_year = (\<lambda>t. t + 365),
     tl_CreateCertificate = (\<lambda>t p k s. if cert_NotAfter t = 465 \<and> s = RsaKey ''new'' then Ok ''DER'' else Err Canceled)\<rparr>"

theorem generated_certificate_witness:
  "GenerateKeyAndCertificate demo_tls demo_x509 ''cn'' None None True False = Ok (RsaKey ''new'', [demo_cert])
     \<and> tl_GenerateKey demo_tls = Ok (RsaKey ''new'')"
proof -
  have r: "GenerateKeyAndCertificate demo_tls demo_x509 ''cn'' None None True False = Ok (RsaKey ''new'', [demo_cert])"
    by (simp add: GenerateKeyAndCertificate_def generateKeyAndCertificate_def certificate_template_def demo_tls_def
        demo_x509_def Let_def)
  from generated_certificate [OF r] show ?thesis using r by simp
qed

end
