(* ===== verification/Go_Std.thy ===== *)
theory Go_Std
  imports Resource_Ids
begin

text \<open>
  Parts of Go's standard library that several components use: environment variables, \<open>strconv.Atoi\<close>,
  the decoding of string fields by encoding/json, query escaping, and host and port texts.
\<close>

section \<open>os\<close>

type_synonym envvars = "string \<Rightarrow> string option"

definition Getenv :: "envvars \<Rightarrow> string \<Rightarrow> string" where
  "Getenv e k = (case e k of None \<Rightarrow> [] | Some v \<Rightarrow> v)"

text \<open>The loops over the names of required variables, with the text each loop ends its message with.\<close>

fun require_env :: "string \<Rightarrow> envvars \<Rightarrow> string list \<Rightarrow> unit result" where
  "require_env note e [] = Ok ()"
| "require_env note e (k # ks) =
     (if e k = None then Err (ErrMsg (''environment variable '' @ quote_text k @ '' unset'' @ note))
      else require_env note e ks)"

lemma require_env_Ok: "require_env note e ks = Ok () \<longleftrightarrow> (\<forall>k \<in> set ks. e k \<noteq> None)"
  by (induction ks) auto

lemma require_env_not_Panic [simp]: "require_env note e ks \<noteq> Panic"
  by (induction ks) auto

section \<open>strconv.Atoi\<close>

definition decimal :: "string \<Rightarrow> nat" where
  "decimal s = fold (\<lambda>c n. n * 10 + (of_char c - 48)) s 0"

definition atoi_error :: "string \<Rightarrow> string \<Rightarrow> go_error" where
  "atoi_error s what = ErrMsg (''strconv.Atoi: parsing '' @ quote_text s @ '': '' @ what)"

definition Atoi :: "string \<Rightarrow> int result" where
  "Atoi s =
     (let (neg, ds) = (case s of
          [] \<Rightarrow> (False, [])
        | c # r \<Rightarrow> if c = CHR ''-'' then (True, r) else if c = CHR ''+'' then (False, r) else (False, s))
      in if ds = [] \<or> \<not> list_all is_digit ds then Err (atoi_error s ''invalid syntax'')
         else let n = int (decimal ds); v = (if neg then - n else n) in
           if v < - (2 ^ 63) \<or> 2 ^ 63 \<le> v then Err (atoi_error s ''value out of range'') else Ok v)"

text \<open>\<open>%03d\<close>.\<close>

definition show_03d :: "int \<Rightarrow> string" where
  "show_03d i =
     (let ds = show_nat (nat \<bar>i\<bar>); w = (if i < 0 then 2 else 3) in
      (if i < 0 then ''-'' else []) @ replicate (w - length ds) (CHR ''0'') @ ds)"

section \<open>String fields\<close>

text \<open>
  \<open>json.Unmarshal\<close> into a pointer to a struct whose fields are strings: a null document leaves a nil
  pointer; every field must be a string or null; keys match without regard to case, the last wins.
\<close>

fun string_fields :: "string list \<Rightarrow> (string \<times> json) list \<Rightarrow> bool" where
  "string_fields names [] = True"
| "string_fields names ((k, v) # ms) =
     ((list_ex (equal_fold k) names \<longrightarrow> string_or_null v) \<and> string_fields names ms)"

fun string_field :: "string \<Rightarrow> (string \<times> json) list \<Rightarrow> string \<Rightarrow> string" where
  "string_field name [] d = d"
| "string_field name ((k, v) # ms) d =
     string_field name ms (if equal_fold k name then (case v of JStr s \<Rightarrow> s | _ \<Rightarrow> d) else d)"

definition decode_struct :: "string list \<Rightarrow> json option \<Rightarrow> (string \<Rightarrow> string) option result" where
  "decode_struct names doc =
     (case doc of
        None \<Rightarrow> Err (ErrMsg ''invalid JSON'')
      | Some JNull \<Rightarrow> Ok None
      | Some (JObj ms) \<Rightarrow>
          if string_fields names ms then Ok (Some (\<lambda>name. string_field name ms []))
          else Err (ErrMsg ''json: cannot unmarshal value'')
      | Some v \<Rightarrow> Err (ErrMsg ''json: cannot unmarshal value''))"

text \<open>\<open>Decoder.Decode\<close> reads the first value of its input and leaves the rest.\<close>

definition first_value :: "string \<Rightarrow> json option" where
  "first_value s = map_option fst (parse_value (Suc (length s)) (skip_ws s))"

section \<open>net/url\<close>

definition unreserved :: "char \<Rightarrow> bool" where
  "unreserved c =
     (let n = of_char c :: nat in
      (48 \<le> n \<and> n \<le> 57) \<or> (65 \<le> n \<and> n \<le> 90) \<or> (97 \<le> n \<and> n \<le> 122) \<or> c \<in> {CHR ''-'', CHR ''_'', CHR ''.'', CHR ''~''})"

definition upper_hex :: "nat \<Rightarrow> char" where
  "upper_hex n = (if n < 10 then char_of (48 + n) else char_of (55 + n))"

fun QueryEscape :: "string \<Rightarrow> string" where
  "QueryEscape [] = []"
| "QueryEscape (c # cs) =
     (if unreserved c then [c] else if c = CHR '' '' then ''+''
      else [CHR ''%'', upper_hex (of_char c div 16), upper_hex (of_char c mod 16)]) @ QueryEscape cs"

text \<open>The escape that writes every byte that is not kept as its two hexadecimal digits.\<close>

definition percent_escape :: "(char \<Rightarrow> bool) \<Rightarrow> string \<Rightarrow> string" where
  "percent_escape keep s =
     concat (map (\<lambda>c. if keep c then [c] else [CHR ''%'', upper_hex (of_char c div 16), upper_hex (of_char c mod 16)]) s)"

lemma percent_escape_kept: "list_all keep s \<Longrightarrow> percent_escape keep s = s"
  by (induction s) (simp_all add: percent_escape_def)

text \<open>\<open>URL.String\<close> of a URL that has a scheme, a host and a path without a byte to escape.\<close>

definition host_char :: "char \<Rightarrow> bool" where
  "host_char c \<longleftrightarrow> unreserved c \<or> c \<in> set ''!$&()*+,;=:[]<>'' \<or> c = CHR 0x27 \<or> c = CHR 0x22"

definition URL_String :: "string \<Rightarrow> string \<Rightarrow> string \<Rightarrow> string" where
  "URL_String scheme host path = scheme @ ''://'' @ percent_escape host_char host @ path"

text \<open>\<open>Values.Encode\<close>: the pairs in the order of their keys (each key has one value here).\<close>

definition encode_query :: "(string \<times> string) list \<Rightarrow> string" where
  "encode_query kvs = join_with ''&'' (map (\<lambda>(k, v). QueryEscape k @ ''='' @ QueryEscape v) (sort_key fst kvs))"

section \<open>net\<close>

definition JoinHostPort :: "string \<Rightarrow> string \<Rightarrow> string" where
  "JoinHostPort host port =
     (if CHR '':'' \<in> set host then ''['' @ host @ '']:'' @ port else host @ '':'' @ port)"

text \<open>\<open>net.SplitHostPort\<close>, with its errors.\<close>

definition addr_error :: "string \<Rightarrow> string \<Rightarrow> ('a) result" where
  "addr_error a why = Err (ErrMsg (''address '' @ a @ '': '' @ why))"

definition SplitHostPort :: "string \<Rightarrow> (string \<times> string) result" where
  "SplitHostPort a =
     (case last_index_byte a (CHR '':'') of
        None \<Rightarrow> addr_error a ''missing port in address''
      | Some i \<Rightarrow>
          if a \<noteq> [] \<and> hd a = CHR ''['' then
            (case index_byte a (CHR '']'') of
               None \<Rightarrow> addr_error a ''missing ']' in address''
             | Some e \<Rightarrow>
                 if Suc e = length a then addr_error a ''missing port in address''
                 else if Suc e \<noteq> i then
                   (if a ! Suc e = CHR '':'' then addr_error a ''too many colons in address''
                    else addr_error a ''missing port in address'')
                 else if CHR ''['' \<in> set (drop 1 a) then addr_error a ''unexpected '[' in address''
                 else if CHR '']'' \<in> set (drop (Suc e) a) then addr_error a ''unexpected ']' in address''
                 else Ok (drop 1 (take e a), drop (Suc i) a))
          else if CHR '':'' \<in> set (take i a) then addr_error a ''too many colons in address''
          else if CHR ''['' \<in> set a then addr_error a ''unexpected '[' in address''
          else if CHR '']'' \<in> set a then addr_error a ''unexpected ']' in address''
          else Ok (take i a, drop (Suc i) a))"

definition plain_host :: "string \<Rightarrow> bool" where
  "plain_host h = (CHR ''['' \<notin> set h \<and> CHR '']'' \<notin> set h)"

definition plain_port :: "string \<Rightarrow> bool" where
  "plain_port p = (CHR ''['' \<notin> set p \<and> CHR '']'' \<notin> set p \<and> CHR '':'' \<notin> set p)"

lemma last_index_byte_append: "c \<notin> set t \<Longrightarrow> last_index_byte (s @ c # t) c = Some (length s)"
proof (induction s)
  case Nil
  then show ?case using last_index_byte_None [of t c] by (cases "last_index_byte t c") auto
qed simp

lemma split_join_host_port:
  assumes h: "plain_host h" and p: "plain_port p"
  shows "SplitHostPort (JoinHostPort h p) = Ok (h, p)"
proof (cases "CHR '':'' \<in> set h")
  case True
  have i: "last_index_byte ((''['' @ h @ '']'') @ CHR '':'' # p) (CHR '':'') = Some (length (''['' @ h @ '']''))"
    using p by (intro last_index_byte_append) (simp add: plain_port_def)
  have e: "index_byte (CHR ''['' # h @ CHR '']'' # CHR '':'' # p) (CHR '']'') = Some (Suc (length h))"
    using h by (induction h) (auto simp: plain_host_def)
  show ?thesis using True i e h p
    by (simp add: JoinHostPort_def SplitHostPort_def plain_host_def plain_port_def)
next
  case False
  have i: "last_index_byte (h @ CHR '':'' # p) (CHR '':'') = Some (length h)"
    using p by (intro last_index_byte_append) (simp add: plain_port_def)
  show ?thesis using False i h p
    by (cases h) (auto simp: JoinHostPort_def SplitHostPort_def plain_host_def plain_port_def)
qed

end
