(* ===== verification/Instance_Metadata.thy ===== *)
theory Instance_Metadata
  imports Go_Std
begin

text \<open>
  pkg/util/instancemetadata: where the program runs, read from the environment (development) or from
  Azure's instance metadata service. The HTTP client is a function on a state \<open>'s\<close>; \<open>hostname\<close> is what
  \<open>os.Hostname\<close> returns; \<open>claim\<close> is the JWT library, which gives the tenant ID of a token's claims.
\<close>

record instanceMetadata =
  im_hostname :: string
  im_tenantID :: string
  im_subscriptionID :: string
  im_location :: string
  im_resourceGroup :: string
  im_aksMsiClientID :: string
  im_environment :: environment

section \<open>Development\<close>

definition NewDev :: "envvars \<Rightarrow> string result \<Rightarrow> bool \<Rightarrow> instanceMetadata result" where
  "NewDev e hostname checkEnv =
     andThen (if checkEnv then
        require_env '' (development mode)'' e
          [''ARO_AZURE_SUBSCRIPTION_ID'', ''ARO_AZURE_TENANT_ID'', ''ARO_LOCATION'', ''ARO_RESOURCEGROUP'']
        else Ok ()) (\<lambda>_.
     andThen (case e ''AZURE_ENVIRONMENT'' of
         None \<Rightarrow> Ok PublicCloud
       | Some v \<Rightarrow> EnvironmentFromName v) (\<lambda>environment.
     andThen hostname (\<lambda>host.
       Ok \<lparr>im_hostname = host, im_tenantID = Getenv e ''ARO_AZURE_TENANT_ID'',
           im_subscriptionID = Getenv e ''ARO_AZURE_SUBSCRIPTION_ID'', im_location = Getenv e ''ARO_LOCATION'',
           im_resourceGroup = Getenv e ''ARO_RESOURCEGROUP'', im_aksMsiClientID = [],
           im_environment = environment\<rparr>)))"

section \<open>Production\<close>

record http_request =
  rq_url :: string
  rq_metadata :: string

record http_response =
  rs_StatusCode :: nat
  rs_ContentType :: string
  rs_Body :: "string result"

type_synonym 's http = "http_request \<Rightarrow> 's \<Rightarrow> http_response result \<times> 's"

definition getAksShardFromEnvironment :: "envvars \<Rightarrow> int result" where
  "getAksShardFromEnvironment e =
     (if Getenv e ''ARO_AZURE_AKS_SHARD_ID'' \<noteq> [] then Atoi (Getenv e ''ARO_AZURE_AKS_SHARD_ID'') else Ok 1)"

definition msi_url :: "instanceMetadata \<Rightarrow> int \<Rightarrow> string" where
  "msi_url p shard =
     ''http://169.254.169.254/metadata/identity/oauth2/token?'' @
     encode_query [
       (''api-version'', ''2018-02-01''),
       (''resource'', env_ResourceManagerEndpoint (im_environment p)),
       (''mi_res_id'', ''/subscriptions/'' @ im_subscriptionID p @ ''/resourceGroups/'' @ im_resourceGroup p
          @ ''/providers/Microsoft.ManagedIdentity/userAssignedIdentities/aro-aks-cluster-''
          @ show_03d shard @ ''-agentpool'')]"

text \<open>A null document leaves the response pointer nil, and reading its fields panics.\<close>

definition getServicePrincipalTokenAndClientIdFromMSI ::
  "envvars \<Rightarrow> 's http \<Rightarrow> instanceMetadata \<Rightarrow> 's \<Rightarrow> (string \<times> string) result \<times> 's" where
  "getServicePrincipalTokenAndClientIdFromMSI e do p s =
     st_bind (getAksShardFromEnvironment e, s) (\<lambda>shard s.
     st_bind (do \<lparr>rq_url = msi_url p shard, rq_metadata = ''true''\<rparr> s) (\<lambda>resp s.
       (andThen (rs_Body resp) (\<lambda>body.
        andThen (decode_struct [''access_token'', ''client_id''] (parse_json body)) (\<lambda>m.
        andThen (deref m) (\<lambda>f. Ok (f ''access_token'', f ''client_id'')))), s)))"

definition populateTenantAndClientIDFromMSI ::
  "envvars \<Rightarrow> 's http \<Rightarrow> (string \<Rightarrow> string result) \<Rightarrow> instanceMetadata \<Rightarrow> 's \<Rightarrow> instanceMetadata result \<times> 's" where
  "populateTenantAndClientIDFromMSI e do claim p s =
     st_bind (getServicePrincipalTokenAndClientIdFromMSI e do p s) (\<lambda>(accessToken, clientId) s.
       (andThen (claim accessToken) (\<lambda>tid. Ok (p\<lparr>im_tenantID := tid, im_aksMsiClientID := clientId\<rparr>)), s))"

definition media_type :: "string \<Rightarrow> string" where
  "media_type s = takeWhile (\<lambda>c. c \<noteq> CHR '';'') s"

definition populateInstanceMetadata ::
  "'s http \<Rightarrow> string result \<Rightarrow> 's \<Rightarrow> instanceMetadata result \<times> 's" where
  "populateInstanceMetadata do hostname s =
     st_bind (do \<lparr>rq_url = ''http://169.254.169.254/metadata/instance/compute?api-version=2019-03-11'',
                  rq_metadata = ''true''\<rparr> s) (\<lambda>resp s.
       (if rs_StatusCode resp \<noteq> 200
        then Err (ErrMsg (''unexpected status code '' @ show_nat (rs_StatusCode resp)))
        else if media_type (rs_ContentType resp) \<noteq> ''application/json''
        then Err (ErrMsg (''unexpected content type '' @ quote_text (rs_ContentType resp)))
        else
          andThen (rs_Body resp) (\<lambda>body.
          andThen (decode_struct [''location'', ''resourceGroupName'', ''subscriptionId'', ''azEnvironment'']
            (first_value body)) (\<lambda>m.
          andThen (deref m) (\<lambda>f.
          andThen (EnvironmentFromName (f ''azEnvironment'')) (\<lambda>environment.
          andThen hostname (\<lambda>host.
            Ok \<lparr>im_hostname = host, im_tenantID = [], im_subscriptionID = f ''subscriptionId'',
                im_location = f ''location'', im_resourceGroup = f ''resourceGroupName'',
                im_aksMsiClientID = [], im_environment = environment\<rparr>))))), s))"

definition newProdMetadata ::
  "envvars \<Rightarrow> 's http \<Rightarrow> string result \<Rightarrow> (string \<Rightarrow> string result) \<Rightarrow> 's \<Rightarrow> instanceMetadata result \<times> 's" where
  "newProdMetadata e do hostname claim s =
     st_bind (populateInstanceMetadata do hostname s) (populateTenantAndClientIDFromMSI e do claim)"

definition NewMetadata ::
  "envvars \<Rightarrow> 's http \<Rightarrow> string result \<Rightarrow> (string \<Rightarrow> string result) \<Rightarrow> bool \<Rightarrow> 's \<Rightarrow> instanceMetadata result \<times> 's" where
  "NewMetadata e do hostname claim isLocalDevelopmentMode s =
     (if isLocalDevelopmentMode then (NewDev e hostname True, s)
      else newProdMetadata e do hostname claim s)"

section \<open>Properties\<close>

definition supported_clouds :: "environment set" where
  "supported_clouds = {PublicCloud, USGovernmentCloud}"

lemma EnvironmentFromName_supported: "EnvironmentFromName n = Ok env \<Longrightarrow> env \<in> supported_clouds"
  by (auto simp: EnvironmentFromName_def supported_clouds_def split: if_splits)

text \<open>A metadata service that answers with the given bodies, in turn.\<close>

definition answers :: "string list http" where
  "answers rq s =
     (case s of
        [] \<Rightarrow> (Err (ErrMsg ''EOF''), [])
      | b # bs \<Rightarrow> (Ok \<lparr>rs_StatusCode = 200, rs_ContentType = ''application/json; charset=utf-8'', rs_Body = Ok b\<rparr>, bs))"

abbreviation first_fields :: "string list" where
  "first_fields \<equiv> [''location'', ''resourceGroupName'', ''subscriptionId'', ''azEnvironment'']"

abbreviation second_fields :: "string list" where
  "second_fields \<equiv> [''access_token'', ''client_id'']"

lemma no_env_panic: "EnvironmentFromName n \<noteq> Panic" "getAksShardFromEnvironment e \<noteq> Panic"
  by (auto simp: EnvironmentFromName_def getAksShardFromEnvironment_def Atoi_def Let_def split: list.splits if_splits)

lemma populate_first:
  "populateInstanceMetadata answers (Ok host) (b # bs) =
     (andThen (decode_struct first_fields (first_value b)) (\<lambda>m. andThen (deref m) (\<lambda>f.
        andThen (EnvironmentFromName (f ''azEnvironment'')) (\<lambda>environment.
          Ok \<lparr>im_hostname = host, im_tenantID = [], im_subscriptionID = f ''subscriptionId'',
              im_location = f ''location'', im_resourceGroup = f ''resourceGroupName'',
              im_aksMsiClientID = [], im_environment = environment\<rparr>))), bs)"
  by (simp add: populateInstanceMetadata_def answers_def media_type_def)

lemma populate_second:
  "populateTenantAndClientIDFromMSI e answers claim p (b # bs) =
     (case getAksShardFromEnvironment e of
        Ok shard \<Rightarrow>
          (andThen (decode_struct second_fields (parse_json b)) (\<lambda>m. andThen (deref m) (\<lambda>g.
             andThen (claim (g ''access_token'')) (\<lambda>tid.
               Ok (p\<lparr>im_tenantID := tid, im_aksMsiClientID := g ''client_id''\<rparr>)))), bs)
      | Err x \<Rightarrow> (Err x, b # bs)
      | Panic \<Rightarrow> (Panic, b # bs))"
proof (cases "getAksShardFromEnvironment e")
  case (Ok shard)
  show ?thesis
  proof (cases "decode_struct second_fields (parse_json b)")
    case D: (Ok m)
    then show ?thesis
      by (cases m) (simp_all add: Ok populateTenantAndClientIDFromMSI_def getServicePrincipalTokenAndClientIdFromMSI_def answers_def)
  qed (simp_all add: Ok populateTenantAndClientIDFromMSI_def getServicePrincipalTokenAndClientIdFromMSI_def answers_def)
qed (simp_all add: populateTenantAndClientIDFromMSI_def getServicePrincipalTokenAndClientIdFromMSI_def)

lemma decode_struct_no_panic [simp]: "decode_struct names d \<noteq> Panic"
  by (auto simp: decode_struct_def split: option.splits json.splits)

text \<open>A successful look-up of the instance metadata asks the service at most twice, runs in one of the
  two supported clouds, and takes the subscription, location and group from the first answer and the
  client ID from the second; a null answer from the service is a nil dereference, not an error.\<close>

theorem metadata_answers:
  "newProdMetadata e answers (Ok host) claim (b1 # b2 # bs) = (r, s') \<Longrightarrow>
   (case r of
      Ok im \<Rightarrow> s' = bs \<and> im_environment im \<in> supported_clouds \<and> im_hostname im = host
        \<and> (\<exists>f g shard. decode_struct [''location'', ''resourceGroupName'', ''subscriptionId'', ''azEnvironment''] (first_value b1) = Ok (Some f)
             \<and> decode_struct [''access_token'', ''client_id''] (parse_json b2) = Ok (Some g)
             \<and> im_location im = f ''location'' \<and> im_subscriptionID im = f ''subscriptionId''
             \<and> im_resourceGroup im = f ''resourceGroupName'' \<and> im_aksMsiClientID im = g ''client_id''
             \<and> claim (g ''access_token'') = Ok (im_tenantID im) \<and> getAksShardFromEnvironment e = Ok shard)
    | Err _ \<Rightarrow> True
    | Panic \<Rightarrow> decode_struct [''location'', ''resourceGroupName'', ''subscriptionId'', ''azEnvironment''] (first_value b1) = Ok None
        \<or> decode_struct [''access_token'', ''client_id''] (parse_json b2) = Ok None
        \<or> (\<exists>t. claim t = Panic))"
proof -
  assume n: "newProdMetadata e answers (Ok host) claim (b1 # b2 # bs) = (r, s')"
  show ?thesis
  proof (cases "decode_struct first_fields (first_value b1)")
    case D: (Ok m)
    show ?thesis
    proof (cases m)
      case None
      then show ?thesis using n D by (cases r) (simp_all add: newProdMetadata_def populate_first)
    next
      case (Some f)
      show ?thesis
      proof (cases "EnvironmentFromName (f ''azEnvironment'')")
        case E: (Ok environment)
        note env = EnvironmentFromName_supported [OF E]
        show ?thesis
          using n D Some E env no_env_panic(2) [of e]
          by (cases "getAksShardFromEnvironment e"; cases r)
            (auto simp: newProdMetadata_def populate_first populate_second outcome_simps)
      next
        case (Err x)
        then show ?thesis using n D Some by (auto simp: newProdMetadata_def populate_first)
      qed (simp add: no_env_panic)
    qed
  next
    case (Err x)
    then show ?thesis using n by (auto simp: newProdMetadata_def populate_first)
  qed simp
qed

definition demo_body :: string where
  "demo_body = print_json (JObj [(''azEnvironment'', JStr ''AzurePublicCloud''), (''location'', JStr ''eastus'')])"

definition demo_token :: string where
  "demo_token = print_json (JObj [(''client_id'', JStr ''c'')])"

definition demo_metadata :: instanceMetadata where
  "demo_metadata = \<lparr>im_hostname = ''h'', im_tenantID = ''tenant'', im_subscriptionID = [], im_location = ''eastus'',
     im_resourceGroup = [], im_aksMsiClientID = ''c'', im_environment = PublicCloud\<rparr>"

theorem metadata_answers_witness:
  "newProdMetadata (\<lambda>k. None) answers (Ok ''h'') (\<lambda>t. Ok ''tenant'') [demo_body, demo_token] = (Ok demo_metadata, [])
    \<and> im_environment demo_metadata \<in> supported_clouds"
proof -
  have r: "newProdMetadata (\<lambda>k. None) answers (Ok ''h'') (\<lambda>t. Ok ''tenant'') [demo_body, demo_token] = (Ok demo_metadata, [])"
    by code_simp
  from metadata_answers [OF r] show ?thesis using r by simp
qed

end
