(* ===== verification/Dialer.thy ===== *)
theory Dialer
  imports Go_Std Certificates
begin

text \<open>
  pkg/proxy/dialer.go: dialling an API server, directly in production and through the development
  proxy otherwise. The network is a record of operations on a state \<open>'s\<close>, which numbers its
  connections; dial and handshake are crypto/tls's and net's, write and read are net/http's. The error
  branch of \<open>http.NewRequest\<close> is left out: the method and the empty URL it is given are valid.
\<close>

section \<open>Dialers\<close>

record 's network =
  nw_dial :: "string \<Rightarrow> string \<Rightarrow> 's \<Rightarrow> nat result \<times> 's"
  nw_handshake :: "string \<Rightarrow> x509_cert \<Rightarrow> string \<Rightarrow> rsa_key \<Rightarrow> nat \<Rightarrow> 's \<Rightarrow> unit result \<times> 's"
  nw_write :: "string \<Rightarrow> nat \<Rightarrow> 's \<Rightarrow> unit result \<times> 's"
  nw_read :: "nat \<Rightarrow> 's \<Rightarrow> nat result \<times> 's"
  nw_close :: "nat \<Rightarrow> 's \<Rightarrow> 's"

record devDialer =
  dd_proxyPool :: x509_cert
  dd_proxyClientCert :: string
  dd_proxyClientKey :: rsa_key

datatype dialer = ProdDialer | DevDialer devDialer

text \<open>The connection is closed before an error of the given call is returned.\<close>

definition closing :: "'s network \<Rightarrow> nat \<Rightarrow> 'a result \<times> 's \<Rightarrow> 'a result \<times> 's" where
  "closing n c r =
     (case r of
        (Err e, s) \<Rightarrow> (Err e, nw_close n c s)
      | r' \<Rightarrow> r')"

definition dev_DialContext :: "'s network \<Rightarrow> envvars \<Rightarrow> devDialer \<Rightarrow> string \<Rightarrow> string \<Rightarrow> 's \<Rightarrow> nat result \<times> 's" where
  "dev_DialContext n e d net address s =
     (if net \<noteq> ''tcp'' then (Err (ErrMsg (''unimplemented network '' @ quote_text net)), s)
      else
        st_bind (nw_dial n net (Getenv e ''ARO_PROXY_HOSTNAME'' @ '':443'') s) (\<lambda>c s.
        st_bind (closing n c (nw_handshake n ''proxy'' (dd_proxyPool d) (dd_proxyClientCert d) (dd_proxyClientKey d) c s)) (\<lambda>_ s.
        st_bind (closing n c (nw_write n (''CONNECT '' @ address) c s)) (\<lambda>_ s.
        st_bind (closing n c (nw_read n c s)) (\<lambda>status s.
          if status \<noteq> 200
          then (Err (ErrMsg (''unexpected status code '' @ show_nat status)), nw_close n c s)
          else (Ok c, s))))))"

definition DialContext :: "'s network \<Rightarrow> envvars \<Rightarrow> dialer \<Rightarrow> string \<Rightarrow> string \<Rightarrow> 's \<Rightarrow> nat result \<times> 's" where
  "DialContext n e d net address s =
     (case d of
        ProdDialer \<Rightarrow> nw_dial n net address s
      | DevDialer dd \<Rightarrow> dev_DialContext n e dd net address s)"

definition NewDialer :: "(string \<Rightarrow> string result) \<Rightarrow> x509_lib \<Rightarrow> bool \<Rightarrow> dialer result" where
  "NewDialer ReadFile x isLocalDevelopmentMode =
     (if \<not> isLocalDevelopmentMode then Ok ProdDialer
      else
        andThen (ReadFile ''/.azure/proxy.crt'') (\<lambda>b.
        andThen (x_ParseCertificate x b) (\<lambda>cert.
        andThen (ReadFile ''/.azure/proxy-client.crt'') (\<lambda>clientCert.
        andThen (ReadFile ''/.azure/proxy-client.key'') (\<lambda>b.
        andThen (x_ParsePKCS1PrivateKey x b) (\<lambda>key.
          Ok (DevDialer \<lparr>dd_proxyPool = cert, dd_proxyClientCert = clientCert, dd_proxyClientKey = key\<rparr>)))))))"

section \<open>The REST client's dial function\<close>

text \<open>pkg/util/restconfig: the host is replaced by the private endpoint's address, the port is kept.\<close>

definition restconfig_DialContext ::
  "(string \<Rightarrow> string \<Rightarrow> 's \<Rightarrow> 'c result \<times> 's) \<Rightarrow> string \<Rightarrow> string \<Rightarrow> string \<Rightarrow> 's \<Rightarrow> 'c result \<times> 's" where
  "restconfig_DialContext dial privateEndpointIP net address s =
     (if net \<noteq> ''tcp'' then (Err (ErrMsg (''unimplemented network '' @ quote_text net)), s)
      else st_bind (SplitHostPort address, s) (\<lambda>(_, port) s.
        dial net (privateEndpointIP @ '':'' @ port) s))"

text \<open>
  \<open>RestConfig\<close>: the ARO service's kubeconfig, or the administrator's if it is missing. Loading it is
  client-go's; what is built keeps the loaded configuration and the address its dial function uses.
\<close>

record 'k rest_config =
  rc_loaded :: 'k
  rc_endpoint :: string

definition RestConfig ::
  "(string option \<Rightarrow> 'k result) \<Rightarrow> ('k \<Rightarrow> 'r result) \<Rightarrow> string \<Rightarrow> string option \<Rightarrow> string option \<Rightarrow> 'r rest_config result" where
  "RestConfig load client_config privateEndpointIP aroServiceKubeconfig adminKubeconfig =
     (if privateEndpointIP = [] then Err (ErrMsg ''privateEndpointIP is empty'')
      else
        andThen (load (if aroServiceKubeconfig = None then adminKubeconfig else aroServiceKubeconfig)) (\<lambda>config.
        andThen (client_config config) (\<lambda>r. Ok \<lparr>rc_loaded = r, rc_endpoint = privateEndpointIP\<rparr>)))"

section \<open>A network that counts its connections\<close>

text \<open>The state: connections opened, the connections that were closed, and what each call answers.\<close>

record counting =
  ct_opened :: nat
  ct_closed :: "nat list"
  ct_dial :: "go_error option"
  ct_handshake :: "go_error option"
  ct_write :: "go_error option"
  ct_read :: "nat result"

fun answer :: "go_error option \<Rightarrow> 'a \<Rightarrow> 'a result" where
  "answer None a = Ok a"
| "answer (Some e) a = Err e"

definition counted_network :: "counting network" where
  "counted_network = \<lparr>
     nw_dial = (\<lambda>n a s. case ct_dial s of None \<Rightarrow> (Ok (ct_opened s), s\<lparr>ct_opened := Suc (ct_opened s)\<rparr>) | Some e \<Rightarrow> (Err e, s)),
     nw_handshake = (\<lambda>sn p ce k c s. (answer (ct_handshake s) (), s)),
     nw_write = (\<lambda>t c s. (answer (ct_write s) (), s)),
     nw_read = (\<lambda>c s. (ct_read s, s)),
     nw_close = (\<lambda>c s. s\<lparr>ct_closed := ct_closed s @ [c]\<rparr>)\<rparr>"

definition left_open :: "counting \<Rightarrow> nat set" where
  "left_open s = {0..<ct_opened s} - set (ct_closed s)"

text \<open>C33: The development dialer leaks no connection: whatever the network answers, a dial that fails leaves
  the connections that were open before, having closed its own exactly once if it had one, and a dial
  that succeeds leaves exactly its own connection open besides them.\<close>

theorem dev_dial_no_leak:
  assumes "dev_DialContext counted_network e d net address s = (r, s')" "ct_read s \<noteq> Panic"
    "set (ct_closed s) \<subseteq> {0..<ct_opened s}"
  shows "(case r of
      Ok c \<Rightarrow> c = ct_opened s \<and> ct_closed s' = ct_closed s \<and> left_open s' = insert c (left_open s)
    | Err x \<Rightarrow> left_open s' = left_open s \<and> (ct_closed s' = ct_closed s \<or> ct_closed s' = ct_closed s @ [ct_opened s])
    | Panic \<Rightarrow> False)"
proof -
  have f: "{0..<Suc n} = insert n {0..<n}" for n by auto
  have o: "ct_opened s \<notin> set (ct_closed s)" using assms(3) by auto
  show ?thesis
    using assms(1,2) o
    by (cases "ct_dial s"; cases "ct_handshake s"; cases "ct_write s"; cases "ct_read s")
      (auto simp: dev_DialContext_def closing_def counted_network_def left_open_def f split: if_splits outcome.splits)
qed

definition idle :: counting where
  "idle = \<lparr>ct_opened = 2, ct_closed = [0], ct_dial = None, ct_handshake = None, ct_write = None, ct_read = Ok 502\<rparr>"

definition demo_dialer :: devDialer where
  "demo_dialer = \<lparr>dd_proxyPool = demo_cert, dd_proxyClientCert = ''crt'', dd_proxyClientKey = RsaKey ''key''\<rparr>"

theorem dev_dial_no_leak_witness:
  "\<exists>x s'. dev_DialContext counted_network (\<lambda>k. None) demo_dialer ''tcp'' ''api:6443'' idle = (Err x, s') \<and> left_open s' = left_open idle"
proof -
  obtain x s' where r: "dev_DialContext counted_network (\<lambda>k. None) demo_dialer ''tcp'' ''api:6443'' idle = (Err x, s')"
    by (simp add: dev_DialContext_def counted_network_def closing_def idle_def)
  have "set (ct_closed idle) \<subseteq> {0..<ct_opened idle}" "ct_read idle \<noteq> Panic" by (simp_all add: idle_def)
  from dev_dial_no_leak [OF r this(2,1)] r show ?thesis by auto
qed

text \<open>The REST client's dial function reaches the private endpoint at the port of the address it is given,
  whatever the host (an IPv6 host too), over tcp only.\<close>

theorem restconfig_dials_endpoint:
  assumes "plain_host h" "plain_port p"
  shows "restconfig_DialContext dial ip ''tcp'' (JoinHostPort h p) s = dial ''tcp'' (ip @ '':'' @ p) s"
  using split_join_host_port [OF assms] by (simp add: restconfig_DialContext_def)

theorem restconfig_dials_endpoint_witness:
  "restconfig_DialContext (\<lambda>n a s. (Ok a, s)) ''10.0.0.4'' ''tcp'' ''[fd00::1]:6443'' () = (Ok ''10.0.0.4:6443'', ())"
proof -
  have h: "plain_host ''fd00::1''" "plain_port ''6443''" "JoinHostPort ''fd00::1'' ''6443'' = ''[fd00::1]:6443''"
    by (simp_all add: plain_host_def plain_port_def JoinHostPort_def)
  from restconfig_dials_endpoint [OF h(1,2), of "\<lambda>n a s. (Ok a, s)" "''10.0.0.4''" "()"] h(3)
  show ?thesis by simp
qed

end
