(* ===== verification/Features.thy ===== *)
theory Features
  imports Go_Std
begin

text \<open>
  The feature flags of pkg/env: env.go and the generated zz_generated_feature_enumer.go. A feature is
  a Go int; its names are slices of one constant, cut at the positions of an index table.
\<close>

type_synonym Feature = int

definition FeatureDisableDenyAssignments :: Feature where "FeatureDisableDenyAssignments = 0"
definition FeatureDisableSignedCertificates :: Feature where "FeatureDisableSignedCertificates = 1"
definition FeatureEnableDevelopmentAuthorizer :: Feature where "FeatureEnableDevelopmentAuthorizer = 2"
definition FeatureRequireD2sV3Workers :: Feature where "FeatureRequireD2sV3Workers = 3"
definition FeatureDisableReadinessDelay :: Feature where "FeatureDisableReadinessDelay = 4"

definition FeatureName :: string where
  "FeatureName = ''FeatureDisableDenyAssignmentsFeatureDisableSignedCertificatesFeatureEnableDevelopmentAuthorizerFeatureRequireD2sV3WorkersFeatureDisableReadinessDelay''"

definition FeatureLowerName :: string where
  "FeatureLowerName = ''featuredisabledenyassignmentsfeaturedisablesignedcertificatesfeatureenabledevelopmentauthorizerfeaturerequired2sv3workersfeaturedisablereadinessdelay''"

definition FeatureIndex :: "nat list" where
  "FeatureIndex = [0, 29, 61, 95, 121, 149]"

definition cut_at :: "string \<Rightarrow> nat \<Rightarrow> nat \<Rightarrow> string" where
  "cut_at s a b = drop a (take b s)"

definition FeatureValues :: "Feature list" where
  "FeatureValues =
     [FeatureDisableDenyAssignments, FeatureDisableSignedCertificates, FeatureEnableDevelopmentAuthorizer,
      FeatureRequireD2sV3Workers, FeatureDisableReadinessDelay]"

definition Feature_String :: "Feature \<Rightarrow> string" where
  "Feature_String i =
     (if i < 0 \<or> int (length FeatureIndex - 1) \<le> i then ''Feature('' @ show_int i @ '')''
      else cut_at FeatureName (FeatureIndex ! nat i) (FeatureIndex ! Suc (nat i)))"

definition FeatureNameToValueMap :: "(string \<times> Feature) list" where
  "FeatureNameToValueMap =
     [(cut_at FeatureName 0 29, FeatureDisableDenyAssignments),
      (cut_at FeatureLowerName 0 29, FeatureDisableDenyAssignments),
      (cut_at FeatureName 29 61, FeatureDisableSignedCertificates),
      (cut_at FeatureLowerName 29 61, FeatureDisableSignedCertificates),
      (cut_at FeatureName 61 95, FeatureEnableDevelopmentAuthorizer),
      (cut_at FeatureLowerName 61 95, FeatureEnableDevelopmentAuthorizer),
      (cut_at FeatureName 95 121, FeatureRequireD2sV3Workers),
      (cut_at FeatureLowerName 95 121, FeatureRequireD2sV3Workers),
      (cut_at FeatureName 121 149, FeatureDisableReadinessDelay),
      (cut_at FeatureLowerName 121 149, FeatureDisableReadinessDelay)]"

definition FeatureNames :: "string list" where
  "FeatureNames =
     [cut_at FeatureName 0 29, cut_at FeatureName 29 61, cut_at FeatureName 61 95, cut_at FeatureName 95 121,
      cut_at FeatureName 121 149]"

text \<open>\<open>FeatureStrings\<close> returns a copy of the names.\<close>

definition FeatureStrings :: "string list" where
  [simp]: "FeatureStrings = FeatureNames"

definition FeatureString :: "string \<Rightarrow> Feature result" where
  "FeatureString s =
     (case map_of FeatureNameToValueMap s of
        Some v \<Rightarrow> Ok v
      | None \<Rightarrow>
          (case map_of FeatureNameToValueMap (to_lower s) of
             Some v \<Rightarrow> Ok v
           | None \<Rightarrow> Err (ErrMsg (s @ '' does not belong to Feature values''))))"

definition IsAFeature :: "Feature \<Rightarrow> bool" where
  "IsAFeature i = list_ex (\<lambda>v. i = v) FeatureValues"

text \<open>The five names, and their lower-case forms, as the tables spell them.\<close>

lemma feature_names:
  "FeatureStrings = [''FeatureDisableDenyAssignments'', ''FeatureDisableSignedCertificates'',
     ''FeatureEnableDevelopmentAuthorizer'', ''FeatureRequireD2sV3Workers'', ''FeatureDisableReadinessDelay'']"
  by code_simp

lemma feature_table:
  "FeatureNameToValueMap = concat (map (\<lambda>i. [(FeatureStrings ! i, int i), (to_lower (FeatureStrings ! i), int i)]) [0,1,2,3,4])"
  by code_simp

lemma Feature_String_names: "i < 5 \<Longrightarrow> Feature_String (int i) = FeatureStrings ! i"
proof -
  have "list_all (\<lambda>i. Feature_String (int i) = FeatureStrings ! i) [0,1,2,3,4]" by code_simp
  moreover assume "i < 5"
  then have "i \<in> set [0,1,2,3,4]" by auto
  ultimately show ?thesis by (simp only: list_all_iff)
qed

lemma IsAFeature_range: "IsAFeature f \<longleftrightarrow> f \<in> {0,1,2,3,4}"
  by (auto simp: IsAFeature_def FeatureValues_def FeatureDisableDenyAssignments_def FeatureDisableSignedCertificates_def
      FeatureEnableDevelopmentAuthorizer_def FeatureRequireD2sV3Workers_def FeatureDisableReadinessDelay_def)

definition lower_table :: "(string \<times> Feature) list" where
  "lower_table = map (\<lambda>i. (to_lower (FeatureStrings ! i), int i)) [0,1,2,3,4]"

lemma lower_table_distinct: "distinct (map fst lower_table)"
  by code_simp

lemma table_lower: "list_all (\<lambda>(k, v). (to_lower k, v) \<in> set lower_table) FeatureNameToValueMap"
  by code_simp

lemma lower_in_table: "list_all (\<lambda>(k, v). map_of FeatureNameToValueMap k = Some v) lower_table"
  by code_simp

lemma lower_table_keys: "list_all (\<lambda>(k, v). to_lower k = k) lower_table"
  by code_simp

lemma FeatureString_lower:
  "FeatureString s = (case map_of lower_table (to_lower s) of Some v \<Rightarrow> Ok v
     | None \<Rightarrow> Err (ErrMsg (s @ '' does not belong to Feature values'')))"
proof -
  have a: "map_of lower_table (to_lower k) = Some v" if "map_of FeatureNameToValueMap k = Some v" for k v
  proof -
    have "(k, v) \<in> set FeatureNameToValueMap" using that by (rule map_of_SomeD)
    then have "(to_lower k, v) \<in> set lower_table" using table_lower by (auto simp: list_all_iff)
    then show ?thesis using lower_table_distinct by simp
  qed
  have b: "map_of FeatureNameToValueMap k = Some v" if "map_of lower_table k = Some v" for k v
    using map_of_SomeD [OF that] lower_in_table by (auto simp: list_all_iff)
  show ?thesis
  proof (cases "map_of lower_table (to_lower s)")
    case None
    then have "map_of FeatureNameToValueMap s = None" "map_of FeatureNameToValueMap (to_lower s) = None"
      using a [of s] a [of "to_lower s"] by (metis option.exhaust, metis option.exhaust to_lower_idem)
    then show ?thesis using None by (simp add: FeatureString_def)
  next
    case (Some v)
    then show ?thesis
      using b [OF Some] a [of s] by (auto simp: FeatureString_def split: option.splits)
  qed
qed

text \<open>A text names a feature exactly if it is the feature's name up to case: \<open>FeatureString\<close> inverts
  \<open>String\<close> on the five features, and accepts nothing else.\<close>

theorem FeatureString_names:
  "FeatureString s = Ok f \<longleftrightarrow> IsAFeature f \<and> equal_fold s (Feature_String f)"
proof
  assume "FeatureString s = Ok f"
  then have m: "map_of lower_table (to_lower s) = Some f" by (simp add: FeatureString_lower split: option.splits)
  then obtain i where i: "i < 5" "f = int i" "to_lower s = to_lower (FeatureStrings ! i)"
    using map_of_SomeD [OF m] by (auto simp: lower_table_def)
  then show "IsAFeature f \<and> equal_fold s (Feature_String f)"
    by (auto simp: IsAFeature_range Feature_String_names equal_fold_def)
next
  assume r: "IsAFeature f \<and> equal_fold s (Feature_String f)"
  then obtain i where i: "i < 5" "f = int i"
    by (cases f) (auto simp: IsAFeature_range)
  then have "to_lower s = to_lower (FeatureStrings ! i)" using r by (simp add: Feature_String_names equal_fold_def)
  moreover have "(to_lower (FeatureStrings ! i), int i) \<in> set lower_table"
    using i(1) by (cases "i = 0 \<or> i = 1 \<or> i = 2 \<or> i = 3 \<or> i = 4") (auto simp: lower_table_def)
  ultimately have "map_of lower_table (to_lower s) = Some f" using lower_table_distinct i(2) by simp
  then show "FeatureString s = Ok f" by (simp add: FeatureString_lower)
qed

end
