(* ===== verification/Refresher.thy ===== *)
theory Refresher
  imports Certificates
begin

text \<open>
  pkg/env/certificateRefresher.go: the first-party certificate, fetched when the program starts and
  again at every tick, kept when a fetch fails. The goroutine's select is a step relation: each step is
  a tick or the end of the context; the reader sees the store between steps, as the lock makes sure.
\<close>

section \<open>The refresher\<close>

record 's refreshingCertificate =
  rf_certs :: "x509_cert list"
  rf_key :: "rsa_key option"
  rf_kv :: "'s \<Rightarrow> (rsa_key \<times> x509_cert list) result \<times> 's"

text \<open>\<open>rf_kv\<close> is the manager's \<open>GetCertificateSecret\<close> on the refresher's certificate name.\<close>

definition newCertificateRefresher ::
  "x509_lib \<Rightarrow> 's kv_manager \<Rightarrow> string \<Rightarrow> 's refreshingCertificate" where
  "newCertificateRefresher x kv certificateName =
     \<lparr>rf_certs = [], rf_key = None, rf_kv = GetCertificateSecret x kv certificateName\<rparr>"

definition GetCertificates :: "'s refreshingCertificate \<Rightarrow> rsa_key option \<times> x509_cert list" where
  "GetCertificates r = (rf_key r, rf_certs r)"

definition fetchCertificateOnce ::
  "'s refreshingCertificate \<Rightarrow> 's \<Rightarrow> unit result \<times> 's refreshingCertificate \<times> 's" where
  "fetchCertificateOnce r s =
     (case rf_kv r s of
        (Ok (key, certs), s') \<Rightarrow> (Ok (), r\<lparr>rf_key := Some key, rf_certs := certs\<rparr>, s')
      | (Err e, s') \<Rightarrow> (Err e, r, s')
      | (Panic, s') \<Rightarrow> (Panic, r, s'))"

text \<open>\<open>Start\<close>: the first fetch, then the goroutine if it succeeded.\<close>

definition refresher_Start ::
  "'s refreshingCertificate \<Rightarrow> 's \<Rightarrow> bool result \<times> 's refreshingCertificate \<times> 's" where
  "refresher_Start r s =
     (case fetchCertificateOnce r s of
        (Ok u, r', s') \<Rightarrow> (Ok True, r', s')
      | (Err e, r', s') \<Rightarrow> (Err e, r', s')
      | (Panic, r', s') \<Rightarrow> (Panic, r', s'))"

text \<open>The goroutine: its store, the state of the vault, the errors logged, and whether it still runs.\<close>

record 's refresh_state =
  fs_cert :: "'s refreshingCertificate"
  fs_vault :: 's
  fs_logged :: "go_error list"
  fs_running :: bool

datatype refresh_event = Tick | Done

inductive fetchCertificate :: "'s refresh_state \<Rightarrow> refresh_event \<Rightarrow> 's refresh_state \<Rightarrow> bool" where
  ended: "fs_running st \<Longrightarrow> fetchCertificate st Done (st\<lparr>fs_running := False\<rparr>)"
| fetched: "fs_running st \<Longrightarrow> fetchCertificateOnce (fs_cert st) (fs_vault st) = (Ok u, r, s) \<Longrightarrow>
    fetchCertificate st Tick (st\<lparr>fs_cert := r, fs_vault := s\<rparr>)"
| failed: "fs_running st \<Longrightarrow> fetchCertificateOnce (fs_cert st) (fs_vault st) = (Err e, r, s) \<Longrightarrow>
    fetchCertificate st Tick (st\<lparr>fs_cert := r, fs_vault := s, fs_logged := fs_logged st @ [e]\<rparr>)"

inductive_cases doneE: "fetchCertificate st Done st'"
inductive_cases tickE: "fetchCertificate st Tick st'"
inductive_simps tick_iff: "fetchCertificate st Tick st'"

inductive refresher_reaches :: "'s refresh_state \<Rightarrow> refresh_event list \<Rightarrow> 's refresh_state \<Rightarrow> bool" where
  start: "refresher_reaches st [] st"
| step: "refresher_reaches st es st1 \<Longrightarrow> fetchCertificate st1 e st2 \<Longrightarrow> refresher_reaches st (es @ [e]) st2"

section \<open>What the vault answered\<close>

text \<open>A vault whose state is the list of its answers to come.\<close>

fun scripted :: "(rsa_key \<times> x509_cert list) result list \<Rightarrow> (rsa_key \<times> x509_cert list) result \<times> (rsa_key \<times> x509_cert list) result list" where
  "scripted [] = (Err Canceled, [])"
| "scripted (a # as) = (a, as)"

text \<open>The last successful answer of a list of answers, after a pair that is there already.\<close>

fun last_success :: "rsa_key \<times> x509_cert list \<Rightarrow> (rsa_key \<times> x509_cert list) result list \<Rightarrow> rsa_key \<times> x509_cert list" where
  "last_success kc [] = kc"
| "last_success kc (Ok kc' # as) = last_success kc' as"
| "last_success kc (_ # as) = last_success kc as"

fun failures :: "(rsa_key \<times> x509_cert list) result list \<Rightarrow> go_error list" where
  "failures [] = []"
| "failures (Err e # as) = e # failures as"
| "failures (_ # as) = failures as"

lemma last_success_append: "last_success kc (as @ bs) = last_success (last_success kc as) bs"
  by (induction kc as rule: last_success.induct) auto

lemma failures_append: "failures (as @ bs) = failures as @ failures bs"
  by (induction as rule: failures.induct) auto

text \<open>The vault only counts its calls; what it answers at each is \<open>a\<close>.\<close>

definition counting_vault :: "(nat \<Rightarrow> (rsa_key \<times> x509_cert list) result) \<Rightarrow> nat \<Rightarrow> (rsa_key \<times> x509_cert list) result \<times> nat" where
  "counting_vault a n = (a n, Suc n)"

definition ticks_of :: "refresh_event list \<Rightarrow> nat" where
  "ticks_of es = length (filter (\<lambda>e. e = Tick) es)"

definition running_from :: "(nat \<Rightarrow> (rsa_key \<times> x509_cert list) result) \<Rightarrow> rsa_key \<times> x509_cert list \<Rightarrow> nat \<Rightarrow> nat refresh_state" where
  "running_from a kc n =
     \<lparr>fs_cert = \<lparr>rf_certs = snd kc, rf_key = Some (fst kc), rf_kv = counting_vault a\<rparr>, fs_vault = n,
      fs_logged = [], fs_running = True\<rparr>"

definition store_invariant ::
  "(nat \<Rightarrow> (rsa_key \<times> x509_cert list) result) \<Rightarrow> rsa_key \<times> x509_cert list \<Rightarrow> nat \<Rightarrow> refresh_event list \<Rightarrow> nat refresh_state \<Rightarrow> bool" where
  "store_invariant a kc n es st =
     (let as = map a [n ..< n + ticks_of es] in
      rf_kv (fs_cert st) = counting_vault a \<and> fs_vault st = n + ticks_of es
      \<and> GetCertificates (fs_cert st) = (Some (fst (last_success kc as)), snd (last_success kc as))
      \<and> fs_logged st = failures as \<and> (fs_running st \<longleftrightarrow> Done \<notin> set es))"

lemma store_invariant_step:
  assumes i: "store_invariant a kc n es st" and s: "fetchCertificate st e st'"
  shows "store_invariant a kc n (es @ [e]) st'"
  using s
proof cases
  case ended
  then show ?thesis using i by (simp add: store_invariant_def ticks_of_def Let_def)
next
  case (fetched u r s)
  then show ?thesis using i
    by (cases "a (fs_vault st)")
      (auto simp: store_invariant_def ticks_of_def Let_def fetchCertificateOnce_def counting_vault_def GetCertificates_def
        last_success_append failures_append)
next
  case (failed e' r s)
  then show ?thesis using i
    by (cases "a (fs_vault st)")
      (auto simp: store_invariant_def ticks_of_def Let_def fetchCertificateOnce_def counting_vault_def GetCertificates_def
        last_success_append failures_append)
qed

lemma store_invariant_reaches:
  "refresher_reaches st es st' \<Longrightarrow> store_invariant a kc n [] st \<Longrightarrow> store_invariant a kc n es st'"
  by (induction rule: refresher_reaches.induct) (auto intro: store_invariant_step)

text \<open>C32: In every state that the refresher reaches, a reader finds the pair of the last successful fetch: a
  failed one is logged and leaves the old pair, and after the context is done nothing changes.\<close>

theorem refresher_keeps_last:
  assumes "refresher_reaches (running_from a kc n) es st"
  shows "GetCertificates (fs_cert st) =
           (Some (fst (last_success kc (map a [n ..< n + ticks_of es]))), snd (last_success kc (map a [n ..< n + ticks_of es])))
    \<and> fs_logged st = failures (map a [n ..< n + ticks_of es])
    \<and> (Done \<in> set es \<longrightarrow> (\<nexists>e st'. fetchCertificate st e st'))"
proof -
  have "store_invariant a kc n [] (running_from a kc n)"
    by (simp add: store_invariant_def running_from_def ticks_of_def GetCertificates_def)
  from store_invariant_reaches [OF assms this] have i: "store_invariant a kc n es st" .
  have "\<not> fs_running st \<Longrightarrow> \<nexists>e st'. fetchCertificate st e st'" by (auto elim: fetchCertificate.cases)
  then show ?thesis using i by (auto simp: store_invariant_def Let_def)
qed

definition demo_answers :: "nat \<Rightarrow> (rsa_key \<times> x509_cert list) result" where
  "demo_answers n = (if n = 1 then Err Canceled else Ok (RsaKey (if n = 0 then ''0'' else ''later''), []))"

theorem refresher_keeps_last_witness:
  "\<exists>st. refresher_reaches (running_from demo_answers (RsaKey ''first'', []) 0) [Tick, Tick] st
     \<and> GetCertificates (fs_cert st) = (Some (RsaKey ''0''), []) \<and> fs_logged st = [Canceled]"
proof -
  let ?s = "running_from demo_answers (RsaKey ''first'', []) 0"
  have a: "fetchCertificate ?s Tick (?s\<lparr>fs_cert := (fs_cert ?s)\<lparr>rf_key := Some (RsaKey ''0''), rf_certs := []\<rparr>, fs_vault := 1\<rparr>)"
    (is "fetchCertificate _ _ ?s1")
    by (rule fetched) (simp_all add: running_from_def fetchCertificateOnce_def counting_vault_def demo_answers_def)
  have b: "fetchCertificate ?s1 Tick (?s1\<lparr>fs_cert := fs_cert ?s1, fs_vault := 2, fs_logged := [Canceled]\<rparr>)" (is "fetchCertificate _ _ ?s2")
    using failed [of ?s1 Canceled "fs_cert ?s1" 2]
    by (simp add: running_from_def fetchCertificateOnce_def counting_vault_def demo_answers_def)
  have "refresher_reaches ?s ([] @ [Tick]) ?s1" using start a by (rule step)
  then have "refresher_reaches ?s (([] @ [Tick]) @ [Tick]) ?s2" using b by (rule step)
  then have r: "refresher_reaches ?s [Tick, Tick] ?s2" by simp
  have t: "map demo_answers [0 ..< 0 + ticks_of [Tick, Tick]] = [Ok (RsaKey ''0'', []), Err Canceled]"
    by (simp add: ticks_of_def demo_answers_def upt_rec)
  from refresher_keeps_last [OF r] show ?thesis using r unfolding t by (intro exI [of _ ?s2]) simp
qed

end
