(* ===== verification/Cluster_Doc.thy ===== *)
theory Cluster_Doc
  imports Pull_Secret Go_Std
begin

text \<open>
  The part of the cluster document (the API type \<open>OpenShiftCluster\<close>) that the program reads. Secure
  strings and bytes are texts, the API's enumerations are their names, and a pointer is an option.
\<close>

record cluster_profile =
  PullSecret :: string
  Domain :: string
  ResourceGroupID :: string
  FipsValidatedModules :: string

record network_profile =
  PodCIDR :: string
  ServiceCIDR :: string
  SoftwareDefinedNetwork :: string
  MTUSize :: int
  OutboundType :: string
  APIServerPrivateEndpointIP :: string
  GatewayPrivateEndpointIP :: string

record master_profile =
  m_VMSize :: string
  m_SubnetID :: string
  m_EncryptionAtHost :: string
  m_DiskEncryptionSetID :: string

record worker_profile =
  w_Name :: string
  w_VMSize :: string
  w_DiskSizeGB :: int
  w_SubnetID :: string
  w_Count :: int
  w_EncryptionAtHost :: string
  w_DiskEncryptionSetID :: string

record ingress_profile =
  i_Visibility :: string
  i_IP :: string

record service_principal =
  sp_ClientID :: string
  sp_ClientSecret :: string

record openshift_cluster =
  oc_ID :: string
  oc_Location :: string
  ClusterProfile :: cluster_profile
  NetworkProfile :: network_profile
  MasterProfile :: master_profile
  WorkerProfiles :: "worker_profile list"
  IntIP :: string
  IngressProfiles :: "ingress_profile list"
  ServicePrincipalProfile :: "service_principal option"
  has_PlatformWorkloadIdentityProfile :: bool
  RegistryProfiles :: "registry_profile list"
  InfraID :: string
  StorageSuffix :: string
  ImageRegistryStorageAccountName :: string
  SSHKey :: string
  InstallNow :: "int option"

definition UsesWorkloadIdentity :: "openshift_cluster \<Rightarrow> bool" where
  "UsesWorkloadIdentity oc = (has_PlatformWorkloadIdentityProfile oc \<and> ServicePrincipalProfile oc = None)"

text \<open>\<open>azure.ParseResourceID\<close> is a parameter; it returns the five parts of the identifier.\<close>

record resource_id =
  SubscriptionID :: string
  ResourceGroup :: string
  Provider :: string
  ResourceType :: string
  ResourceName :: string

text \<open>An index expression on a Go slice.\<close>

fun at_index :: "'a list \<Rightarrow> nat \<Rightarrow> 'a result" where
  "at_index [] i = Panic"
| "at_index (x # xs) 0 = Ok x"
| "at_index (x # xs) (Suc i) = at_index xs i"

lemma at_index_Ok: "at_index xs i = Ok x \<longleftrightarrow> i < length xs \<and> xs ! i = x"
  by (induction xs i rule: at_index.induct) auto

lemma at_index_cases: "at_index xs i = (if i < length xs then Ok (xs ! i) else Panic)"
  by (induction xs i rule: at_index.induct) auto

end
