(* ===== verification/Env.thy ===== *)
theory Env
  imports Features Refresher Dialer Instance_Metadata Compute_Skus Cluster_Doc
begin

text \<open>
  pkg/env: the environment of the program, built from environment variables, the instance metadata,
  two key vaults and the SKU service (prod.go), with the development variant (dev.go); pkg/util/refreshable
  and pkg/bootstraplogging, which only read it. The Azure SDK's constructors are parameters.
\<close>

section \<open>What the environment needs\<close>

datatype credential =
    ManagedIdentity string
  | ClientSecretCred string string string
  | ClientCertificateCred string string "x509_cert list" "rsa_key option"

record authorizer =
  au_credential :: credential
  au_scopes :: "string list"

record 's env_deps =
  ed_env :: envvars
  ed_ReadFile :: "string \<Rightarrow> string result"
  ed_http :: "'s http"
  ed_hostname :: "string result"
  ed_claim :: "string \<Rightarrow> string result"
  ed_x509 :: x509_lib
  ed_new_credential :: "credential \<Rightarrow> unit result"
  ed_vault :: "authorizer \<Rightarrow> 's kv_client"
  ed_list_skus :: "string \<Rightarrow> string \<Rightarrow> authorizer \<Rightarrow> string \<Rightarrow> 's \<Rightarrow> resource_sku list result \<times> 's"
  ed_ParseResourceID :: "string \<Rightarrow> resource_id result"

record 's prod_env =
  p_dialer :: dialer
  p_im :: instanceMetadata
  p_isLocalDevelopmentMode :: bool
  p_acrDomain :: string
  p_vmskus :: skus
  p_fpCertificateRefresher :: "'s refreshingCertificate"
  p_fpClientID :: string
  p_clusterKeyvault :: "'s kv_manager"
  p_serviceKeyvault :: "'s kv_manager"
  p_clusterGenevaLoggingCertificate :: x509_cert
  p_clusterGenevaLoggingPrivateKey :: rsa_key
  p_clusterGenevaLoggingAccount :: string
  p_clusterGenevaLoggingConfigVersion :: string
  p_clusterGenevaLoggingEnvironment :: string
  p_clusterGenevaLoggingNamespace :: string
  p_gatewayDomains :: "string list"
  p_features :: "Feature set"

definition IsLocalDevelopmentMode :: "envvars \<Rightarrow> bool" where
  "IsLocalDevelopmentMode e = equal_fold (Getenv e ''ARO_RP_MODE'') ''development''"

section \<open>The parts of newProd\<close>

definition required_always :: "string list" where
  "required_always = [''ARO_AZURE_FP_CLIENT_ID'', ''ARO_DOMAIN_NAME'']"

definition required_in_production :: "string list" where
  "required_in_production =
     [''ARO_CLUSTER_MDSD_CONFIG_VERSION'', ''ARO_CLUSTER_MDSD_ACCOUNT'', ''ARO_GATEWAY_DOMAINS'',
      ''ARO_GATEWAY_RESOURCEGROUP'', ''ARO_MDSD_ENVIRONMENT'', ''ARO_CLUSTER_MDSD_NAMESPACE'', ''ARO_ACR_RESOURCE_ID'']"

definition check_variables :: "envvars \<Rightarrow> bool \<Rightarrow> unit result" where
  "check_variables e isLocal =
     andThen (require_env [] e required_always) (\<lambda>_.
       if \<not> isLocal then require_env [] e required_in_production else Ok ())"

definition read_features :: "envvars \<Rightarrow> Feature set result" where
  "read_features e =
     (let features = Getenv e ''ARO_RP_FEATURES'' in
      if features \<noteq> [] then
        foldOk (\<lambda>feature fs. andThen (FeatureString (''Feature'' @ feature)) (\<lambda>f. Ok (insert f fs)))
          (split_on comma features) {}
      else Ok {})"

definition NewMSIAuthorizer ::
  "'s env_deps \<Rightarrow> bool \<Rightarrow> instanceMetadata \<Rightarrow> string \<Rightarrow> string list \<Rightarrow> authorizer result" where
  "NewMSIAuthorizer d isLocal im msiContext scopes =
     (let e = ed_env d;
          cid = ''ARO_AZURE_'' @ msiContext @ ''_CLIENT_ID'';
          sec = ''ARO_AZURE_'' @ msiContext @ ''_CLIENT_SECRET'';
          cred = (if \<not> isLocal then ManagedIdentity (im_aksMsiClientID im)
                  else ClientSecretCred (Getenv e ''ARO_AZURE_TENANT_ID'') (Getenv e cid) (Getenv e sec))
      in
        andThen (if isLocal then require_env '' (development mode)'' e [cid, sec, ''ARO_AZURE_TENANT_ID''] else Ok ()) (\<lambda>_.
        andThen (ed_new_credential d cred) (\<lambda>_. Ok \<lparr>au_credential = cred, au_scopes = scopes\<rparr>)))"

definition FPNewClientCertificateCredential ::
  "'s env_deps \<Rightarrow> string \<Rightarrow> 's refreshingCertificate \<Rightarrow> string \<Rightarrow> credential result" where
  "FPNewClientCertificateCredential d fpClientID rf tenantID =
     (let (fpPrivateKey, fpCertificates) = GetCertificates rf;
          cred = ClientCertificateCred tenantID fpClientID fpCertificates fpPrivateKey
      in andThen (ed_new_credential d cred) (\<lambda>_. Ok cred))"

definition FPAuthorizer ::
  "'s env_deps \<Rightarrow> string \<Rightarrow> 's refreshingCertificate \<Rightarrow> string \<Rightarrow> string list \<Rightarrow> authorizer result" where
  "FPAuthorizer d fpClientID rf tenantID scopes =
     andThen (FPNewClientCertificateCredential d fpClientID rf tenantID)
       (\<lambda>cred. Ok \<lparr>au_credential = cred, au_scopes = scopes\<rparr>)"

definition populateVMSkus ::
  "(string \<Rightarrow> 's \<Rightarrow> resource_sku list result \<times> 's) \<Rightarrow> string \<Rightarrow> 's \<Rightarrow> skus result \<times> 's" where
  "populateVMSkus list location s =
     st_bind (list (''location eq '' @ [CHR 0x27] @ location @ [CHR 0x27]) s) (\<lambda>skus s. (FilterVMSizes skus location, s))"

text \<open>The registry's domain and that of its data endpoint.\<close>

definition acr_domains :: "'s env_deps \<Rightarrow> instanceMetadata \<Rightarrow> (string \<times> string) result" where
  "acr_domains d im =
     (let acr = Getenv (ed_env d) ''ARO_ACR_RESOURCE_ID'' in
      if acr \<noteq> [] then
        andThen (ed_ParseResourceID d acr) (\<lambda>r.
          let suf = env_ContainerRegistryDNSSuffix (im_environment im) in
          Ok (ResourceName r @ ''.'' @ suf, ResourceName r @ ''.'' @ im_location im @ ''.data.'' @ suf))
      else
        Ok (''arointsvc.'' @ env_ContainerRegistryDNSSuffix PublicCloud,
            ''arointsvc.'' @ im_location im @ ''.data.'' @ env_ContainerRegistryDNSSuffix PublicCloud))"

text \<open>\<open>url.Parse(rawurl).Hostname()\<close> on the two endpoints of a cloud, which have the form \<open>https://host/\<close>.\<close>

definition url_Hostname :: "string \<Rightarrow> string result" where
  "url_Hostname rawurl =
     (case strip_prefix ''https://'' rawurl of
        None \<Rightarrow> Ok []
      | Some r \<Rightarrow> Ok (takeWhile (\<lambda>c. c \<noteq> slash \<and> c \<noteq> CHR '':'') r))"

definition gateway_domains :: "envvars \<Rightarrow> bool \<Rightarrow> environment \<Rightarrow> string \<times> string \<Rightarrow> string list result" where
  "gateway_domains e isLocal env acr =
     (if isLocal then Ok []
      else
        let configured = Getenv e ''ARO_GATEWAY_DOMAINS'';
            domains = (if configured \<noteq> [] then split_on comma configured else [])
        in
          andThen (mapOk url_Hostname [env_ActiveDirectoryEndpoint env, env_ResourceManagerEndpoint env]) (\<lambda>hosts.
            Ok (domains @ hosts @ [fst acr, snd acr])))"

definition newProd :: "'s env_deps \<Rightarrow> 's \<Rightarrow> 's prod_env result \<times> 's" where
  "newProd d s =
     (let e = ed_env d; isLocal = IsLocalDevelopmentMode e; fpClientID = Getenv e ''ARO_AZURE_FP_CLIENT_ID'' in
      st_bind (check_variables e isLocal, s) (\<lambda>_ s.
      st_bind (NewDialer (ed_ReadFile d) (ed_x509 d) isLocal, s) (\<lambda>dialer s.
      st_bind (NewMetadata e (ed_http d) (ed_hostname d) (ed_claim d) isLocal s) (\<lambda>im s.
      st_bind (read_features e, s) (\<lambda>features s.
      let env = im_environment im; dns = env_KeyVaultDNSSuffix env in
      st_bind (NewMSIAuthorizer d isLocal im ''RP'' [env_KeyVaultScope env], s) (\<lambda>msiKVAuthorizer s.
      st_bind (URI e dns ''-svc'', s) (\<lambda>serviceKeyvaultURI s.
      let serviceKeyvault = \<lparr>km_kv = ed_vault d msiKVAuthorizer, km_uri = serviceKeyvaultURI\<rparr> in
      st_bind (case refresher_Start (newCertificateRefresher (ed_x509 d) serviceKeyvault ''rp-firstparty'') s of
                 (r, rf, s') \<Rightarrow> (andThen r (\<lambda>_. Ok rf), s')) (\<lambda>rf s.
      st_bind (FPAuthorizer d fpClientID rf (im_tenantID im) [env_KeyVaultScope env], s) (\<lambda>localFPKVAuthorizer s.
      st_bind (URI e dns ''-cls'', s) (\<lambda>clusterKeyvaultURI s.
      let clusterKeyvault = \<lparr>km_kv = ed_vault d localFPKVAuthorizer, km_uri = clusterKeyvaultURI\<rparr> in
      st_bind (GetCertificateSecret (ed_x509 d) serviceKeyvault ''cluster-mdsd'' s) (\<lambda>(loggingKey, loggingCerts) s.
      st_bind (at_index loggingCerts 0, s) (\<lambda>loggingCert s.
      st_bind (FPAuthorizer d fpClientID rf (im_tenantID im) [env_ResourceManagerScope env], s) (\<lambda>localFPAuthorizer s.
      st_bind (populateVMSkus (ed_list_skus d (env_Name env) (im_subscriptionID im) localFPAuthorizer) (im_location im) s) (\<lambda>vmskus s.
      st_bind (acr_domains d im, s) (\<lambda>acr s.
      st_bind (gateway_domains e isLocal env acr, s) (\<lambda>domains s.
        (Ok \<lparr>p_dialer = dialer, p_im = im, p_isLocalDevelopmentMode = isLocal, p_acrDomain = fst acr, p_vmskus = vmskus,
             p_fpCertificateRefresher = rf, p_fpClientID = fpClientID, p_clusterKeyvault = clusterKeyvault,
             p_serviceKeyvault = serviceKeyvault, p_clusterGenevaLoggingCertificate = loggingCert,
             p_clusterGenevaLoggingPrivateKey = loggingKey,
             p_clusterGenevaLoggingAccount = Getenv e ''ARO_CLUSTER_MDSD_ACCOUNT'',
             p_clusterGenevaLoggingConfigVersion = Getenv e ''ARO_CLUSTER_MDSD_CONFIG_VERSION'',
             p_clusterGenevaLoggingEnvironment = Getenv e ''ARO_MDSD_ENVIRONMENT'',
             p_clusterGenevaLoggingNamespace = Getenv e ''ARO_CLUSTER_MDSD_NAMESPACE'',
             p_gatewayDomains = domains, p_features = features\<rparr>, s)))))))))))))))))"

definition newDev :: "'s env_deps \<Rightarrow> 's \<Rightarrow> 's prod_env result \<times> 's" where
  "newDev d s =
     st_bind (require_env [] (ed_env d) [''ARO_PROXY_HOSTNAME''], s) (\<lambda>_ s.
     st_bind (newProd d s) (\<lambda>p s.
       (Ok (p\<lparr>p_features := p_features p \<union>
                {FeatureDisableDenyAssignments, FeatureDisableSignedCertificates, FeatureRequireD2sV3Workers,
                 FeatureDisableReadinessDelay},
              p_clusterGenevaLoggingAccount := ''AROClusterLogs'',
              p_clusterGenevaLoggingConfigVersion := ''2.4'',
              p_clusterGenevaLoggingEnvironment := ''Test'',
              p_clusterGenevaLoggingNamespace := ''AROClusterLogs''\<rparr>), s)))"

definition NewEnv :: "'s env_deps \<Rightarrow> 's \<Rightarrow> 's prod_env result \<times> 's" where
  "NewEnv d s = (if IsLocalDevelopmentMode (ed_env d) then newDev d s else newProd d s)"

section \<open>Reading the environment\<close>

definition FeatureIsSet :: "'s prod_env \<Rightarrow> Feature \<Rightarrow> bool" where
  "FeatureIsSet p f = (f \<in> p_features p)"

definition VMSku :: "skus \<Rightarrow> string \<Rightarrow> resource_sku result" where
  "VMSku vmskus vmSize =
     (case sm_get vmskus vmSize of
        None \<Rightarrow> Err (ErrMsg (''sku information not found for vm size '' @ quote_text vmSize))
      | Some sku \<Rightarrow> Ok sku)"

text \<open>\<open>GatewayDomains\<close> returns a copy, which the caller appends to without touching the original.\<close>

definition gatewayDomains :: "'s prod_env \<Rightarrow> openshift_cluster \<Rightarrow> string list" where
  "gatewayDomains p oc =
     p_gatewayDomains p @
     [ImageRegistryStorageAccountName oc @ ''.blob.'' @ env_StorageEndpointSuffix (im_environment (p_im p))]"

definition Rebuild :: "'s env_deps \<Rightarrow> 's prod_env \<Rightarrow> string \<Rightarrow> authorizer option \<Rightarrow> unit result \<times> authorizer option" where
  "Rebuild d p tenantID auth =
     (case FPAuthorizer d (p_fpClientID p) (p_fpCertificateRefresher p) tenantID
             [env_ResourceManagerScope (im_environment (p_im p))] of
        Ok a \<Rightarrow> (Ok (), Some a)
      | Err e \<Rightarrow> (Err e, auth)
      | Panic \<Rightarrow> (Panic, auth))"

definition NewAuthorizer :: "'s env_deps \<Rightarrow> 's prod_env \<Rightarrow> string \<Rightarrow> unit result \<times> authorizer option" where
  "NewAuthorizer d p tenantID = Rebuild d p tenantID None"

record logging_config =
  lg_Certificate :: string
  lg_Key :: string
  lg_Namespace :: string
  lg_Environment :: string
  lg_Account :: string
  lg_ConfigVersion :: string
  lg_ResourceID :: string
  lg_SubscriptionID :: string
  lg_Region :: string
  lg_ResourceName :: string
  lg_ResourceGroupName :: string
  lg_FluentbitImage :: string
  lg_MdsdImage :: string

definition GetConfig :: "(string \<Rightarrow> resource_id result) \<Rightarrow> 's prod_env \<Rightarrow> openshift_cluster \<Rightarrow> logging_config result" where
  "GetConfig ParseResourceID p oc =
     andThen (ParseResourceID (oc_ID oc)) (\<lambda>r.
     andThen (PrivateKeyAsBytes (Some (p_clusterGenevaLoggingPrivateKey p))) (\<lambda>key.
     andThen (CertAsBytes [Some (p_clusterGenevaLoggingCertificate p)]) (\<lambda>cert.
       Ok \<lparr>lg_Certificate = cert, lg_Key = key, lg_Namespace = p_clusterGenevaLoggingNamespace p,
           lg_Environment = p_clusterGenevaLoggingEnvironment p, lg_Account = p_clusterGenevaLoggingAccount p,
           lg_ConfigVersion = p_clusterGenevaLoggingConfigVersion p, lg_ResourceID = oc_ID oc,
           lg_SubscriptionID = SubscriptionID r, lg_Region = im_location (p_im p),
           lg_ResourceName = ResourceName r, lg_ResourceGroupName = ResourceGroup r,
           lg_FluentbitImage = FluentbitImage (p_acrDomain p), lg_MdsdImage = MdsdImage (p_acrDomain p)\<rparr>)))"

section \<open>Properties\<close>

lemma foldOk_insert:
  "foldOk (\<lambda>n fs. andThen (g n) (\<lambda>f. Ok (insert f fs))) ns fs = Ok F \<Longrightarrow> F = fs \<union> {f. \<exists>n \<in> set ns. g n = Ok f}"
proof (induction ns arbitrary: fs)
  case (Cons n ns)
  then obtain f where "g n = Ok f" "foldOk (\<lambda>n fs. andThen (g n) (\<lambda>f. Ok (insert f fs))) ns (insert f fs) = Ok F"
    by (auto simp: outcome_simps)
  then show ?case using Cons.IH [of "insert f fs"] by auto
qed simp

definition configured_features :: "envvars \<Rightarrow> Feature set" where
  "configured_features e =
     (if Getenv e ''ARO_RP_FEATURES'' = [] then {}
      else {f. \<exists>n \<in> set (split_on comma (Getenv e ''ARO_RP_FEATURES'')). FeatureString (''Feature'' @ n) = Ok f})"

lemma read_features_configured: "read_features e = Ok F \<Longrightarrow> F = configured_features e"
  using foldOk_insert [of "\<lambda>n. FeatureString (''Feature'' @ n)" "split_on comma (Getenv e ''ARO_RP_FEATURES'')" "{}" F]
  unfolding read_features_def configured_features_def Let_def by (cases "Getenv e ''ARO_RP_FEATURES'' = []") simp_all

definition expected_domains :: "envvars \<Rightarrow> environment \<Rightarrow> string \<times> string \<Rightarrow> string list" where
  "expected_domains e env acr =
     (if Getenv e ''ARO_GATEWAY_DOMAINS'' = [] then [] else split_on comma (Getenv e ''ARO_GATEWAY_DOMAINS''))
     @ (if env = PublicCloud then [''login.microsoftonline.com'', ''management.azure.com'']
        else [''login.microsoftonline.us'', ''management.usgovcloudapi.net''])
     @ [fst acr, snd acr]"

lemma hosts_of_clouds:
  "mapOk url_Hostname [env_ActiveDirectoryEndpoint PublicCloud, env_ResourceManagerEndpoint PublicCloud]
     = Ok [''login.microsoftonline.com'', ''management.azure.com'']"
  "mapOk url_Hostname [env_ActiveDirectoryEndpoint USGovernmentCloud, env_ResourceManagerEndpoint USGovernmentCloud]
     = Ok [''login.microsoftonline.us'', ''management.usgovcloudapi.net'']"
  by code_simp+

lemma clouds_differ: "USGovernmentCloud \<noteq> PublicCloud"
  by (simp add: USGovernmentCloud_def PublicCloud_def)

lemma gateway_domains_cloud:
  assumes "env \<in> supported_clouds"
  shows "gateway_domains e isLocal env acr = Ok (if isLocal then [] else expected_domains e env acr)"
  using assms hosts_of_clouds clouds_differ
  by (auto simp: gateway_domains_def expected_domains_def supported_clouds_def Let_def simp del: mapOk.simps)

lemma NewDev_cloud: "NewDev e host c = Ok im \<Longrightarrow> im_environment im \<in> supported_clouds"
proof -
  have p: "PublicCloud \<in> supported_clouds" by (simp add: supported_clouds_def)
  assume "NewDev e host c = Ok im"
  then have "\<exists>env. (case e ''AZURE_ENVIRONMENT'' of None \<Rightarrow> Ok PublicCloud | Some v \<Rightarrow> EnvironmentFromName v) = Ok env
    \<and> im_environment im = env"
    unfolding NewDev_def outcome_simps by auto
  then show ?thesis using p EnvironmentFromName_supported by (auto split: option.splits)
qed

lemma metadata_cloud:
  assumes "NewMetadata e http host claim b s = (Ok im, s')"
  shows "im_environment im \<in> supported_clouds"
proof (cases b)
  case True
  then have "NewDev e host True = Ok im" using assms by (simp add: NewMetadata_def)
  then show ?thesis by (rule NewDev_cloud)
next
  case False
  then obtain im0 s1 where p: "populateInstanceMetadata http host s = (Ok im0, s1)"
    "populateTenantAndClientIDFromMSI e http claim im0 s1 = (Ok im, s')"
    using assms by (auto simp: NewMetadata_def newProdMetadata_def outcome_simps)
  have "im_environment im0 \<in> supported_clouds"
    using p(1) EnvironmentFromName_supported
    by (auto simp: populateInstanceMetadata_def outcome_simps split: if_splits)
  moreover have "im_environment im = im_environment im0"
    using p(2) by (auto simp: populateTenantAndClientIDFromMSI_def outcome_simps)
  ultimately show ?thesis by simp
qed

text \<open>The facts that a successful \<open>newProd\<close> leaves behind.\<close>

lemma newProd_facts:
  assumes "newProd d s = (Ok p, s')"
  shows "check_variables (ed_env d) (IsLocalDevelopmentMode (ed_env d)) = Ok ()"
    "p_isLocalDevelopmentMode p = IsLocalDevelopmentMode (ed_env d)"
    "read_features (ed_env d) = Ok (p_features p)"
    "im_environment (p_im p) \<in> supported_clouds"
    "\<exists>acr. acr_domains d (p_im p) = Ok acr \<and> p_acrDomain p = fst acr
       \<and> gateway_domains (ed_env d) (IsLocalDevelopmentMode (ed_env d)) (im_environment (p_im p)) acr = Ok (p_gatewayDomains p)"
    "p_fpClientID p = Getenv (ed_env d) ''ARO_AZURE_FP_CLIENT_ID''"
  using assms metadata_cloud
  by (auto simp: newProd_def Let_def outcome_simps)

text \<open>What both variants of the environment share: \<open>newProd\<close> reads the required variables, the flag variable and the
  gateway domains, in either mode.\<close>

lemma newProd_gateway:
  assumes "newProd d s = (Ok p, s')"
  shows "(\<forall>k \<in> set (required_always @ (if p_isLocalDevelopmentMode p then [] else required_in_production)). ed_env d k \<noteq> None)
    \<and> p_features p = configured_features (ed_env d)
    \<and> (\<exists>acr. acr_domains d (p_im p) = Ok acr \<and> p_acrDomain p = fst acr
        \<and> p_gatewayDomains p =
            (if p_isLocalDevelopmentMode p then [] else expected_domains (ed_env d) (im_environment (p_im p)) acr))"
proof -
  note f = newProd_facts [OF assms]
  have "\<forall>k \<in> set (required_always @ (if p_isLocalDevelopmentMode p then [] else required_in_production)). ed_env d k \<noteq> None"
    using f(1) unfolding check_variables_def f(2) by (auto simp: outcome_simps require_env_Ok split: if_splits)
  then show ?thesis
    using f(5) read_features_configured [OF f(3)] gateway_domains_cloud [OF f(4)] f(2) by auto
qed

definition demo_variables :: envvars where
  "demo_variables k =
     (if k \<in> set (required_always @ required_in_production) \<or> k = ''ARO_KEYVAULT_PREFIX'' then Some ''a.example,b.example''
      else if k = ''ARO_RP_FEATURES'' then Some ''DisableReadinessDelay'' else None)"

definition demo_deps :: "string list env_deps" where
  "demo_deps =
     \<lparr>ed_env = demo_variables, ed_ReadFile = (\<lambda>f. Err (ErrMsg ''no such file'')), ed_http = answers, ed_hostname = Ok ''h'',
      ed_claim = (\<lambda>t. Ok ''tenant''), ed_x509 = demo_x509, ed_new_credential = (\<lambda>c. Ok ()),
      ed_vault = (\<lambda>a. \<lparr>kv_CreateCertificate = (\<lambda>u n p s. (Err Canceled, s)), kv_DeleteCertificate = (\<lambda>u n s. (Ok (), s)),
        kv_GetSecret = (\<lambda>u n v s. (Ok (Some (pem_encode \<lparr>pb_Type = ''CERTIFICATE'', pb_Bytes = ''DER''\<rparr>
          @ pem_encode \<lparr>pb_Type = ''RSA PRIVATE KEY'', pb_Bytes = ''key''\<rparr>)), s)),
        kv_GetSecretVersions = (\<lambda>u n s. (Ok [], s)), kv_GetSecrets = (\<lambda>u s. (Ok [], s)),
        kv_GetCertificateOperation = (\<lambda>u n s. (Err Canceled, s)), kv_SetSecret = (\<lambda>u n v s. (Ok (), s))\<rparr>),
      ed_list_skus = (\<lambda>env sub a f s. (Ok [], s)),
      ed_ParseResourceID = (\<lambda>t. Ok \<lparr>SubscriptionID = ''s'', ResourceGroup = ''g'', Provider = ''p'', ResourceType = ''t'',
        ResourceName = ''acr''\<rparr>)\<rparr>"

definition demo_gateway :: "string list option" where
  "demo_gateway =
     (case newProd demo_deps [demo_body, demo_token] of (Ok p, s) \<Rightarrow> Some (p_gatewayDomains p) | _ \<Rightarrow> None)"

lemma demo_built:
  obtains p s' where "newProd demo_deps [demo_body, demo_token] = (Ok p, s')"
    "p_gatewayDomains p = [''a.example'', ''b.example'', ''login.microsoftonline.com'', ''management.azure.com'',
         ''acr.azurecr.io'', ''acr.eastus.data.azurecr.io'']"
proof -
  have "demo_gateway = Some [''a.example'', ''b.example'', ''login.microsoftonline.com'', ''management.azure.com'',
         ''acr.azurecr.io'', ''acr.eastus.data.azurecr.io'']"
    by code_simp
  then show thesis using that by (auto simp: demo_gateway_def split: prod.splits outcome.splits)
qed

text \<open>In development mode more variables are needed: the proxy's host (newDev), the credentials of the RP
  (NewMSIAuthorizer) and what the metadata would have told (NewDev); the prefix of the vaults is needed in both.\<close>

definition required_in_development :: "string list" where
  "required_in_development =
     [''ARO_PROXY_HOSTNAME'', ''ARO_AZURE_SUBSCRIPTION_ID'', ''ARO_AZURE_TENANT_ID'', ''ARO_LOCATION'', ''ARO_RESOURCEGROUP'',
      ''ARO_AZURE_RP_CLIENT_ID'', ''ARO_AZURE_RP_CLIENT_SECRET'']"

definition required_variables :: "bool \<Rightarrow> string list" where
  "required_variables isLocal =
     ''ARO_KEYVAULT_PREFIX'' # required_always @ (if isLocal then required_in_development else required_in_production)"

definition development_features :: "Feature set" where
  "development_features =
     {FeatureDisableDenyAssignments, FeatureDisableSignedCertificates, FeatureRequireD2sV3Workers, FeatureDisableReadinessDelay}"

text \<open>The account, the version, the environment and the namespace of the clusters' logging.\<close>

definition logging_settings :: "envvars \<Rightarrow> bool \<Rightarrow> string \<times> string \<times> string \<times> string" where
  "logging_settings e isLocal =
     (if isLocal then (''AROClusterLogs'', ''2.4'', ''Test'', ''AROClusterLogs'')
      else (Getenv e ''ARO_CLUSTER_MDSD_ACCOUNT'', Getenv e ''ARO_CLUSTER_MDSD_CONFIG_VERSION'',
            Getenv e ''ARO_MDSD_ENVIRONMENT'', Getenv e ''ARO_CLUSTER_MDSD_NAMESPACE''))"

lemma newProd_prefix:
  assumes "newProd d s = (Ok p, s')"
  shows "ed_env d ''ARO_KEYVAULT_PREFIX'' \<noteq> None"
  using assms by (auto simp: newProd_def Let_def outcome_simps URI_def split: option.splits)

lemma newProd_logging:
  assumes "newProd d s = (Ok p, s')"
  shows "(p_clusterGenevaLoggingAccount p, p_clusterGenevaLoggingConfigVersion p, p_clusterGenevaLoggingEnvironment p,
     p_clusterGenevaLoggingNamespace p) = logging_settings (ed_env d) False"
  using assms by (auto simp: newProd_def Let_def outcome_simps logging_settings_def)

lemma newProd_development:
  assumes "newProd d s = (Ok p, s')" "IsLocalDevelopmentMode (ed_env d)"
  shows "\<forall>k \<in> {''ARO_AZURE_SUBSCRIPTION_ID'', ''ARO_AZURE_TENANT_ID'', ''ARO_LOCATION'', ''ARO_RESOURCEGROUP'',
      ''ARO_AZURE_RP_CLIENT_ID'', ''ARO_AZURE_RP_CLIENT_SECRET''}. ed_env d k \<noteq> None"
proof -
  obtain im s1 s2 where im: "NewMetadata (ed_env d) (ed_http d) (ed_hostname d) (ed_claim d) (IsLocalDevelopmentMode (ed_env d)) s1 = (Ok im, s2)"
    and a: "\<exists>a. NewMSIAuthorizer d (IsLocalDevelopmentMode (ed_env d)) im ''RP'' [env_KeyVaultScope (im_environment im)] = Ok a"
    using assms(1) by (auto simp: newProd_def Let_def outcome_simps)
  let ?ks = "[''ARO_AZURE_SUBSCRIPTION_ID'', ''ARO_AZURE_TENANT_ID'', ''ARO_LOCATION'', ''ARO_RESOURCEGROUP'']"
  let ?cs = "[''ARO_AZURE_RP_CLIENT_ID'', ''ARO_AZURE_RP_CLIENT_SECRET'', ''ARO_AZURE_TENANT_ID'']"
  have "require_env '' (development mode)'' (ed_env d) ?ks = Ok ()"
    using im assms(2) by (auto simp: NewMetadata_def NewDev_def andThen_Ok_iff simp del: require_env.simps)
  then have "\<forall>k \<in> set ?ks. ed_env d k \<noteq> None" unfolding require_env_Ok .
  moreover have "require_env '' (development mode)'' (ed_env d) ?cs = Ok ()"
    using a assms(2) by (auto simp: NewMSIAuthorizer_def Let_def andThen_Ok_iff simp del: require_env.simps)
  then have "\<forall>k \<in> set ?cs. ed_env d k \<noteq> None" unfolding require_env_Ok .
  ultimately show ?thesis by simp
qed

text \<open>The environment that \<open>NewEnv\<close> builds, from the one that \<open>newProd\<close> builds.\<close>

lemma NewEnv_Ok:
  assumes "NewEnv d s = (Ok p, s')"
  obtains p0 where "newProd d s = (Ok p0, s')" "p_isLocalDevelopmentMode p = p_isLocalDevelopmentMode p0"
    "p_im p = p_im p0" "p_acrDomain p = p_acrDomain p0" "p_gatewayDomains p = p_gatewayDomains p0"
    "p_features p = p_features p0 \<union> (if IsLocalDevelopmentMode (ed_env d) then development_features else {})"
    "(p_clusterGenevaLoggingAccount p, p_clusterGenevaLoggingConfigVersion p, p_clusterGenevaLoggingEnvironment p,
      p_clusterGenevaLoggingNamespace p) = logging_settings (ed_env d) (IsLocalDevelopmentMode (ed_env d))"
    "IsLocalDevelopmentMode (ed_env d) \<longrightarrow> ed_env d ''ARO_PROXY_HOSTNAME'' \<noteq> None"
proof (cases "IsLocalDevelopmentMode (ed_env d)")
  case True
  then have "newDev d s = (Ok p, s')" using assms by (simp add: NewEnv_def)
  then obtain p0 where r: "require_env [] (ed_env d) [''ARO_PROXY_HOSTNAME''] = Ok ()" "newProd d s = (Ok p0, s')"
    and p: "p = p0\<lparr>p_features := p_features p0 \<union> development_features,
       p_clusterGenevaLoggingAccount := ''AROClusterLogs'', p_clusterGenevaLoggingConfigVersion := ''2.4'',
       p_clusterGenevaLoggingEnvironment := ''Test'', p_clusterGenevaLoggingNamespace := ''AROClusterLogs''\<rparr>"
    by (auto simp: newDev_def outcome_simps development_features_def simp del: require_env.simps)
  have h: "ed_env d ''ARO_PROXY_HOSTNAME'' \<noteq> None" using r(1) unfolding require_env_Ok by simp
  show thesis by (rule that [OF r(2)]) (simp_all add: p True h logging_settings_def del: not_None_eq)
next
  case False
  then have p: "newProd d s = (Ok p, s')" using assms by (simp add: NewEnv_def)
  show thesis using that [OF p] newProd_logging [OF p] False by simp
qed

text \<open>C36: An environment is built only if every variable that its mode requires is set: two always and the prefix of
  the key vaults, seven more in production, and in development mode the proxy's host, the subscription, the tenant, the
  location, the resource group and the two credentials of the RP. It enables exactly the features that the flag variable
  names, and in development mode four more. Its gateway domains are none in development mode, and in production the
  configured ones, the two hosts of its cloud and the two of its registry. The account, version, environment and
  namespace of the logging are fixed in development mode and the variables' values in production.\<close>

theorem environment_built:
  assumes "NewEnv d s = (Ok p, s')"
  shows "(\<forall>k \<in> set (required_variables (IsLocalDevelopmentMode (ed_env d))). ed_env d k \<noteq> None)
    \<and> p_isLocalDevelopmentMode p = IsLocalDevelopmentMode (ed_env d)
    \<and> p_features p = configured_features (ed_env d) \<union> (if IsLocalDevelopmentMode (ed_env d) then development_features else {})
    \<and> (\<exists>acr. acr_domains d (p_im p) = Ok acr \<and> p_acrDomain p = fst acr
        \<and> p_gatewayDomains p = (if IsLocalDevelopmentMode (ed_env d) then []
             else expected_domains (ed_env d) (im_environment (p_im p)) acr))
    \<and> (p_clusterGenevaLoggingAccount p, p_clusterGenevaLoggingConfigVersion p, p_clusterGenevaLoggingEnvironment p,
        p_clusterGenevaLoggingNamespace p) = logging_settings (ed_env d) (IsLocalDevelopmentMode (ed_env d))"
proof -
  obtain p0 where p0: "newProd d s = (Ok p0, s')" and e: "p_isLocalDevelopmentMode p = p_isLocalDevelopmentMode p0"
    "p_im p = p_im p0" "p_acrDomain p = p_acrDomain p0" "p_gatewayDomains p = p_gatewayDomains p0"
    "p_features p = p_features p0 \<union> (if IsLocalDevelopmentMode (ed_env d) then development_features else {})"
    "(p_clusterGenevaLoggingAccount p, p_clusterGenevaLoggingConfigVersion p, p_clusterGenevaLoggingEnvironment p,
      p_clusterGenevaLoggingNamespace p) = logging_settings (ed_env d) (IsLocalDevelopmentMode (ed_env d))"
    "IsLocalDevelopmentMode (ed_env d) \<longrightarrow> ed_env d ''ARO_PROXY_HOSTNAME'' \<noteq> None"
    using NewEnv_Ok [OF assms] by metis
  note g = newProd_gateway [OF p0] and m = newProd_facts(2) [OF p0]
  have "\<forall>k \<in> set (required_variables (IsLocalDevelopmentMode (ed_env d))). ed_env d k \<noteq> None"
    using g newProd_prefix [OF p0] newProd_development [OF p0] e(7)
    by (auto simp: required_variables_def required_in_development_def m split: if_splits)
  moreover obtain acr where "acr_domains d (p_im p0) = Ok acr" "p_acrDomain p0 = fst acr"
    "p_gatewayDomains p0 = (if p_isLocalDevelopmentMode p0 then [] else expected_domains (ed_env d) (im_environment (p_im p0)) acr)"
    using g by blast
  then have "\<exists>acr. acr_domains d (p_im p) = Ok acr \<and> p_acrDomain p = fst acr
        \<and> p_gatewayDomains p = (if IsLocalDevelopmentMode (ed_env d) then []
             else expected_domains (ed_env d) (im_environment (p_im p)) acr)"
    unfolding e(2,3,4) m by (intro exI conjI)
  ultimately show ?thesis using g m e(1,5,6) by (simp del: prod.inject)
qed

text \<open>Both modes: the variables of production, and those of development with a local proxy's certificate and key.\<close>

definition demo_local :: envvars where
  "demo_local k =
     (if k = ''ARO_RP_MODE'' then Some ''Development'' else if k \<in> set (required_variables True) then Some ''v''
      else if k = ''ARO_RP_FEATURES'' then Some ''EnableDevelopmentAuthorizer'' else None)"

definition local_deps :: "string list env_deps" where
  "local_deps = demo_deps\<lparr>ed_env := demo_local, ed_ReadFile := (\<lambda>f. Ok (if f = ''/.azure/proxy.crt'' then ''DER'' else ''key''))\<rparr>"

definition demo_local_features :: "Feature list option" where
  "demo_local_features =
     (case NewEnv local_deps [] of
        (Ok p, s) \<Rightarrow> Some (filter (FeatureIsSet p) [FeatureDisableDenyAssignments, FeatureDisableSignedCertificates,
           FeatureEnableDevelopmentAuthorizer, FeatureRequireD2sV3Workers, FeatureDisableReadinessDelay])
      | _ \<Rightarrow> None)"

theorem environment_built_witness:
  "(\<exists>p s'. NewEnv demo_deps [demo_body, demo_token] = (Ok p, s') \<and> p_features p = configured_features demo_variables
      \<and> p_gatewayDomains p = [''a.example'', ''b.example'', ''login.microsoftonline.com'', ''management.azure.com'',
         ''acr.azurecr.io'', ''acr.eastus.data.azurecr.io''])
   \<and> (\<exists>p s'. NewEnv local_deps [] = (Ok p, s') \<and> p_features p = configured_features demo_local \<union> development_features
      \<and> p_gatewayDomains p = [])"
proof
  have d: "\<not> IsLocalDevelopmentMode (ed_env demo_deps)" by code_simp
  obtain p s' where p: "newProd demo_deps [demo_body, demo_token] = (Ok p, s')"
    "p_gatewayDomains p = [''a.example'', ''b.example'', ''login.microsoftonline.com'', ''management.azure.com'',
         ''acr.azurecr.io'', ''acr.eastus.data.azurecr.io'']"
    by (rule demo_built)
  then have n: "NewEnv demo_deps [demo_body, demo_token] = (Ok p, s')" using d by (simp add: NewEnv_def)
  from environment_built [OF n] d have "p_features p = configured_features (ed_env demo_deps)" by simp
  then have "p_features p = configured_features demo_variables" by (simp add: demo_deps_def)
  with n p(2) show "\<exists>p s'. NewEnv demo_deps [demo_body, demo_token] = (Ok p, s') \<and> p_features p = configured_features demo_variables
      \<and> p_gatewayDomains p = [''a.example'', ''b.example'', ''login.microsoftonline.com'', ''management.azure.com'',
         ''acr.azurecr.io'', ''acr.eastus.data.azurecr.io'']" by (intro exI conjI)
next
  have l: "IsLocalDevelopmentMode (ed_env local_deps)" by code_simp
  have "demo_local_features \<noteq> None" by code_simp
  then obtain p s' where n: "NewEnv local_deps [] = (Ok p, s')"
    by (auto simp: demo_local_features_def split: prod.splits outcome.splits)
  have e: "ed_env local_deps = demo_local" by (simp add: local_deps_def)
  from environment_built [OF n] l have "p_features p = configured_features demo_local \<union> development_features" "p_gatewayDomains p = []"
    by (auto simp: e)
  with n show "\<exists>p s'. NewEnv local_deps [] = (Ok p, s') \<and> p_features p = configured_features demo_local \<union> development_features
      \<and> p_gatewayDomains p = []" by (intro exI conjI)
qed

lemma started_Ok:
  "(case refresher_Start r s of (q, rf, s') \<Rightarrow> (andThen q (\<lambda>_. Ok rf), s')) = (Ok rf', s2)
     \<longleftrightarrow> (\<exists>b. refresher_Start r s = (Ok b, rf', s2))"
  by (auto simp: outcome_simps split: prod.splits)

text \<open>Once the environment is built, the first-party credential is never empty: the refresher holds a key
  and at least one certificate, and so does every credential made from it.\<close>

theorem newProd_certificate:
  assumes "newProd d s = (Ok p, s')"
  shows "\<exists>key certs. GetCertificates (p_fpCertificateRefresher p) = (Some key, certs) \<and> certs \<noteq> []
    \<and> (FPNewClientCertificateCredential d (p_fpClientID p) (p_fpCertificateRefresher p) tenant = Ok c \<longrightarrow>
         c = ClientCertificateCred tenant (Getenv (ed_env d) ''ARO_AZURE_FP_CLIENT_ID'') certs (Some key))"
proof -
  obtain kv s1 s2 b where st: "refresher_Start (newCertificateRefresher (ed_x509 d) kv ''rp-firstparty'') s1
      = (Ok b, p_fpCertificateRefresher p, s2)"
    using assms by (auto simp: newProd_def Let_def outcome_simps started_Ok)
  then obtain key certs where g: "GetCertificateSecret (ed_x509 d) kv ''rp-firstparty'' s1 = (Ok (key, certs), s2)"
    "p_fpCertificateRefresher p = (newCertificateRefresher (ed_x509 d) kv ''rp-firstparty'')\<lparr>rf_key := Some key, rf_certs := certs\<rparr>"
    by (auto simp: refresher_Start_def fetchCertificateOnce_def newCertificateRefresher_def split: prod.splits outcome.splits)
  have "certs \<noteq> []"
    using g(1) by (auto simp: GetCertificateSecret_def outcome_simps split: option.splits if_splits)
  then show ?thesis
    using g(2) newProd_facts(6) [OF assms]
    by (auto simp: GetCertificates_def FPNewClientCertificateCredential_def outcome_simps newCertificateRefresher_def Let_def)
qed

theorem newProd_certificate_witness:
  "\<exists>p s' key certs. newProd demo_deps [demo_body, demo_token] = (Ok p, s')
     \<and> GetCertificates (p_fpCertificateRefresher p) = (Some key, certs) \<and> certs \<noteq> []"
proof -
  obtain p s' where p: "newProd demo_deps [demo_body, demo_token] = (Ok p, s')" by (rule demo_built)
  from newProd_certificate [OF p] p show ?thesis by blast
qed

end
