(* ===== verification/Install_Config.thy ===== *)
theory Install_Config
  imports Env "HOL-Library.Word"
begin

text \<open>
  pkg/installer/generateconfig.go: the install configuration of a cluster, built from its document and
  the environment. The records are the fields of the installer's types that the code sets; the
  libraries it calls (resource identifiers, crypto/x509 and ssh, CIDR parsing, temporary files, the
  installer's validation) are the parameters of \<open>install_libs\<close>.
\<close>

section \<open>Data\<close>

record os_image =
  oi_Publisher :: string
  oi_Offer :: string
  oi_SKU :: string
  oi_Version :: string
  oi_Plan :: string

record disk_encryption_set =
  de_SubscriptionID :: string
  de_ResourceGroup :: string
  de_Name :: string

record azure_machine_pool =
  am_Zones :: "string list"
  am_InstanceType :: string
  am_EncryptionAtHost :: bool
  am_VMNetworkingType :: string
  am_DiskEncryptionSet :: "disk_encryption_set option"
  am_DiskSizeGB :: int
  am_OSImage :: os_image
  am_BootDiagnostics :: string

record machine_pool =
  po_Name :: string
  po_Replicas :: int
  po_Azure :: azure_machine_pool
  po_Hyperthreading :: string
  po_Architecture :: string

record azure_platform =
  ap_Region :: string
  ap_NetworkResourceGroupName :: string
  ap_VirtualNetwork :: string
  ap_ControlPlaneSubnet :: string
  ap_ComputeSubnet :: string
  ap_CloudName :: string
  ap_OutboundType :: string
  ap_ResourceGroupName :: string
  ap_BaseDomainResourceGroupName :: string
  ap_DefaultIdentity :: string

record install_config =
  ic_Name :: string
  ic_SSHKey :: string
  ic_BaseDomain :: string
  ic_MachineNetwork :: "string list"
  ic_NetworkType :: string
  ic_ClusterNetwork :: "(string \<times> int) list"
  ic_ServiceNetwork :: "string list"
  ic_ControlPlane :: machine_pool
  ic_Compute :: "machine_pool list"
  ic_Azure :: azure_platform
  ic_PullSecret :: string
  ic_FIPS :: bool
  ic_ImageDigestSources :: "(string \<times> string list) list"
  ic_Publish :: string
  ic_BaselineCapabilitySet :: string
  ic_AdditionalEnabledCapabilities :: "string list"
  ic_CredentialsMode :: string

record credentials =
  cr_TenantID :: string
  cr_SubscriptionID :: string
  cr_ClientID :: string
  cr_ClientSecret :: string
  cr_ClientCertificatePath :: string

text \<open>The asset: the configuration and the metadata of the Azure platform.\<close>

record install_config_asset =
  ia_Config :: install_config
  ia_CloudName :: string
  ia_ResourceManagerEndpoint :: string
  ia_Credentials :: credentials

record 'f install_libs =
  il_ParseResourceID :: "string \<Rightarrow> resource_id result"
  il_ParsePKCS1PrivateKey :: "string \<Rightarrow> rsa_key result"
  il_NewPublicKey :: "rsa_key \<Rightarrow> (string \<times> string) result"
  il_ParseCIDR :: "string \<Rightarrow> string option"
  il_CreateTemp :: "string \<Rightarrow> string \<Rightarrow> 'f \<Rightarrow> string result \<times> 'f"
  il_Write :: "string \<Rightarrow> string \<Rightarrow> 'f \<Rightarrow> unit result \<times> 'f"
  il_ValidateInstallConfig :: "install_config \<Rightarrow> go_error option"

record 's manager =
  mg_vars :: envvars
  mg_env :: "'s prod_env"
  mg_clusterUUID :: string
  mg_oc :: openshift_cluster
  mg_TenantID :: "string option"

text \<open>\<open>errors.WithStack\<close> around a call's error. \<open>MustParseCIDR\<close> panics on a text that is no network.\<close>

definition stacked :: "'a result \<Rightarrow> 'a result" where
  "stacked r = mapErr WithStack r"

lemma stacked_Ok [outcome_simps]: "stacked r = Ok a \<longleftrightarrow> r = Ok a"
  by (simp add: stacked_def outcome_simps)

definition MustParseCIDR :: "'f install_libs \<Rightarrow> string \<Rightarrow> string result" where
  "MustParseCIDR l s = deref (il_ParseCIDR l s)"

section \<open>The parts of generateInstallConfig\<close>

text \<open>The pull secret of the cluster, without the key that the loop removes.\<close>

definition install_pull_secret :: "envvars \<Rightarrow> openshift_cluster \<Rightarrow> string result" where
  "install_pull_secret e oc =
     andThen (stacked (Build e (RegistryProfiles oc) (PullSecret (ClusterProfile oc)))) (\<lambda>ps.
       foldOk (\<lambda>key ps. stacked (RemoveKey ps key)) [''cloud.openshift.com''] ps)"

definition cluster_domain :: "string \<Rightarrow> string \<Rightarrow> string" where
  "cluster_domain domain envDomain = (if CHR ''.'' \<notin> set domain then domain @ ''.'' @ envDomain else domain)"

text \<open>\<open>domain[:i]\<close> and \<open>domain[i+1:]\<close> for the index of the first dot; a missing one panics.\<close>

definition domain_name :: "string \<Rightarrow> (string \<times> string) result" where
  "domain_name domain =
     (case index_byte domain (CHR ''.'') of
        None \<Rightarrow> Panic
      | Some i \<Rightarrow> Ok (take i domain, drop (i + 1) domain))"

definition encryption_set :: "'f install_libs \<Rightarrow> string \<Rightarrow> disk_encryption_set option result" where
  "encryption_set l desID =
     (if desID = [] then Ok None
      else andThen (il_ParseResourceID l desID) (\<lambda>r.
        Ok (Some \<lparr>de_SubscriptionID = SubscriptionID r, de_ResourceGroup = ResourceGroup r, de_Name = ResourceName r\<rparr>)))"

text \<open>
  The zones of the two SKUs. The SKUs are objects of the environment's cache, so the two are one
  object, with one array of zones, when the sizes are the same.
\<close>

definition install_zones ::
  "envvars \<Rightarrow> string \<Rightarrow> bool \<Rightarrow> resource_sku \<Rightarrow> resource_sku \<Rightarrow> (string list \<times> string list) result" where
  "install_zones e location same masterSKU workerSKU =
     (if equal_fold location ''centraluseuap'' then Ok ([[]], [[]])
      else
        let mz = Zones masterSKU; wz = Zones workerSKU;
            h = (\<lambda>i. if i = 0 then mz else wz);
            cp = \<lparr>sl_array = 0, sl_len = length mz\<rparr>;
            w = (if same then cp else \<lparr>sl_array = 1, sl_len = length wz\<rparr>)
        in stacked (fst (determineAvailabilityZones (Getenv e ''ARO_INSTALLER_ALLOW_EXPANDED_AZS'') cp w h)))"

definition rhcos_image :: "bool \<Rightarrow> os_image" where
  "rhcos_image requiresV2 =
     \<lparr>oi_Publisher = ''azureopenshift'', oi_Offer = ''aro4'',
      oi_SKU = (if requiresV2 then ''aro_420-v2'' else ''aro_420''), oi_Version = ''9.6.20251015'',
      oi_Plan = ''NoPurchasePlan''\<rparr>"

definition control_plane_pool :: "openshift_cluster \<Rightarrow> string list \<Rightarrow> string \<Rightarrow> disk_encryption_set option \<Rightarrow> os_image \<Rightarrow> machine_pool" where
  "control_plane_pool oc zones networking des img =
     \<lparr>po_Name = ''master'', po_Replicas = int CONTROL_PLANE_MACHINE_COUNT,
      po_Azure = \<lparr>am_Zones = zones, am_InstanceType = m_VMSize (MasterProfile oc),
        am_EncryptionAtHost = (m_EncryptionAtHost (MasterProfile oc) = ''Enabled''), am_VMNetworkingType = networking,
        am_DiskEncryptionSet = des, am_DiskSizeGB = 1024, am_OSImage = img, am_BootDiagnostics = ''Managed''\<rparr>,
      po_Hyperthreading = ''Enabled'', po_Architecture = ''amd64''\<rparr>"

definition worker_pool :: "worker_profile \<Rightarrow> string list \<Rightarrow> string \<Rightarrow> disk_encryption_set option \<Rightarrow> os_image \<Rightarrow> machine_pool" where
  "worker_pool w zones networking des img =
     \<lparr>po_Name = w_Name w, po_Replicas = w_Count w,
      po_Azure = \<lparr>am_Zones = zones, am_InstanceType = w_VMSize w,
        am_EncryptionAtHost = (w_EncryptionAtHost w = ''Enabled''), am_VMNetworkingType = networking,
        am_DiskEncryptionSet = des, am_DiskSizeGB = sint (word_of_int (w_DiskSizeGB w) :: 32 word),
        am_OSImage = img, am_BootDiagnostics = ''Managed''\<rparr>,
      po_Hyperthreading = ''Enabled'', po_Architecture = ''amd64''\<rparr>"

definition image_sources :: "string \<Rightarrow> (string \<times> string list) list" where
  "image_sources acrDomain =
     [(''quay.io/openshift-release-dev/ocp-release'', [acrDomain @ ''/openshift-release-dev/ocp-release'']),
      (''quay.io/openshift-release-dev/ocp-release-nightly'', [acrDomain @ ''/openshift-release-dev/ocp-release-nightly'']),
      (''quay.io/openshift-release-dev/ocp-v4.0-art-dev'', [acrDomain @ ''/openshift-release-dev/ocp-v4.0-art-dev''])]"

definition enabled_capabilities :: "string list" where
  "enabled_capabilities =
     [''Build'', ''CloudControllerManager'', ''CloudCredential'', ''Console'', ''CSISnapshot'', ''DeploymentConfig'',
      ''ImageRegistry'', ''Ingress'', ''Insights'', ''MachineAPI'', ''marketplace'', ''NodeTuning'',
      ''openshift-samples'', ''OperatorLifecycleManager'', ''Storage'']"

definition azure_platform_of ::
  "openshift_cluster \<Rightarrow> 's prod_env \<Rightarrow> string \<Rightarrow> resource_id \<Rightarrow> string \<Rightarrow> string \<Rightarrow> azure_platform" where
  "azure_platform_of oc p resourceGroup vnetr masterSubnetName workerSubnetName =
     \<lparr>ap_Region = to_lower (oc_Location oc), ap_NetworkResourceGroupName = ResourceGroup vnetr,
      ap_VirtualNetwork = ResourceName vnetr, ap_ControlPlaneSubnet = masterSubnetName,
      ap_ComputeSubnet = workerSubnetName, ap_CloudName = env_Name (im_environment (p_im p)),
      ap_OutboundType = (if OutboundType (NetworkProfile oc) = ''UserDefinedRouting'' then ''UserDefinedRouting'' else ''Loadbalancer''),
      ap_ResourceGroupName = resourceGroup, ap_BaseDomainResourceGroupName = resourceGroup, ap_DefaultIdentity = ''None''\<rparr>"

definition newInstallConfigClientCertificateCredential ::
  "'f install_libs \<Rightarrow> 's prod_env \<Rightarrow> string \<Rightarrow> string \<Rightarrow> 'f \<Rightarrow> credentials result \<times> 'f" where
  "newInstallConfigClientCertificateCredential l p tenantId subscriptionId f =
     (let (fpPrivateKey, fpCertificates) = GetCertificates (p_fpCertificateRefresher p) in
      st_bind (il_CreateTemp l ''/tmp'' ''fpClientCertificate-*.pem'' f) (\<lambda>name f.
      st_bind (Encode (il_Write l name) (map Certificate fpCertificates) f) (\<lambda>_ f.
      st_bind (deref fpPrivateKey, f) (\<lambda>key f.
      st_bind (Encode (il_Write l name) [PrivateKey key] f) (\<lambda>_ f.
        (Ok \<lparr>cr_TenantID = tenantId, cr_SubscriptionID = subscriptionId, cr_ClientID = p_fpClientID p,
             cr_ClientSecret = [], cr_ClientCertificatePath = name\<rparr>, f))))))"

text \<open>
  The credentials: a certificate for a cluster with workload identity, else the service principal's
  secret. A cluster with neither profile has a nil service principal, and reading it panics.
\<close>

definition install_credentials ::
  "'f install_libs \<Rightarrow> 's manager \<Rightarrow> string \<Rightarrow> 'f \<Rightarrow> credentials result \<times> 'f" where
  "install_credentials l m subscriptionID f =
     st_bind (deref (mg_TenantID m), f) (\<lambda>tenant f.
       if UsesWorkloadIdentity (mg_oc m)
       then newInstallConfigClientCertificateCredential l (mg_env m) tenant subscriptionID f
       else
         (andThen (deref (ServicePrincipalProfile (mg_oc m))) (\<lambda>sp.
            Ok \<lparr>cr_TenantID = tenant, cr_SubscriptionID = subscriptionID, cr_ClientID = sp_ClientID sp,
                cr_ClientSecret = sp_ClientSecret sp, cr_ClientCertificatePath = []\<rparr>), f))"

section \<open>generateInstallConfig\<close>

text \<open>Everything up to the configuration itself: what the calls found.\<close>

record found =
  fo_pullSecret :: string
  fo_subscriptionID :: string
  fo_masterSubnet :: string
  fo_workerSubnet :: string
  fo_vnet :: resource_id
  fo_worker :: worker_profile
  fo_sshkey :: "string \<times> string"
  fo_masterNetworking :: string
  fo_workerNetworking :: string
  fo_zones :: "string list \<times> string list"
  fo_masterDES :: "disk_encryption_set option"
  fo_workerDES :: "disk_encryption_set option"
  fo_requiresV2 :: bool

definition look_up :: "'f install_libs \<Rightarrow> 's manager \<Rightarrow> found result" where
  "look_up l m =
     (let oc = mg_oc m; e = mg_vars m; master = MasterProfile oc; skus = p_vmskus (mg_env m) in
      andThen (install_pull_secret e oc) (\<lambda>pullSecret.
      andThen (stacked (il_ParseResourceID l (oc_ID oc))) (\<lambda>r.
      andThen (stacked (Split (m_SubnetID master))) (\<lambda>(_, masterSubnet).
      andThen (at_index (WorkerProfiles oc) 0) (\<lambda>worker.
      andThen (stacked (Split (w_SubnetID worker))) (\<lambda>(vnetID, workerSubnet).
      andThen (stacked (il_ParseResourceID l vnetID)) (\<lambda>vnetr.
      andThen (stacked (il_ParsePKCS1PrivateKey l (SSHKey oc))) (\<lambda>privateKey.
      andThen (stacked (il_NewPublicKey l privateKey)) (\<lambda>sshkey.
      andThen (stacked (VMSku skus (m_VMSize master))) (\<lambda>masterSKU.
      andThen (determineVMNetworkingType masterSKU) (\<lambda>masterNetworking.
      andThen (stacked (VMSku skus (w_VMSize worker))) (\<lambda>workerSKU.
      andThen (determineVMNetworkingType workerSKU) (\<lambda>workerNetworking.
      andThen (install_zones e (oc_Location oc) (m_VMSize master = w_VMSize worker) masterSKU workerSKU) (\<lambda>zones.
      andThen (encryption_set l (m_DiskEncryptionSetID master)) (\<lambda>masterDES.
      andThen (encryption_set l (w_DiskEncryptionSetID worker)) (\<lambda>workerDES.
      andThen (stacked (determineSkuSupportsV2Only masterSKU)) (\<lambda>masterV2.
      andThen (stacked (determineSkuSupportsV2Only workerSKU)) (\<lambda>workerV2.
        Ok \<lparr>fo_pullSecret = pullSecret, fo_subscriptionID = SubscriptionID r, fo_masterSubnet = masterSubnet,
            fo_workerSubnet = workerSubnet, fo_vnet = vnetr, fo_worker = worker, fo_sshkey = sshkey,
            fo_masterNetworking = masterNetworking, fo_workerNetworking = workerNetworking, fo_zones = zones,
            fo_masterDES = masterDES, fo_workerDES = workerDES, fo_requiresV2 = (masterV2 \<or> workerV2)\<rparr>))))))))))))))))))"

definition config_literal :: "'f install_libs \<Rightarrow> 's manager \<Rightarrow> found \<Rightarrow> install_config result" where
  "config_literal l m fo =
     (let oc = mg_oc m; np = NetworkProfile oc;
          domain = cluster_domain (Domain (ClusterProfile oc)) (Getenv (mg_vars m) ''ARO_DOMAIN_NAME'');
          img = rhcos_image (fo_requiresV2 fo)
      in
        andThen (domain_name domain) (\<lambda>(name, baseDomain).
        andThen (MustParseCIDR l ''127.0.0.0/8'') (\<lambda>machineNetwork.
        andThen (MustParseCIDR l (PodCIDR np)) (\<lambda>podNetwork.
        andThen (MustParseCIDR l (ServiceCIDR np)) (\<lambda>serviceNetwork.
          Ok \<lparr>ic_Name = name, ic_SSHKey = fst (fo_sshkey fo) @ '' '' @ b64_encode (snd (fo_sshkey fo)),
              ic_BaseDomain = baseDomain, ic_MachineNetwork = [machineNetwork],
              ic_NetworkType = (if SoftwareDefinedNetwork np \<noteq> [] then SoftwareDefinedNetwork np else ''OVNKubernetes''),
              ic_ClusterNetwork = [(podNetwork, 23)], ic_ServiceNetwork = [serviceNetwork],
              ic_ControlPlane = control_plane_pool oc (fst (fo_zones fo)) (fo_masterNetworking fo) (fo_masterDES fo) img,
              ic_Compute = [worker_pool (fo_worker fo) (snd (fo_zones fo)) (fo_workerNetworking fo) (fo_workerDES fo) img],
              ic_Azure = azure_platform_of oc (mg_env m) (LastTokenByte (ResourceGroupID (ClusterProfile oc)) slash)
                (fo_vnet fo) (fo_masterSubnet fo) (fo_workerSubnet fo),
              ic_PullSecret = fo_pullSecret fo, ic_FIPS = (FipsValidatedModules (ClusterProfile oc) = ''Enabled''),
              ic_ImageDigestSources = image_sources (p_acrDomain (mg_env m)), ic_Publish = ''External'',
              ic_BaselineCapabilitySet = ''None'', ic_AdditionalEnabledCapabilities = enabled_capabilities,
              ic_CredentialsMode = []\<rparr>)))))"

definition visibility_and_mode :: "openshift_cluster \<Rightarrow> ingress_profile \<Rightarrow> install_config \<Rightarrow> install_config" where
  "visibility_and_mode oc ingress config =
     (let config = (if i_Visibility ingress = ''Private'' then config\<lparr>ic_Publish := ''Internal''\<rparr> else config)
      in if UsesWorkloadIdentity oc then config\<lparr>ic_CredentialsMode := ''Manual''\<rparr> else config)"

definition checked_asset ::
  "'f install_libs \<Rightarrow> 's manager \<Rightarrow> install_config \<Rightarrow> credentials \<Rightarrow> (install_config_asset \<times> string) result" where
  "checked_asset l m config creds =
     (let env = im_environment (p_im (mg_env m));
          override = Getenv (mg_vars m) ''OPENSHIFT_INSTALL_RELEASE_IMAGE_OVERRIDE'' in
      if override = []
      then Err (ErrMsg (''no release image in '' @ [CHR 0x27] @ ''OPENSHIFT_INSTALL_RELEASE_IMAGE_OVERRIDE'' @ [CHR 0x27]))
      else
        (case il_ValidateInstallConfig l config of
           Some e \<Rightarrow> Err (WithStack e)
         | None \<Rightarrow>
             Ok (\<lparr>ia_Config = config, ia_CloudName = env_Name env, ia_ResourceManagerEndpoint = env_ResourceManagerEndpoint env,
                  ia_Credentials = creds\<rparr>, override)))"

definition generateInstallConfig ::
  "'f install_libs \<Rightarrow> 's manager \<Rightarrow> 'f \<Rightarrow> (install_config_asset \<times> string) result \<times> 'f" where
  "generateInstallConfig l m f =
     st_bind (look_up l m, f) (\<lambda>fo f.
     st_bind (config_literal l m fo, f) (\<lambda>config f.
     st_bind (at_index (IngressProfiles (mg_oc m)) 0, f) (\<lambda>ingress f.
     st_bind (install_credentials l m (fo_subscriptionID fo) f) (\<lambda>creds f.
       (checked_asset l m (visibility_and_mode (mg_oc m) ingress config) creds, f)))))"

section \<open>Properties\<close>

lemma domain_name_Ok:
  "domain_name d = Ok (name, base) \<Longrightarrow> d = name @ CHR ''.'' # base \<and> CHR ''.'' \<notin> set name"
  using index_byte_Some [of d "CHR ''.''"] by (auto simp: domain_name_def split: option.splits)

lemma domain_name_total: "domain_name (cluster_domain d e) \<noteq> Panic"
  using index_byte_None [of "cluster_domain d e" "CHR ''.''"]
  by (auto simp: domain_name_def cluster_domain_def split: option.splits if_splits)

lemma pull_secret_without:
  "install_pull_secret e oc = Ok t \<Longrightarrow>
   \<exists>m. unmarshal_ps t = Ok (Some m) \<and> sm_get (entries m) ''cloud.openshift.com'' = None"
  by (auto simp: install_pull_secret_def outcome_simps dest!: RemoveKey_without)

lemma look_up_facts:
  assumes "look_up l m = Ok fo"
  shows "install_pull_secret (mg_vars m) (mg_oc m) = Ok (fo_pullSecret fo)"
    "\<exists>masterSKU workerSKU mv wv.
       sm_get (p_vmskus (mg_env m)) (m_VMSize (MasterProfile (mg_oc m))) = Some masterSKU
     \<and> sm_get (p_vmskus (mg_env m)) (w_VMSize (fo_worker fo)) = Some workerSKU
     \<and> determineSkuSupportsV2Only masterSKU = Ok mv \<and> determineSkuSupportsV2Only workerSKU = Ok wv
     \<and> fo_requiresV2 fo = (mv \<or> wv)
     \<and> install_zones (mg_vars m) (oc_Location (mg_oc m)) (m_VMSize (MasterProfile (mg_oc m)) = w_VMSize (fo_worker fo))
         masterSKU workerSKU = Ok (fo_zones fo)"
    "WorkerProfiles (mg_oc m) \<noteq> [] \<and> fo_worker fo = hd (WorkerProfiles (mg_oc m))"
  using assms
  by (auto simp: look_up_def Let_def outcome_simps VMSku_def at_index_Ok hd_conv_nth split: option.splits)

lemma config_literal_facts:
  assumes "config_literal l m fo = Ok c"
  shows "ic_PullSecret c = fo_pullSecret fo" "ic_Publish c = ''External''" "ic_CredentialsMode c = []"
    "ic_Name c @ CHR ''.'' # ic_BaseDomain c = cluster_domain (Domain (ClusterProfile (mg_oc m))) (Getenv (mg_vars m) ''ARO_DOMAIN_NAME'')
      \<and> CHR ''.'' \<notin> set (ic_Name c)"
    "am_Zones (po_Azure (ic_ControlPlane c)) = fst (fo_zones fo)"
    "am_OSImage (po_Azure (ic_ControlPlane c)) = rhcos_image (fo_requiresV2 fo)"
    "\<exists>w. ic_Compute c = [w] \<and> am_Zones (po_Azure w) = snd (fo_zones fo) \<and> am_OSImage (po_Azure w) = rhcos_image (fo_requiresV2 fo)
       \<and> am_DiskSizeGB (po_Azure w) = sint (word_of_int (w_DiskSizeGB (fo_worker fo)) :: 32 word)"
  using assms
  by (auto simp: config_literal_def Let_def outcome_simps control_plane_pool_def worker_pool_def dest!: domain_name_Ok)

text \<open>What a successful call has done, in terms of its parts.\<close>

lemma generate_parts:
  assumes "generateInstallConfig l m f = (Ok (a, pullSpec), f')"
  obtains fo c ingress where "look_up l m = Ok fo" "config_literal l m fo = Ok c"
    "at_index (IngressProfiles (mg_oc m)) 0 = Ok ingress"
    "ia_Config a = c\<lparr>ic_Publish := if i_Visibility ingress = ''Private'' then ''Internal'' else ''External'',
                     ic_CredentialsMode := if UsesWorkloadIdentity (mg_oc m) then ''Manual'' else []\<rparr>"
    "il_ValidateInstallConfig l (ia_Config a) = None" "pullSpec \<noteq> []"
    "pullSpec = Getenv (mg_vars m) ''OPENSHIFT_INSTALL_RELEASE_IMAGE_OVERRIDE''"
    "install_credentials l m (fo_subscriptionID fo) f = (Ok (ia_Credentials a), f')"
proof -
  from assms obtain fo c ingress creds where p: "look_up l m = Ok fo" "config_literal l m fo = Ok c"
    "at_index (IngressProfiles (mg_oc m)) 0 = Ok ingress"
    and r: "install_credentials l m (fo_subscriptionID fo) f = (Ok creds, f')"
    and a: "checked_asset l m (visibility_and_mode (mg_oc m) ingress c) creds = Ok (a, pullSpec)"
    by (auto simp: generateInstallConfig_def outcome_simps)
  have k: "visibility_and_mode (mg_oc m) ingress c =
     c\<lparr>ic_Publish := if i_Visibility ingress = ''Private'' then ''Internal'' else ''External'',
       ic_CredentialsMode := if UsesWorkloadIdentity (mg_oc m) then ''Manual'' else []\<rparr>"
    using config_literal_facts(2,3) [OF p(2)] by (cases c) (simp add: visibility_and_mode_def)
  have n: "Getenv (mg_vars m) ''OPENSHIFT_INSTALL_RELEASE_IMAGE_OVERRIDE'' \<noteq> []"
    using a by (auto simp: checked_asset_def Let_def split: if_splits)
  then have v: "il_ValidateInstallConfig l (visibility_and_mode (mg_oc m) ingress c) = None"
    using a by (simp add: checked_asset_def Let_def split: option.splits)
  then have e: "ia_Config a = visibility_and_mode (mg_oc m) ingress c" "ia_Credentials a = creds"
    "pullSpec = Getenv (mg_vars m) ''OPENSHIFT_INSTALL_RELEASE_IMAGE_OVERRIDE''"
    using a n by (auto simp: checked_asset_def Let_def)
  show thesis
    by (rule that [OF p _ _ _ e(3)]) (use k v n e r in simp_all)
qed

text \<open>C24: An install configuration that is generated: the cluster's name and base domain are its domain, cut at
  the first dot; the pull secret has no entry for cloud.openshift.com; it is internal exactly if the
  first ingress is private and has manual credentials exactly with workload identity; every pool
  runs the generation-2 image exactly if one of the two SKUs requires it; the installer's validation
  accepted it; and the release image is the override, which is not empty.\<close>

theorem install_config_generated:
  assumes "generateInstallConfig l m f = (Ok (a, pullSpec), f')"
  shows "ic_Name (ia_Config a) @ CHR ''.'' # ic_BaseDomain (ia_Config a)
       = cluster_domain (Domain (ClusterProfile (mg_oc m))) (Getenv (mg_vars m) ''ARO_DOMAIN_NAME'')
    \<and> CHR ''.'' \<notin> set (ic_Name (ia_Config a))
    \<and> (\<exists>ps. unmarshal_ps (ic_PullSecret (ia_Config a)) = Ok (Some ps) \<and> sm_get (entries ps) ''cloud.openshift.com'' = None)
    \<and> IngressProfiles (mg_oc m) \<noteq> []
    \<and> ic_Publish (ia_Config a) = (if i_Visibility (hd (IngressProfiles (mg_oc m))) = ''Private'' then ''Internal'' else ''External'')
    \<and> (ic_CredentialsMode (ia_Config a) = ''Manual'' \<longleftrightarrow> UsesWorkloadIdentity (mg_oc m))
    \<and> (\<exists>mv wv sm sw.
         sm_get (p_vmskus (mg_env m)) (m_VMSize (MasterProfile (mg_oc m))) = Some sm
       \<and> sm_get (p_vmskus (mg_env m)) (w_VMSize (hd (WorkerProfiles (mg_oc m)))) = Some sw
       \<and> determineSkuSupportsV2Only sm = Ok mv \<and> determineSkuSupportsV2Only sw = Ok wv
       \<and> (\<forall>pool \<in> set (ic_ControlPlane (ia_Config a) # ic_Compute (ia_Config a)).
            am_OSImage (po_Azure pool) = rhcos_image (mv \<or> wv)))
    \<and> il_ValidateInstallConfig l (ia_Config a) = None
    \<and> pullSpec = Getenv (mg_vars m) ''OPENSHIFT_INSTALL_RELEASE_IMAGE_OVERRIDE'' \<and> pullSpec \<noteq> []"
proof -
  from assms obtain fo c ingress where p: "look_up l m = Ok fo" "config_literal l m fo = Ok c"
    "at_index (IngressProfiles (mg_oc m)) 0 = Ok ingress"
    and a: "ia_Config a = c\<lparr>ic_Publish := if i_Visibility ingress = ''Private'' then ''Internal'' else ''External'',
                     ic_CredentialsMode := if UsesWorkloadIdentity (mg_oc m) then ''Manual'' else []\<rparr>"
    and v: "il_ValidateInstallConfig l (ia_Config a) = None" "pullSpec \<noteq> []"
      "pullSpec = Getenv (mg_vars m) ''OPENSHIFT_INSTALL_RELEASE_IMAGE_OVERRIDE''"
    by (rule generate_parts)
  note c = config_literal_facts [OF p(2)] and lk = look_up_facts [OF p(1)]
  have i: "IngressProfiles (mg_oc m) \<noteq> []" "hd (IngressProfiles (mg_oc m)) = ingress"
    using p(3) by (auto simp: at_index_Ok hd_conv_nth)
  have pub: "ic_Publish (ia_Config a) = (if i_Visibility (hd (IngressProfiles (mg_oc m))) = ''Private'' then ''Internal'' else ''External'')"
    "ic_CredentialsMode (ia_Config a) = ''Manual'' \<longleftrightarrow> UsesWorkloadIdentity (mg_oc m)"
    using i by (simp_all add: a)
  obtain w where w: "ic_Compute c = [w]" "am_OSImage (po_Azure w) = rhcos_image (fo_requiresV2 fo)" using c(7) by blast
  have pools: "\<forall>pool \<in> set (ic_ControlPlane (ia_Config a) # ic_Compute (ia_Config a)).
      am_OSImage (po_Azure pool) = rhcos_image (fo_requiresV2 fo)"
    using w c(6) by (simp add: a)
  obtain sm sw mv wv where s:
    "sm_get (p_vmskus (mg_env m)) (m_VMSize (MasterProfile (mg_oc m))) = Some sm"
    "sm_get (p_vmskus (mg_env m)) (w_VMSize (fo_worker fo)) = Some sw"
    "determineSkuSupportsV2Only sm = Ok mv" "determineSkuSupportsV2Only sw = Ok wv" "fo_requiresV2 fo = (mv \<or> wv)"
    using lk(2) by blast
  have name: "ic_Name (ia_Config a) = ic_Name c" "ic_BaseDomain (ia_Config a) = ic_BaseDomain c"
    "ic_PullSecret (ia_Config a) = fo_pullSecret fo" using c(1) by (simp_all add: a)
  show ?thesis
    unfolding name
  proof (intro conjI)
    show "\<exists>mv wv sm sw. sm_get (p_vmskus (mg_env m)) (m_VMSize (MasterProfile (mg_oc m))) = Some sm
       \<and> sm_get (p_vmskus (mg_env m)) (w_VMSize (hd (WorkerProfiles (mg_oc m)))) = Some sw
       \<and> determineSkuSupportsV2Only sm = Ok mv \<and> determineSkuSupportsV2Only sw = Ok wv
       \<and> (\<forall>pool \<in> set (ic_ControlPlane (ia_Config a) # ic_Compute (ia_Config a)).
            am_OSImage (po_Azure pool) = rhcos_image (mv \<or> wv))"
      using s pools lk(3) by (intro exI [of _ mv] exI [of _ wv] exI [of _ sm] exI [of _ sw]) simp
  qed (use c(4) pull_secret_without [OF lk(1)] i v pub in blast)+
qed

definition demo_gen2_sku :: resource_sku where
  "demo_gen2_sku =
     \<lparr>rs_Name = Some ''v6'', rs_ResourceType = None, rs_Locations = None,
      rs_LocationInfo = Some [\<lparr>li_Location = None, li_Zones = Some [''3'', ''1'', ''2'']\<rparr>],
      rs_Capabilities = Some [(Some ''HyperVGenerations'', Some ''V2'')], rs_Restrictions = None\<rparr>"

definition demo_profile :: worker_profile where
  "demo_profile = \<lparr>w_Name = ''worker'', w_VMSize = ''v6'', w_DiskSizeGB = 128, w_SubnetID = ''/s/s/g/g/p/n/t/vnet/x/worker'',
     w_Count = 3, w_EncryptionAtHost = [], w_DiskEncryptionSetID = []\<rparr>"

definition demo_cluster :: openshift_cluster where
  "demo_cluster =
     \<lparr>oc_ID = ''id'', oc_Location = ''EastUS'',
      ClusterProfile = \<lparr>PullSecret = [], Domain = ''c'', ResourceGroupID = ''/a/rg'', FipsValidatedModules = []\<rparr>,
      NetworkProfile = \<lparr>PodCIDR = ''10.0.0.0/8'', ServiceCIDR = ''172.0.0.0/8'', SoftwareDefinedNetwork = [], MTUSize = 1500,
        OutboundType = ''Loadbalancer'', APIServerPrivateEndpointIP = ''10.0.0.4'', GatewayPrivateEndpointIP = []\<rparr>,
      MasterProfile = \<lparr>m_VMSize = ''v6'', m_SubnetID = ''/s/s/g/g/p/n/t/vnet/x/master'', m_EncryptionAtHost = ''Enabled'',
        m_DiskEncryptionSetID = []\<rparr>,
      WorkerProfiles = [demo_profile], IntIP = ''10.0.0.5'',
      IngressProfiles = [\<lparr>i_Visibility = ''Private'', i_IP = ''10.0.0.6''\<rparr>],
      ServicePrincipalProfile = Some \<lparr>sp_ClientID = ''client'', sp_ClientSecret = ''secret''\<rparr>,
      has_PlatformWorkloadIdentityProfile = False, RegistryProfiles = [], InfraID = ''infra'', StorageSuffix = ''sfx'',
      ImageRegistryStorageAccountName = ''reg'', SSHKey = ''key'', InstallNow = Some 0\<rparr>"

definition demo_resource :: resource_id where
  "demo_resource = \<lparr>SubscriptionID = ''s'', ResourceGroup = ''g'', Provider = ''p'', ResourceType = ''t'', ResourceName = ''n''\<rparr>"

definition demo_libs :: "unit install_libs" where
  "demo_libs =
     \<lparr>il_ParseResourceID = (\<lambda>t. Ok demo_resource), il_ParsePKCS1PrivateKey = (\<lambda>t. Ok (RsaKey t)),
      il_NewPublicKey = (\<lambda>k. Ok (''ssh-rsa'', ''bytes'')), il_ParseCIDR = Some,
      il_CreateTemp = (\<lambda>d n f. (Err Canceled, f)), il_Write = (\<lambda>n t f. (Ok (), f)),
      il_ValidateInstallConfig = (\<lambda>c. None)\<rparr>"

definition demo_prod :: "unit prod_env" where
  "demo_prod =
     \<lparr>p_dialer = ProdDialer, p_im = demo_metadata, p_isLocalDevelopmentMode = False, p_acrDomain = ''acr'',
      p_vmskus = [(''v6'', demo_gen2_sku)],
      p_fpCertificateRefresher = \<lparr>rf_certs = [], rf_key = None, rf_kv = (\<lambda>s. (Err Canceled, s))\<rparr>, p_fpClientID = ''fp'',
      p_clusterKeyvault = demo_secrets [], p_serviceKeyvault = demo_secrets [],
      p_clusterGenevaLoggingCertificate = demo_cert, p_clusterGenevaLoggingPrivateKey = RsaKey ''key'',
      p_clusterGenevaLoggingAccount = [], p_clusterGenevaLoggingConfigVersion = [],
      p_clusterGenevaLoggingEnvironment = [], p_clusterGenevaLoggingNamespace = [], p_gatewayDomains = [],
      p_features = {}\<rparr>"

definition demo_install_vars :: envvars where
  "demo_install_vars k =
     (if k = ''ARO_DOMAIN_NAME'' then Some ''aroapp.io''
      else if k = ''OPENSHIFT_INSTALL_RELEASE_IMAGE_OVERRIDE'' then Some ''release'' else None)"

definition demo_install :: "unit manager" where
  "demo_install = \<lparr>mg_vars = demo_install_vars, mg_env = demo_prod, mg_clusterUUID = ''uuid'', mg_oc = demo_cluster,
     mg_TenantID = Some ''tenant''\<rparr>"

lemma demo_fields:
  "mg_oc demo_install = demo_cluster" "mg_vars demo_install = demo_install_vars" "mg_env demo_install = demo_prod"
  "mg_TenantID demo_install = Some ''tenant''"
  "WorkerProfiles demo_cluster = [demo_profile]" "m_VMSize (MasterProfile demo_cluster) = ''v6''"
  "m_DiskEncryptionSetID (MasterProfile demo_cluster) = []" "w_DiskEncryptionSetID demo_profile = []"
  "w_VMSize demo_profile = ''v6''" "oc_Location demo_cluster = ''EastUS''"
  "m_SubnetID (MasterProfile demo_cluster) = ''/s/s/g/g/p/n/t/vnet/x/master''"
  "w_SubnetID demo_profile = ''/s/s/g/g/p/n/t/vnet/x/worker''"
  "il_ParseResourceID demo_libs t = Ok demo_resource" "il_ParsePKCS1PrivateKey demo_libs t = Ok (RsaKey t)"
  "il_NewPublicKey demo_libs k = Ok (''ssh-rsa'', ''bytes'')" "il_ParseCIDR demo_libs t = Some t"
  "il_ValidateInstallConfig demo_libs c = None" "UsesWorkloadIdentity demo_cluster = False"
  "ServicePrincipalProfile demo_cluster = Some \<lparr>sp_ClientID = ''client'', sp_ClientSecret = ''secret''\<rparr>"
  "IngressProfiles demo_cluster = [\<lparr>i_Visibility = ''Private'', i_IP = ''10.0.0.6''\<rparr>]"
  "Domain (ClusterProfile demo_cluster) = ''c''"
  by (simp_all add: demo_install_def demo_cluster_def demo_profile_def demo_libs_def UsesWorkloadIdentity_def)

lemma demo_calls:
  "VMSku (p_vmskus demo_prod) ''v6'' = Ok demo_gen2_sku" "determineVMNetworkingType demo_gen2_sku = Ok ''Basic''"
  "install_zones demo_install_vars ''EastUS'' True demo_gen2_sku demo_gen2_sku = Ok ([''1'',''2'',''3''],[''1'',''2'',''3''])"
  "determineSkuSupportsV2Only demo_gen2_sku = Ok True"
  "Split ''/s/s/g/g/p/n/t/vnet/x/worker'' = Ok (''/s/s/g/g/p/n/t/vnet'', ''worker'')"
  "Split ''/s/s/g/g/p/n/t/vnet/x/master'' = Ok (''/s/s/g/g/p/n/t/vnet'', ''master'')"
  "domain_name (cluster_domain ''c'' (Getenv demo_install_vars ''ARO_DOMAIN_NAME'')) = Ok (''c'', ''aroapp.io'')"
  "Getenv demo_install_vars ''OPENSHIFT_INSTALL_RELEASE_IMAGE_OVERRIDE'' = ''release''"
  by code_simp+

lemma demo_generates:
  "\<exists>a. generateInstallConfig demo_libs demo_install () = (Ok (a, ''release''), ())
     \<and> ic_Name (ia_Config a) = ''c'' \<and> ic_BaseDomain (ia_Config a) = ''aroapp.io''"
proof -
  have "isOk (install_pull_secret demo_install_vars demo_cluster)" by code_simp
  then obtain t where t: "install_pull_secret demo_install_vars demo_cluster = Ok t"
    by (cases "install_pull_secret demo_install_vars demo_cluster") auto
  obtain fo where fo: "look_up demo_libs demo_install = Ok fo" "fo_subscriptionID fo = ''s''"
    by (simp add: look_up_def demo_fields demo_calls t stacked_def encryption_set_def demo_resource_def)
  obtain c where c: "config_literal demo_libs demo_install fo = Ok c" "ic_Name c = ''c''" "ic_BaseDomain c = ''aroapp.io''"
    by (simp add: config_literal_def demo_fields demo_calls MustParseCIDR_def Let_def)
  show ?thesis
    by (simp add: generateInstallConfig_def fo c demo_fields install_credentials_def checked_asset_def demo_calls
        visibility_and_mode_def Let_def)
qed
theorem install_config_generated_witness:
  "\<exists>a f'. generateInstallConfig demo_libs demo_install () = (Ok (a, ''release''), f')
     \<and> ic_Publish (ia_Config a) = ''Internal'' \<and> ic_Name (ia_Config a) = ''c'' \<and> ic_BaseDomain (ia_Config a) = ''aroapp.io''"
proof -
  obtain a where g: "generateInstallConfig demo_libs demo_install () = (Ok (a, ''release''), ())"
    "ic_Name (ia_Config a) = ''c''" "ic_BaseDomain (ia_Config a) = ''aroapp.io''"
    using demo_generates by blast
  from install_config_generated [OF g(1)]
  have "ic_Publish (ia_Config a) = (if i_Visibility (hd (IngressProfiles (mg_oc demo_install))) = ''Private'' then ''Internal'' else ''External'')"
    by blast
  then have "ic_Publish (ia_Config a) = ''Internal''" by (simp add: demo_fields)
  with g show ?thesis by blast
qed

lemma install_zones_chosen:
  assumes "same \<longrightarrow> sm = sw"
  shows "install_zones e loc same sm sw =
    (if equal_fold loc ''centraluseuap'' then Ok ([[]], [[]])
     else let x = Getenv e ''ARO_INSTALLER_ALLOW_EXPANDED_AZS'' in
       stacked (chosen_zones (eligible x (Zones sm)) (eligible x (Zones sw))))"
proof -
  let ?h = "\<lambda>i::nat. if i = 0 then Zones sm else Zones sw"
  let ?cp = "\<lparr>sl_array = 0, sl_len = length (Zones sm)\<rparr>" and ?w = "\<lparr>sl_array = 1, sl_len = length (Zones sw)\<rparr>"
  have "fst (determineAvailabilityZones x ?cp (if same then ?cp else ?w) ?h)
      = chosen_zones (eligible x (Zones sm)) (eligible x (Zones sw))" for x
    using zones_spec [of ?h ?cp "if same then ?cp else ?w" x] assms by (simp add: slice_ok_def contents_def)
  then show ?thesis by (simp add: install_zones_def Let_def)
qed

lemma chosen_zones_shape:
  "chosen_zones (eligible x zs) (eligible x ws) = Ok (c, w) \<Longrightarrow>
   sorted c \<and> sorted w \<and> (c = [[]] \<or> length c = 3 \<and> set c \<subseteq> set zs) \<and> (w = [[]] \<or> 3 \<le> length w \<and> set w \<subseteq> set ws)"
proof -
  have s: "sorted (eligible x zs)" "sorted (eligible x ws)" "set (eligible x zs) \<subseteq> set zs" "set (eligible x ws) \<subseteq> set ws"
    by (auto simp: eligible_def)
  assume "chosen_zones (eligible x zs) (eligible x ws) = Ok (c, w)"
  then show ?thesis
    using s set_take_subset [of 3 "eligible x zs"] sorted_wrt_take [of "(\<le>)" "eligible x zs" 3]
    by (auto simp: chosen_zones_def split: if_splits)
qed

text \<open>The zones of a generated configuration: none (the empty name) for both pools in centraluseuap, in any
  case; elsewhere the choice made from the two SKUs' zones, sorted, three for the control plane or none,
  at least three for the workers or none, each one of its SKU's zones. Whether the two pools share one
  cached SKU makes no difference.\<close>

theorem install_config_zones:
  assumes "generateInstallConfig l m f = (Ok (a, pullSpec), f')"
  shows "\<exists>sm sw w cz wz. sm_get (p_vmskus (mg_env m)) (m_VMSize (MasterProfile (mg_oc m))) = Some sm
    \<and> sm_get (p_vmskus (mg_env m)) (w_VMSize (hd (WorkerProfiles (mg_oc m)))) = Some sw
    \<and> ic_Compute (ia_Config a) = [w] \<and> am_Zones (po_Azure (ic_ControlPlane (ia_Config a))) = cz \<and> am_Zones (po_Azure w) = wz
    \<and> (if equal_fold (oc_Location (mg_oc m)) ''centraluseuap'' then cz = [[]] \<and> wz = [[]]
       else sorted cz \<and> sorted wz \<and> (cz = [[]] \<or> length cz = 3 \<and> set cz \<subseteq> set (Zones sm))
         \<and> (wz = [[]] \<or> 3 \<le> length wz \<and> set wz \<subseteq> set (Zones sw)))"
proof -
  from assms obtain fo c ingress where p: "look_up l m = Ok fo" "config_literal l m fo = Ok c"
    "at_index (IngressProfiles (mg_oc m)) 0 = Ok ingress"
    and a: "ia_Config a = c\<lparr>ic_Publish := if i_Visibility ingress = ''Private'' then ''Internal'' else ''External'',
                     ic_CredentialsMode := if UsesWorkloadIdentity (mg_oc m) then ''Manual'' else []\<rparr>"
    by (rule generate_parts)
  let ?ms = "m_VMSize (MasterProfile (mg_oc m))" and ?ws = "w_VMSize (fo_worker fo)"
  obtain sm sw where s: "sm_get (p_vmskus (mg_env m)) ?ms = Some sm" "sm_get (p_vmskus (mg_env m)) ?ws = Some sw"
    and z: "install_zones (mg_vars m) (oc_Location (mg_oc m)) (?ms = ?ws) sm sw = Ok (fo_zones fo)"
    using look_up_facts(2) [OF p(1)] by blast
  obtain w where w: "ic_Compute c = [w]" "am_Zones (po_Azure w) = snd (fo_zones fo)"
    using config_literal_facts(7) [OF p(2)] by blast
  have same: "?ms = ?ws \<longrightarrow> sm = sw" using s by auto
  obtain cz wz where zz: "fo_zones fo = (cz, wz)" by fastforce
  have shape: "if equal_fold (oc_Location (mg_oc m)) ''centraluseuap'' then cz = [[]] \<and> wz = [[]]
       else sorted cz \<and> sorted wz \<and> (cz = [[]] \<or> length cz = 3 \<and> set cz \<subseteq> set (Zones sm))
         \<and> (wz = [[]] \<or> 3 \<le> length wz \<and> set wz \<subseteq> set (Zones sw))"
    using z install_zones_chosen [OF same, of "mg_vars m" "oc_Location (mg_oc m)"] chosen_zones_shape zz
    by (auto simp: Let_def outcome_simps split: if_splits)
  have cp: "am_Zones (po_Azure (ic_ControlPlane (ia_Config a))) = cz" "ic_Compute (ia_Config a) = [w]"
    using config_literal_facts(5) [OF p(2)] w(1) zz by (simp_all add: a)
  have wk: "fo_worker fo = hd (WorkerProfiles (mg_oc m))" using look_up_facts(3) [OF p(1)] by simp
  show ?thesis
    using s w(2) zz shape cp unfolding wk by (intro exI [of _ sm] exI [of _ sw] exI [of _ w] exI [of _ cz] exI [of _ wz]) simp
qed

theorem install_config_zones_witness:
  "\<exists>a f' w. generateInstallConfig demo_libs demo_install () = (Ok (a, ''release''), f') \<and> ic_Compute (ia_Config a) = [w]
     \<and> sorted (am_Zones (po_Azure w))"
proof -
  obtain a where g: "generateInstallConfig demo_libs demo_install () = (Ok (a, ''release''), ())"
    using demo_generates by blast
  from install_config_zones [OF g] obtain w where w: "ic_Compute (ia_Config a) = [w]"
    "(if equal_fold ''EastUS'' ''centraluseuap'' then am_Zones (po_Azure w) = [[]] else sorted (am_Zones (po_Azure w)))"
    unfolding demo_fields by (auto split: if_splits)
  then have "sorted (am_Zones (po_Azure w))" by (auto split: if_splits)
  with g w show ?thesis by blast
qed

end
