(* ===== verification/Go_Template.thy ===== *)
theory Go_Template
  imports Go_Errors
begin

text \<open>
  Go's text/template and html/template, for the actions that the templates of this repository use: fields of
  the data (\<open>.Name\<close>, \<open>$.Name\<close>), variables, \<open>if\<close> on a value or on \<open>gt\<close> with zero, \<open>range\<close> over a list of
  strings, \<open>define\<close> and \<open>end\<close>, with the trim markers. Another action is a parse error here. Of html/template this
  is the escaping of a value in the context of text; its other contexts start at a less-than sign, which none of the
  templates has.
\<close>

abbreviation tab :: char where "tab \<equiv> CHR 0x09"

definition lines_text :: "string list \<Rightarrow> string" where
  "lines_text ls = concat (map (\<lambda>l. l @ [nl]) ls)"

section \<open>Lexing\<close>

datatype token = TText string | TAction string

fun cut_pair :: "char \<Rightarrow> char \<Rightarrow> string \<Rightarrow> (string \<times> string) option" where
  "cut_pair a b [] = None"
| "cut_pair a b (c # s) =
     (if c = a \<and> s \<noteq> [] \<and> hd s = b then Some ([], tl s) else map_option (\<lambda>(p, r). (c # p, r)) (cut_pair a b s))"

lemma cut_pair_Some: "cut_pair a b s = Some (p, r) \<Longrightarrow> s = p @ a # b # r"
  by (induction s arbitrary: p) (auto split: if_splits simp: neq_Nil_conv)

lemma cut_pair_None: "cut_pair a b s = None \<longleftrightarrow> (\<forall>p r. s \<noteq> p @ a # b # r)"
proof (induction s)
  case (Cons c s)
  show ?case
  proof (cases "c = a \<and> s \<noteq> [] \<and> hd s = b")
    case True
    then have "c # s = [] @ a # b # tl s" by (cases s) auto
    with True show ?thesis by (metis cut_pair.simps(2) option.distinct(1))
  next
    case False
    then have "(\<exists>p r. c # s = p @ a # b # r) = (\<exists>p r. s = p @ a # b # r)"
      by (metis append_Cons append_Nil list.sel(1,3) neq_Nil_conv)
    then show ?thesis using Cons False by auto
  qed
qed simp

definition spaces :: "char set" where "spaces = {CHR '' '', tab, CHR 0x0D, nl}"

definition trim_spaces_left :: "string \<Rightarrow> string" where "trim_spaces_left s = dropWhile (\<lambda>c. c \<in> spaces) s"
definition trim_spaces_right :: "string \<Rightarrow> string" where "trim_spaces_right s = rev (trim_spaces_left (rev s))"

definition left_marker :: "string \<Rightarrow> bool" where
  "left_marker a = (2 \<le> length a \<and> hd a = CHR ''-'' \<and> a ! 1 \<in> spaces)"

definition right_marker :: "string \<Rightarrow> bool" where
  "right_marker a = left_marker (rev a)"

text \<open>The flag says that the action before had a marker on its right.\<close>

function lex :: "bool \<Rightarrow> string \<Rightarrow> token list option" where
  "lex trimmed s =
     (let trim = (\<lambda>t. if trimmed then trim_spaces_left t else t) in
      case cut_pair (CHR ''{'') (CHR ''{'') s of
        None \<Rightarrow> Some [TText (trim s)]
      | Some (t, r) \<Rightarrow>
          (case cut_pair (CHR ''}'') (CHR ''}'') r of
             None \<Rightarrow> None
           | Some (a, r) \<Rightarrow>
               (let t = (if left_marker a then trim_spaces_right (trim t) else trim t);
                    a' = (if left_marker a then tl a else a);
                    a'' = (if right_marker a then butlast a' else a') in
                map_option (\<lambda>ts. TText t # TAction a'' # ts) (lex (right_marker a) r))))"
  by pat_completeness auto
termination
  by (relation "measure (length \<circ> snd)") (auto dest!: cut_pair_Some)

section \<open>Parsing\<close>

datatype operand = OField string | ORoot string | OVar string
datatype tcond = CValue operand | CPositive operand

datatype node =
    NText string
  | NOut operand
  | NIf tcond "node list"
  | NRange "string option" string operand "node list"
  | NDefine string "node list"

datatype opener = OpenIf tcond | OpenRange "string option" string operand | OpenDefine string
datatype taction = AOut operand | AOpen opener | AEnd

definition name_chars :: string where
  "name_chars = ''abcdefghijklmnopqrstuvwxyzABCDEFGHIJKLMNOPQRSTUVWXYZ0123456789_''"

definition is_identifier :: "string \<Rightarrow> bool" where
  "is_identifier s = (s \<noteq> [] \<and> list_all (\<lambda>c. List.member name_chars c) s)"

definition variable :: "string \<Rightarrow> string option" where
  "variable w = (if w \<noteq> [] \<and> hd w = CHR ''$'' \<and> is_identifier (tl w) then Some (tl w) else None)"

definition parse_operand :: "string \<Rightarrow> operand option" where
  "parse_operand w =
     (if w \<noteq> [] \<and> hd w = dot \<and> is_identifier (tl w) then Some (OField (tl w))
      else if take 2 w = ''$.'' \<and> is_identifier (drop 2 w) then Some (ORoot (drop 2 w))
      else map_option OVar (variable w))"

definition unquoted :: "string \<Rightarrow> string option" where
  "unquoted w = (if 2 \<le> length w \<and> hd w = CHR 0x22 \<and> last w = CHR 0x22 then Some (butlast (tl w)) else None)"

definition index_variable :: "string \<Rightarrow> string option" where
  "index_variable w = (if suffix '','' w then variable (butlast w) else None)"

definition parse_action :: "string \<Rightarrow> taction option" where
  "parse_action a =
     (case filter (\<lambda>w. w \<noteq> []) (split_on (CHR '' '') a) of
        [w] \<Rightarrow> if w = ''end'' then Some AEnd else map_option AOut (parse_operand w)
      | [w, x] \<Rightarrow>
          if w = ''if'' then map_option (\<lambda>p. AOpen (OpenIf (CValue p))) (parse_operand x)
          else if w = ''define'' then map_option (\<lambda>n. AOpen (OpenDefine n)) (unquoted x)
          else None
      | [w, x, y, z] \<Rightarrow>
          if w = ''if'' \<and> x = ''(gt'' \<and> z = ''0)'' then map_option (\<lambda>p. AOpen (OpenIf (CPositive p))) (parse_operand y)
          else if w = ''range'' \<and> y = '':='' then
            (case (variable x, parse_operand z) of
               (Some v, Some p) \<Rightarrow> Some (AOpen (OpenRange None v p)) | _ \<Rightarrow> None)
          else None
      | [w, i, x, y, z] \<Rightarrow>
          if w = ''range'' \<and> y = '':='' then
            (case (index_variable i, variable x, parse_operand z) of
               (Some j, Some v, Some p) \<Rightarrow> Some (AOpen (OpenRange (Some j) v p)) | _ \<Rightarrow> None)
          else None
      | _ \<Rightarrow> None)"

fun close_node :: "opener \<Rightarrow> node list \<Rightarrow> node" where
  "close_node (OpenIf c) ns = NIf c ns"
| "close_node (OpenRange i v p) ns = NRange i v p ns"
| "close_node (OpenDefine n) ns = NDefine n ns"

fun is_define :: "opener \<Rightarrow> bool" where
  "is_define (OpenDefine n) = True"
| "is_define (OpenIf c) = False"
| "is_define (OpenRange i v p) = False"

text \<open>The open actions are on a stack, each with what stands before it. A definition may only stand at the top.\<close>

fun parse_tokens :: "(opener \<times> node list) list \<Rightarrow> node list \<Rightarrow> token list \<Rightarrow> node list option" where
  "parse_tokens [] acc [] = Some (rev acc)"
| "parse_tokens (o1 # st) acc [] = None"
| "parse_tokens st acc (TText t # ts) = parse_tokens st (if t = [] then acc else NText t # acc) ts"
| "parse_tokens st acc (TAction a # ts) =
     (case parse_action a of
        None \<Rightarrow> None
      | Some (AOut p) \<Rightarrow> parse_tokens st (NOut p # acc) ts
      | Some (AOpen p) \<Rightarrow>
          if is_define p \<and> st \<noteq> [] then None else parse_tokens ((p, acc) # st) [] ts
      | Some AEnd \<Rightarrow>
          (case st of [] \<Rightarrow> None | (p, acc') # st' \<Rightarrow> parse_tokens st' (close_node p (rev acc) # acc') ts))"

definition template_Parse :: "string \<Rightarrow> node list result" where
  "template_Parse s =
     (case lex False s of
        None \<Rightarrow> Err (ErrMsg ''template: unclosed action'')
      | Some ts \<Rightarrow>
          (case parse_tokens [] [] ts of None \<Rightarrow> Err (ErrMsg ''template: parse error'') | Some ns \<Rightarrow> Ok ns))"

text \<open>\<open>template.Must\<close>.\<close>

definition template_Must :: "'a result \<Rightarrow> 'a result" where
  "template_Must r = (case r of Ok t \<Rightarrow> Ok t | _ \<Rightarrow> Panic)"

section \<open>Execution\<close>

datatype tvalue = VString string | VBool bool | VInt nat | VStrings "string list" | VNone

text \<open>The data: a struct, a map, or a single value (which has no fields).\<close>

datatype tdata = DStruct "(string \<times> tvalue) list" | DMap "(string \<times> tvalue) list" | DValue tvalue

fun printed :: "tvalue \<Rightarrow> string" where
  "printed (VString s) = s"
| "printed (VBool b) = (if b then ''true'' else ''false'')"
| "printed (VInt n) = show_nat n"
| "printed (VStrings ss) = ''['' @ join_with '' '' ss @ '']''"
| "printed VNone = ''<no value>''"

fun is_true :: "tvalue \<Rightarrow> bool" where
  "is_true (VString s) = (s \<noteq> [])"
| "is_true (VBool b) = b"
| "is_true (VInt n) = (n \<noteq> 0)"
| "is_true (VStrings ss) = (ss \<noteq> [])"
| "is_true VNone = False"

fun field_of :: "string \<Rightarrow> tdata \<Rightarrow> tvalue result" where
  "field_of f (DStruct fs) =
     (case map_of fs f of Some v \<Rightarrow> Ok v | None \<Rightarrow> Err (ErrMsg (''template: can't evaluate field '' @ f)))"
| "field_of f (DMap fs) = Ok (case map_of fs f of Some v \<Rightarrow> v | None \<Rightarrow> VNone)"
| "field_of f (DValue v) = Err (ErrMsg (''template: can't evaluate field '' @ f))"

fun operand_value :: "tdata \<Rightarrow> tdata \<Rightarrow> (string \<times> tvalue) list \<Rightarrow> operand \<Rightarrow> tvalue result" where
  "operand_value root d vars (OField f) = field_of f d"
| "operand_value root d vars (ORoot f) = field_of f root"
| "operand_value root d vars (OVar x) =
     (case map_of vars x of Some v \<Rightarrow> Ok v | None \<Rightarrow> Err (ErrMsg (''template: undefined variable '' @ x)))"

fun cond_value :: "tdata \<Rightarrow> tdata \<Rightarrow> (string \<times> tvalue) list \<Rightarrow> tcond \<Rightarrow> bool result" where
  "cond_value root d vars (CValue p) = andThen (operand_value root d vars p) (\<lambda>v. Ok (is_true v))"
| "cond_value root d vars (CPositive p) =
     andThen (operand_value root d vars p) (\<lambda>v.
       case v of VInt n \<Rightarrow> Ok (0 < n) | _ \<Rightarrow> Err (ErrMsg ''template: incompatible types for comparison''))"

definition range_values :: "tvalue \<Rightarrow> string list result" where
  "range_values v = (case v of VStrings ss \<Rightarrow> Ok ss | _ \<Rightarrow> Err (ErrMsg ''template: range can't iterate over the value''))"

definition range_vars :: "string option \<Rightarrow> string \<Rightarrow> nat \<Rightarrow> string \<Rightarrow> (string \<times> tvalue) list \<Rightarrow> (string \<times> tvalue) list" where
  "range_vars i v n x vars = (v, VString x) # (case i of None \<Rightarrow> vars | Some j \<Rightarrow> (j, VInt n) # vars)"

text \<open>The first argument is what happens to the text of a value: nothing in text/template.\<close>

fun exec_node :: "(string \<Rightarrow> string) \<Rightarrow> tdata \<Rightarrow> tdata \<Rightarrow> (string \<times> tvalue) list \<Rightarrow> node \<Rightarrow> string result"
  and exec_nodes :: "(string \<Rightarrow> string) \<Rightarrow> tdata \<Rightarrow> tdata \<Rightarrow> (string \<times> tvalue) list \<Rightarrow> node list \<Rightarrow> string result" where
  "exec_node esc root d vars (NText t) = Ok t"
| "exec_node esc root d vars (NOut p) = andThen (operand_value root d vars p) (\<lambda>v. Ok (esc (printed v)))"
| "exec_node esc root d vars (NIf c ns) =
     andThen (cond_value root d vars c) (\<lambda>b. if b then exec_nodes esc root d vars ns else Ok [])"
| "exec_node esc root d vars (NRange i v p ns) =
     andThen (operand_value root d vars p) (\<lambda>r. andThen (range_values r) (\<lambda>ss.
     andThen (mapOk (\<lambda>(n, x). exec_nodes esc root (DValue (VString x)) (range_vars i v n x vars) ns) (enumerate 0 ss)) (\<lambda>ts.
       Ok (concat ts))))"
| "exec_node esc root d vars (NDefine n ns) = Ok []"
| "exec_nodes esc root d vars [] = Ok []"
| "exec_nodes esc root d vars (n # ns) =
     andThen (exec_node esc root d vars n) (\<lambda>a. andThen (exec_nodes esc root d vars ns) (\<lambda>b. Ok (a @ b)))"

definition template_Execute :: "node list \<Rightarrow> tdata \<Rightarrow> string result" where
  "template_Execute t d = exec_nodes id d d [] t"

fun definitions :: "node list \<Rightarrow> (string \<times> node list) list" where
  "definitions [] = []"
| "definitions (NDefine n ns # t) = (n, ns) # definitions t"
| "definitions (_ # t) = definitions t"

definition ExecuteTemplate :: "node list \<Rightarrow> string \<Rightarrow> tdata \<Rightarrow> string result" where
  "ExecuteTemplate t n d =
     (case map_of (definitions t) n of
        None \<Rightarrow> Err (ErrMsg (''template: no template '' @ n))
      | Some ns \<Rightarrow> template_Execute ns d)"

section \<open>html/template\<close>

text \<open>The table of the replacements in text. A byte of a longer UTF-8 sequence is none of these.\<close>

definition html_escape_char :: "char \<Rightarrow> string" where
  "html_escape_char c =
     (if c = CHR 0x00 then [CHR 0xEF, CHR 0xBF, CHR 0xBD]
      else if c = CHR 0x22 then ''&#34;''
      else if c = CHR ''&'' then ''&amp;''
      else if c = CHR 0x27 then ''&#39;''
      else if c = CHR ''+'' then ''&#43;''
      else if c = CHR ''<'' then ''&lt;''
      else if c = CHR ''>'' then ''&gt;''
      else [c])"

definition html_escape :: "string \<Rightarrow> string" where
  "html_escape s = concat (map html_escape_char s)"

definition html_special :: "char set" where
  "html_special = {CHR 0x00, CHR 0x22, CHR ''&'', CHR 0x27, CHR ''+'', CHR ''<'', CHR ''>''}"

fun in_text_context :: "node \<Rightarrow> bool" where
  "in_text_context (NText t) = (CHR ''<'' \<notin> set t)"
| "in_text_context (NOut p) = True"
| "in_text_context (NIf c ns) = list_all in_text_context ns"
| "in_text_context (NRange i v p ns) = list_all in_text_context ns"
| "in_text_context (NDefine n ns) = list_all in_text_context ns"

definition html_Execute :: "node list \<Rightarrow> tdata \<Rightarrow> string result" where
  "html_Execute t d =
     (if list_all in_text_context t then exec_nodes html_escape d d [] t
      else Err (ErrMsg ''html/template: context not modelled''))"

section \<open>Properties\<close>

lemma html_escape_Nil [simp]: "html_escape [] = []"
  by (simp add: html_escape_def)

lemma html_escape_append [simp]: "html_escape (s @ t) = html_escape s @ html_escape t"
  by (simp add: html_escape_def)

lemma html_escape_char_plain: "c \<notin> html_special \<Longrightarrow> html_escape_char c = [c]"
  by (simp add: html_escape_char_def html_special_def)

lemma html_escape_char_length: "1 \<le> length (html_escape_char c)" "c \<in> html_special \<Longrightarrow> 2 \<le> length (html_escape_char c)"
  by (auto simp: html_escape_char_def html_special_def)

lemma html_escape_length: "length s + length (filter (\<lambda>c. c \<in> html_special) s) \<le> length (html_escape s)"
proof (induction s)
  case (Cons c s)
  have "1 + (if c \<in> html_special then 1 else 0) \<le> length (html_escape_char c)"
    using html_escape_char_length [of c] by (auto simp: numeral_2_eq_2)
  then show ?case using Cons by (auto simp: html_escape_def)
qed simp

text \<open>A text comes through unchanged exactly if it has none of the characters that are replaced.\<close>

lemma html_escape_id: "html_escape s = s \<longleftrightarrow> set s \<inter> html_special = {}"
proof
  assume "html_escape s = s"
  then have "filter (\<lambda>c. c \<in> html_special) s = []" using html_escape_length [of s] by simp
  then show "set s \<inter> html_special = {}" by (auto simp: filter_empty_conv)
next
  assume "set s \<inter> html_special = {}"
  then show "html_escape s = s" by (induction s) (auto simp: html_escape_def html_escape_char_plain)
qed

text \<open>Nothing that a browser would read as markup is left, but for the ampersand of an entity.\<close>

definition html_markup :: "char set" where
  "html_markup = {CHR ''<'', CHR ''>'', CHR ''+'', CHR 0x22, CHR 0x27}"

lemma html_escape_no_markup: "set (html_escape s) \<inter> html_markup = {}"
proof -
  have "set (html_escape_char c) \<inter> html_markup = {}" for c
    by (cases "c \<in> html_special") (auto simp: html_special_def html_markup_def html_escape_char_def)
  then show ?thesis by (auto simp: html_escape_def)
qed

lemma exec_nodes_append:
  "exec_nodes esc root d vars (ns @ ms) =
     andThen (exec_nodes esc root d vars ns) (\<lambda>a. andThen (exec_nodes esc root d vars ms) (\<lambda>b. Ok (a @ b)))"
proof (induction ns)
  case Nil
  then show ?case by (cases "exec_nodes esc root d vars ms") auto
next
  case (Cons n ns)
  then show ?case
    by (cases "exec_node esc root d vars n"; cases "exec_nodes esc root d vars ns"; cases "exec_nodes esc root d vars ms") auto
qed

section \<open>Texts between actions\<close>

text \<open>A text with actions, as a list of the texts with the action that follows each, and the rest.\<close>

fun chunks :: "(string \<times> string) list \<Rightarrow> string \<Rightarrow> string" where
  "chunks [] u = u"
| "chunks ((t, a) # xs) u = t @ CHR ''{'' # CHR ''{'' # a @ CHR ''}'' # CHR ''}'' # chunks xs u"

definition trimmed_text :: "bool \<Rightarrow> bool \<Rightarrow> string \<Rightarrow> string" where
  "trimmed_text left right t = (let t = (if left then trim_spaces_left t else t) in if right then trim_spaces_right t else t)"

definition action_text :: "string \<Rightarrow> string" where
  "action_text a = (let a' = (if left_marker a then tl a else a) in if right_marker a then butlast a' else a')"

fun chunk_tokens :: "bool \<Rightarrow> (string \<times> string) list \<Rightarrow> string \<Rightarrow> token list" where
  "chunk_tokens trimmed [] u = [TText (trimmed_text trimmed False u)]"
| "chunk_tokens trimmed ((t, a) # xs) u =
     TText (trimmed_text trimmed (left_marker a) t) # TAction (action_text a) # chunk_tokens (right_marker a) xs u"

definition plain :: "char \<Rightarrow> string \<Rightarrow> bool" where
  "plain c t = (cut_pair c c t = None \<and> (t \<noteq> [] \<longrightarrow> last t \<noteq> c))"

lemma cut_pair_plain: "plain c t \<Longrightarrow> cut_pair c c (t @ c # c # r) = Some (t, r)"
proof (induction t)
  case (Cons x t)
  have "cut_pair c c (x # t) = None" "last (x # t) \<noteq> c" using Cons.prems by (auto simp: plain_def)
  then have "plain c t" by (auto simp: plain_def split: if_splits)
  moreover have "\<not> (x = c \<and> t @ c # c # r \<noteq> [] \<and> hd (t @ c # c # r) = c)"
    using \<open>cut_pair c c (x # t) = None\<close> \<open>last (x # t) \<noteq> c\<close> by (cases t) (auto split: if_splits)
  ultimately show ?case using Cons.IH by simp
qed simp

lemma plain_Nil [simp]: "plain c []"
  by (simp add: plain_def)

lemma plain_append: "plain c t \<Longrightarrow> plain c u \<Longrightarrow> plain c (t @ u)"
proof (induction t)
  case (Cons x t)
  have x: "cut_pair c c (x # t) = None" "last (x # t) \<noteq> c" using Cons.prems(1) by (auto simp: plain_def)
  then have "plain c t" by (auto simp: plain_def split: if_splits)
  then have "plain c (t @ u)" using Cons by blast
  moreover have "\<not> (x = c \<and> t @ u \<noteq> [] \<and> hd (t @ u) = c)"
    using x by (cases t) (auto split: if_splits)
  moreover have "last (x # t @ u) \<noteq> c" using x Cons.prems(2) by (auto simp: plain_def last_append split: if_splits)
  ultimately show ?case by (simp add: plain_def)
qed simp

lemma plain_free: "c \<notin> set t \<Longrightarrow> plain c t"
  by (induction t) (auto simp: plain_def)

lemma plain_lines: "c \<noteq> nl \<Longrightarrow> list_all (plain c) ls \<Longrightarrow> plain c (lines_text ls)"
proof (induction ls)
  case (Cons l ls)
  then have "plain c (l @ [nl] @ lines_text ls)" by (intro plain_append) (auto intro: plain_free)
  then show ?case by (simp add: lines_text_def)
qed (simp add: lines_text_def)

text \<open>Lexing gets back the texts and the actions, if none of them looks like an end of it.\<close>

lemma lex_chunks:
  "list_all (\<lambda>(t, a). plain (CHR ''{'') t \<and> plain (CHR ''}'') a) xs \<Longrightarrow> plain (CHR ''{'') u
   \<Longrightarrow> lex trimmed (chunks xs u) = Some (chunk_tokens trimmed xs u)"
proof (induction trimmed xs u rule: chunk_tokens.induct)
  case (1 trimmed u)
  then show ?case by (simp add: plain_def trimmed_text_def)
next
  case (2 trimmed t a xs u)
  then have "cut_pair (CHR ''{'') (CHR ''{'') (chunks ((t, a) # xs) u) = Some (t, a @ CHR ''}'' # CHR ''}'' # chunks xs u)"
    "cut_pair (CHR ''}'') (CHR ''}'') (a @ CHR ''}'' # CHR ''}'' # chunks xs u) = Some (a, chunks xs u)"
    "lex (right_marker a) (chunks xs u) = Some (chunk_tokens (right_marker a) xs u)"
    by (auto simp: cut_pair_plain)
  then show ?case
    by (subst lex.simps) (simp add: Let_def trimmed_text_def action_text_def del: chunks.simps lex.simps)
qed

lemma template_Parse_chunks:
  assumes "s = chunks xs u" "list_all (\<lambda>(t, a). plain (CHR ''{'') t \<and> plain (CHR ''}'') a) xs" "plain (CHR ''{'') u"
    and "parse_tokens [] [] (chunk_tokens False xs u) = Some ns"
  shows "template_Parse s = Ok ns"
  using assms by (simp add: template_Parse_def lex_chunks del: lex.simps)

text \<open>A text without actions is a template for itself, whatever the data.\<close>

lemma template_plain:
  assumes "plain (CHR ''{'') s" "s \<noteq> []"
  shows "template_Parse s = Ok [NText s]" "template_Execute [NText s] d = Ok s"
  using assms template_Parse_chunks [of s "[]" s "[NText s]"] by (simp_all add: trimmed_text_def template_Execute_def)

end
