(* ===== verification/Ignition.thy ===== *)
theory Ignition
  imports Install_Config Go_Template
begin

text \<open>
  The bootstrap node's Ignition configuration and the lists it is kept in: pkg/data/bootstrap/util.go.
  Files are replaced by path and units by name. The embedded file systems are trees; the files among them
  that are templates are executed with the data of the call.
\<close>

section \<open>Ignition's types\<close>

record ign_file =
  fi_Path :: string
  fi_User :: "string option"
  fi_Overwrite :: "bool option"
  fi_Mode :: "int option"
  fi_Source :: "string option"
  fi_Append :: "string option list"

record ign_unit =
  un_Name :: string
  un_Enabled :: "bool option"
  un_Contents :: "string option"
  un_Dropins :: "(string \<times> string) list"

record ign_config =
  ig_Version :: string
  ig_Files :: "ign_file list"
  ig_Units :: "ign_unit list"

record bootstrap =
  bs_Config :: ign_config
  bs_Data :: string

record machine_config =
  mc_Name :: string
  mc_Role :: string
  mc_Config :: string

text \<open>
  Libraries: the data URL of a text, the JSON of a configuration, and the YAML of a machine
  configuration.
\<close>

record ign_lib =
  gl_EncodeBytes :: "string \<Rightarrow> string"
  gl_config_json :: "ign_config \<Rightarrow> json"
  gl_yaml_MachineConfig :: "machine_config \<Rightarrow> string result"

text \<open>The installer's helpers: a file with contents owned by a user, and its change into an appendix.\<close>

definition FileFromBytes :: "ign_lib \<Rightarrow> string \<Rightarrow> string \<Rightarrow> int \<Rightarrow> string \<Rightarrow> ign_file" where
  "FileFromBytes l p user mode data =
     \<lparr>fi_Path = p, fi_User = Some user, fi_Overwrite = Some True, fi_Mode = Some mode,
      fi_Source = Some (gl_EncodeBytes l data), fi_Append = []\<rparr>"

definition ConvertToAppendix :: "ign_file \<Rightarrow> ign_file" where
  "ConvertToAppendix f = f\<lparr>fi_Append := [fi_Source f], fi_Source := None, fi_Overwrite := Some False\<rparr>"

definition ignition_Marshal :: "ign_lib \<Rightarrow> ign_config \<Rightarrow> string" where
  "ignition_Marshal l c = print_json (gl_config_json l c)"

section \<open>Lists with keys\<close>

text \<open>
  The contract of the list operations: put an element in the place of the first one that has its key,
  or at the end. What follows from it is proved once, for files by path and for units by name.
\<close>

definition at_key :: "('a \<Rightarrow> 'k) \<Rightarrow> 'k \<Rightarrow> 'a list \<Rightarrow> 'a option" where
  "at_key key k xs = find (\<lambda>x. key x = k) xs"

lemma find_append: "find P (xs @ ys) = (case find P xs of None \<Rightarrow> find P ys | Some x \<Rightarrow> Some x)"
  by (induction xs) auto

locale keyed_list =
  fixes key :: "'a \<Rightarrow> 'k"
    and put :: "'a list \<Rightarrow> 'a \<Rightarrow> 'a list"
  assumes put_Nil: "put [] x = [x]"
    and put_Cons: "put (y # ys) x = (if key y = key x then x # ys else y # put ys x)"
begin

lemma at_key_put: "at_key key k (put xs x) = (if key x = k then Some x else at_key key k xs)"
  by (induction xs) (auto simp: at_key_def put_Nil put_Cons)

lemma keys_put: "map key (put xs x) = (if key x \<in> key ` set xs then map key xs else map key xs @ [key x])"
  by (induction xs) (auto simp: put_Nil put_Cons)

lemma distinct_put: "distinct (map key xs) \<Longrightarrow> distinct (map key (put xs x))"
  by (simp add: keys_put)

lemma put_other: "y \<in> set xs \<Longrightarrow> key y \<noteq> key x \<Longrightarrow> y \<in> set (put xs x)"
  by (induction xs) (auto simp: put_Cons)

lemma put_put: "key x = key y \<Longrightarrow> put (put xs x) y = put xs y"
  by (induction xs) (auto simp: put_Nil put_Cons)

lemma at_key_fold:
  "at_key key k (fold (\<lambda>x xs. put xs x) ys xs) =
     (case find (\<lambda>y. key y = k) (rev ys) of Some y \<Rightarrow> Some y | None \<Rightarrow> at_key key k xs)"
proof (induction ys arbitrary: xs)
  case (Cons y ys)
  have "find (\<lambda>y. key y = k) (rev ys @ [y]) =
      (case find (\<lambda>y. key y = k) (rev ys) of Some z \<Rightarrow> Some z | None \<Rightarrow> if key y = k then Some y else None)"
    by (simp add: find_append split: option.splits)
  then show ?case using Cons.IH [of "put xs y"] by (auto simp: at_key_put split: option.splits)
qed simp

lemma distinct_fold: "distinct (map key xs) \<Longrightarrow> distinct (map key (fold (\<lambda>x xs. put xs x) ys xs))"
  by (induction ys arbitrary: xs) (auto intro: distinct_put)

lemma length_fold: "length xs \<le> length (fold (\<lambda>x xs. put xs x) ys xs)"
proof (induction ys arbitrary: xs)
  case (Cons y ys)
  have "length xs \<le> length (put xs y)" using arg_cong [OF keys_put [of xs y], of length] by (auto split: if_splits)
  then show ?case using Cons.IH [of "put xs y"] by simp
qed simp

end

fun replaceOrAppend :: "ign_file list \<Rightarrow> ign_file \<Rightarrow> ign_file list" where
  "replaceOrAppend [] file = [file]"
| "replaceOrAppend (f # fs) file = (if fi_Path f = fi_Path file then file # fs else f # replaceOrAppend fs file)"

definition ReplaceOrAppend :: "ign_file list \<Rightarrow> ign_file list \<Rightarrow> ign_file list" where
  "ReplaceOrAppend bootstrapFiles file = fold (\<lambda>iff fs. replaceOrAppend fs iff) file bootstrapFiles"

fun replace_unit :: "ign_unit list \<Rightarrow> ign_unit \<Rightarrow> ign_unit list" where
  "replace_unit [] u = [u]"
| "replace_unit (f # fs) u = (if un_Name f = un_Name u then u # fs else f # replace_unit fs u)"

definition ReplaceOrAppendSystemd :: "ign_unit list \<Rightarrow> ign_unit list \<Rightarrow> ign_unit list" where
  "ReplaceOrAppendSystemd bootstrapFiles file = fold (\<lambda>iff fs. replace_unit fs iff) file bootstrapFiles"

interpretation fl: keyed_list fi_Path replaceOrAppend
  by unfold_locales simp_all

interpretation un: keyed_list un_Name replace_unit
  by unfold_locales simp_all

definition AppendMachineConfigToBootstrap :: "ign_lib \<Rightarrow> machine_config \<Rightarrow> bootstrap \<Rightarrow> string \<Rightarrow> bootstrap result" where
  "AppendMachineConfigToBootstrap l mc b p =
     andThen (gl_yaml_MachineConfig l mc) (\<lambda>data.
       Ok (b\<lparr>bs_Config := (bs_Config b)\<lparr>ig_Files :=
              ReplaceOrAppend (ig_Files (bs_Config b)) [FileFromBytes l p ''root'' 420 data]\<rparr>\<rparr>))"

section \<open>Embedded files\<close>

datatype fs_node = FsFile string | FsDir "(string \<times> fs_node) list"

fun fs_lookup :: "fs_node \<Rightarrow> string list \<Rightarrow> fs_node option" where
  "fs_lookup n [] = Some n"
| "fs_lookup (FsFile d) (p # ps) = None"
| "fs_lookup (FsDir es) (p # ps) = (case map_of es p of None \<Rightarrow> None | Some n \<Rightarrow> fs_lookup n ps)"

definition fs_open :: "fs_node \<Rightarrow> string \<Rightarrow> fs_node result" where
  "fs_open assets uri =
     (case fs_lookup assets (split_on slash uri) of
        None \<Rightarrow> Err (ErrMsg (''open '' @ uri @ '': file does not exist''))
      | Some n \<Rightarrow> Ok n)"

definition path_Join :: "string \<Rightarrow> string \<Rightarrow> string" where
  "path_Join a b = (if a = [] then b else if b = [] then a else a @ ''/'' @ b)"

definition path_Dir :: "string \<Rightarrow> string" where
  "path_Dir s = (case last_index_byte s slash of None \<Rightarrow> ''.'' | Some 0 \<Rightarrow> ''/'' | Some i \<Rightarrow> take i s)"

text \<open>A template that does not execute makes the program panic.\<close>

definition applyTemplateData :: "node list \<Rightarrow> tdata \<Rightarrow> string result" where
  "applyTemplateData template templateData =
     (case html_Execute template templateData of Ok t \<Rightarrow> Ok t | _ \<Rightarrow> Panic)"

definition readFile :: "tdata \<Rightarrow> string \<Rightarrow> string \<Rightarrow> (string \<times> string) result" where
  "readFile templateData name data =
     (if suffix ''.template'' name
      then let name' = trim_suffix name ''.template'' in
           andThen (template_Parse data) (\<lambda>tmpl.
           andThen (applyTemplateData tmpl templateData) (\<lambda>t. Ok (name', t)))
      else Ok (name, data))"

definition storage_mode :: "string \<Rightarrow> int \<times> bool" where
  "storage_mode uri =
     (let filename = path_base uri; parentDir = path_base (path_Dir uri) in
      if parentDir = ''bin'' \<or> parentDir = ''dispatcher.d'' then (365, False)
      else if filename = ''motd'' \<or> filename = ''containers.conf'' then (420, True)
      else if filename = ''registries.conf'' then (420, False)
      else (384, False))"

definition storage_file :: "ign_lib \<Rightarrow> string \<Rightarrow> string \<Rightarrow> string \<Rightarrow> ign_file" where
  "storage_file l base uri data =
     (let (mode, appendToFile) = storage_mode uri;
          ign = FileFromBytes l (trim_suffix (''/'' @ base) ''.template'') ''root'' mode data
      in if appendToFile then ConvertToAppendix ign else ign)"

definition add_file :: "ign_lib \<Rightarrow> tdata \<Rightarrow> string \<times> string \<times> string \<Rightarrow> ign_config \<Rightarrow> ign_config result" where
  "add_file l td = (\<lambda>(base, uri, content) c.
     andThen (readFile td (path_base uri) content) (\<lambda>(_, data).
       Ok (c\<lparr>ig_Files := replaceOrAppend (ig_Files c) (storage_file l base uri data)\<rparr>)))"

fun add_node :: "ign_lib \<Rightarrow> tdata \<Rightarrow> string \<Rightarrow> string \<Rightarrow> fs_node \<Rightarrow> ign_config \<Rightarrow> ign_config result"
  and add_children :: "ign_lib \<Rightarrow> tdata \<Rightarrow> string \<Rightarrow> string \<Rightarrow> (string \<times> fs_node) list \<Rightarrow> ign_config \<Rightarrow> ign_config result" where
  "add_node l td base uri (FsFile content) c = add_file l td (base, uri, content) c"
| "add_node l td base uri (FsDir children) c = add_children l td base uri children c"
| "add_children l td base uri [] c = Ok c"
| "add_children l td base uri ((name, n) # cs) c =
     andThen (add_node l td (path_Join base name) (path_Join uri name) n c) (add_children l td base uri cs)"

definition AddStorageFiles ::
  "ign_lib \<Rightarrow> tdata \<Rightarrow> string \<Rightarrow> string \<Rightarrow> fs_node \<Rightarrow> ign_config \<Rightarrow> ign_config result" where
  "AddStorageFiles l td base uri assets c =
     andThen (fs_open assets uri) (\<lambda>n. add_node l td base uri n c)"

section \<open>Systemd units\<close>

text \<open>
  In the branch of a directory the code lists \<open>uri\<close> again, the directory the loop is in, and opens
  each of those names under the child: \<open>siblings\<close> are the entries of \<open>uri\<close>, \<open>own\<close> the child's.
\<close>

definition read_dropins ::
  "tdata \<Rightarrow> string \<Rightarrow> (string \<times> fs_node) list \<Rightarrow> (string \<times> fs_node) list \<Rightarrow> (string \<times> string) list result" where
  "read_dropins td dir siblings own =
     mapOk (\<lambda>(name, _).
       case map_of own name of
         None \<Rightarrow> Err (ErrMsg (''open '' @ path_Join dir name @ '': file does not exist''))
       | Some (FsDir es) \<Rightarrow> Err (ErrMsg (''read '' @ path_Join dir name @ '': is a directory''))
       | Some (FsFile content) \<Rightarrow> readFile td name content) siblings"

definition enabled_unit :: "string list \<Rightarrow> string \<Rightarrow> bool option" where
  "enabled_unit enabledServices name = (if name \<in> set enabledServices then Some True else None)"

definition add_unit ::
  "tdata \<Rightarrow> string \<Rightarrow> string list \<Rightarrow> (string \<times> fs_node) list \<Rightarrow> string \<times> fs_node \<Rightarrow> ign_config \<Rightarrow> ign_config result" where
  "add_unit td uri enabledServices siblings = (\<lambda>(childName, n) c.
     (case n of
        FsDir own \<Rightarrow>
          if \<not> suffix ''.d'' childName then Ok c
          else
            andThen (read_dropins td (path_Join uri childName) siblings own) (\<lambda>dropins.
              let name = trim_suffix childName ''.d'' in
              Ok (c\<lparr>ig_Units := ig_Units c @ [\<lparr>un_Name = name, un_Enabled = enabled_unit enabledServices name,
                     un_Contents = None, un_Dropins = dropins\<rparr>]\<rparr>))
      | FsFile content \<Rightarrow>
          andThen (readFile td childName content) (\<lambda>(name, data).
            Ok (c\<lparr>ig_Units := ig_Units c @ [\<lparr>un_Name = name, un_Enabled = enabled_unit enabledServices name,
                   un_Contents = Some data, un_Dropins = []\<rparr>]\<rparr>))))"

definition AddSystemdUnits ::
  "tdata \<Rightarrow> string \<Rightarrow> string list \<Rightarrow> fs_node \<Rightarrow> ign_config \<Rightarrow> ign_config result" where
  "AddSystemdUnits td uri enabledServices assets c =
     andThen (fs_open assets uri) (\<lambda>n.
       case n of
         FsFile d \<Rightarrow> Err (ErrMsg (''read '' @ uri @ '': not a directory''))
       | FsDir children \<Rightarrow> foldOk (add_unit td uri enabledServices children) children c)"

section \<open>Properties\<close>

text \<open>The files of a tree, depth first, with the paths they get.\<close>

fun leaves :: "string \<Rightarrow> string \<Rightarrow> fs_node \<Rightarrow> (string \<times> string \<times> string) list"
  and leaves_of :: "string \<Rightarrow> string \<Rightarrow> (string \<times> fs_node) list \<Rightarrow> (string \<times> string \<times> string) list" where
  "leaves base uri (FsFile content) = [(base, uri, content)]"
| "leaves base uri (FsDir children) = leaves_of base uri children"
| "leaves_of base uri [] = []"
| "leaves_of base uri ((name, n) # cs) = leaves (path_Join base name) (path_Join uri name) n @ leaves_of base uri cs"

lemma foldOk_none: "foldOk f [] = Ok"
  by (rule ext) simp

lemma add_node_leaves:
  "add_node l td base uri n c = foldOk (add_file l td) (leaves base uri n) c"
  "add_children l td base uri cs c = foldOk (add_file l td) (leaves_of base uri cs) c"
  by (induction l td base uri n c and l td base uri cs c rule: add_node_add_children.induct)
    (auto simp: foldOk_append foldOk_none intro!: arg_cong [of _ _ "andThen _"])

lemma storage_file_path [simp]: "fi_Path (storage_file l base uri d) = trim_suffix (''/'' @ base) ''.template''"
  by (simp add: storage_file_def FileFromBytes_def ConvertToAppendix_def Let_def split: prod.splits)

lemma add_files_paths:
  "foldOk (add_file l td) ls c = Ok c' \<Longrightarrow>
   set (map fi_Path (ig_Files c')) = set (map fi_Path (ig_Files c)) \<union> (\<lambda>(b, u, d). trim_suffix (''/'' @ b) ''.template'') ` set ls
   \<and> (distinct (map fi_Path (ig_Files c)) \<longrightarrow> distinct (map fi_Path (ig_Files c')))
   \<and> ig_Units c' = ig_Units c \<and> ig_Version c' = ig_Version c"
proof (induction ls arbitrary: c)
  case (Cons x ls)
  obtain b u d where x: "x = (b, u, d)" by (cases x)
  from Cons.prems obtain c1 where c1: "add_file l td x c = Ok c1" "foldOk (add_file l td) ls c1 = Ok c'"
    by (auto simp: outcome_simps)
  then obtain t where t: "c1 = c\<lparr>ig_Files := replaceOrAppend (ig_Files c) (storage_file l b u t)\<rparr>"
    by (auto simp: add_file_def x outcome_simps)
  have "set (map fi_Path (ig_Files c1)) = insert (trim_suffix (''/'' @ b) ''.template'') (set (map fi_Path (ig_Files c)))"
    unfolding t using fl.keys_put [of "ig_Files c" "storage_file l b u t"] by (simp add: insert_absorb)
  moreover have "distinct (map fi_Path (ig_Files c)) \<longrightarrow> distinct (map fi_Path (ig_Files c1))"
    unfolding t using fl.distinct_put by simp
  ultimately show ?case using Cons.IH [OF c1(2)] t by (auto simp: x)
qed simp

lemma at_key_ReplaceOrAppend:
  "at_key fi_Path p (ReplaceOrAppend fs new) =
     (case find (\<lambda>f. fi_Path f = p) (rev new) of Some f \<Rightarrow> Some f | None \<Rightarrow> at_key fi_Path p fs)"
  unfolding ReplaceOrAppend_def by (rule fl.at_key_fold)

text \<open>Replacing files by path: afterwards the file at a path is the last of the new ones with that path, or
  the old one if there is none; no file is lost, and paths that were distinct stay distinct. The same
  holds for units by name.\<close>

theorem ReplaceOrAppend_last_wins:
  "at_key fi_Path p (ReplaceOrAppend fs new) =
     (case find (\<lambda>f. fi_Path f = p) (rev new) of Some f \<Rightarrow> Some f | None \<Rightarrow> at_key fi_Path p fs)
   \<and> (distinct (map fi_Path fs) \<longrightarrow> distinct (map fi_Path (ReplaceOrAppend fs new)))
   \<and> at_key un_Name n (ReplaceOrAppendSystemd us newu) =
     (case find (\<lambda>u. un_Name u = n) (rev newu) of Some u \<Rightarrow> Some u | None \<Rightarrow> at_key un_Name n us)
   \<and> (distinct (map un_Name us) \<longrightarrow> distinct (map un_Name (ReplaceOrAppendSystemd us newu)))"
  by (intro conjI impI at_key_ReplaceOrAppend)
    (simp_all add: ReplaceOrAppend_def ReplaceOrAppendSystemd_def un.at_key_fold fl.distinct_fold un.distinct_fold)

definition demo_file :: "string \<Rightarrow> string \<Rightarrow> ign_file" where
  "demo_file p d = \<lparr>fi_Path = p, fi_User = None, fi_Overwrite = None, fi_Mode = None, fi_Source = Some d, fi_Append = []\<rparr>"

lemma ReplaceOrAppend_last_wins_witness:
  "at_key fi_Path ''/b'' (ReplaceOrAppend [demo_file ''/a'' ''1'', demo_file ''/b'' ''2''] [demo_file ''/b'' ''3'', demo_file ''/c'' ''4'', demo_file ''/b'' ''5'']) = Some (demo_file ''/b'' ''5'')
   \<and> distinct (map fi_Path (ReplaceOrAppend [demo_file ''/a'' ''1'', demo_file ''/b'' ''2''] [demo_file ''/b'' ''3'', demo_file ''/c'' ''4'', demo_file ''/b'' ''5'']))"
  using ReplaceOrAppend_last_wins [where p = "''/b''" and fs = "[demo_file ''/a'' ''1'', demo_file ''/b'' ''2'']"
      and new = "[demo_file ''/b'' ''3'', demo_file ''/c'' ''4'', demo_file ''/b'' ''5'']" and n = "[]" and us = "[]" and newu = "[]"]
  by (simp add: demo_file_def)

text \<open>Adding a tree of embedded files is adding its files one by one, depth first: on success the paths
  of the configuration are the old ones and one for each file of the tree, without the template
  suffix, none of them twice if none was, and the units are untouched.\<close>

theorem AddStorageFiles_paths:
  assumes "AddStorageFiles l td base uri assets c = Ok c'"
  shows "\<exists>n. fs_open assets uri = Ok n \<and>
    set (map fi_Path (ig_Files c')) =
      set (map fi_Path (ig_Files c)) \<union> (\<lambda>(b, u, d). trim_suffix (''/'' @ b) ''.template'') ` set (leaves base uri n)
    \<and> (distinct (map fi_Path (ig_Files c)) \<longrightarrow> distinct (map fi_Path (ig_Files c')))
    \<and> ig_Units c' = ig_Units c"
proof -
  obtain n where "fs_open assets uri = Ok n" "foldOk (add_file l td) (leaves base uri n) c = Ok c'"
    using assms by (auto simp: AddStorageFiles_def outcome_simps add_node_leaves)
  then show ?thesis using add_files_paths by blast
qed

definition demo_tree :: fs_node where
  "demo_tree = FsDir [(''etc'', FsDir [(''motd'', FsFile ''hello''), (''a.template'', FsFile ''{{ .X }}'')])]"

definition demo_ign_lib :: ign_lib where
  "demo_ign_lib = \<lparr>gl_EncodeBytes = (\<lambda>t. ''data:,'' @ t), gl_config_json = (\<lambda>c. JObj []), gl_yaml_MachineConfig = (\<lambda>c. Ok (mc_Name c))\<rparr>"

definition empty_config :: ign_config where
  "empty_config = \<lparr>ig_Version = ''3.2.0'', ig_Files = [], ig_Units = []\<rparr>"

theorem AddStorageFiles_paths_witness:
  "\<exists>c'. AddStorageFiles demo_ign_lib (DStruct [(''X'', VString ''x'')]) ''etc'' ''etc'' demo_tree empty_config = Ok c'
     \<and> set (map fi_Path (ig_Files c')) = {''/etc/motd'', ''/etc/a''}"
proof -
  have "isOk (AddStorageFiles demo_ign_lib (DStruct [(''X'', VString ''x'')]) ''etc'' ''etc'' demo_tree empty_config)" by code_simp
  then obtain c' where r: "AddStorageFiles demo_ign_lib (DStruct [(''X'', VString ''x'')]) ''etc'' ''etc'' demo_tree empty_config = Ok c'"
    by (cases "AddStorageFiles demo_ign_lib (DStruct [(''X'', VString ''x'')]) ''etc'' ''etc'' demo_tree empty_config") auto
  have t: "trim_suffix ''/etc/a.template'' ''.template'' = ''/etc/a''" "trim_suffix ''/etc/motd'' ''.template'' = ''/etc/motd''"
    by code_simp+
  from AddStorageFiles_paths [OF r] r t show ?thesis
    by (auto simp: fs_open_def demo_tree_def empty_config_def path_Join_def)
qed

text \<open>A directory of drop-ins makes \<open>AddSystemdUnits\<close> fail: for each entry next to the directory it opens
  that name inside the directory, so unless every name next to it, its own included, also stands in
  it the call returns an error.\<close>

theorem dropins_read_siblings:
  assumes "fs_open assets uri = Ok (FsDir children)" "(d, FsDir own) \<in> set children" "suffix ''.d'' d"
    and "name \<in> fst ` set children" "map_of own name = None"
  shows "\<not> isOk (AddSystemdUnits td uri enabled assets c)"
proof -
  have miss: "\<not> isOk (read_dropins td dir children own)" for dir
  proof
    assume "isOk (read_dropins td dir children own)"
    then obtain ds where m: "read_dropins td dir children own = Ok ds"
      by (cases "read_dropins td dir children own") auto
    obtain t where "(name, t) \<in> set children" using assms(4) by force
    then obtain i where "i < length children" "children ! i = (name, t)" by (auto simp: in_set_conv_nth)
    with mapOk_Ok_nth [OF m [unfolded read_dropins_def]] assms(5) show False by fastforce
  qed
  have fail: "\<not> isOk (add_unit td uri enabled children (d, FsDir own) c)" for c
    using miss [of "path_Join uri d"] assms(3)
    by (cases "read_dropins td (path_Join uri d) children own") (auto simp: add_unit_def)
  obtain us vs where ch: "children = us @ (d, FsDir own) # vs" using assms(2) by (meson split_list)
  have "\<not> isOk (foldOk (add_unit td uri enabled children) (us @ (d, FsDir own) # vs) c)"
  proof (cases "foldOk (add_unit td uri enabled children) us c")
    case (Ok c1)
    then show ?thesis using fail [of c1]
      by (cases "add_unit td uri enabled children (d, FsDir own) c1") (auto simp: foldOk_append)
  qed (simp_all add: foldOk_append)
  then show ?thesis using assms(1) by (simp add: AddSystemdUnits_def flip: ch)
qed

definition dropin_tree :: fs_node where
  "dropin_tree = FsDir [(''units'', FsDir [(''a.service'', FsFile ''[Unit]''), (''a.service.d'', FsDir [(''10.conf'', FsFile ''x'')])])]"

theorem dropins_read_siblings_witness:
  "\<not> isOk (AddSystemdUnits (DValue VNone) ''units'' [] dropin_tree empty_config)"
proof (rule dropins_read_siblings)
  show "fs_open dropin_tree ''units'' =
      Ok (FsDir [(''a.service'', FsFile ''[Unit]''), (''a.service.d'', FsDir [(''10.conf'', FsFile ''x'')])])"
    by (simp add: fs_open_def dropin_tree_def)
  show "(''a.service.d'', FsDir [(''10.conf'', FsFile ''x'')])
      \<in> set [(''a.service'', FsFile ''[Unit]''), (''a.service.d'', FsDir [(''10.conf'', FsFile ''x'')])]" by simp
  show "suffix ''.d'' ''a.service.d''" by code_simp
  show "''a.service'' \<in> fst ` set [(''a.service'', FsFile ''[Unit]''), (''a.service.d'', FsDir [(''10.conf'', FsFile ''x'')])]" by simp
  show "map_of [(''10.conf'', FsFile ''x'')] ''a.service'' = None" by simp
qed

end
