(* ===== verification/Expected_Files.thy ===== *)
theory Expected_Files
  imports Go_Template
begin

text \<open>
  The files and units that the repository expects of a customised bootstrap configuration
  (pkg/installer/storage_files_testdata.go, systemd_files_testdata.go, and the lists of custominstallconfig_test.go). The texts
  of the four machine configurations and of the DNS, which the library for YAML writes, are not repeated here.
\<close>

section \<open>storage_files_testdata.go\<close>

text \<open>Three of the texts have a part that differs from run to run, for which the data has \<open>test\<close> and which the repository's test
  replaces by \<open>test\<close> before it compares: the secret of the image registry and the contents of the two
  user-data secrets. They are arguments here.\<close>

definition expected_dnsmasq_conf :: string where
  \<open>expected_dnsmasq_conf =
     lines_text
       [[], ''resolv-file=/etc/resolv.conf.dnsmasq'', ''dns-forward-max=10000'',
        ''address=/api.test-cluster.test.example.com/203.0.113.1'',
        ''address=/api-int.test-cluster.test.example.com/203.0.113.1'',
        ''address=/.apps.test-cluster.test.example.com/192.0.2.1'',
        ''address=/gateway.mock1.example.com/203.0.113.2'',
        ''address=/gateway.mock2.example.com/203.0.113.2'', ''user=dnsmasq'', ''group=dnsmasq'', ''no-hosts'',
        ''cache-size=0'']\<close>

definition expected_journal_conf :: string where
  \<open>expected_journal_conf =
     lines_text
       [''[INPUT]'', [tab] @ ''Name systemd'', [tab] @ ''Tag journald'',
        [tab] @ ''DB /var/lib/fluent/journald'', [], ''[FILTER]'', [tab] @ ''Name modify'',
        [tab] @ ''Match journald'', [tab] @ ''Remove_wildcard _'', [tab] @ ''Remove TIMESTAMP'',
        [tab] @ ''Remove SYSLOG_FACILITY'', [], ''[OUTPUT]'', [tab] @ ''Name forward'',
        [tab] @ ''Port 24224'']\<close>

definition expected_aro_conf :: string where
  \<open>expected_aro_conf =
     lines_text
       [''203.0.113.1'' @ [tab] @ ''api.test-cluster.test.example.com api-int.test-cluster.test.example.com'',
        ''203.0.113.2'' @ [tab] @ ''gateway.mock1.example.com gateway.mock2.example.com'']\<close>

definition expected_mdsd_env :: string where
  \<open>expected_mdsd_env =
     lines_text
       [''MONITORING_GCS_ENVIRONMENT=test-logging-environment'',
        ''MONITORING_GCS_ACCOUNT=test-logging-account'', ''MONITORING_GCS_REGION=centralus'',
        ''MONITORING_GCS_CERT_CERTFILE=/etc/mdsd.d/secret/mdsdcert.pem'',
        ''MONITORING_GCS_CERT_KEYFILE=/etc/mdsd.d/secret/mdsdcert.pem'',
        ''MONITORING_GCS_NAMESPACE=test-logging-namespace'', ''MONITORING_CONFIG_VERSION=42'',
        ''MONITORING_USE_GENEVA_CONFIG_SERVICE=true'', ''MONITORING_TENANT=centralus'',
        ''MONITORING_ROLE=cluster'', ''MONITORING_ROLE_INSTANCE=bootstrap'',
        ''RESOURCE_ID=test-cluster-resource-id'', ''SUBSCRIPTION_ID=test-subscription'',
        ''RESOURCE_GROUP=test-resource-group'', ''RESOURCE_NAME=test-logging-resource'']\<close>

definition expected_mdsdcert :: string where
  \<open>expected_mdsdcert =
     lines_text
       [''# This is not a real private key'', ''# This is not a real certificate'']\<close>

definition expected_fluentbit :: string where
  \<open>expected_fluentbit =
     lines_text
       [''FLUENTIMAGE=registry.example.com/fluentbit:latest'']\<close>

definition expected_mdsd :: string where
  \<open>expected_mdsd =
     lines_text
       [''MDSDIMAGE=registry.example.com/mdsd:latest'']\<close>

definition expected_imageregistry :: "string \<Rightarrow> string" where
  \<open>expected_imageregistry secret =
     lines_text
       [''apiVersion: imageregistry.operator.openshift.io/v1'', ''kind: Config'', ''metadata:'',
        ''  finalizers:'', ''  - imageregistry.operator.openshift.io/finalizer'', ''  name: cluster'',
        ''spec:'', ''  httpSecret: "'' @ secret @ ''"'', ''  managementState: Managed'', ''  replicas: 2'',
        ''  storage:'', ''    azure:'', ''      accountName: "test-image-registry-storage-acct"'',
        ''      container: "image-registry"'', ''      cloudName: "AzurePublicCloud"'',
        ''    managementState: Unmanaged'']\<close>

definition expected_ingress_service :: string where
  \<open>expected_ingress_service =
     lines_text
       [''apiVersion: v1'', ''kind: Service'', ''metadata:'', ''  name: router-default'',
        ''  namespace: openshift-ingress'', ''  annotations:'',
        ''    service.beta.kubernetes.io/azure-load-balancer-internal: ""'',
        ''    service.beta.kubernetes.io/azure-load-balancer-ipv4: "192.0.2.1"'', ''  labels:'',
        ''    app: router'',
        ''    ingresscontroller.operator.openshift.io/owning-ingresscontroller: default'', ''spec:'',
        ''  externalTrafficPolicy: Local'', ''  ports:'', ''  - name: http'', ''    port: 80'',
        ''    protocol: TCP'', ''    targetPort: http'', ''  - name: https'', ''    port: 443'',
        ''    protocol: TCP'', ''    targetPort: https'', ''  selector:'',
        ''    ingresscontroller.operator.openshift.io/deployment-ingresscontroller: default'',
        ''  type: LoadBalancer'']\<close>

definition expected_mtu :: string where
  \<open>expected_mtu =
     lines_text
       [''#!/bin/bash'', [], ''if [ "$1" == "eth0" ] && [ "$2" == "up" ]; then'',
        ''    ip link set $1 mtu 3900''] @ ''fi''\<close>

definition expected_ingress_namespace :: string where
  \<open>expected_ingress_namespace =
     lines_text
       [''apiVersion: v1'', ''kind: Namespace'', ''metadata:'', ''  name: openshift-ingress'']\<close>

definition expected_prescript :: string where
  \<open>expected_prescript =
     lines_text
       [[], ''#!/bin/bash'', ''set -euo pipefail'', [],
        ''# This bash script is a part of the ARO DnsMasq configuration'',
        ''# It's deployed as part of the 99-aro-dns-* machine config'',
        ''# See https://github.com/Azure/ARO-RP'', [],
        ''# This file can be rerun and the effect is idempotent, output might change if the DHCP configuration changes'',
        [], ''NODEIP=$(/sbin/ip --json route get 168.63.129.16 | /bin/jq -r ".[].prefsrc")'', [],
        ''if [ "$NODEIP" != "" ]; then'', ''    /bin/cp -Z /etc/resolv.conf /etc/resolv.conf.dnsmasq'',
        ''    SEARCHDOMAIN=$(awk '/^search/ { print $2; }' /etc/resolv.conf.dnsmasq)'',
        ''    /bin/chmod 0744 /etc/resolv.conf.dnsmasq'', [],
        ''    cat <<EOF | /bin/tee /etc/NetworkManager/conf.d/aro-dns.conf'', ''# Added by dnsmasq.service'',
        ''[global-dns]'', ''searches=$SEARCHDOMAIN'', [], ''[global-dns-domain-*]'', ''servers=$NODEIP'',
        ''EOF'', [], ''    # network manager may already be running at this point.'',
        ''    # reload to update /etc/resolv.conf with this configuration'',
        ''    /usr/bin/nmcli general reload conf'', ''    /usr/bin/nmcli general reload dns-rc'', ''fi'']\<close>

definition expected_resolver_script :: string where
  \<open>expected_resolver_script =
     lines_text
       [''#!/bin/bash'', ''set -uo pipefail'', [], ''trap 'jobs -p | xargs kill || true; wait; exit 0' TERM'',
        [], ''OPENSHIFT_MARKER="openshift-aro-etchosts-resolver"'', ''HOSTS_FILE="/etc/hosts"'',
        ''CONFIG_FILE="/etc/hosts.d/aro.conf"'', ''TEMP_FILE="/etc/hosts.d/aro.tmp"'', [],
        ''# Make a temporary file with the old hosts file's data.'',
        ''if ! cp -f "${HOSTS_FILE}" "${TEMP_FILE}"; then'',
        ''  echo "Failed to preserve hosts file. Exiting."'', ''  exit 1'', ''fi'', [],
        ''if ! sed --silent "/# ${OPENSHIFT_MARKER}/d; w ${TEMP_FILE}" "${HOSTS_FILE}"; then'',
        ''  # Only continue rebuilding the hosts entries if its original content is preserved'',
        ''  sleep 60 & wait'', ''  continue'', ''fi'', [], ''while IFS= read -r line; do'',
        ''    echo "${line} # ${OPENSHIFT_MARKER}" >> "${TEMP_FILE}"'', ''done < "${CONFIG_FILE}"'', [],
        ''# Replace /etc/hosts with our modified version if needed'',
        ''cmp "${TEMP_FILE}" "${HOSTS_FILE}" || cp -f "${TEMP_FILE}" "${HOSTS_FILE}"'',
        ''# TEMP_FILE is not removed to avoid file create/delete and attributes copy churn'']\<close>

definition expected_master_user_data :: "string \<Rightarrow> string" where
  \<open>expected_master_user_data content =
     lines_text
       [''apiVersion: v1'', ''kind: Secret'', ''metadata:'', ''  name: master-user-data'',
        ''  namespace: openshift-machine-api'', ''type: Opaque'', ''data:'',
        ''  disableTemplating: "dHJ1ZQo="'', ''  userData: '' @ content]\<close>

definition expected_worker_user_data :: "string \<Rightarrow> string" where
  \<open>expected_worker_user_data content =
     lines_text
       [''apiVersion: v1'', ''kind: Secret'', ''metadata:'', ''  name: worker-user-data'',
        ''  namespace: openshift-machine-api'', ''type: Opaque'', ''data:'',
        ''  disableTemplating: "dHJ1ZQo="'', ''  userData: '' @ content]\<close>

section \<open>systemd_files_testdata.go\<close>

definition expected_resolver_service :: string where
  \<open>expected_resolver_service =
     lines_text
       [''[Unit]'', ''Description=One shot service that appends static domains to etchosts'',
        ''Before=network-online.target'', [], ''[Service]'',
        ''# ExecStart will copy the hosts defined in /etc/hosts.d/aro.conf to /etc/hosts'',
        ''ExecStart=/bin/bash /usr/local/bin/aro-etchosts-resolver.sh'', [], ''[Install]'',
        ''WantedBy=multi-user.target'']\<close>

definition expected_fluentbit_service :: string where
  \<open>expected_fluentbit_service =
     lines_text
       [''[Unit]'', ''After=network-online.target'', ''StartLimitIntervalSec=0'', [], ''[Service]'',
        ''RestartSec=1s'', ''EnvironmentFile=/etc/sysconfig/fluentbit'',
        ''ExecStartPre=-/bin/podman rm -f fluent-journal'', ''ExecStartPre=-/bin/podman pull $FLUENTIMAGE'',
        ''ExecStartPre=-mkdir -p /var/lib/fluent'', ''ExecStart=/bin/podman run '' @ [CHR 0x5C],
        ''  --entrypoint /opt/td-agent-bit/bin/td-agent-bit '' @ [CHR 0x5C], ''  --net=host '' @ [CHR 0x5C],
        ''  --hostname bootstrap '' @ [CHR 0x5C], ''  --name fluent-journal '' @ [CHR 0x5C],
        ''  --rm '' @ [CHR 0x5C],
        ''  -v /etc/fluentbit/journal.conf:/etc/fluentbit/journal.conf '' @ [CHR 0x5C],
        ''  -v /var/lib/fluent:/var/lib/fluent:z '' @ [CHR 0x5C],
        ''  -v /var/log/journal:/var/log/journal:z,ro '' @ [CHR 0x5C],
        ''  -v /etc/machine-id:/etc/machine-id:ro '' @ [CHR 0x5C], ''  $FLUENTIMAGE '' @ [CHR 0x5C],
        ''  -c /etc/fluentbit/journal.conf'', [], ''ExecStop=/bin/podman stop %N'', ''Restart=always'', [],
        ''[Install]'', ''WantedBy=multi-user.target'']\<close>

definition expected_mdsd_service :: string where
  \<open>expected_mdsd_service =
     lines_text
       [''[Unit]'', ''After=network-online.target'', ''StartLimitIntervalSec=0'', [], ''[Service]'',
        ''RestartSec=1s'', ''EnvironmentFile=/etc/sysconfig/mdsd'', ''ExecStartPre=-/bin/podman rm -f %N'',
        ''ExecStartPre=-mkdir /var/run/mdsd'', ''ExecStartPre=-/bin/podman pull $MDSDIMAGE'',
        ''ExecStart=/bin/podman run '' @ [CHR 0x5C], ''  --entrypoint /usr/sbin/mdsd '' @ [CHR 0x5C],
        ''  --net=host '' @ [CHR 0x5C], ''  --name mdsd '' @ [CHR 0x5C],
        ''  --env-file /etc/mdsd.d/mdsd.env '' @ [CHR 0x5C], ''  --rm '' @ [CHR 0x5C],
        ''  -v /etc/mdsd.d/:/etc/mdsd.d/:z '' @ [CHR 0x5C],
        ''  -v /var/run/mdsd:/var/run/mdsd:z '' @ [CHR 0x5C], ''  $MDSDIMAGE '' @ [CHR 0x5C],
        ''  -A -D -f 24224 -r /var/run/mdsd/default'', [], ''ExecStop=/bin/podman stop %N'',
        ''Restart=always'', [], ''[Install]'', ''WantedBy=multi-user.target'']\<close>

definition expected_dnsmasq_service :: string where
  \<open>expected_dnsmasq_service =
     lines_text
       [[], ''[Unit]'', ''Description=DNS caching server.'', ''After=network-online.target'',
        ''Before=bootkube.service'', [], ''[Service]'',
        ''# ExecStartPre will create a copy of the customer current resolv.conf file and make it upstream DNS.'',
        ''# This file is a product of user DNS settings on the VNET. We will replace this file to point to'',
        ''# dnsmasq instance on the node. dnsmasq will inject certain dns records we need and forward rest of the queries to'',
        ''# resolv.conf.dnsmasq upstream customer dns.'',
        ''ExecStartPre=/bin/bash /usr/local/bin/aro-dnsmasq-pre.sh'', ''ExecStart=/usr/sbin/dnsmasq -k'',
        ''ExecStopPost=/bin/bash -c '/bin/rm /etc/NetworkManager/conf.d/aro-dns.conf && /usr/bin/nmcli general reload conf && /usr/bin/nmcli general reload dns-rc'' @ [CHR 0x27],
        ''Restart=always'', ''StandardOutput=journal+console'', ''StandardError=journal+console'', [],
        ''[Install]'', ''WantedBy=multi-user.target'']\<close>

definition expected_worker_registries :: string where
  \<open>expected_worker_registries =
     lines_text
       [''apiVersion: machineconfiguration.openshift.io/v1'', ''kind: MachineConfig'', ''metadata:'',
        ''  labels:'', ''    machineconfiguration.openshift.io/role: worker'',
        ''  name: 90-aro-worker-registries'', ''spec:'', ''  config:'', ''    ignition:'',
        ''      version: 2.2.0'', ''    storage:'', ''      files:'', ''      - contents:'',
        ''          source: "data:text/plain,unqualified-search-registries%20%3D%20%5B%22registry.access.redhat.com%22%2C%20%22docker.io%22%5D%0A%0A%5B%5Bregistry%5D%5D%0A%20%20prefix%20%3D%20%22%22%0A%20%20location%20%3D%20%22quay.io%2Fopenshift-release-dev%2Focp-release%22%0A%20%20mirror-by-digest-only%20%3D%20true%0A%0A%20%20%5B%5Bregistry.mirror%5D%5D%0A%20%20%20%20location%20%3D%20%22registry.example.com%2Fopenshift-release-dev%2Focp-release%22%0A%0A%5B%5Bregistry%5D%5D%0A%20%20prefix%20%3D%20%22%22%0A%20%20location%20%3D%20%22quay.io%2Fopenshift-release-dev%2Focp-release-nightly%22%0A%20%20mirror-by-digest-only%20%3D%20true%0A%0A%20%20%5B%5Bregistry.mirror%5D%5D%0A%20%20%20%20location%20%3D%20%22registry.example.com%2Fopenshift-release-dev%2Focp-release-nightly%22%0A%0A%5B%5Bregistry%5D%5D%0A%20%20prefix%20%3D%20%22%22%0A%20%20location%20%3D%20%22quay.io%2Fopenshift-release-dev%2Focp-v4.0-art-dev%22%0A%20%20mirror-by-digest-only%20%3D%20true%0A%0A%20%20%5B%5Bregistry.mirror%5D%5D%0A%20%20%20%20location%20%3D%20%22registry.example.com%2Fopenshift-release-dev%2Focp-v4.0-art-dev%22%0A"'',
        ''        filesystem: root'', ''        mode: 420'',
        ''        path: /etc/containers/registries.conf'']\<close>

section \<open>By path and by name\<close>

text \<open>The lists of names that the test goes through (custominstallconfig_test.go).\<close>

definition expectedBootstrapStorageFileList :: "string list" where
  "expectedBootstrapStorageFileList =
     [''/etc/fluentbit/journal.conf'', ''/etc/sysconfig/fluentbit'', ''/etc/mdsd.d/mdsd.env'',
      ''/etc/mdsd.d/secret/mdsdcert.pem'', ''/etc/sysconfig/mdsd'', ''/etc/dnsmasq.conf'',
      ''/usr/local/bin/aro-dnsmasq-pre.sh'', ''/etc/NetworkManager/dispatcher.d/30-eth0-mtu-3900'',
      ''/etc/hosts.d/aro.conf'', ''/usr/local/bin/aro-etchosts-resolver.sh'',
      ''/opt/openshift/manifests/aro-imageregistry.yaml'',
      ''/opt/openshift/openshift/99_openshift-machineconfig_99-master-aro-dns.yaml'',
      ''/opt/openshift/openshift/99_openshift-machineconfig_99-master-aro-etc-hosts-gateway-domains.yaml'',
      ''/opt/openshift/openshift/99_openshift-machineconfig_99-worker-aro-dns.yaml'',
      ''/opt/openshift/openshift/99_openshift-machineconfig_99-worker-aro-etc-hosts-gateway-domains.yaml'',
      ''/opt/openshift/manifests/aro-ingress-namespace.yaml'', ''/opt/openshift/manifests/aro-ingress-service.yaml'',
      ''/opt/openshift/manifests/aro-worker-registries.yaml'', ''/opt/openshift/manifests/cluster-dns-02-config.yml'',
      ''/opt/openshift/openshift/99_openshift-cluster-api_master-user-data-secret.yaml'',
      ''/opt/openshift/openshift/99_openshift-cluster-api_worker-user-data-secret.yaml'']"

definition expectedBootstrapSystemdFileList :: "string list" where
  "expectedBootstrapSystemdFileList = [''fluentbit.service'', ''mdsd.service'', ''aro-etchosts-resolver.service'', ''dnsmasq.service'']"

text \<open>The files of the first list whose texts do not go through the libraries for YAML and JSON: all but that of the DNS
  and the four of machine configurations.\<close>

definition expected_files :: "string \<Rightarrow> string \<Rightarrow> string \<Rightarrow> (string \<times> string) list" where
  "expected_files secret masterData workerData =
     [(''/etc/fluentbit/journal.conf'', expected_journal_conf),
      (''/etc/sysconfig/fluentbit'', expected_fluentbit),
      (''/etc/mdsd.d/mdsd.env'', expected_mdsd_env),
      (''/etc/mdsd.d/secret/mdsdcert.pem'', expected_mdsdcert),
      (''/etc/sysconfig/mdsd'', expected_mdsd),
      (''/etc/dnsmasq.conf'', expected_dnsmasq_conf),
      (''/usr/local/bin/aro-dnsmasq-pre.sh'', expected_prescript),
      (''/etc/NetworkManager/dispatcher.d/30-eth0-mtu-3900'', expected_mtu),
      (''/etc/hosts.d/aro.conf'', expected_aro_conf),
      (''/usr/local/bin/aro-etchosts-resolver.sh'', expected_resolver_script),
      (''/opt/openshift/manifests/aro-imageregistry.yaml'', expected_imageregistry secret),
      (''/opt/openshift/manifests/aro-ingress-namespace.yaml'', expected_ingress_namespace),
      (''/opt/openshift/manifests/aro-ingress-service.yaml'', expected_ingress_service),
      (''/opt/openshift/manifests/aro-worker-registries.yaml'', expected_worker_registries),
      (''/opt/openshift/openshift/99_openshift-cluster-api_master-user-data-secret.yaml'', expected_master_user_data masterData),
      (''/opt/openshift/openshift/99_openshift-cluster-api_worker-user-data-secret.yaml'', expected_worker_user_data workerData)]"

definition expected_units :: "(string \<times> string) list" where
  "expected_units =
     [(''aro-etchosts-resolver.service'', expected_resolver_service),
      (''fluentbit.service'', expected_fluentbit_service),
      (''mdsd.service'', expected_mdsd_service),
      (''dnsmasq.service'', expected_dnsmasq_service)]"

end
