(* ===== verification/Embedded_Files.thy ===== *)
theory Embedded_Files
  imports Ignition Expected_Files
begin

text \<open>
  The files that the binary embeds: the scripts of pkg/installer/dnsmasq, and the trees of pkg/data/mdsd and
  pkg/data/manifests; with what their templates parse to.
\<close>

section \<open>pkg/installer/dnsmasq/scripts\<close>

definition configFile :: string where
  \<open>configFile =
     lines_text
       [''{{ define "dnsmasq.conf" }}'', ''resolv-file=/etc/resolv.conf.dnsmasq'', ''dns-forward-max=10000'',
        ''address=/api.{{ .ClusterDomain }}/{{ .APIIntIP }}'',
        ''address=/api-int.{{ .ClusterDomain }}/{{ .APIIntIP }}'',
        ''address=/.apps.{{ .ClusterDomain }}/{{ .IngressIP }}'',
        ''{{- range $GatewayDomain := .GatewayDomains }}'',
        ''address=/{{ $GatewayDomain }}/{{ $.GatewayPrivateEndpointIP }}'', ''{{- end }}'', ''user=dnsmasq'',
        ''group=dnsmasq'', ''no-hosts'', ''cache-size=0'', ''{{ end }}'']\<close>

definition unitFile :: string where
  \<open>unitFile =
     lines_text
       [''{{ define "dnsmasq.service" }}'', ''[Unit]'', ''Description=DNS caching server.'',
        ''After=network-online.target'', ''Before=bootkube.service'', [], ''[Service]'',
        ''# ExecStartPre will create a copy of the customer current resolv.conf file and make it upstream DNS.'',
        ''# This file is a product of user DNS settings on the VNET. We will replace this file to point to'',
        ''# dnsmasq instance on the node. dnsmasq will inject certain dns records we need and forward rest of the queries to'',
        ''# resolv.conf.dnsmasq upstream customer dns.'',
        ''ExecStartPre=/bin/bash /usr/local/bin/aro-dnsmasq-pre.sh'', ''ExecStart=/usr/sbin/dnsmasq -k'',
        ''ExecStopPost=/bin/bash -c '/bin/rm /etc/NetworkManager/conf.d/aro-dns.conf && /usr/bin/nmcli general reload conf && /usr/bin/nmcli general reload dns-rc'' @ [CHR 0x27],
        ''Restart=always'', ''StandardOutput=journal+console'', ''StandardError=journal+console'', [],
        ''[Install]'', ''WantedBy=multi-user.target'', ''{{ end }}'']\<close>

definition preScriptFile :: string where
  \<open>preScriptFile =
     lines_text
       [''{{ define "aro-dnsmasq-pre.sh" }}'', ''#!/bin/bash'', ''set -euo pipefail'', [],
        ''# This bash script is a part of the ARO DnsMasq configuration'',
        ''# It's deployed as part of the 99-aro-dns-* machine config'',
        ''# See https://github.com/Azure/ARO-RP'', [],
        ''# This file can be rerun and the effect is idempotent, output might change if the DHCP configuration changes'',
        [], ''NODEIP=$(/sbin/ip --json route get 168.63.129.16 | /bin/jq -r ".[].prefsrc")'', [],
        ''if [ "$NODEIP" != "" ]; then'', ''    /bin/cp -Z /etc/resolv.conf /etc/resolv.conf.dnsmasq'',
        ''    SEARCHDOMAIN=$(awk '/^search/ { print $2; }' /etc/resolv.conf.dnsmasq)'',
        ''    /bin/chmod 0744 /etc/resolv.conf.dnsmasq'', [],
        ''    cat <<EOF | /bin/tee /etc/NetworkManager/conf.d/aro-dns.conf'', ''# Added by dnsmasq.service'',
        ''[global-dns]'', ''searches=$SEARCHDOMAIN'', [], ''[global-dns-domain-*]'', ''servers=$NODEIP'',
        ''EOF'', [], ''    # network manager may already be running at this point.'',
        ''    # reload to update /etc/resolv.conf with this configuration'',
        ''    /usr/bin/nmcli general reload conf'', ''    /usr/bin/nmcli general reload dns-rc'', ''fi'',
        ''{{ end }}'']\<close>

section \<open>pkg/data/mdsd\<close>

definition journal_conf :: string where
  \<open>journal_conf =
     lines_text
       [''[INPUT]'', [tab] @ ''Name systemd'', [tab] @ ''Tag journald'',
        [tab] @ ''DB /var/lib/fluent/journald'', [], ''[FILTER]'', [tab] @ ''Name modify'',
        [tab] @ ''Match journald'', [tab] @ ''Remove_wildcard _'', [tab] @ ''Remove TIMESTAMP'',
        [tab] @ ''Remove SYSLOG_FACILITY'', [], ''[OUTPUT]'', [tab] @ ''Name forward'',
        [tab] @ ''Port 24224'']\<close>

definition mdsd_env_template :: string where
  \<open>mdsd_env_template =
     lines_text
       [''MONITORING_GCS_ENVIRONMENT={{ .Environment }}'', ''MONITORING_GCS_ACCOUNT={{ .Account }}'',
        ''MONITORING_GCS_REGION={{ .Region }}'',
        ''MONITORING_GCS_CERT_CERTFILE=/etc/mdsd.d/secret/mdsdcert.pem'',
        ''MONITORING_GCS_CERT_KEYFILE=/etc/mdsd.d/secret/mdsdcert.pem'',
        ''MONITORING_GCS_NAMESPACE={{ .Namespace }}'', ''MONITORING_CONFIG_VERSION={{ .ConfigVersion }}'',
        ''MONITORING_USE_GENEVA_CONFIG_SERVICE=true'', ''MONITORING_TENANT={{ .Region }}'',
        ''MONITORING_ROLE=cluster'', ''MONITORING_ROLE_INSTANCE=bootstrap'',
        ''RESOURCE_ID={{ .ResourceID }}'', ''SUBSCRIPTION_ID={{ .SubscriptionID }}'',
        ''RESOURCE_GROUP={{ .ResourceGroupName }}'', ''RESOURCE_NAME={{ .ResourceName }}'']\<close>

definition mdsdcert_template :: string where
  \<open>mdsdcert_template =
     lines_text
       [''{{ .Key }}'', ''{{ .Certificate }}'']\<close>

definition fluentbit_template :: string where
  \<open>fluentbit_template =
     lines_text
       [''FLUENTIMAGE={{ .FluentbitImage }}'']\<close>

definition mdsd_template :: string where
  \<open>mdsd_template =
     lines_text
       [''MDSDIMAGE={{ .MdsdImage }}'']\<close>

definition fluentbit_service :: string where
  \<open>fluentbit_service =
     lines_text
       [''[Unit]'', ''After=network-online.target'', ''StartLimitIntervalSec=0'', [], ''[Service]'',
        ''RestartSec=1s'', ''EnvironmentFile=/etc/sysconfig/fluentbit'',
        ''ExecStartPre=-/bin/podman rm -f fluent-journal'', ''ExecStartPre=-/bin/podman pull $FLUENTIMAGE'',
        ''ExecStartPre=-mkdir -p /var/lib/fluent'', ''ExecStart=/bin/podman run '' @ [CHR 0x5C],
        ''  --entrypoint /opt/td-agent-bit/bin/td-agent-bit '' @ [CHR 0x5C], ''  --net=host '' @ [CHR 0x5C],
        ''  --hostname bootstrap '' @ [CHR 0x5C], ''  --name fluent-journal '' @ [CHR 0x5C], ''  --rm '' @ [CHR 0x5C],
        ''  -v /etc/fluentbit/journal.conf:/etc/fluentbit/journal.conf '' @ [CHR 0x5C],
        ''  -v /var/lib/fluent:/var/lib/fluent:z '' @ [CHR 0x5C], ''  -v /var/log/journal:/var/log/journal:z,ro '' @ [CHR 0x5C],
        ''  -v /etc/machine-id:/etc/machine-id:ro '' @ [CHR 0x5C], ''  $FLUENTIMAGE '' @ [CHR 0x5C],
        ''  -c /etc/fluentbit/journal.conf'', [], ''ExecStop=/bin/podman stop %N'', ''Restart=always'', [],
        ''[Install]'', ''WantedBy=multi-user.target'']\<close>

definition mdsd_service :: string where
  \<open>mdsd_service =
     lines_text
       [''[Unit]'', ''After=network-online.target'', ''StartLimitIntervalSec=0'', [], ''[Service]'',
        ''RestartSec=1s'', ''EnvironmentFile=/etc/sysconfig/mdsd'', ''ExecStartPre=-/bin/podman rm -f %N'',
        ''ExecStartPre=-mkdir /var/run/mdsd'', ''ExecStartPre=-/bin/podman pull $MDSDIMAGE'',
        ''ExecStart=/bin/podman run '' @ [CHR 0x5C], ''  --entrypoint /usr/sbin/mdsd '' @ [CHR 0x5C], ''  --net=host '' @ [CHR 0x5C],
        ''  --name mdsd '' @ [CHR 0x5C], ''  --env-file /etc/mdsd.d/mdsd.env '' @ [CHR 0x5C], ''  --rm '' @ [CHR 0x5C],
        ''  -v /etc/mdsd.d/:/etc/mdsd.d/:z '' @ [CHR 0x5C], ''  -v /var/run/mdsd:/var/run/mdsd:z '' @ [CHR 0x5C],
        ''  $MDSDIMAGE '' @ [CHR 0x5C], ''  -A -D -f 24224 -r /var/run/mdsd/default'', [],
        ''ExecStop=/bin/podman stop %N'', ''Restart=always'', [], ''[Install]'',
        ''WantedBy=multi-user.target'']\<close>

definition mdsd_Assets :: fs_node where
  "mdsd_Assets =
     FsDir
       [(''etc'', FsDir
          [(''fluentbit'', FsDir [(''journal.conf'', FsFile journal_conf)]),
           (''mdsd.d'', FsDir
              [(''mdsd.env.template'', FsFile mdsd_env_template),
               (''secret'', FsDir [(''mdsdcert.pem.template'', FsFile mdsdcert_template)])]),
           (''sysconfig'', FsDir
              [(''fluentbit.template'', FsFile fluentbit_template), (''mdsd.template'', FsFile mdsd_template)])]),
        (''systemd'', FsDir
          [(''units'', FsDir [(''fluentbit.service'', FsFile fluentbit_service), (''mdsd.service'', FsFile mdsd_service)])])]"

section \<open>pkg/data/manifests\<close>

definition imageregistry_template :: string where
  \<open>imageregistry_template =
     lines_text
       [''apiVersion: imageregistry.operator.openshift.io/v1'', ''kind: Config'', ''metadata:'',
        ''  finalizers:'', ''  - imageregistry.operator.openshift.io/finalizer'', ''  name: cluster'',
        ''spec:'', ''  httpSecret: "{{ .HTTPSecret }}"'', ''  managementState: Managed'', ''  replicas: 2'',
        ''  storage:'', ''    azure:'', ''      accountName: "{{ .AccountName }}"'',
        ''      container: "{{ .ContainerName }}"'', ''      cloudName: "{{ .CloudName }}"'',
        ''    managementState: Unmanaged'']\<close>

definition ingress_namespace :: string where
  \<open>ingress_namespace =
     lines_text
       [''apiVersion: v1'', ''kind: Namespace'', ''metadata:'', ''  name: openshift-ingress'']\<close>

definition ingress_service_template :: string where
  \<open>ingress_service_template =
     lines_text
       [''apiVersion: v1'', ''kind: Service'', ''metadata:'', ''  name: router-default'',
        ''  namespace: openshift-ingress'', ''  annotations:'',
        ''    service.beta.kubernetes.io/azure-load-balancer-internal: "{{ if .AROIngressInternal }}true{{ end }}"'',
        ''    service.beta.kubernetes.io/azure-load-balancer-ipv4: "{{ .AROIngressIP }}"'', ''  labels:'',
        ''    app: router'',
        ''    ingresscontroller.operator.openshift.io/owning-ingresscontroller: default'', ''spec:'',
        ''  externalTrafficPolicy: Local'', ''  ports:'', ''  - name: http'', ''    port: 80'',
        ''    protocol: TCP'', ''    targetPort: http'', ''  - name: https'', ''    port: 443'',
        ''    protocol: TCP'', ''    targetPort: https'', ''  selector:'',
        ''    ingresscontroller.operator.openshift.io/deployment-ingresscontroller: default'',
        ''  type: LoadBalancer'']\<close>

definition worker_registries_template :: string where
  \<open>worker_registries_template =
     lines_text
       [''apiVersion: machineconfiguration.openshift.io/v1'', ''kind: MachineConfig'', ''metadata:'',
        ''  labels:'', ''    machineconfiguration.openshift.io/role: worker'',
        ''  name: 90-aro-worker-registries'', ''spec:'', ''  config:'', ''    ignition:'',
        ''      version: 2.2.0'', ''    storage:'', ''      files:'', ''      - contents:'',
        ''          source: "{{ .AROWorkerRegistries }}"'', ''        filesystem: root'',
        ''        mode: 420'', ''        path: /etc/containers/registries.conf'']\<close>

definition manifests_assets :: fs_node where
  "manifests_assets =
     FsDir [(''opt'', FsDir [(''openshift'', FsDir [(''manifests'', FsDir
       [(''aro-imageregistry.yaml.template'', FsFile imageregistry_template),
        (''aro-ingress-namespace.yaml'', FsFile ingress_namespace),
        (''aro-ingress-service.yaml.template'', FsFile ingress_service_template),
        (''aro-worker-registries.yaml.template'', FsFile worker_registries_template)])])])]"

section \<open>The parsed templates\<close>

lemma parse_configFile:
  "template_Parse configFile = Ok
     [NDefine ''dnsmasq.conf''
        [NText (nl # lines_text [''resolv-file=/etc/resolv.conf.dnsmasq'', ''dns-forward-max=10000''] @ ''address=/api.''),
         NOut (OField ''ClusterDomain''), NText ''/'', NOut (OField ''APIIntIP''), NText (nl # ''address=/api-int.''),
         NOut (OField ''ClusterDomain''), NText ''/'', NOut (OField ''APIIntIP''), NText (nl # ''address=/.apps.''),
         NOut (OField ''ClusterDomain''), NText ''/'', NOut (OField ''IngressIP''),
         NRange None ''GatewayDomain'' (OField ''GatewayDomains'')
           [NText (nl # ''address=/''), NOut (OVar ''GatewayDomain''), NText ''/'', NOut (ORoot ''GatewayPrivateEndpointIP'')],
         NText (nl # lines_text [''user=dnsmasq'', ''group=dnsmasq'', ''no-hosts'', ''cache-size=0''])],
      NText [nl]]"
  by code_simp

text \<open>A file that is one definition without actions in it.\<close>

lemma parse_definition:
  assumes "s = chunks [([], '' define '' @ CHR 0x22 # n @ [CHR 0x22] @ '' ''), (t, '' end '')] [nl]"
    and "plain (CHR ''{'') t" "t \<noteq> []" "plain (CHR ''}'') ('' define '' @ CHR 0x22 # n @ [CHR 0x22] @ '' '')"
    and "parse_action ('' define '' @ CHR 0x22 # n @ [CHR 0x22] @ '' '') = Some (AOpen (OpenDefine n))"
  shows "template_Parse s = Ok [NDefine n [NText t], NText [nl]]"
proof (rule template_Parse_chunks [OF assms(1)])
  have markers: "\<not> left_marker ('' define '' @ x)" "\<not> right_marker ('' define '' @ CHR 0x22 # n @ [CHR 0x22] @ '' '')"
    "\<not> left_marker '' end ''" "\<not> right_marker '' end ''" for x
    by (simp_all add: left_marker_def right_marker_def)
  have "parse_action '' end '' = Some AEnd" by code_simp
  with assms(3,5) markers show "parse_tokens [] [] (chunk_tokens False [([], '' define '' @ CHR 0x22 # n @ [CHR 0x22] @ '' ''), (t, '' end '')] [nl])
      = Some [NDefine n [NText t], NText [nl]]"
    by (simp add: action_text_def trimmed_text_def Let_def)
qed (use assms(2,4) in \<open>simp_all add: plain_free\<close>)

lemma parse_unitFile: "template_Parse unitFile = Ok [NDefine ''dnsmasq.service'' [NText expected_dnsmasq_service], NText [nl]]"
proof (rule parse_definition)
  show "unitFile = chunks [([], '' define '' @ CHR 0x22 # ''dnsmasq.service'' @ [CHR 0x22] @ '' ''), (expected_dnsmasq_service, '' end '')] [nl]"
    by (simp add: unitFile_def expected_dnsmasq_service_def lines_text_def)
  show "plain (CHR ''{'') expected_dnsmasq_service"
    unfolding expected_dnsmasq_service_def by (rule plain_lines) (simp_all add: plain_free)
  show "expected_dnsmasq_service \<noteq> []" by (simp add: expected_dnsmasq_service_def lines_text_def)
qed (simp add: plain_free, code_simp)

lemma parse_preScriptFile: "template_Parse preScriptFile = Ok [NDefine ''aro-dnsmasq-pre.sh'' [NText expected_prescript], NText [nl]]"
proof (rule parse_definition)
  show "preScriptFile = chunks [([], '' define '' @ CHR 0x22 # ''aro-dnsmasq-pre.sh'' @ [CHR 0x22] @ '' ''), (expected_prescript, '' end '')] [nl]"
    by (simp add: preScriptFile_def expected_prescript_def lines_text_def)
  show "plain (CHR ''{'') expected_prescript"
    unfolding expected_prescript_def by (rule plain_lines) (simp_all add: plain_free, simp add: plain_def)
  show "expected_prescript \<noteq> []" by (simp add: expected_prescript_def lines_text_def)
qed (simp add: plain_free, code_simp)

lemma parse_mdsdcert:
  "template_Parse mdsdcert_template = Ok [NOut (OField ''Key''), NText [nl], NOut (OField ''Certificate''), NText [nl]]"
  by code_simp

lemma parse_fluentbit: "template_Parse fluentbit_template = Ok [NText ''FLUENTIMAGE='', NOut (OField ''FluentbitImage''), NText [nl]]"
  by code_simp

lemma parse_mdsd: "template_Parse mdsd_template = Ok [NText ''MDSDIMAGE='', NOut (OField ''MdsdImage''), NText [nl]]"
  by code_simp

text \<open>A text with fields in it: each action between the texts is a single operand.\<close>

lemma parse_fields:
  assumes "s = chunks (map (\<lambda>(t, f). (t, '' .'' @ f @ '' '')) xs) u" "list_all (\<lambda>(t, f). plain (CHR ''{'') t \<and> t \<noteq> [] \<and> is_identifier f) xs"
    and "plain (CHR ''{'') u" "u \<noteq> []"
  shows "template_Parse s = Ok (concat (map (\<lambda>(t, f). [NText t, NOut (OField f)]) xs) @ [NText u])"
proof -
  have field: "plain (CHR ''}'') ('' .'' @ f @ '' '') \<and> \<not> left_marker ('' .'' @ f @ '' '') \<and> \<not> right_marker ('' .'' @ f @ '' '')
      \<and> parse_action ('' .'' @ f @ '' '') = Some (AOut (OField f))" if "is_identifier f" for f
  proof -
    have sub: "set f \<subseteq> set name_chars" and f: "f \<noteq> []"
      using that by (auto simp: is_identifier_def list_all_iff)
    have "CHR ''}'' \<notin> set name_chars" "CHR '' '' \<notin> set name_chars" "CHR ''-'' \<notin> set name_chars" by (simp_all add: name_chars_def)
    with sub f have c: "CHR ''}'' \<notin> set f" "CHR '' '' \<notin> set f" "CHR ''-'' \<notin> set f" "f \<noteq> []" by blast+
    then have "last f \<in> set f" by simp
    with c have "\<not> right_marker ('' .'' @ f @ '' '')" by (auto simp: right_marker_def left_marker_def)
    moreover have "split_on (CHR '' '') ('' .'' @ f @ '' '') = [[], ''.'' @ f, []]"
      using c(2) by (simp add: split_on_append_sep split_on_noocc)
    moreover have "''.'' @ f \<noteq> ''end''" by simp
    ultimately show ?thesis using c that
      by (auto simp: plain_free left_marker_def parse_action_def parse_operand_def)
  qed
  have "parse_tokens [] acc (chunk_tokens False (map (\<lambda>(t, f). (t, '' .'' @ f @ '' '')) xs) u)
      = Some (rev acc @ concat (map (\<lambda>(t, f). [NText t, NOut (OField f)]) xs) @ [NText u])" for acc
    using assms(2)
  proof (induction xs arbitrary: acc)
    case (Cons x xs)
    obtain t f where x: "x = (t, f)" by (cases x)
    with Cons.prems have "is_identifier f" "t \<noteq> []" by auto
    with field [of f] Cons x show ?case by (simp add: trimmed_text_def action_text_def Let_def)
  qed (simp add: trimmed_text_def assms(4))
  moreover have "list_all (\<lambda>(t, a). plain (CHR ''{'') t \<and> plain (CHR ''}'') a) (map (\<lambda>(t, f). (t, '' .'' @ f @ '' '')) xs)"
    using assms(2) field by (auto simp: list_all_iff)
  ultimately show ?thesis using template_Parse_chunks [OF assms(1) _ assms(3)] by simp
qed

lemma parse_mdsd_env:
  \<open>template_Parse mdsd_env_template = Ok
     [NText (''MONITORING_GCS_ENVIRONMENT=''), NOut (OField ''Environment''),
      NText (nl # ''MONITORING_GCS_ACCOUNT=''), NOut (OField ''Account''),
      NText (nl # ''MONITORING_GCS_REGION=''), NOut (OField ''Region''),
      NText (nl # lines_text [''MONITORING_GCS_CERT_CERTFILE=/etc/mdsd.d/secret/mdsdcert.pem'', ''MONITORING_GCS_CERT_KEYFILE=/etc/mdsd.d/secret/mdsdcert.pem''] @ ''MONITORING_GCS_NAMESPACE=''), NOut (OField ''Namespace''),
      NText (nl # ''MONITORING_CONFIG_VERSION=''), NOut (OField ''ConfigVersion''),
      NText (nl # lines_text [''MONITORING_USE_GENEVA_CONFIG_SERVICE=true''] @ ''MONITORING_TENANT=''), NOut (OField ''Region''),
      NText (nl # lines_text [''MONITORING_ROLE=cluster'', ''MONITORING_ROLE_INSTANCE=bootstrap''] @ ''RESOURCE_ID=''), NOut (OField ''ResourceID''),
      NText (nl # ''SUBSCRIPTION_ID=''), NOut (OField ''SubscriptionID''),
      NText (nl # ''RESOURCE_GROUP=''), NOut (OField ''ResourceGroupName''),
      NText (nl # ''RESOURCE_NAME=''), NOut (OField ''ResourceName''),
      NText ([nl])]\<close>
proof -
  let ?xs = \<open>[(''MONITORING_GCS_ENVIRONMENT='', ''Environment''),
      (nl # ''MONITORING_GCS_ACCOUNT='', ''Account''),
      (nl # ''MONITORING_GCS_REGION='', ''Region''),
      (nl # lines_text [''MONITORING_GCS_CERT_CERTFILE=/etc/mdsd.d/secret/mdsdcert.pem'', ''MONITORING_GCS_CERT_KEYFILE=/etc/mdsd.d/secret/mdsdcert.pem''] @ ''MONITORING_GCS_NAMESPACE='', ''Namespace''),
      (nl # ''MONITORING_CONFIG_VERSION='', ''ConfigVersion''),
      (nl # lines_text [''MONITORING_USE_GENEVA_CONFIG_SERVICE=true''] @ ''MONITORING_TENANT='', ''Region''),
      (nl # lines_text [''MONITORING_ROLE=cluster'', ''MONITORING_ROLE_INSTANCE=bootstrap''] @ ''RESOURCE_ID='', ''ResourceID''),
      (nl # ''SUBSCRIPTION_ID='', ''SubscriptionID''),
      (nl # ''RESOURCE_GROUP='', ''ResourceGroupName''),
      (nl # ''RESOURCE_NAME='', ''ResourceName'')]\<close>
  let ?u = \<open>[nl]\<close>
  have "mdsd_env_template = chunks (map (\<lambda>(t, f). (t, '' .'' @ f @ '' '')) ?xs) ?u" by (simp add: mdsd_env_template_def lines_text_def)
  then have "template_Parse mdsd_env_template = Ok (concat (map (\<lambda>(t, f). [NText t, NOut (OField f)]) ?xs) @ [NText ?u])"
    by (rule parse_fields) (simp_all add: plain_free lines_text_def is_identifier_def name_chars_def)
  then show ?thesis by simp
qed

lemma parse_imageregistry:
  \<open>template_Parse imageregistry_template = Ok
     [NText (lines_text [''apiVersion: imageregistry.operator.openshift.io/v1'', ''kind: Config'', ''metadata:'', ''  finalizers:'', ''  - imageregistry.operator.openshift.io/finalizer'', ''  name: cluster'', ''spec:''] @ ''  httpSecret: "''), NOut (OField ''HTTPSecret''),
      NText (lines_text [''"'', ''  managementState: Managed'', ''  replicas: 2'', ''  storage:'', ''    azure:''] @ ''      accountName: "''), NOut (OField ''AccountName''),
      NText (lines_text [''"''] @ ''      container: "''), NOut (OField ''ContainerName''),
      NText (lines_text [''"''] @ ''      cloudName: "''), NOut (OField ''CloudName''),
      NText (lines_text [''"'', ''    managementState: Unmanaged''])]\<close>
proof -
  let ?xs = \<open>[(lines_text [''apiVersion: imageregistry.operator.openshift.io/v1'', ''kind: Config'', ''metadata:'', ''  finalizers:'', ''  - imageregistry.operator.openshift.io/finalizer'', ''  name: cluster'', ''spec:''] @ ''  httpSecret: "'', ''HTTPSecret''),
      (lines_text [''"'', ''  managementState: Managed'', ''  replicas: 2'', ''  storage:'', ''    azure:''] @ ''      accountName: "'', ''AccountName''),
      (lines_text [''"''] @ ''      container: "'', ''ContainerName''),
      (lines_text [''"''] @ ''      cloudName: "'', ''CloudName'')]\<close>
  let ?u = \<open>lines_text [''"'', ''    managementState: Unmanaged'']\<close>
  have "imageregistry_template = chunks (map (\<lambda>(t, f). (t, '' .'' @ f @ '' '')) ?xs) ?u" by (simp add: imageregistry_template_def lines_text_def)
  then have "template_Parse imageregistry_template = Ok (concat (map (\<lambda>(t, f). [NText t, NOut (OField f)]) ?xs) @ [NText ?u])"
    by (rule parse_fields) (simp_all add: plain_free lines_text_def is_identifier_def name_chars_def)
  then show ?thesis by simp
qed

lemma parse_worker_registries:
  \<open>template_Parse worker_registries_template = Ok
     [NText (lines_text [''apiVersion: machineconfiguration.openshift.io/v1'', ''kind: MachineConfig'', ''metadata:'', ''  labels:'', ''    machineconfiguration.openshift.io/role: worker'', ''  name: 90-aro-worker-registries'', ''spec:'', ''  config:'', ''    ignition:'', ''      version: 2.2.0'', ''    storage:'', ''      files:'', ''      - contents:''] @ ''          source: "''), NOut (OField ''AROWorkerRegistries''),
      NText (lines_text [''"'', ''        filesystem: root'', ''        mode: 420'', ''        path: /etc/containers/registries.conf''])]\<close>
proof -
  let ?xs = \<open>[(lines_text [''apiVersion: machineconfiguration.openshift.io/v1'', ''kind: MachineConfig'', ''metadata:'', ''  labels:'', ''    machineconfiguration.openshift.io/role: worker'', ''  name: 90-aro-worker-registries'', ''spec:'', ''  config:'', ''    ignition:'', ''      version: 2.2.0'', ''    storage:'', ''      files:'', ''      - contents:''] @ ''          source: "'', ''AROWorkerRegistries'')]\<close>
  let ?u = \<open>lines_text [''"'', ''        filesystem: root'', ''        mode: 420'', ''        path: /etc/containers/registries.conf'']\<close>
  have "worker_registries_template = chunks (map (\<lambda>(t, f). (t, '' .'' @ f @ '' '')) ?xs) ?u" by (simp add: worker_registries_template_def lines_text_def)
  then have "template_Parse worker_registries_template = Ok (concat (map (\<lambda>(t, f). [NText t, NOut (OField f)]) ?xs) @ [NText ?u])"
    by (rule parse_fields) (simp_all add: plain_free lines_text_def is_identifier_def name_chars_def)
  then show ?thesis by simp
qed

text \<open>The service of the ingress: a conditional and a field.\<close>

definition ingress_head :: string where
  \<open>ingress_head =
     lines_text [''apiVersion: v1'', ''kind: Service'', ''metadata:'', ''  name: router-default'', ''  namespace: openshift-ingress'',
       ''  annotations:''] @ ''    service.beta.kubernetes.io/azure-load-balancer-internal: "''\<close>

definition ingress_middle :: string where
  \<open>ingress_middle = CHR 0x22 # nl # ''    service.beta.kubernetes.io/azure-load-balancer-ipv4: "''\<close>

definition ingress_tail :: string where
  \<open>ingress_tail =
     lines_text
       [''"'', ''  labels:'', ''    app: router'', ''    ingresscontroller.operator.openshift.io/owning-ingresscontroller: default'',
        ''spec:'', ''  externalTrafficPolicy: Local'', ''  ports:'', ''  - name: http'', ''    port: 80'', ''    protocol: TCP'',
        ''    targetPort: http'', ''  - name: https'', ''    port: 443'', ''    protocol: TCP'', ''    targetPort: https'',
        ''  selector:'', ''    ingresscontroller.operator.openshift.io/deployment-ingresscontroller: default'',
        ''  type: LoadBalancer'']\<close>

lemma parse_ingress_service:
  "template_Parse ingress_service_template = Ok
     [NText ingress_head, NIf (CValue (OField ''AROIngressInternal'')) [NText ''true''], NText ingress_middle,
      NOut (OField ''AROIngressIP''), NText ingress_tail]"
proof (rule template_Parse_chunks)
  let ?xs = "[(ingress_head, '' if .AROIngressInternal ''), (''true'', '' end ''), (ingress_middle, '' .AROIngressIP '')]"
  show "ingress_service_template = chunks ?xs ingress_tail"
    by (simp add: ingress_service_template_def ingress_head_def ingress_middle_def ingress_tail_def lines_text_def)
  show "list_all (\<lambda>(t, a). plain (CHR ''{'') t \<and> plain (CHR ''}'') a) ?xs" "plain (CHR ''{'') ingress_tail"
    by (simp_all add: plain_free ingress_head_def ingress_middle_def ingress_tail_def lines_text_def)
  have "ingress_head \<noteq> []" "ingress_middle \<noteq> []" "ingress_tail \<noteq> []"
    by (simp_all add: ingress_head_def ingress_middle_def ingress_tail_def lines_text_def)
  moreover have "chunk_tokens False ?xs ingress_tail =
      [TText ingress_head, TAction '' if .AROIngressInternal '', TText ''true'', TAction '' end '', TText ingress_middle,
       TAction '' .AROIngressIP '', TText ingress_tail]"
    by (simp add: trimmed_text_def action_text_def left_marker_def right_marker_def)
  moreover have "parse_action '' if .AROIngressInternal '' = Some (AOpen (OpenIf (CValue (OField ''AROIngressInternal''))))"
    "parse_action '' end '' = Some AEnd" "parse_action '' .AROIngressIP '' = Some (AOut (OField ''AROIngressIP''))"
    by code_simp+
  ultimately show "parse_tokens [] [] (chunk_tokens False ?xs ingress_tail) = Some
     [NText ingress_head, NIf (CValue (OField ''AROIngressInternal'')) [NText ''true''], NText ingress_middle,
      NOut (OField ''AROIngressIP''), NText ingress_tail]" by simp
qed

end
