(* ===== verification/Dns_Files.thy ===== *)
theory Dns_Files
  imports Embedded_Files
begin

text \<open>
  What the wrapper adds to the bootstrap configuration: dnsmasq (pkg/installer/dnsmasq), the hosts file
  (pkg/installer/etchost), logging (pkg/installer/mdsd) and manifests (pkg/data/manifests). Their texts come from
  templates, which are executed.
\<close>

section \<open>dnsmasq\<close>

record dns_config =
  dc_APIIntIP :: string
  dc_IngressIP :: string
  dc_GatewayDomains :: "string list"
  dc_GatewayPrivateEndpointIP :: string

definition dnsmasq_data :: "string \<Rightarrow> string \<Rightarrow> string \<Rightarrow> string list \<Rightarrow> string \<Rightarrow> tdata" where
  "dnsmasq_data clusterDomain apiIntIP ingressIP gwDomains gatewayPrivateEndpointIP =
     DStruct [(''ClusterDomain'', VString clusterDomain), (''APIIntIP'', VString apiIntIP), (''IngressIP'', VString ingressIP),
       (''GatewayDomains'', VStrings gwDomains), (''GatewayPrivateEndpointIP'', VString gatewayPrivateEndpointIP)]"

definition dnsmasq_config ::
  "string \<Rightarrow> string \<Rightarrow> string \<Rightarrow> string list \<Rightarrow> string \<Rightarrow> (string \<times> string \<times> string) result" where
  "dnsmasq_config clusterDomain apiIntIP ingressIP gwDomains gatewayPrivateEndpointIP =
     andThen (template_Must (template_Parse configFile)) (\<lambda>t.
     andThen (ExecuteTemplate t ''dnsmasq.conf''
       (dnsmasq_data clusterDomain apiIntIP ingressIP gwDomains gatewayPrivateEndpointIP)) (\<lambda>config.
     andThen (template_Must (template_Parse unitFile)) (\<lambda>t.
     andThen (ExecuteTemplate t ''dnsmasq.service'' (DValue VNone)) (\<lambda>service.
     andThen (template_Must (template_Parse preScriptFile)) (\<lambda>t.
     andThen (ExecuteTemplate t ''aro-dnsmasq-pre.sh'' (DValue VNone)) (\<lambda>startpre.
       Ok (config, service, startpre)))))))"

text \<open>What the templates come to. The template of the configuration starts after the line of its \<open>define\<close>, with a
  line feed.\<close>

definition dnsmasq_lines :: "string \<Rightarrow> string \<Rightarrow> string \<Rightarrow> string list \<Rightarrow> string \<Rightarrow> string list" where
  "dnsmasq_lines clusterDomain apiIntIP ingressIP gwDomains gatewayPrivateEndpointIP =
     [''resolv-file=/etc/resolv.conf.dnsmasq'', ''dns-forward-max=10000'',
      ''address=/api.'' @ clusterDomain @ ''/'' @ apiIntIP,
      ''address=/api-int.'' @ clusterDomain @ ''/'' @ apiIntIP,
      ''address=/.apps.'' @ clusterDomain @ ''/'' @ ingressIP] @
     map (\<lambda>d. ''address=/'' @ d @ ''/'' @ gatewayPrivateEndpointIP) gwDomains @
     [''user=dnsmasq'', ''group=dnsmasq'', ''no-hosts'', ''cache-size=0'']"

lemma lines_text_append: "lines_text (xs @ ys) = lines_text xs @ lines_text ys"
  by (simp add: lines_text_def)

lemma lines_text_simps: "lines_text [] = []" "lines_text (x # xs) = x @ nl # lines_text xs"
  by (simp_all add: lines_text_def)

lemma lines_from_second: "concat (map (\<lambda>x. nl # f x) xs) @ nl # t = nl # lines_text (map f xs) @ t"
  by (induction xs) (simp_all add: lines_text_def)

text \<open>A range whose body gives a text for each element.\<close>

lemma exec_range:
  assumes "operand_value root d vars p = Ok (VStrings ss)"
    and "\<And>n x. (n, x) \<in> set (enumerate 0 ss) \<Longrightarrow>
      exec_nodes esc root (DValue (VString x)) (range_vars i v n x vars) ns = Ok (f n x)"
  shows "exec_node esc root d vars (NRange i v p ns) = Ok (concat (map (\<lambda>(n, x). f n x) (enumerate 0 ss)))"
proof -
  have "mapOk (\<lambda>(n, x). exec_nodes esc root (DValue (VString x)) (range_vars i v n x vars) ns) (enumerate 0 ss)
      = Ok (map (\<lambda>(n, x). f n x) (enumerate 0 ss))"
    using assms(2) by (intro mapOk_total) auto
  then show ?thesis by (simp add: assms(1) range_values_def)
qed

lemma dnsmasq_config_lines [code]:
  "dnsmasq_config cd api ing gds gw =
     Ok (nl # lines_text (dnsmasq_lines cd api ing gds gw), expected_dnsmasq_service, expected_prescript)"
proof -
  let ?d = "dnsmasq_data cd api ing gds gw"
  have "map (\<lambda>(n, x). nl # ''address=/'' @ x @ ''/'' @ gw) (enumerate 0 gds) = map (\<lambda>x. nl # ''address=/'' @ x @ ''/'' @ gw) gds"
    by (rule nth_equalityI) (simp_all add: nth_enumerate_eq)
  moreover have "exec_node id ?d ?d [] (NRange None ''GatewayDomain'' (OField ''GatewayDomains'')
         [NText (nl # ''address=/''), NOut (OVar ''GatewayDomain''), NText ''/'', NOut (ORoot ''GatewayPrivateEndpointIP'')])
      = Ok (concat (map (\<lambda>(n, x). nl # ''address=/'' @ x @ ''/'' @ gw) (enumerate 0 gds)))"
    by (rule exec_range) (simp_all add: dnsmasq_data_def range_vars_def)
  ultimately have range: "exec_node id ?d ?d [] (NRange None ''GatewayDomain'' (OField ''GatewayDomains'')
         [NText (nl # ''address=/''), NOut (OVar ''GatewayDomain''), NText ''/'', NOut (ORoot ''GatewayPrivateEndpointIP'')])
      = Ok (concat (map (\<lambda>x. nl # ''address=/'' @ x @ ''/'' @ gw) gds))" by simp
  have named: "ExecuteTemplate [NDefine n ns, NText t] n dt = template_Execute ns dt" for n ns t dt
    by (simp add: ExecuteTemplate_def)
  have texts: "template_Execute [NText t] dt = Ok t" for t dt by (simp add: template_Execute_def)
  note second = lines_from_second [symmetric, of "\<lambda>x. ''address=/'' @ x @ ''/'' @ gw" gds, simplified]
  show ?thesis
    unfolding dnsmasq_config_def parse_configFile parse_unitFile parse_preScriptFile template_Must_def
    by (simp add: named texts)
      (simp add: template_Execute_def range dnsmasq_data_def [symmetric] del: exec_node.simps(4),
       simp add: dnsmasq_data_def dnsmasq_lines_def lines_text_append lines_text_simps second)
qed

definition Ignition3Config ::
  "ign_lib \<Rightarrow> string \<Rightarrow> string \<Rightarrow> string \<Rightarrow> string list \<Rightarrow> string \<Rightarrow> ign_config result" where
  "Ignition3Config l clusterDomain apiIntIP ingressIP gwDomains gatewayPrivateEndpointIP =
     andThen (dnsmasq_config clusterDomain apiIntIP ingressIP gwDomains gatewayPrivateEndpointIP)
       (\<lambda>(config, service, startpre).
        Ok \<lparr>ig_Version = ''3.2.0'',
            ig_Files = [FileFromBytes l ''/etc/dnsmasq.conf'' ''root'' 420 config,
                        FileFromBytes l ''/usr/local/bin/aro-dnsmasq-pre.sh'' ''root'' 484 startpre],
            ig_Units = [\<lparr>un_Name = ''dnsmasq.service'', un_Enabled = Some True, un_Contents = Some service,
                         un_Dropins = []\<rparr>]\<rparr>)"

definition MachineConfig ::
  "ign_lib \<Rightarrow> string \<Rightarrow> string \<Rightarrow> string \<Rightarrow> string \<Rightarrow> string list \<Rightarrow> string \<Rightarrow> machine_config result" where
  "MachineConfig l clusterDomain apiIntIP ingressIP role gwDomains gatewayPrivateEndpointIP =
     andThen (Ignition3Config l clusterDomain apiIntIP ingressIP gwDomains gatewayPrivateEndpointIP) (\<lambda>ignConfig.
       case parse_json (print_json (gl_config_json l ignConfig)) of
         None \<Rightarrow> Err (ErrMsg ''invalid JSON'')
       | Some i \<Rightarrow> Ok \<lparr>mc_Name = ''99-'' @ role @ ''-aro-dns'', mc_Role = role, mc_Config = print_json (canon i)\<rparr>)"

definition ClusterDomain :: "install_config \<Rightarrow> string" where
  "ClusterDomain ic = ic_Name ic @ ''.'' @ trim_suffix (ic_BaseDomain ic) ''.''"

text \<open>The results of the two last calls are dropped: a machine configuration that cannot be rendered is left out.\<close>

definition dropped :: "'a \<Rightarrow> 'a result \<Rightarrow> 'a result" where
  "dropped a r = (case r of Err e \<Rightarrow> Ok a | r' \<Rightarrow> r')"

definition CreatednsmasqIgnitionFiles ::
  "ign_lib \<Rightarrow> bootstrap \<Rightarrow> install_config \<Rightarrow> dns_config \<Rightarrow> bootstrap result" where
  "CreatednsmasqIgnitionFiles l b ic dns =
     (let mc = (\<lambda>role. MachineConfig l (ClusterDomain ic) (dc_APIIntIP dns) (dc_IngressIP dns) role
             (dc_GatewayDomains dns) (dc_GatewayPrivateEndpointIP dns)) in
      andThen (Ignition3Config l (ClusterDomain ic) (dc_APIIntIP dns) (dc_IngressIP dns) (dc_GatewayDomains dns)
        (dc_GatewayPrivateEndpointIP dns)) (\<lambda>ign.
      let c = bs_Config b;
          b = b\<lparr>bs_Config := c\<lparr>ig_Files := ReplaceOrAppend (ig_Files c) (ig_Files ign),
                              ig_Units := ReplaceOrAppendSystemd (ig_Units c) (ig_Units ign)\<rparr>\<rparr> in
      andThen (mc ''master'') (\<lambda>master.
      andThen (mc ''worker'') (\<lambda>worker.
      andThen (dropped b (AppendMachineConfigToBootstrap l master b
        ''/opt/openshift/openshift/99_openshift-machineconfig_99-master-aro-dns.yaml'')) (\<lambda>b.
      dropped b (AppendMachineConfigToBootstrap l worker b
        ''/opt/openshift/openshift/99_openshift-machineconfig_99-worker-aro-dns.yaml''))))))"

section \<open>The hosts file\<close>

record etcHostsAROConfTemplateData =
  eh_ClusterDomain :: string
  eh_APIIntIP :: string
  eh_GatewayDomains :: "string list"
  eh_GatewayPrivateEndpointIP :: string

definition aroConfTemplate_text :: string where
  \<open>aroConfTemplate_text =
     lines_text
       [''{{ .APIIntIP }}'' @ [tab] @ ''api.{{ .ClusterDomain }} api-int.{{ .ClusterDomain }}'',
        ''{{ $.GatewayPrivateEndpointIP }}'' @ [tab] @ ''{{ range $i, $GatewayDomain := .GatewayDomains }}{{ if (gt $i 0) }} {{ end }}{{ $GatewayDomain }}{{ end }}'']\<close>

definition aroConfTemplate :: "node list result" where
  "aroConfTemplate = template_Must (template_Parse aroConfTemplate_text)"

definition conf_data :: "etcHostsAROConfTemplateData \<Rightarrow> tdata" where
  "conf_data d =
     DStruct [(''ClusterDomain'', VString (eh_ClusterDomain d)), (''APIIntIP'', VString (eh_APIIntIP d)),
       (''GatewayDomains'', VStrings (eh_GatewayDomains d)), (''GatewayPrivateEndpointIP'', VString (eh_GatewayPrivateEndpointIP d))]"

definition configFileName :: string where "configFileName = ''aro.conf''"
definition tempFileName :: string where "tempFileName = ''aro.tmp''"
definition unitFileName :: string where "unitFileName = ''aro-etchosts-resolver.service''"
definition scriptFileName :: string where "scriptFileName = ''aro-etchosts-resolver.sh''"
definition script_marker :: string where "script_marker = ''openshift-aro-etchosts-resolver''"

definition GenerateEtcHostsAROConf :: "string \<Rightarrow> string \<Rightarrow> string list \<Rightarrow> string \<Rightarrow> string result" where
  "GenerateEtcHostsAROConf clusterDomain apiIntIP gwDomains gatewayPrivateEndpointIP =
     andThen aroConfTemplate (\<lambda>t.
       wrap (''failed to generate '' @ configFileName @ '' from template'')
         (template_Execute t (conf_data
           \<lparr>eh_ClusterDomain = clusterDomain, eh_APIIntIP = apiIntIP, eh_GatewayDomains = gwDomains,
            eh_GatewayPrivateEndpointIP = gatewayPrivateEndpointIP\<rparr>)))"

record etcHostsAROScriptTemplateData =
  ConfigFileName :: string
  TempFileName :: string
  UnitFileName :: string
  ScriptFileName :: string
  ScriptMarker :: string

definition script_data :: etcHostsAROScriptTemplateData where
  "script_data =
     \<lparr>ConfigFileName = configFileName, TempFileName = tempFileName, UnitFileName = unitFileName,
      ScriptFileName = scriptFileName, ScriptMarker = script_marker\<rparr>"

definition script_tdata :: "etcHostsAROScriptTemplateData \<Rightarrow> tdata" where
  "script_tdata d =
     DStruct [(''ConfigFileName'', VString (ConfigFileName d)), (''TempFileName'', VString (TempFileName d)),
       (''UnitFileName'', VString (UnitFileName d)), (''ScriptFileName'', VString (ScriptFileName d)),
       (''ScriptMarker'', VString (ScriptMarker d))]"

definition aroScriptTemplate_text :: string where
  \<open>aroScriptTemplate_text =
     lines_text
       [''#!/bin/bash'', ''set -uo pipefail'', [], ''trap 'jobs -p | xargs kill || true; wait; exit 0' TERM'',
        [], ''OPENSHIFT_MARKER="{{ .ScriptMarker }}"'', ''HOSTS_FILE="/etc/hosts"'',
        ''CONFIG_FILE="/etc/hosts.d/{{ .ConfigFileName }}"'',
        ''TEMP_FILE="/etc/hosts.d/{{ .TempFileName }}"'', [],
        ''# Make a temporary file with the old hosts file's data.'',
        ''if ! cp -f "${HOSTS_FILE}" "${TEMP_FILE}"; then'',
        ''  echo "Failed to preserve hosts file. Exiting."'', ''  exit 1'', ''fi'', [],
        ''if ! sed --silent "/# ${OPENSHIFT_MARKER}/d; w ${TEMP_FILE}" "${HOSTS_FILE}"; then'',
        ''  # Only continue rebuilding the hosts entries if its original content is preserved'',
        ''  sleep 60 & wait'', ''  continue'', ''fi'', [], ''while IFS= read -r line; do'',
        ''    echo "${line} # ${OPENSHIFT_MARKER}" >> "${TEMP_FILE}"'', ''done < "${CONFIG_FILE}"'', [],
        ''# Replace /etc/hosts with our modified version if needed'',
        ''cmp "${TEMP_FILE}" "${HOSTS_FILE}" || cp -f "${TEMP_FILE}" "${HOSTS_FILE}"'',
        ''# TEMP_FILE is not removed to avoid file create/delete and attributes copy churn'']\<close>

definition aroScriptTemplate :: "node list result" where
  "aroScriptTemplate = template_Must (template_Parse aroScriptTemplate_text)"

definition GenerateEtcHostsAROScript :: "string result" where
  "GenerateEtcHostsAROScript =
     andThen aroScriptTemplate (\<lambda>t.
       wrap (''failed to generate '' @ scriptFileName @ '' from template'') (template_Execute t (script_tdata script_data)))"

definition aroUnitTemplate_text :: string where
  \<open>aroUnitTemplate_text =
     lines_text
       [''[Unit]'', ''Description=One shot service that appends static domains to etchosts'',
        ''Before=network-online.target'', [], ''[Service]'',
        ''# ExecStart will copy the hosts defined in /etc/hosts.d/aro.conf to /etc/hosts'',
        ''ExecStart=/bin/bash /usr/local/bin/{{ .ScriptFileName }}'', [], ''[Install]'',
        ''WantedBy=multi-user.target'']\<close>

definition aroUnitTemplate :: "node list result" where
  "aroUnitTemplate = template_Must (template_Parse aroUnitTemplate_text)"

definition GenerateEtcHostsAROUnit :: "string result" where
  "GenerateEtcHostsAROUnit =
     andThen aroUnitTemplate (\<lambda>t.
       wrap (''failed to generate '' @ unitFileName @ '' from template'') (template_Execute t (script_tdata script_data)))"

definition EtcHostsIgnitionConfig :: "ign_lib \<Rightarrow> string \<Rightarrow> string \<Rightarrow> string list \<Rightarrow> string \<Rightarrow> ign_config result" where
  "EtcHostsIgnitionConfig l clusterDomain apiIntIP gwDomains gatewayPrivateEndpointIP =
     andThen (wrap ''failed to generate addtional hosts for etc hosts''
       (GenerateEtcHostsAROConf clusterDomain apiIntIP gwDomains gatewayPrivateEndpointIP)) (\<lambda>aroconf.
     andThen (wrap ''failed to generate template'' GenerateEtcHostsAROScript) (\<lambda>aroscript.
     andThen (wrap ''failed to generate template'' GenerateEtcHostsAROUnit) (\<lambda>arounit.
       Ok \<lparr>ig_Version = ''3.2.0'',
           ig_Files =
             [FileFromBytes l (''/etc/hosts.d/'' @ configFileName) ''root'' 420 aroconf,
              FileFromBytes l (''/usr/local/bin/'' @ scriptFileName) ''root'' 484 aroscript],
           ig_Units =
             [\<lparr>un_Name = unitFileName, un_Enabled = Some True, un_Contents = Some arounit, un_Dropins = []\<rparr>]\<rparr>)))"

definition EtcHostsMachineConfig :: "ign_lib \<Rightarrow> string \<Rightarrow> string \<Rightarrow> string list \<Rightarrow> string \<Rightarrow> string \<Rightarrow> machine_config result" where
  "EtcHostsMachineConfig l clusterDomain apiIntIP gwDomains gatewayPrivateEndpointIP role =
     andThen (EtcHostsIgnitionConfig l clusterDomain apiIntIP gwDomains gatewayPrivateEndpointIP) (\<lambda>ignConfig.
       Ok \<lparr>mc_Name = ''99-'' @ role @ ''-aro-etc-hosts-gateway-domains'', mc_Role = role,
           mc_Config = ignition_Marshal l ignConfig\<rparr>)"

definition AppendEtcHostFiles :: "ign_lib \<Rightarrow> bootstrap \<Rightarrow> install_config \<Rightarrow> dns_config \<Rightarrow> bootstrap result" where
  "AppendEtcHostFiles l b ic dns =
     (let mc = EtcHostsMachineConfig l (ClusterDomain ic) (dc_APIIntIP dns) (dc_GatewayDomains dns) (dc_GatewayPrivateEndpointIP dns);
          c = bs_Config b in
      andThen (EtcHostsIgnitionConfig l (ClusterDomain ic) (dc_APIIntIP dns) (dc_GatewayDomains dns)
        (dc_GatewayPrivateEndpointIP dns)) (\<lambda>ign.
      let b = b\<lparr>bs_Config := c\<lparr>ig_Files := ig_Files c @ ig_Files ign, ig_Units := ig_Units c @ ig_Units ign\<rparr>\<rparr> in
      andThen (mc ''master'') (\<lambda>master.
      andThen (mc ''worker'') (\<lambda>worker.
      andThen (AppendMachineConfigToBootstrap l master b
        ''/opt/openshift/openshift/99_openshift-machineconfig_99-master-aro-etc-hosts-gateway-domains.yaml'') (\<lambda>b.
      AppendMachineConfigToBootstrap l worker b
        ''/opt/openshift/openshift/99_openshift-machineconfig_99-worker-aro-etc-hosts-gateway-domains.yaml'')))))"

section \<open>Logging and manifests\<close>

definition logging_data :: "logging_config \<Rightarrow> tdata" where
  "logging_data c =
     DStruct
       [(''Certificate'', VString (lg_Certificate c)), (''Key'', VString (lg_Key c)), (''Namespace'', VString (lg_Namespace c)),
        (''Environment'', VString (lg_Environment c)), (''Account'', VString (lg_Account c)),
        (''ConfigVersion'', VString (lg_ConfigVersion c)), (''ResourceID'', VString (lg_ResourceID c)),
        (''SubscriptionID'', VString (lg_SubscriptionID c)), (''Region'', VString (lg_Region c)),
        (''ResourceName'', VString (lg_ResourceName c)), (''ResourceGroupName'', VString (lg_ResourceGroupName c)),
        (''FluentbitImage'', VString (lg_FluentbitImage c)), (''MdsdImage'', VString (lg_MdsdImage c))]"

definition AppendMdsdFiles :: "ign_lib \<Rightarrow> bootstrap \<Rightarrow> logging_config \<Rightarrow> bootstrap result" where
  "AppendMdsdFiles l b loggingConfig =
     andThen (AddStorageFiles l (logging_data loggingConfig) ''etc'' ''etc'' mdsd_Assets (bs_Config b)) (\<lambda>c.
     andThen (AddSystemdUnits (logging_data loggingConfig) ''systemd/units'' [''fluentbit.service'', ''mdsd.service''] mdsd_Assets c) (\<lambda>c.
       Ok (b\<lparr>bs_Config := c\<rparr>)))"

record manifests_config =
  mf_AROWorkerRegistries :: string
  mf_HTTPSecret :: string
  mf_AccountName :: string
  mf_ContainerName :: string
  mf_CloudName :: string
  mf_AROIngressInternal :: bool
  mf_AROIngressIP :: string

definition manifests_data :: "manifests_config \<Rightarrow> tdata" where
  "manifests_data c =
     DStruct
       [(''AROWorkerRegistries'', VString (mf_AROWorkerRegistries c)), (''HTTPSecret'', VString (mf_HTTPSecret c)),
        (''AccountName'', VString (mf_AccountName c)), (''ContainerName'', VString (mf_ContainerName c)),
        (''CloudName'', VString (mf_CloudName c)), (''AROIngressInternal'', VBool (mf_AROIngressInternal c)),
        (''AROIngressIP'', VString (mf_AROIngressIP c))]"

definition AppendManifestsFilesToBootstrap :: "ign_lib \<Rightarrow> bootstrap \<Rightarrow> manifests_config \<Rightarrow> bootstrap result" where
  "AppendManifestsFilesToBootstrap l b config =
     andThen (AddStorageFiles l (manifests_data config) ''opt'' ''opt'' manifests_assets (bs_Config b)) (\<lambda>c. Ok (b\<lparr>bs_Config := c\<rparr>))"

text \<open>The text of the registries file, as a data URL: \<open>String\<close> of the library dataurl for the encoding ASCII (its rfc2396.go).\<close>

definition isUnreserved :: "char \<Rightarrow> bool" where
  "isUnreserved c \<longleftrightarrow> unreserved c \<or> c \<in> set ''!*()'' \<or> c = CHR 0x27"

definition dataurl_ASCII :: "string \<Rightarrow> string" where
  "dataurl_ASCII t = ''data:text/plain,'' @ percent_escape isUnreserved t"

definition registries_text :: "(string \<times> string list) list \<Rightarrow> string" where
  \<open>registries_text idss =
     ''unqualified-search-registries = ["registry.access.redhat.com", "docker.io"]'' @ [nl] @
     concat (map (\<lambda>(source, mirrors).
       [nl] @ lines_text [''[[registry]]'', ''  prefix = ""'', ''  location = "'' @ source @ ''"'', ''  mirror-by-digest-only = true''] @
       concat (map (\<lambda>mirror. [nl] @ lines_text [''  [[registry.mirror]]'', ''    location = "'' @ mirror @ ''"'']) mirrors)) idss)\<close>

definition AroWorkerRegistries :: "(string \<times> string list) list \<Rightarrow> string" where
  "AroWorkerRegistries idss = dataurl_ASCII (registries_text idss)"

section \<open>What the templates come to\<close>

definition aro_conf :: "string \<Rightarrow> string \<Rightarrow> string list \<Rightarrow> string \<Rightarrow> string" where
  "aro_conf clusterDomain apiIntIP gwDomains gatewayPrivateEndpointIP =
     lines_text
       [apiIntIP @ [tab] @ ''api.'' @ clusterDomain @ '' api-int.'' @ clusterDomain,
        gatewayPrivateEndpointIP @ [tab] @ join_with '' '' gwDomains]"

lemma join_enumerate:
  "concat (map (\<lambda>(n, x). (if 0 < n then '' '' else []) @ x) (enumerate (Suc k) xs)) = concat (map (\<lambda>x. '' '' @ x) xs)"
  by (induction xs arbitrary: k) simp_all

lemma join_spaces: "join_with '' '' (x # xs) = x @ concat (map (\<lambda>x. '' '' @ x) xs)"
  by (induction xs arbitrary: x) simp_all

lemma parse_aroConfTemplate:
  "template_Parse aroConfTemplate_text = Ok
     [NOut (OField ''APIIntIP''), NText (tab # ''api.''), NOut (OField ''ClusterDomain''), NText '' api-int.'',
      NOut (OField ''ClusterDomain''), NText [nl], NOut (ORoot ''GatewayPrivateEndpointIP''), NText [tab],
      NRange (Some ''i'') ''GatewayDomain'' (OField ''GatewayDomains'')
        [NIf (CPositive (OVar ''i'')) [NText '' ''], NOut (OVar ''GatewayDomain'')], NText [nl]]"
  by code_simp

lemma GenerateEtcHostsAROConf_Ok [simp, code]:
  "GenerateEtcHostsAROConf cd api gds gw = Ok (aro_conf cd api gds gw)"
proof -
  let ?d = "conf_data \<lparr>eh_ClusterDomain = cd, eh_APIIntIP = api, eh_GatewayDomains = gds, eh_GatewayPrivateEndpointIP = gw\<rparr>"
  let ?r = "NRange (Some ''i'') ''GatewayDomain'' (OField ''GatewayDomains'')
        [NIf (CPositive (OVar ''i'')) [NText '' ''], NOut (OVar ''GatewayDomain'')]"
  have "concat (map (\<lambda>(n, x). (if 0 < n then '' '' else []) @ x) (enumerate 0 gds)) = join_with '' '' gds"
    by (cases gds) (simp_all add: join_enumerate join_spaces)
  moreover have "exec_node id ?d ?d [] ?r = Ok (concat (map (\<lambda>(n, x). (if 0 < n then '' '' else []) @ x) (enumerate 0 gds)))"
    by (rule exec_range) (simp_all add: conf_data_def range_vars_def)
  ultimately have "exec_node id ?d ?d [] ?r = Ok (join_with '' '' gds)" by simp
  then show ?thesis
    by (simp add: GenerateEtcHostsAROConf_def aroConfTemplate_def parse_aroConfTemplate template_Must_def template_Execute_def
        conf_data_def aro_conf_def lines_text_def wrap_def del: exec_node.simps(4))
qed

lemma parse_aroUnitTemplate:
  "template_Parse aroUnitTemplate_text = Ok
     [NText (lines_text [''[Unit]'', ''Description=One shot service that appends static domains to etchosts'',
        ''Before=network-online.target'', [], ''[Service]'',
        ''# ExecStart will copy the hosts defined in /etc/hosts.d/aro.conf to /etc/hosts''] @ ''ExecStart=/bin/bash /usr/local/bin/''),
      NOut (OField ''ScriptFileName''), NText (nl # lines_text [[], ''[Install]'', ''WantedBy=multi-user.target''])]"
proof -
  let ?xs = "[(lines_text [''[Unit]'', ''Description=One shot service that appends static domains to etchosts'',
        ''Before=network-online.target'', [], ''[Service]'',
        ''# ExecStart will copy the hosts defined in /etc/hosts.d/aro.conf to /etc/hosts''] @ ''ExecStart=/bin/bash /usr/local/bin/'',
        ''ScriptFileName'')]"
  let ?u = "nl # lines_text [[], ''[Install]'', ''WantedBy=multi-user.target'']"
  have "aroUnitTemplate_text = chunks (map (\<lambda>(t, f). (t, '' .'' @ f @ '' '')) ?xs) ?u"
    by (simp add: aroUnitTemplate_text_def lines_text_def)
  then have "template_Parse aroUnitTemplate_text = Ok (concat (map (\<lambda>(t, f). [NText t, NOut (OField f)]) ?xs) @ [NText ?u])"
    by (rule parse_fields) (simp_all add: plain_free lines_text_def is_identifier_def name_chars_def)
  then show ?thesis by simp
qed

lemma GenerateEtcHostsAROUnit_Ok [simp, code]: "GenerateEtcHostsAROUnit = Ok expected_resolver_service"
  by (simp add: GenerateEtcHostsAROUnit_def aroUnitTemplate_def parse_aroUnitTemplate template_Must_def template_Execute_def
      script_tdata_def script_data_def scriptFileName_def expected_resolver_service_def lines_text_def wrap_def)

definition script_head :: string where
  \<open>script_head = lines_text [''#!/bin/bash'',
        ''set -uo pipefail'', [],
        ''trap 'jobs -p | xargs kill || true; wait; exit 0' TERM'', []] @ ''OPENSHIFT_MARKER="''\<close>

definition script_config :: string where
  \<open>script_config = lines_text [''"'',
        ''HOSTS_FILE="/etc/hosts"''] @ ''CONFIG_FILE="/etc/hosts.d/''\<close>

definition script_temp :: string where
  \<open>script_temp = lines_text [''"''] @ ''TEMP_FILE="/etc/hosts.d/''\<close>

definition script_tail :: string where
  \<open>script_tail = lines_text [''"'', [],
        ''# Make a temporary file with the old hosts file's data.'',
        ''if ! cp -f "${HOSTS_FILE}" "${TEMP_FILE}"; then'',
        ''  echo "Failed to preserve hosts file. Exiting."'',
        ''  exit 1'',
        ''fi'', [],
        ''if ! sed --silent "/# ${OPENSHIFT_MARKER}/d; w ${TEMP_FILE}" "${HOSTS_FILE}"; then'',
        ''  # Only continue rebuilding the hosts entries if its original content is preserved'',
        ''  sleep 60 & wait'',
        ''  continue'',
        ''fi'', [],
        ''while IFS= read -r line; do'',
        ''    echo "${line} # ${OPENSHIFT_MARKER}" >> "${TEMP_FILE}"'',
        ''done < "${CONFIG_FILE}"'', [],
        ''# Replace /etc/hosts with our modified version if needed'',
        ''cmp "${TEMP_FILE}" "${HOSTS_FILE}" || cp -f "${TEMP_FILE}" "${HOSTS_FILE}"'',
        ''# TEMP_FILE is not removed to avoid file create/delete and attributes copy churn'']\<close>

lemmas script_texts = script_head_def script_config_def script_temp_def script_tail_def

lemma parse_aroScriptTemplate:
  "template_Parse aroScriptTemplate_text = Ok
     [NText script_head, NOut (OField ''ScriptMarker''), NText script_config, NOut (OField ''ConfigFileName''),
      NText script_temp, NOut (OField ''TempFileName''), NText script_tail]"
proof -
  let ?xs = "[(script_head, ''ScriptMarker''), (script_config, ''ConfigFileName''), (script_temp, ''TempFileName'')]"
  have "aroScriptTemplate_text = chunks (map (\<lambda>(t, f). (t, '' .'' @ f @ '' '')) ?xs) script_tail"
    by (simp add: aroScriptTemplate_text_def lines_text_def script_texts)
  moreover have "plain (CHR ''{'') script_head" "plain (CHR ''{'') script_config" "plain (CHR ''{'') script_temp"
    by (simp_all add: plain_free script_texts lines_text_def)
  moreover have "plain (CHR ''{'') script_tail"
    unfolding script_tail_def by (rule plain_lines) (simp_all add: plain_free, simp_all add: plain_def)
  moreover have "script_head \<noteq> []" "script_config \<noteq> []" "script_temp \<noteq> []" "script_tail \<noteq> []"
    by (simp_all add: script_texts lines_text_def)
  moreover have "is_identifier ''ScriptMarker''" "is_identifier ''ConfigFileName''" "is_identifier ''TempFileName''"
    by (simp_all add: is_identifier_def name_chars_def)
  ultimately show ?thesis by (subst parse_fields [of _ ?xs script_tail]) simp_all
qed

lemma GenerateEtcHostsAROScript_Ok [simp, code]: "GenerateEtcHostsAROScript = Ok expected_resolver_script"
  by (simp add: GenerateEtcHostsAROScript_def aroScriptTemplate_def parse_aroScriptTemplate template_Must_def template_Execute_def
      script_tdata_def script_data_def configFileName_def tempFileName_def script_marker_def script_texts
      expected_resolver_script_def lines_text_def wrap_def)

section \<open>The files of logging and of the manifests\<close>

lemma add_file_plain:
  "\<not> suffix ''.template'' (path_base uri) \<Longrightarrow>
   add_file l td (base, uri, content) c = Ok (c\<lparr>ig_Files := replaceOrAppend (ig_Files c) (storage_file l base uri content)\<rparr>)"
  by (simp add: add_file_def readFile_def)

lemma add_file_template:
  "suffix ''.template'' (path_base uri) \<Longrightarrow> template_Parse content = Ok t \<Longrightarrow> html_Execute t td = Ok d \<Longrightarrow>
   add_file l td (base, uri, content) c = Ok (c\<lparr>ig_Files := replaceOrAppend (ig_Files c) (storage_file l base uri d)\<rparr>)"
  by (simp add: add_file_def readFile_def applyTemplateData_def)

definition mdsd_env :: "logging_config \<Rightarrow> string" where
  "mdsd_env c =
     lines_text
       [''MONITORING_GCS_ENVIRONMENT='' @ html_escape (lg_Environment c),
        ''MONITORING_GCS_ACCOUNT='' @ html_escape (lg_Account c),
        ''MONITORING_GCS_REGION='' @ html_escape (lg_Region c),
        ''MONITORING_GCS_CERT_CERTFILE=/etc/mdsd.d/secret/mdsdcert.pem'',
        ''MONITORING_GCS_CERT_KEYFILE=/etc/mdsd.d/secret/mdsdcert.pem'',
        ''MONITORING_GCS_NAMESPACE='' @ html_escape (lg_Namespace c),
        ''MONITORING_CONFIG_VERSION='' @ html_escape (lg_ConfigVersion c),
        ''MONITORING_USE_GENEVA_CONFIG_SERVICE=true'',
        ''MONITORING_TENANT='' @ html_escape (lg_Region c),
        ''MONITORING_ROLE=cluster'', ''MONITORING_ROLE_INSTANCE=bootstrap'',
        ''RESOURCE_ID='' @ html_escape (lg_ResourceID c),
        ''SUBSCRIPTION_ID='' @ html_escape (lg_SubscriptionID c),
        ''RESOURCE_GROUP='' @ html_escape (lg_ResourceGroupName c),
        ''RESOURCE_NAME='' @ html_escape (lg_ResourceName c)]"

definition logging_texts :: "logging_config \<Rightarrow> (string \<times> string) list" where
  "logging_texts c =
     [(''/etc/fluentbit/journal.conf'', journal_conf),
      (''/etc/mdsd.d/mdsd.env'', mdsd_env c),
      (''/etc/mdsd.d/secret/mdsdcert.pem'', lines_text [html_escape (lg_Key c), html_escape (lg_Certificate c)]),
      (''/etc/sysconfig/fluentbit'', lines_text [''FLUENTIMAGE='' @ html_escape (lg_FluentbitImage c)]),
      (''/etc/sysconfig/mdsd'', lines_text [''MDSDIMAGE='' @ html_escape (lg_MdsdImage c)])]"

definition private_files :: "ign_lib \<Rightarrow> (string \<times> string) list \<Rightarrow> ign_file list" where
  "private_files l = map (\<lambda>(p, t). FileFromBytes l p ''root'' 384 t)"

definition logging_units :: "ign_unit list" where
  "logging_units =
     [\<lparr>un_Name = ''fluentbit.service'', un_Enabled = Some True, un_Contents = Some fluentbit_service, un_Dropins = []\<rparr>,
      \<lparr>un_Name = ''mdsd.service'', un_Enabled = Some True, un_Contents = Some mdsd_service, un_Dropins = []\<rparr>]"

lemma leaves_logging:
  "fs_open mdsd_Assets ''etc'' = Ok n \<Longrightarrow> leaves ''etc'' ''etc'' n =
     [(''etc/fluentbit/journal.conf'', ''etc/fluentbit/journal.conf'', journal_conf),
      (''etc/mdsd.d/mdsd.env.template'', ''etc/mdsd.d/mdsd.env.template'', mdsd_env_template),
      (''etc/mdsd.d/secret/mdsdcert.pem.template'', ''etc/mdsd.d/secret/mdsdcert.pem.template'', mdsdcert_template),
      (''etc/sysconfig/fluentbit.template'', ''etc/sysconfig/fluentbit.template'', fluentbit_template),
      (''etc/sysconfig/mdsd.template'', ''etc/sysconfig/mdsd.template'', mdsd_template)]"
  by (auto simp: fs_open_def mdsd_Assets_def path_Join_def)

lemma fields_logging [simp]:
  "field_of ''Key'' (logging_data c) = Ok (VString (lg_Key c))"
  "field_of ''Certificate'' (logging_data c) = Ok (VString (lg_Certificate c))"
  "field_of ''Environment'' (logging_data c) = Ok (VString (lg_Environment c))"
  "field_of ''Account'' (logging_data c) = Ok (VString (lg_Account c))"
  "field_of ''Region'' (logging_data c) = Ok (VString (lg_Region c))"
  "field_of ''Namespace'' (logging_data c) = Ok (VString (lg_Namespace c))"
  "field_of ''ConfigVersion'' (logging_data c) = Ok (VString (lg_ConfigVersion c))"
  "field_of ''ResourceID'' (logging_data c) = Ok (VString (lg_ResourceID c))"
  "field_of ''SubscriptionID'' (logging_data c) = Ok (VString (lg_SubscriptionID c))"
  "field_of ''ResourceGroupName'' (logging_data c) = Ok (VString (lg_ResourceGroupName c))"
  "field_of ''ResourceName'' (logging_data c) = Ok (VString (lg_ResourceName c))"
  "field_of ''FluentbitImage'' (logging_data c) = Ok (VString (lg_FluentbitImage c))"
  "field_of ''MdsdImage'' (logging_data c) = Ok (VString (lg_MdsdImage c))"
  by (simp_all add: logging_data_def)

lemma file_names:
  "path_base ''etc/fluentbit/journal.conf'' = ''journal.conf''"
  "path_base ''etc/mdsd.d/mdsd.env.template'' = ''mdsd.env.template''"
  "path_base ''etc/mdsd.d/secret/mdsdcert.pem.template'' = ''mdsdcert.pem.template''"
  "path_base ''etc/sysconfig/fluentbit.template'' = ''fluentbit.template''"
  "path_base ''etc/sysconfig/mdsd.template'' = ''mdsd.template''"
  "suffix ''.template'' ''mdsd.env.template''" "suffix ''.template'' ''mdsdcert.pem.template''"
  "suffix ''.template'' ''fluentbit.template''" "suffix ''.template'' ''mdsd.template''"
  "\<not> suffix ''.template'' ''journal.conf''"
  by code_simp+

lemma storage_files:
  "storage_file l ''etc/fluentbit/journal.conf'' ''etc/fluentbit/journal.conf'' d = FileFromBytes l ''/etc/fluentbit/journal.conf'' ''root'' 384 d"
  "storage_file l ''etc/mdsd.d/mdsd.env.template'' ''etc/mdsd.d/mdsd.env.template'' d = FileFromBytes l ''/etc/mdsd.d/mdsd.env'' ''root'' 384 d"
  "storage_file l ''etc/mdsd.d/secret/mdsdcert.pem.template'' ''etc/mdsd.d/secret/mdsdcert.pem.template'' d =
     FileFromBytes l ''/etc/mdsd.d/secret/mdsdcert.pem'' ''root'' 384 d"
  "storage_file l ''etc/sysconfig/fluentbit.template'' ''etc/sysconfig/fluentbit.template'' d = FileFromBytes l ''/etc/sysconfig/fluentbit'' ''root'' 384 d"
  "storage_file l ''etc/sysconfig/mdsd.template'' ''etc/sysconfig/mdsd.template'' d = FileFromBytes l ''/etc/sysconfig/mdsd'' ''root'' 384 d"
  by code_simp+

text \<open>Adding the embedded files always succeeds, and these are the texts.\<close>

lemma AddStorageFiles_logging:
  "AddStorageFiles l (logging_data c) ''etc'' ''etc'' mdsd_Assets cfg =
     Ok (cfg\<lparr>ig_Files := ReplaceOrAppend (ig_Files cfg) (private_files l (logging_texts c))\<rparr>)"
proof -
  obtain n where n: "fs_open mdsd_Assets ''etc'' = Ok n" by (simp add: fs_open_def mdsd_Assets_def)
  have "html_Execute [NText t] d = Ok t" if "CHR ''<'' \<notin> set t" for t d using that by (simp add: html_Execute_def)
  have e1: "html_Execute [NOut (OField ''Key''), NText [nl], NOut (OField ''Certificate''), NText [nl]] (logging_data c)
      = Ok (lines_text [html_escape (lg_Key c), html_escape (lg_Certificate c)])"
    by (simp add: html_Execute_def lines_text_def)
  have e2: "html_Execute [NText ''FLUENTIMAGE='', NOut (OField ''FluentbitImage''), NText [nl]] (logging_data c)
      = Ok (lines_text [''FLUENTIMAGE='' @ html_escape (lg_FluentbitImage c)])"
    by (simp add: html_Execute_def lines_text_def)
  have e3: "html_Execute [NText ''MDSDIMAGE='', NOut (OField ''MdsdImage''), NText [nl]] (logging_data c)
      = Ok (lines_text [''MDSDIMAGE='' @ html_escape (lg_MdsdImage c)])"
    by (simp add: html_Execute_def lines_text_def)
  have "\<exists>t. template_Parse mdsd_env_template = Ok t \<and> html_Execute t (logging_data c) = Ok (mdsd_env c)"
    unfolding parse_mdsd_env by (simp add: html_Execute_def lines_text_def mdsd_env_def)
  then obtain t where e4: "template_Parse mdsd_env_template = Ok t" "html_Execute t (logging_data c) = Ok (mdsd_env c)" by blast
  show ?thesis
    unfolding AddStorageFiles_def n
    by (simp add: add_node_leaves leaves_logging [OF n] add_file_plain add_file_template [OF _ parse_mdsdcert e1]
        add_file_template [OF _ parse_fluentbit e2] add_file_template [OF _ parse_mdsd e3] add_file_template [OF _ e4]
        file_names storage_files ReplaceOrAppend_def private_files_def logging_texts_def)
qed

lemma AddSystemdUnits_logging:
  "AddSystemdUnits td ''systemd/units'' [''fluentbit.service'', ''mdsd.service''] mdsd_Assets cfg =
     Ok (cfg\<lparr>ig_Units := ig_Units cfg @ logging_units\<rparr>)"
proof -
  have o: "fs_open mdsd_Assets ''systemd/units'' = Ok (FsDir [(''fluentbit.service'', FsFile fluentbit_service), (''mdsd.service'', FsFile mdsd_service)])"
    by (simp add: fs_open_def mdsd_Assets_def)
  have "\<not> suffix ''.template'' ''fluentbit.service''" "\<not> suffix ''.template'' ''mdsd.service''" by code_simp+
  then show ?thesis
    by (simp add: AddSystemdUnits_def o add_unit_def readFile_def enabled_unit_def logging_units_def)
qed

lemma AppendMdsdFiles_Ok [code]:
  "AppendMdsdFiles l b c = Ok (b\<lparr>bs_Config := (bs_Config b)
     \<lparr>ig_Files := ReplaceOrAppend (ig_Files (bs_Config b)) (private_files l (logging_texts c)),
      ig_Units := ig_Units (bs_Config b) @ logging_units\<rparr>\<rparr>)"
  by (simp add: AppendMdsdFiles_def AddStorageFiles_logging AddSystemdUnits_logging)

definition imageregistry_text :: "manifests_config \<Rightarrow> string" where
  \<open>imageregistry_text c =
     lines_text
       [''apiVersion: imageregistry.operator.openshift.io/v1'', ''kind: Config'', ''metadata:'', ''  finalizers:'',
        ''  - imageregistry.operator.openshift.io/finalizer'', ''  name: cluster'', ''spec:'',
        ''  httpSecret: "'' @ html_escape (mf_HTTPSecret c) @ ''"'', ''  managementState: Managed'', ''  replicas: 2'',
        ''  storage:'', ''    azure:'',
        ''      accountName: "'' @ html_escape (mf_AccountName c) @ ''"'',
        ''      container: "'' @ html_escape (mf_ContainerName c) @ ''"'',
        ''      cloudName: "'' @ html_escape (mf_CloudName c) @ ''"'', ''    managementState: Unmanaged'']\<close>

definition worker_registries_text :: "manifests_config \<Rightarrow> string" where
  \<open>worker_registries_text c =
     lines_text
       [''apiVersion: machineconfiguration.openshift.io/v1'', ''kind: MachineConfig'', ''metadata:'', ''  labels:'',
        ''    machineconfiguration.openshift.io/role: worker'', ''  name: 90-aro-worker-registries'', ''spec:'', ''  config:'',
        ''    ignition:'', ''      version: 2.2.0'', ''    storage:'', ''      files:'', ''      - contents:'',
        ''          source: "'' @ html_escape (mf_AROWorkerRegistries c) @ ''"'', ''        filesystem: root'', ''        mode: 420'',
        ''        path: /etc/containers/registries.conf'']\<close>

definition ingress_service_text :: "manifests_config \<Rightarrow> string" where
  "ingress_service_text c =
     ingress_head @ (if mf_AROIngressInternal c then ''true'' else []) @ ingress_middle @ html_escape (mf_AROIngressIP c)
     @ ingress_tail"

definition manifests_texts :: "manifests_config \<Rightarrow> (string \<times> string) list" where
  "manifests_texts c =
     [(''/opt/openshift/manifests/aro-imageregistry.yaml'', imageregistry_text c),
      (''/opt/openshift/manifests/aro-ingress-namespace.yaml'', ingress_namespace),
      (''/opt/openshift/manifests/aro-ingress-service.yaml'', ingress_service_text c),
      (''/opt/openshift/manifests/aro-worker-registries.yaml'', worker_registries_text c)]"

lemma manifest_names:
  "path_base ''opt/openshift/manifests/aro-imageregistry.yaml.template'' = ''aro-imageregistry.yaml.template''"
  "path_base ''opt/openshift/manifests/aro-ingress-namespace.yaml'' = ''aro-ingress-namespace.yaml''"
  "path_base ''opt/openshift/manifests/aro-ingress-service.yaml.template'' = ''aro-ingress-service.yaml.template''"
  "path_base ''opt/openshift/manifests/aro-worker-registries.yaml.template'' = ''aro-worker-registries.yaml.template''"
  "suffix ''.template'' ''aro-imageregistry.yaml.template''" "suffix ''.template'' ''aro-ingress-service.yaml.template''"
  "suffix ''.template'' ''aro-worker-registries.yaml.template''" "\<not> suffix ''.template'' ''aro-ingress-namespace.yaml''"
  by code_simp+

lemma manifest_files:
  "storage_file l ''opt/openshift/manifests/aro-imageregistry.yaml.template'' ''opt/openshift/manifests/aro-imageregistry.yaml.template'' d =
     FileFromBytes l ''/opt/openshift/manifests/aro-imageregistry.yaml'' ''root'' 384 d"
  "storage_file l ''opt/openshift/manifests/aro-ingress-namespace.yaml'' ''opt/openshift/manifests/aro-ingress-namespace.yaml'' d =
     FileFromBytes l ''/opt/openshift/manifests/aro-ingress-namespace.yaml'' ''root'' 384 d"
  "storage_file l ''opt/openshift/manifests/aro-ingress-service.yaml.template'' ''opt/openshift/manifests/aro-ingress-service.yaml.template'' d =
     FileFromBytes l ''/opt/openshift/manifests/aro-ingress-service.yaml'' ''root'' 384 d"
  "storage_file l ''opt/openshift/manifests/aro-worker-registries.yaml.template'' ''opt/openshift/manifests/aro-worker-registries.yaml.template'' d =
     FileFromBytes l ''/opt/openshift/manifests/aro-worker-registries.yaml'' ''root'' 384 d"
  by code_simp+

lemma leaves_manifests:
  "fs_open manifests_assets ''opt'' = Ok n \<Longrightarrow> leaves ''opt'' ''opt'' n =
     [(''opt/openshift/manifests/aro-imageregistry.yaml.template'', ''opt/openshift/manifests/aro-imageregistry.yaml.template'', imageregistry_template),
      (''opt/openshift/manifests/aro-ingress-namespace.yaml'', ''opt/openshift/manifests/aro-ingress-namespace.yaml'', ingress_namespace),
      (''opt/openshift/manifests/aro-ingress-service.yaml.template'', ''opt/openshift/manifests/aro-ingress-service.yaml.template'', ingress_service_template),
      (''opt/openshift/manifests/aro-worker-registries.yaml.template'', ''opt/openshift/manifests/aro-worker-registries.yaml.template'', worker_registries_template)]"
  by (auto simp: fs_open_def manifests_assets_def path_Join_def)

lemma AppendManifestsFilesToBootstrap_Ok [code]:
  "AppendManifestsFilesToBootstrap l b c = Ok (b\<lparr>bs_Config := (bs_Config b)
     \<lparr>ig_Files := ReplaceOrAppend (ig_Files (bs_Config b)) (private_files l (manifests_texts c))\<rparr>\<rparr>)"
proof -
  obtain n where n: "fs_open manifests_assets ''opt'' = Ok n" by (simp add: fs_open_def manifests_assets_def)
  have "\<exists>t. template_Parse imageregistry_template = Ok t \<and> html_Execute t (manifests_data c) = Ok (imageregistry_text c)"
    unfolding parse_imageregistry by (simp add: html_Execute_def manifests_data_def lines_text_def imageregistry_text_def)
  then obtain t1 where e1: "template_Parse imageregistry_template = Ok t1" "html_Execute t1 (manifests_data c) = Ok (imageregistry_text c)" by blast
  have "\<exists>t. template_Parse worker_registries_template = Ok t \<and> html_Execute t (manifests_data c) = Ok (worker_registries_text c)"
    unfolding parse_worker_registries by (simp add: html_Execute_def manifests_data_def lines_text_def worker_registries_text_def)
  then obtain t2 where e2: "template_Parse worker_registries_template = Ok t2" "html_Execute t2 (manifests_data c) = Ok (worker_registries_text c)" by blast
  have ctx: "CHR ''<'' \<notin> set ingress_head" "CHR ''<'' \<notin> set ingress_middle" "CHR ''<'' \<notin> set ingress_tail"
    by (simp_all add: ingress_head_def ingress_middle_def ingress_tail_def lines_text_def)
  have "html_Execute [NText ingress_head, NIf (CValue (OField ''AROIngressInternal'')) [NText ''true''], NText ingress_middle,
      NOut (OField ''AROIngressIP''), NText ingress_tail] (manifests_data c) = Ok (ingress_service_text c)"
    using ctx by (simp add: html_Execute_def manifests_data_def ingress_service_text_def)
  note e3 = parse_ingress_service this
  show ?thesis
    unfolding AppendManifestsFilesToBootstrap_def AddStorageFiles_def n
    by (simp add: add_node_leaves leaves_manifests [OF n] add_file_plain add_file_template [OF _ e1] add_file_template [OF _ e2]
        add_file_template [OF _ e3] manifest_names manifest_files ReplaceOrAppend_def private_files_def manifests_texts_def)
qed

section \<open>Properties\<close>

lemma split_lines: "(\<And>l. l \<in> set ls \<Longrightarrow> nl \<notin> set l) \<Longrightarrow> split_on nl (lines_text ls) = ls @ [[]]"
  by (induction ls) (auto simp: lines_text_def split_on_append_sep)

text \<open>How dnsmasq reads an address line: the name and the address between the slashes.\<close>

definition address_of :: "string \<Rightarrow> (string \<times> string) option" where
  "address_of line =
     (case strip_prefix ''address=/'' line of
        None \<Rightarrow> None
      | Some r \<Rightarrow> (case split_on slash r of [name, ip] \<Rightarrow> Some (name, ip) | _ \<Rightarrow> None))"

definition addresses :: "string \<Rightarrow> (string \<times> string) list" where
  "addresses conf = List.map_filter address_of (split_on nl conf)"

lemma strip_prefix_append: "strip_prefix p (p @ r) = Some r"
  by (simp add: strip_prefix_def)

lemma address_of_line:
  "slash \<notin> set name \<Longrightarrow> slash \<notin> set ip \<Longrightarrow> address_of (''address=/'' @ name @ ''/'' @ ip) = Some (name, ip)"
  unfolding address_of_def strip_prefix_append by (simp add: split_on_append_sep split_on_noocc)

lemma map_filter_append: "List.map_filter f (xs @ ys) = List.map_filter f xs @ List.map_filter f ys"
  by (induction xs) (auto simp: List.map_filter_def)

lemma map_filter_all: "(\<And>x. x \<in> set xs \<Longrightarrow> f x = Some (g x)) \<Longrightarrow> List.map_filter f xs = map g xs"
  by (induction xs) (auto simp: List.map_filter_def)

definition dns_text :: "string \<Rightarrow> bool" where
  "dns_text s = (nl \<notin> set s \<and> slash \<notin> set s)"

text \<open>The names that the generated dnsmasq configuration answers: the two API names at the internal address
  of the API server, the applications at the ingress, and every gateway domain at the private
  endpoint, in this order and nothing else.\<close>

theorem dnsmasq_addresses:
  assumes "dns_text cd" "dns_text api" "dns_text ing" "dns_text gw" "list_all dns_text gds"
  shows "\<exists>conf service pre. dnsmasq_config cd api ing gds gw = Ok (conf, service, pre) \<and>
    addresses conf = [(''api.'' @ cd, api), (''api-int.'' @ cd, api), (''.apps.'' @ cd, ing)] @ map (\<lambda>d. (d, gw)) gds"
proof -
  let ?ls = "dnsmasq_lines cd api ing gds gw"
  have nls: "nl \<notin> set l" if "l \<in> set ([] # ?ls)" for l
    using that assms by (auto simp: dnsmasq_lines_def dns_text_def list_all_iff)
  have split: "split_on nl (nl # lines_text ?ls) = [] # ?ls @ [[]]"
    using split_lines [of "[] # ?ls"] nls by (simp add: lines_text_def)
  have A: "address_of (''address=/'' @ (p @ cd) @ ''/'' @ ip) = Some (p @ cd, ip)"
    if "dns_text ip" "slash \<notin> set p" for p ip
    using that assms(1) by (intro address_of_line) (auto simp: dns_text_def)
  have three: "List.map_filter address_of [''address=/api.'' @ cd @ ''/'' @ api, ''address=/api-int.'' @ cd @ ''/'' @ api,
        ''address=/.apps.'' @ cd @ ''/'' @ ing] = [(''api.'' @ cd, api), (''api-int.'' @ cd, api), (''.apps.'' @ cd, ing)]"
    using A [OF assms(2), of "''api.''"] A [OF assms(2), of "''api-int.''"] A [OF assms(3), of "''.apps.''"]
    by (simp add: List.map_filter_def)
  have four: "List.map_filter address_of (map (\<lambda>d. ''address=/'' @ d @ ''/'' @ gw) gds) = map (\<lambda>d. (d, gw)) gds"
  proof -
    have "address_of (''address=/'' @ d @ ''/'' @ gw) = Some (d, gw)" if "d \<in> set gds" for d
      using that assms(4,5) by (intro address_of_line) (auto simp: dns_text_def list_all_iff)
    then show ?thesis by (induction gds) (auto simp: List.map_filter_def)
  qed
  have none: "List.map_filter address_of [''user=dnsmasq'', ''group=dnsmasq'', ''no-hosts'', ''cache-size=0'', []] = []"
    "List.map_filter address_of [[], ''resolv-file=/etc/resolv.conf.dnsmasq'', ''dns-forward-max=10000''] = []"
    by code_simp+
  have parts: "[] # ?ls @ [[]] = [[], ''resolv-file=/etc/resolv.conf.dnsmasq'', ''dns-forward-max=10000'']
     @ [''address=/api.'' @ cd @ ''/'' @ api, ''address=/api-int.'' @ cd @ ''/'' @ api, ''address=/.apps.'' @ cd @ ''/'' @ ing]
     @ map (\<lambda>d. ''address=/'' @ d @ ''/'' @ gw) gds @ [''user=dnsmasq'', ''group=dnsmasq'', ''no-hosts'', ''cache-size=0'', []]"
    by (simp add: dnsmasq_lines_def)
  have "addresses (nl # lines_text ?ls) =
     [(''api.'' @ cd, api), (''api-int.'' @ cd, api), (''.apps.'' @ cd, ing)] @ map (\<lambda>d. (d, gw)) gds"
    unfolding addresses_def split parts map_filter_append three four none by simp
  then show ?thesis by (simp add: dnsmasq_config_lines)
qed

theorem dnsmasq_addresses_witness:
  "\<exists>conf service pre. dnsmasq_config ''c.io'' ''10.0.0.1'' ''10.0.0.2'' [''acr.io''] ''10.0.0.3''
       = Ok (conf, service, pre) \<and>
    addresses conf = [(''api.c.io'', ''10.0.0.1''), (''api-int.c.io'', ''10.0.0.1''), (''.apps.c.io'', ''10.0.0.2''), (''acr.io'', ''10.0.0.3'')]"
proof -
  have t: "dns_text ''c.io''" "dns_text ''10.0.0.1''" "dns_text ''10.0.0.2''" "dns_text ''10.0.0.3''" "list_all dns_text [''acr.io'']"
    by (simp_all add: dns_text_def)
  from dnsmasq_addresses [OF t] show ?thesis by simp
qed

text \<open>How a hosts file is read: the address, and the names after it.\<close>

definition hosts_entry :: "string \<Rightarrow> string \<times> string list" where
  "hosts_entry line =
     (takeWhile (\<lambda>c. c \<noteq> tab) line, filter (\<lambda>w. w \<noteq> []) (split_on (CHR '' '') (drop 1 (dropWhile (\<lambda>c. c \<noteq> tab) line))))"

definition hosts_text :: "string \<Rightarrow> bool" where
  "hosts_text s = (s \<noteq> [] \<and> nl \<notin> set s \<and> tab \<notin> set s \<and> CHR '' '' \<notin> set s)"

lemma hosts_entry_line: "tab \<notin> set ip \<Longrightarrow> hosts_entry (ip @ [tab] @ r) = (ip, filter (\<lambda>w. w \<noteq> []) (split_on (CHR '' '') r))"
  by (induction ip) (auto simp: hosts_entry_def)

text \<open>The generated hosts file has two entries: the API names at the internal address of the API server, and
  the gateway domains at the private endpoint.\<close>

theorem etc_hosts_entries:
  assumes "hosts_text cd" "hosts_text api" "hosts_text gw" "list_all hosts_text gds"
  shows "map hosts_entry (butlast (split_on nl (aro_conf cd api gds gw))) =
    [(api, [''api.'' @ cd, ''api-int.'' @ cd]), (gw, gds)]"
proof -
  let ?l1 = "api @ [tab] @ ''api.'' @ cd @ '' api-int.'' @ cd" and ?l2 = "gw @ [tab] @ join_with '' '' gds"
  have j: "set (join_with '' '' gds) \<subseteq> insert (CHR '' '') (\<Union> (set ` set gds))"
    by (induction "'' ''" gds rule: join_with.induct) auto
  have "nl \<notin> set l" if "l \<in> set [?l1, ?l2]" for l
    using that assms j by (auto simp: hosts_text_def list_all_iff)
  then have s: "split_on nl (aro_conf cd api gds gw) = [?l1, ?l2] @ [[]]"
    unfolding aro_conf_def by (intro split_lines) auto
  have "split_on (CHR '' '') ((''api.'' @ cd) @ CHR '' '' # (''api-int.'' @ cd)) = [''api.'' @ cd, ''api-int.'' @ cd]"
    using assms(1) by (subst split_on_append_sep) (auto simp: hosts_text_def split_on_noocc)
  then have e1: "hosts_entry ?l1 = (api, [''api.'' @ cd, ''api-int.'' @ cd])"
    using hosts_entry_line [of api "''api.'' @ cd @ '' api-int.'' @ cd"] assms(2) by (simp add: hosts_text_def)
  have e2: "hosts_entry ?l2 = (gw, gds)"
  proof -
    have "filter (\<lambda>w. w \<noteq> []) (split_on (CHR '' '') (join_with '' '' gds)) = gds"
    proof (cases "gds = []")
      case False
      then have "split_on (CHR '' '') (join_with '' '' gds) = gds"
        using assms(4) by (intro split_join) (auto simp: hosts_text_def list_all_iff)
      then show ?thesis using assms(4) by (auto simp: filter_id_conv hosts_text_def list_all_iff)
    qed simp
    then show ?thesis using hosts_entry_line [of gw "join_with '' '' gds"] assms(3) by (simp add: hosts_text_def)
  qed
  have "map hosts_entry (butlast (split_on nl (aro_conf cd api gds gw))) = [(api, [''api.'' @ cd, ''api-int.'' @ cd]), (gw, gds)]"
    unfolding s using e1 e2 by (simp add: butlast_append del: append_Cons append.simps(2))
  then show ?thesis by simp
qed

theorem etc_hosts_entries_witness:
  "\<exists>conf. GenerateEtcHostsAROConf ''c.io'' ''10.0.0.1'' [''acr.io'', ''b.io''] ''10.0.0.3'' = Ok conf \<and>
    map hosts_entry (butlast (split_on nl conf)) =
    [(''10.0.0.1'', [''api.c.io'', ''api-int.c.io'']), (''10.0.0.3'', [''acr.io'', ''b.io''])]"
proof -
  have t: "hosts_text ''c.io''" "hosts_text ''10.0.0.1''" "hosts_text ''10.0.0.3''" "list_all hosts_text [''acr.io'', ''b.io'']"
    by (simp_all add: hosts_text_def)
  from etc_hosts_entries [OF t] show ?thesis by simp
qed

text \<open>The machine configuration of dnsmasq is canonical and faithful: for a configuration whose JSON is well
  formed it parses back to the canonical form of that JSON, and canonicalising it again changes nothing.\<close>

theorem dnsmasq_machine_config_canonical:
  assumes "\<And>c. json_wf (gl_config_json l c)"
  shows "\<exists>ign mc. Ignition3Config l cd api ing gds gw = Ok ign \<and> MachineConfig l cd api ing role gds gw = Ok mc
    \<and> parse_json (mc_Config mc) = Some (canon (gl_config_json l ign))
    \<and> print_json (canon (canon (gl_config_json l ign))) = mc_Config mc"
  using assms parse_print
  by (auto simp: MachineConfig_def Ignition3Config_def dnsmasq_config_lines canon_wf)

theorem dnsmasq_machine_config_canonical_witness:
  "\<exists>ign mc. Ignition3Config demo_ign_lib ''c.io'' ''1'' ''2'' [] [] = Ok ign
    \<and> MachineConfig demo_ign_lib ''c.io'' ''1'' ''2'' ''master'' [] [] = Ok mc
    \<and> parse_json (mc_Config mc) = Some (canon (gl_config_json demo_ign_lib ign))"
proof -
  have "json_wf (gl_config_json demo_ign_lib c)" for c by (simp add: demo_ign_lib_def)
  from dnsmasq_machine_config_canonical [OF this] show ?thesis by blast
qed

end
