(* ===== verification/Customise.thy ===== *)
theory Customise
  imports Dns_Files Asset_Graph
begin

text \<open>
  pkg/installer/custominstallconfig.go with overridemtu.go, regenerate_mcs_certs.go, aromanifests.go and
  aroboundsasigningkey.go: the changes the wrapper makes to the assets that the installer generated.
  It reads and changes assets of the graph of Asset_Graph; one that is missing from the graph is a failed
  type assertion, a panic. YAML, the certificates and the installer's own helpers are parameters.
\<close>

section \<open>Assets and libraries\<close>

record pointer_config =
  pc_Merge :: "string option list"
  pc_rest :: string

record pointer_asset =
  pt_Config :: pointer_config
  pt_Data :: string

record component_override =
  co_Kind :: string
  co_Group :: string
  co_Namespace :: string
  co_Name :: string
  co_Unmanaged :: bool

record cluster_version =
  cv_Overrides :: "component_override list"
  cv_rest :: string

record tls_secret =
  ts_Data :: "(string, string) gomap option"
  ts_rest :: string

record root_ca =
  ca_Key :: string
  ca_Cert :: string

record cert_cfg =
  cc_CommonName :: string
  cc_ExtKeyUsages :: "int list"
  cc_ValidityYears :: nat
  cc_IPAddresses :: "string option list"
  cc_DNSNames :: "string list"

type_synonym asset_file = "string \<times> string"

text \<open>
  The assets of the graph that the wrapper sets or touches, and the name of each one's type, its key.
\<close>

datatype installer_asset =
    AssetInstallConfig install_config_asset
  | AssetReleaseImage string
  | AssetClusterID string string
  | AssetBoundSASigningKey "asset_file list"
  | AssetBootstrap bootstrap
  | AssetMaster pointer_asset
  | AssetWorker pointer_asset
  | AssetCVOIgnore "asset_file list"
  | AssetRootCA root_ca
  | AssetAdminInternalClient string
  | AssetOther string

type_synonym asset_graph = "installer_asset graph"

definition install_config_name :: string where "install_config_name = ''*installconfig.InstallConfig''"
definition image_name :: string where "image_name = ''*releaseimage.Image''"
definition cluster_id_name :: string where "cluster_id_name = ''*installconfig.ClusterID''"
definition signing_key_name :: string where "signing_key_name = ''*tls.BoundSASigningKey''"
definition master_name :: string where "master_name = ''*machine.Master''"
definition worker_name :: string where "worker_name = ''*machine.Worker''"
definition cvo_name :: string where "cvo_name = ''*bootstrap.CVOIgnore''"
definition root_ca_name :: string where "root_ca_name = ''*tls.RootCA''"

lemmas asset_names = bootstrap_asset_def install_config_name_def image_name_def cluster_id_name_def
  signing_key_name_def master_name_def worker_name_def cvo_name_def root_ca_name_def

text \<open>\<open>g.Get(\<dots>).(*T)\<close>, and a change made through the pointer.\<close>

definition bootstrap_in :: "asset_graph \<Rightarrow> bootstrap result" where
  "bootstrap_in g = (case graph_Get g bootstrap_asset of Some (AssetBootstrap b) \<Rightarrow> Ok b | _ \<Rightarrow> Panic)"

definition master_in :: "asset_graph \<Rightarrow> pointer_asset result" where
  "master_in g = (case graph_Get g master_name of Some (AssetMaster p) \<Rightarrow> Ok p | _ \<Rightarrow> Panic)"

definition worker_in :: "asset_graph \<Rightarrow> pointer_asset result" where
  "worker_in g = (case graph_Get g worker_name of Some (AssetWorker p) \<Rightarrow> Ok p | _ \<Rightarrow> Panic)"

definition cvo_in :: "asset_graph \<Rightarrow> asset_file list result" where
  "cvo_in g = (case graph_Get g cvo_name of Some (AssetCVOIgnore fs) \<Rightarrow> Ok fs | _ \<Rightarrow> Panic)"

definition rootCA_in :: "asset_graph \<Rightarrow> root_ca result" where
  "rootCA_in g = (case graph_Get g root_ca_name of Some (AssetRootCA ca) \<Rightarrow> Ok ca | _ \<Rightarrow> Panic)"

definition put_bootstrap :: "bootstrap \<Rightarrow> asset_graph \<Rightarrow> asset_graph" where
  "put_bootstrap b g = graph_Set [(bootstrap_asset, AssetBootstrap b)] g"

record custom_libs =
  cl_ign :: ign_lib
  cl_pointer_json :: "pointer_config \<Rightarrow> string result"
  cl_yaml_DNS :: "string \<Rightarrow> string result"
  cl_identity :: "string \<Rightarrow> (string \<times> string \<times> string \<times> string) result"
  cl_read_ClusterVersion :: "string \<Rightarrow> cluster_version \<Rightarrow> cluster_version result"
  cl_yaml_ClusterVersion :: "cluster_version \<Rightarrow> string result"
  cl_read_Secret :: "string \<Rightarrow> tls_secret result"
  cl_yaml_Secret :: "tls_secret \<Rightarrow> string result"
  cl_PemToPrivateKey :: "string \<Rightarrow> rsa_key result"
  cl_PemToCertificate :: "string \<Rightarrow> x509_cert result"
  cl_PublicKeyToPem :: "rsa_key \<Rightarrow> string result"
  cl_GenerateSignedCertificate :: "rsa_key \<Rightarrow> x509_cert \<Rightarrow> cert_cfg \<Rightarrow> (rsa_key \<times> x509_cert) result"
  cl_PrivateKeyToPem :: "rsa_key \<Rightarrow> string"
  cl_CertToPem :: "x509_cert \<Rightarrow> string"
  cl_ParseIP :: "string \<Rightarrow> string option"
  cl_mc_Manifests :: "machine_config list \<Rightarrow> string \<Rightarrow> string \<Rightarrow> asset_file list result"

text \<open>\<open>filepath.Join("/opt/openshift", name)\<close>.\<close>

definition rooted :: "string \<Rightarrow> string" where
  "rooted name = ''/opt/openshift/'' @ dropWhile (\<lambda>c. c = slash) name"

definition with_files :: "(ign_file list \<Rightarrow> ign_file list) \<Rightarrow> bootstrap \<Rightarrow> bootstrap" where
  "with_files f b = b\<lparr>bs_Config := (bs_Config b)\<lparr>ig_Files := f (ig_Files (bs_Config b))\<rparr>\<rparr>"

section \<open>ARO manifests and the signing key\<close>

text \<open>The file system: a glob, and reading a file; \<open>missing\<close> is \<open>os.IsNotExist\<close>.\<close>

record file_system =
  fs_Glob :: "string \<Rightarrow> string list result"
  fs_ReadFile :: "string \<Rightarrow> string result"
  fs_missing :: "go_error \<Rightarrow> bool"

definition FetchByName :: "file_system \<Rightarrow> string \<Rightarrow> asset_file result" where
  "FetchByName fs name = andThen (fs_ReadFile fs (''/'' @ name)) (\<lambda>d. Ok (name, d))"

definition FetchByPattern :: "file_system \<Rightarrow> string \<Rightarrow> asset_file list result" where
  "FetchByPattern fs pattern =
     andThen (fs_Glob fs (''/'' @ pattern)) (\<lambda>matches.
       mapOk (\<lambda>p. andThen (fs_ReadFile fs p) (\<lambda>d. Ok (p, d))) matches)"

definition AROManifests_Load :: "file_system \<Rightarrow> (asset_file list \<times> bool) result" where
  "AROManifests_Load fs =
     andThen (wrap ''failed to load *.yaml files'' (FetchByPattern fs ''manifests/*.yaml'')) (\<lambda>yamls.
     andThen (wrap ''failed to load *.yml files'' (FetchByPattern fs ''manifests/*.yml'')) (\<lambda>ymls.
       let files = sort_key fst (yamls @ ymls) in Ok (files, files \<noteq> [])))"

definition AROBoundSASigningKey_Load :: "custom_libs \<Rightarrow> file_system \<Rightarrow> (asset_file list \<times> bool) result" where
  "AROBoundSASigningKey_Load l fs =
     (case FetchByName fs ''boundsasigningkey/bound-service-account-signing-key.key'' of
        Err e \<Rightarrow> if fs_missing fs e then Ok ([], False) else Err e
      | Panic \<Rightarrow> Panic
      | Ok (name, d) \<Rightarrow>
          andThen (wrap ''failed to load rsa.PrivateKey from the file'' (cl_PemToPrivateKey l d)) (\<lambda>rsaKey.
          andThen (wrap ''failed to extract public key from the key'' (cl_PublicKeyToPem l rsaKey)) (\<lambda>pubData.
            Ok ([(''tls/bound-service-account-signing-key.key'', d),
                 (''tls/bound-service-account-signing-key.pub'', pubData)], True))))"

section \<open>overridemtu.go\<close>

definition IgnFileData :: string where
  \<open>IgnFileData =
     ''#!/bin/bash'' @ [nl, nl] @ ''if [ "$1" == "eth0" ] && [ "$2" == "up" ]; then'' @ [nl] @
     ''    ip link set $1 mtu 3900'' @ [nl] @ ''fi''\<close>

definition newMTUIgnitionFile :: "ign_lib \<Rightarrow> ign_file" where
  "newMTUIgnitionFile l = FileFromBytes l ''/etc/NetworkManager/dispatcher.d/30-eth0-mtu-3900'' ''root'' 365 IgnFileData"

definition newMTUMachineConfigIgnitionFile :: "custom_libs \<Rightarrow> string \<Rightarrow> ign_file result" where
  "newMTUMachineConfigIgnitionFile l role =
     (let c = \<lparr>ig_Version = ''3.2.0'', ig_Files = [newMTUIgnitionFile (cl_ign l)], ig_Units = []\<rparr>;
          mc = \<lparr>mc_Name = ''99-'' @ role @ ''-mtu'', mc_Role = role, mc_Config = ignition_Marshal (cl_ign l) c\<rparr> in
      andThen (cl_mc_Manifests l [mc] role ''/opt/openshift/openshift'') (\<lambda>manifests.
      andThen (at_index manifests 0) (\<lambda>(name, d). Ok (FileFromBytes (cl_ign l) name ''root'' 420 d))))"

definition marshalled :: "ign_lib \<Rightarrow> bootstrap \<Rightarrow> bootstrap" where
  "marshalled l b = b\<lparr>bs_Data := ignition_Marshal l (bs_Config b)\<rparr>"

definition overrideEthernetMTU :: "custom_libs \<Rightarrow> asset_graph \<Rightarrow> asset_graph result" where
  "overrideEthernetMTU l g =
     andThen (bootstrap_in g) (\<lambda>b.
     let b = with_files (\<lambda>fs. fs @ [newMTUIgnitionFile (cl_ign l)]) b in
     andThen (newMTUMachineConfigIgnitionFile l ''master'') (\<lambda>master.
     let b = with_files (\<lambda>fs. fs @ [master]) b in
     andThen (newMTUMachineConfigIgnitionFile l ''worker'') (\<lambda>worker.
     let b = with_files (\<lambda>fs. fs @ [worker]) b in
       Ok (put_bootstrap (marshalled (cl_ign l) b) g))))"

section \<open>ARO manifests in the bootstrap files and the CVO overrides\<close>

definition appendFilesToBootstrap :: "custom_libs \<Rightarrow> unit result \<Rightarrow> asset_file list \<Rightarrow> asset_graph \<Rightarrow> asset_graph result" where
  "appendFilesToBootstrap l mkdirAll files g =
     andThen (wrap ''failed to create directory /output/manifests'' mkdirAll) (\<lambda>_.
     andThen (bootstrap_in g) (\<lambda>b.
       let b = with_files (\<lambda>fs. fs @ map (\<lambda>(name, d). FileFromBytes (cl_ign l) (rooted name) ''root'' 420 d) files) b
       in Ok (put_bootstrap (marshalled (cl_ign l) b) g)))"

definition override_key :: "string \<Rightarrow> string \<Rightarrow> string \<Rightarrow> string \<Rightarrow> string" where
  "override_key grp kind ns name = grp @ '' |! '' @ kind @ '' |! '' @ ns @ '' |! '' @ name"

fun collect_overrides ::
  "custom_libs \<Rightarrow> (string \<times> string) list \<Rightarrow> component_override list \<Rightarrow> asset_file list \<Rightarrow> component_override list result" where
  "collect_overrides l seen ignored [] = Ok ignored"
| "collect_overrides l seen ignored ((filename, d) # files) =
     andThen (wrap (''could not unmarshal '' @ quote_text filename) (cl_identity l d)) (\<lambda>(grp, kind, ns, name).
       let k = override_key grp kind ns name in
       case map_of seen k of
         Some previousFile \<Rightarrow>
           Err (ErrMsg (''multiple manifests for group '' @ grp @ '' kind '' @ kind @ '' namespace '' @ ns @ '' name '' @ name
             @ '': '' @ previousFile @ '', '' @ filename))
       | None \<Rightarrow>
           collect_overrides l ((k, filename) # seen)
             (ignored @ [\<lparr>co_Kind = kind, co_Group = grp, co_Namespace = ns, co_Name = name, co_Unmanaged = True\<rparr>]) files)"

definition cvoOverridesFilename :: string where "cvoOverridesFilename = ''manifests/cvo-overrides.yaml''"

text \<open>
  The loop over the files of the CVO asset: each with the right name is read into the same cluster
  version, extended, and replaced; the text written last is what the bootstrap file gets.
\<close>

fun rewrite_overrides ::
  "custom_libs \<Rightarrow> component_override list \<Rightarrow> cluster_version \<Rightarrow> string \<Rightarrow> asset_file list \<Rightarrow> (asset_file list \<times> string) result" where
  "rewrite_overrides l ignored cv cvData [] = Ok ([], cvData)"
| "rewrite_overrides l ignored cv cvData ((filename, d) # files) =
     (if filename \<noteq> cvoOverridesFilename
      then andThen (rewrite_overrides l ignored cv cvData files) (\<lambda>(fs, t). Ok ((filename, d) # fs, t))
      else
        andThen (wrap (''could not unmarshal '' @ quote_text filename) (cl_read_ClusterVersion l d cv)) (\<lambda>cv.
        let cv = cv\<lparr>cv_Overrides := cv_Overrides cv @ ignored\<rparr> in
        andThen (wrap ''error marshalling clusterversion'' (cl_yaml_ClusterVersion l cv)) (\<lambda>t.
        andThen (rewrite_overrides l ignored cv t files) (\<lambda>(fs, t'). Ok ((filename, t) # fs, t')))))"

definition appendFilesToCvoOverrides :: "custom_libs \<Rightarrow> asset_file list \<Rightarrow> asset_graph \<Rightarrow> asset_graph result" where
  "appendFilesToCvoOverrides l files g =
     andThen (cvo_in g) (\<lambda>cvo.
     andThen (bootstrap_in g) (\<lambda>b.
     andThen (collect_overrides l [] [] files) (\<lambda>ignored.
     andThen (rewrite_overrides l ignored \<lparr>cv_Overrides = [], cv_rest = []\<rparr> [] cvo) (\<lambda>(cvo', cvData).
       let ignPath = rooted cvoOverridesFilename in
       Ok (graph_Set [(cvo_name, AssetCVOIgnore cvo'),
             (bootstrap_asset, AssetBootstrap (with_files (map (\<lambda>f. if fi_Path f = ignPath
               then FileFromBytes (cl_ign l) ignPath ''root'' 272 cvData else f)) b))] g)))))"

section \<open>DNS, pointer ignition\<close>

definition removeDNSConfigData :: "custom_libs \<Rightarrow> install_config \<Rightarrow> asset_graph \<Rightarrow> asset_graph result" where
  "removeDNSConfigData l ic g =
     andThen (cl_yaml_DNS l (ClusterDomain ic)) (\<lambda>d.
     andThen (bootstrap_in g) (\<lambda>b.
       Ok (put_bootstrap (with_files (\<lambda>fs. ReplaceOrAppend fs
          [FileFromBytes (cl_ign l) (rooted ''manifests/cluster-dns-02-config.yml'') ''root'' 420 d]) b) g)))"

definition userDataTmpl_text :: string where
  \<open>userDataTmpl_text =
     lines_text
       [''apiVersion: v1'', ''kind: Secret'', ''metadata:'', ''  name: {{.name}}'', ''  namespace: openshift-machine-api'',
        ''type: Opaque'', ''data:'', ''  disableTemplating: "dHJ1ZQo="'', ''  userData: {{.content}}'']\<close>

definition userDataTmpl :: "node list result" where
  "userDataTmpl = template_Must (template_Parse userDataTmpl_text)"

definition userDataSecret :: "string \<Rightarrow> string \<Rightarrow> string result" where
  "userDataSecret name content =
     andThen userDataTmpl (\<lambda>t.
       wrap ''failed to execute user-data template''
         (template_Execute t (DMap [(''content'', VString (b64_encode content)), (''name'', VString name)])))"

text \<open>What the template comes to.\<close>

definition user_data_text :: "string \<Rightarrow> string \<Rightarrow> string" where
  \<open>user_data_text name content =
     lines_text
       [''apiVersion: v1'', ''kind: Secret'', ''metadata:'', ''  name: '' @ name, ''  namespace: openshift-machine-api'',
        ''type: Opaque'', ''data:'', ''  disableTemplating: "dHJ1ZQo="'', ''  userData: '' @ content]\<close>

lemma parse_userDataTmpl:
  \<open>template_Parse userDataTmpl_text = Ok
     [NText (lines_text [''apiVersion: v1'', ''kind: Secret'', ''metadata:''] @ ''  name: ''), NOut (OField ''name''),
      NText (nl # lines_text [''  namespace: openshift-machine-api'', ''type: Opaque'', ''data:'', ''  disableTemplating: "dHJ1ZQo="'']
        @ ''  userData: ''), NOut (OField ''content''), NText [nl]]\<close>
  by code_simp

lemma userDataSecret_Ok [code]: "userDataSecret name content = Ok (user_data_text name (b64_encode content))"
  by (simp add: userDataSecret_def userDataTmpl_def parse_userDataTmpl template_Must_def template_Execute_def wrap_def
      user_data_text_def lines_text_def)

definition set_merge_source :: "string \<Rightarrow> pointer_asset \<Rightarrow> pointer_asset result" where
  "set_merge_source source p =
     (case pc_Merge (pt_Config p) of
        [] \<Rightarrow> Panic
      | _ # rest \<Rightarrow> Ok (p\<lparr>pt_Config := (pt_Config p)\<lparr>pc_Merge := Some source # rest\<rparr>\<rparr>))"

definition pointer_source :: "dns_config \<Rightarrow> string \<Rightarrow> string" where
  "pointer_source dns role = URL_String ''https'' (JoinHostPort (dc_APIIntIP dns) ''22623'') (''/config/'' @ role)"

definition user_data_path :: "string \<Rightarrow> string" where
  "user_data_path role = rooted (''openshift/99_openshift-cluster-api_'' @ role @ ''-user-data-secret.yaml'')"

definition replacePointerIgnition :: "custom_libs \<Rightarrow> dns_config \<Rightarrow> asset_graph \<Rightarrow> asset_graph result" where
  "replacePointerIgnition l dns g =
     andThen (bootstrap_in g) (\<lambda>a.
     andThen (master_in g) (\<lambda>master.
     andThen (worker_in g) (\<lambda>worker.
     andThen (set_merge_source (pointer_source dns ''master'') master) (\<lambda>master.
     andThen (set_merge_source (pointer_source dns ''worker'') worker) (\<lambda>worker.
     andThen (wrap ''failed to marshal updated master pointer Ignition config'' (cl_pointer_json l (pt_Config master))) (\<lambda>d.
     let master = master\<lparr>pt_Data := d\<rparr> in
     andThen (wrap ''failed to marshal updated worker pointer Ignition config'' (cl_pointer_json l (pt_Config worker))) (\<lambda>d.
     let worker = worker\<lparr>pt_Data := d\<rparr> in
     andThen (wrap ''failed to create user-data secret for master machines'' (userDataSecret ''master-user-data'' (pt_Data master))) (\<lambda>masterData.
     andThen (wrap ''failed to create user-data secret for worker machines'' (userDataSecret ''worker-user-data'' (pt_Data worker))) (\<lambda>workerData.
       Ok (graph_Set [(master_name, AssetMaster master), (worker_name, AssetWorker worker),
             (bootstrap_asset, AssetBootstrap (with_files (\<lambda>fs. ReplaceOrAppend fs
               [FileFromBytes (cl_ign l) (user_data_path ''master'') ''root'' 420 masterData,
                FileFromBytes (cl_ign l) (user_data_path ''worker'') ''root'' 420 workerData]) a))] g))))))))))"

definition user_data_file :: "custom_libs \<Rightarrow> string \<Rightarrow> pointer_asset \<Rightarrow> ign_file" where
  "user_data_file l role q =
     FileFromBytes (cl_ign l) (user_data_path role) ''root'' 420 (user_data_text (role @ ''-user-data'') (b64_encode (pt_Data q)))"

text \<open>The secrets never fail.\<close>

lemma replacePointerIgnition_eq [code]:
  "replacePointerIgnition l dns g =
     andThen (bootstrap_in g) (\<lambda>a.
     andThen (master_in g) (\<lambda>master.
     andThen (worker_in g) (\<lambda>worker.
     andThen (set_merge_source (pointer_source dns ''master'') master) (\<lambda>master.
     andThen (set_merge_source (pointer_source dns ''worker'') worker) (\<lambda>worker.
     andThen (wrap ''failed to marshal updated master pointer Ignition config'' (cl_pointer_json l (pt_Config master))) (\<lambda>d.
     let master = master\<lparr>pt_Data := d\<rparr> in
     andThen (wrap ''failed to marshal updated worker pointer Ignition config'' (cl_pointer_json l (pt_Config worker))) (\<lambda>d.
     let worker = worker\<lparr>pt_Data := d\<rparr> in
       Ok (graph_Set [(master_name, AssetMaster master), (worker_name, AssetWorker worker),
             (bootstrap_asset, AssetBootstrap (with_files (\<lambda>fs. ReplaceOrAppend fs
               [user_data_file l ''master'' master, user_data_file l ''worker'' worker]) a))] g))))))))"
  by (simp add: replacePointerIgnition_def userDataSecret_Ok wrap_def user_data_file_def Let_def)

section \<open>regenerate_mcs_certs.go\<close>

definition regenerateSignedCertKey :: "custom_libs \<Rightarrow> cert_cfg \<Rightarrow> root_ca \<Rightarrow> bool \<Rightarrow> (string \<times> string) result" where
  "regenerateSignedCertKey l cfg parentCA appendParent =
     andThen (wrap ''failed to parse rsa private key'' (cl_PemToPrivateKey l (ca_Key parentCA))) (\<lambda>caKey.
     andThen (wrap ''failed to parse x509 certificate'' (cl_PemToCertificate l (ca_Cert parentCA))) (\<lambda>caCert.
     andThen (wrap ''failed to generate signed cert/key pair'' (cl_GenerateSignedCertificate l caKey caCert cfg)) (\<lambda>(key, crt).
       let certRaw = cl_CertToPem l crt in
       Ok (cl_PrivateKeyToPem l key, if appendParent then certRaw @ [nl] @ cl_CertToPem l caCert else certRaw))))"

definition mcs_cert_cfg :: "custom_libs \<Rightarrow> install_config \<Rightarrow> string \<Rightarrow> cert_cfg" where
  "mcs_cert_cfg l ic privateLBIP =
     \<lparr>cc_CommonName = ''system:machine-config-server'', cc_ExtKeyUsages = [ExtKeyUsageServerAuth], cc_ValidityYears = 10,
      cc_IPAddresses = [cl_ParseIP l privateLBIP], cc_DNSNames = [''api-int.'' @ ClusterDomain ic, privateLBIP]\<rparr>"

definition regenerateMCSCertKey :: "custom_libs \<Rightarrow> install_config \<Rightarrow> root_ca \<Rightarrow> string \<Rightarrow> (string \<times> string) result" where
  "regenerateMCSCertKey l ic ca privateLBIP = regenerateSignedCertKey l (mcs_cert_cfg l ic privateLBIP) ca False"

definition data_header :: string where "data_header = ''data:text/plain;charset=utf-8;base64,''"
definition mcsCertKeyFilepath :: string where "mcsCertKeyFilepath = ''/opt/openshift/manifests/machine-config-server-tls-secret.yaml''"
definition mcsKeyFile :: string where "mcsKeyFile = ''/opt/openshift/tls/machine-config-server.key''"
definition mcsCertFile :: string where "mcsCertFile = ''/opt/openshift/tls/machine-config-server.crt''"

definition encoded_source :: "string \<Rightarrow> ign_file \<Rightarrow> ign_file" where
  "encoded_source d f = f\<lparr>fi_Source := Some (data_header @ b64_encode d)\<rparr>"

text \<open>The switch in the loop: the secret is decoded, changed and encoded; an assignment to a nil map panics.\<close>

definition update_mcs_file :: "custom_libs \<Rightarrow> string \<Rightarrow> string \<Rightarrow> ign_file \<Rightarrow> ign_file result" where
  "update_mcs_file l keyRaw certRaw f =
     (if fi_Path f = mcsCertKeyFilepath then
        andThen (deref (fi_Source f)) (\<lambda>source.
        andThen (at_index (split_on comma source) 1) (\<lambda>t.
        andThen (wrap (''failed to decode contents of ignition file '' @ mcsCertKeyFilepath) (b64_decode t)) (\<lambda>raw.
        andThen (wrap ''failed to unmarshal MCSCertKey within ignition'' (cl_read_Secret l raw)) (\<lambda>secret.
        andThen (deref (ts_Data secret)) (\<lambda>m.
        let secret = secret\<lparr>ts_Data := Some (sm_put ''tls.key'' keyRaw (sm_put ''tls.crt'' certRaw m))\<rparr> in
        andThen (wrap ''failed to marshal MCS Secret'' (cl_yaml_Secret l secret)) (\<lambda>t. Ok (encoded_source t f)))))))
      else if fi_Path f = mcsKeyFile then Ok (encoded_source keyRaw f)
      else if fi_Path f = mcsCertFile then Ok (encoded_source certRaw f)
      else Ok f)"

definition updateMCSCertKey :: "custom_libs \<Rightarrow> install_config \<Rightarrow> dns_config \<Rightarrow> asset_graph \<Rightarrow> asset_graph result" where
  "updateMCSCertKey l ic dns g =
     (if dc_APIIntIP dns = [] then Ok g
      else
        andThen (rootCA_in g) (\<lambda>rootCA.
        andThen (wrap ''failed to regenerate MCS Cert and Key'' (regenerateMCSCertKey l ic rootCA (dc_APIIntIP dns))) (\<lambda>(keyRaw, certRaw).
        andThen (bootstrap_in g) (\<lambda>b.
        andThen (mapOk (update_mcs_file l keyRaw certRaw) (ig_Files (bs_Config b))) (\<lambda>fs.
          Ok (put_bootstrap (with_files (\<lambda>_. fs) b) g))))))"

section \<open>applyInstallConfigCustomisations\<close>

text \<open>
  What the function takes from outside: randomness, the file system, and the installer's assets with
  their dependencies and generators.
\<close>

record custom_deps =
  cd_libs :: custom_libs
  cd_ParseResourceID :: "string \<Rightarrow> resource_id result"
  cd_random :: "string result"
  cd_files :: file_system
  cd_mkdir :: "unit result"
  cd_assets :: "installer_asset assets"

definition hex_text :: "string \<Rightarrow> string" where
  "hex_text bs = concat (map (\<lambda>c. [hex_digit (of_char c div 16), hex_digit (of_char c mod 16)]) bs)"

definition local_dns :: "'s manager \<Rightarrow> dns_config result" where
  "local_dns m =
     (let oc = mg_oc m; gateway = GatewayPrivateEndpointIP (NetworkProfile oc) in
      andThen (at_index (IngressProfiles oc) 0) (\<lambda>ingress.
        Ok \<lparr>dc_APIIntIP = IntIP oc, dc_IngressIP = i_IP ingress,
            dc_GatewayDomains = (if gateway \<noteq> [] then gatewayDomains (mg_env m) oc else []),
            dc_GatewayPrivateEndpointIP = gateway\<rparr>))"

text \<open>Everything before the graph is resolved, in the order of the code.\<close>

record prepared =
  pp_logging :: logging_config
  pp_httpSecret :: string
  pp_dns :: dns_config
  pp_manifests :: "asset_file list"
  pp_manifestsExist :: bool
  pp_signingKey :: "asset_file list"

definition prepare :: "custom_deps \<Rightarrow> 's manager \<Rightarrow> prepared result" where
  "prepare d m =
     andThen (GetConfig (cd_ParseResourceID d) (mg_env m) (mg_oc m)) (\<lambda>logging.
     andThen (cd_random d) (\<lambda>httpSecret.
     andThen (local_dns m) (\<lambda>dns.
     andThen (wrap ''error loading ARO manifests'' (AROManifests_Load (cd_files d))) (\<lambda>(manifests, manifestsExist).
     andThen (wrap ''error loading boundSASigningKey'' (AROBoundSASigningKey_Load (cd_libs d) (cd_files d))) (\<lambda>(signingKey, _).
       Ok \<lparr>pp_logging = logging, pp_httpSecret = hex_text httpSecret, pp_dns = dns, pp_manifests = manifests,
           pp_manifestsExist = manifestsExist, pp_signingKey = signingKey\<rparr>)))))"

definition initial_graph :: "'s manager \<Rightarrow> install_config_asset \<Rightarrow> string \<Rightarrow> asset_file list \<Rightarrow> asset_graph" where
  "initial_graph m ia img signingKey =
     graph_Set [(install_config_name, AssetInstallConfig ia), (image_name, AssetReleaseImage img),
       (cluster_id_name, AssetClusterID (mg_clusterUUID m) (InfraID (mg_oc m))),
       (signing_key_name, AssetBoundSASigningKey signingKey)] []"

text \<open>\<open>targets.IgnitionConfigs\<close>.\<close>

definition ignition_targets :: "string list" where
  "ignition_targets =
     [''*kubeconfig.AdminClient'', ''*password.KubeadminPassword'', master_name, ''*machine.Arbiter'', worker_name,
      bootstrap_asset, ''*cluster.Metadata'']"

definition manifests_config_of :: "'s manager \<Rightarrow> install_config \<Rightarrow> prepared \<Rightarrow> manifests_config" where
  "manifests_config_of m ic pp =
     \<lparr>mf_AROWorkerRegistries = AroWorkerRegistries (ic_ImageDigestSources ic),
      mf_HTTPSecret = pp_httpSecret pp, mf_AccountName = ImageRegistryStorageAccountName (mg_oc m),
      mf_ContainerName = ''image-registry'', mf_CloudName = ap_CloudName (ic_Azure ic),
      mf_AROIngressInternal = (ic_Publish ic = ''Internal''), mf_AROIngressIP = dc_IngressIP (pp_dns pp)\<rparr>"

definition MTU3900 :: int where "MTU3900 = 3900"

definition on_bootstrap :: "(bootstrap \<Rightarrow> bootstrap result) \<Rightarrow> asset_graph \<Rightarrow> asset_graph result" where
  "on_bootstrap f g = andThen (bootstrap_in g) (\<lambda>b. andThen (f b) (\<lambda>b. Ok (put_bootstrap b g)))"

text \<open>The changes to the resolved graph. The bootstrap asset is shared with the graph: a change to one is seen in the other.\<close>

definition customise :: "custom_deps \<Rightarrow> 's manager \<Rightarrow> install_config \<Rightarrow> prepared \<Rightarrow> asset_graph \<Rightarrow> asset_graph result" where
  "customise d m ic pp g =
     (let l = cd_libs d; ign = cl_ign l; dns = pp_dns pp in
      andThen (if MTUSize (NetworkProfile (mg_oc m)) = MTU3900 then overrideEthernetMTU l g else Ok g) (\<lambda>g.
      andThen (if pp_manifestsExist pp
               then andThen (appendFilesToCvoOverrides l (pp_manifests pp) g) (appendFilesToBootstrap l (cd_mkdir d) (pp_manifests pp))
               else Ok g) (\<lambda>g.
      andThen (on_bootstrap (\<lambda>b. CreatednsmasqIgnitionFiles ign b ic dns) g) (\<lambda>g.
      andThen (on_bootstrap (\<lambda>b. AppendMdsdFiles ign b (pp_logging pp)) g) (\<lambda>g.
      andThen (on_bootstrap (\<lambda>b. AppendManifestsFilesToBootstrap ign b
        (manifests_config_of m ic pp)) g) (\<lambda>g.
      andThen (on_bootstrap (\<lambda>b. AppendEtcHostFiles ign b ic dns) g) (\<lambda>g.
      andThen (removeDNSConfigData l ic g) (\<lambda>g.
      andThen (replacePointerIgnition l dns g) (\<lambda>g.
      andThen (updateMCSCertKey l ic dns g) (\<lambda>g.
        on_bootstrap (\<lambda>b. Ok (marshalled ign b)) g))))))))))"

text \<open>The first argument bounds the depth of the asset graph's recursion.\<close>

definition applyInstallConfigCustomisations ::
  "nat \<Rightarrow> custom_deps \<Rightarrow> 's manager \<Rightarrow> install_config_asset \<Rightarrow> string \<Rightarrow> asset_graph result option" where
  "applyInstallConfigCustomisations k d m ia img =
     (case prepare d m of
        Err e \<Rightarrow> Some (Err e)
      | Panic \<Rightarrow> Some Panic
      | Ok pp \<Rightarrow>
          (case Resolve_deps k (cd_assets d) ignition_targets (initial_graph m ia img (pp_signingKey pp)) of
             None \<Rightarrow> None
           | Some (r, g) \<Rightarrow> Some (andThen r (\<lambda>_. customise d m (ia_Config ia) pp g))))"

end
