(* ===== verification/Customised.thy ===== *)
theory Customised
  imports Customise
begin

text \<open>
  What the customisations of Customise guarantee: which assets of the graph each of them touches, what
  the overrides of the cluster version, the pointer ignition and the machine-config server's
  certificate are afterwards, and that the bootstrap text written last is that of the final
  configuration.
\<close>

section \<open>The assets of the graph\<close>

definition touches :: "string set \<Rightarrow> asset_graph \<Rightarrow> asset_graph \<Rightarrow> bool" where
  "touches K g g' \<longleftrightarrow> (\<forall>n. (n \<notin> K \<longrightarrow> graph_Get g' n = graph_Get g n) \<and> (graph_Get g n \<noteq> None \<longrightarrow> graph_Get g' n \<noteq> None))"

definition wrapper_assets :: "string set" where
  "wrapper_assets = {bootstrap_asset, master_name, worker_name, cvo_name}"

lemma touches_refl [simp]: "touches K g g"
  by (simp add: touches_def)

lemma touches_trans: "touches K g g1 \<Longrightarrow> touches K g1 g2 \<Longrightarrow> touches K g g2"
  by (simp add: touches_def)

lemma touches_Set: "fst ` set as \<subseteq> K \<Longrightarrow> touches K g (graph_Set as g)"
proof (induction as arbitrary: g)
  case (Cons a as)
  obtain k v where a: "a = (k, v)" by (cases a)
  have "graph_Set (a # as) g = graph_Set as (sm_put k v g)" by (simp add: graph_Set_def a)
  moreover have "touches K g (sm_put k v g)" using Cons.prems by (simp add: touches_def sm_get_put a)
  ultimately show ?case using Cons.IH [of "sm_put k v g"] Cons.prems touches_trans by (metis (no_types, lifting) image_insert insert_subset list.simps(15))
qed (simp add: graph_Set_def)

lemma touches_put_bootstrap: "touches wrapper_assets g (put_bootstrap b g)"
  unfolding put_bootstrap_def by (rule touches_Set) (simp add: wrapper_assets_def)

lemma bootstrap_put [simp]: "bootstrap_in (put_bootstrap b g) = Ok b"
  by (simp add: bootstrap_in_def put_bootstrap_def graph_Set_def sm_get_put)

lemma master_put [simp]: "master_in (put_bootstrap b g) = master_in g"
  and worker_put [simp]: "worker_in (put_bootstrap b g) = worker_in g"
  by (simp_all add: master_in_def worker_in_def put_bootstrap_def graph_Set_def sm_get_put asset_names)

lemma on_bootstrap_Ok:
  "on_bootstrap f g = Ok g' \<longleftrightarrow> (\<exists>b b'. bootstrap_in g = Ok b \<and> f b = Ok b' \<and> g' = put_bootstrap b' g)"
  by (auto simp: on_bootstrap_def outcome_simps)

lemma files_with_files [simp]: "ig_Files (bs_Config (with_files f b)) = f (ig_Files (bs_Config b))"
  by (simp add: with_files_def)

section \<open>The overrides\<close>

definition unmanaged :: "string \<times> string \<times> string \<times> string \<Rightarrow> component_override" where
  "unmanaged = (\<lambda>(grp, kind, ns, name).
     \<lparr>co_Kind = kind, co_Group = grp, co_Namespace = ns, co_Name = name, co_Unmanaged = True\<rparr>)"

definition identity_key :: "string \<times> string \<times> string \<times> string \<Rightarrow> string" where
  "identity_key = (\<lambda>(grp, kind, ns, name). override_key grp kind ns name)"

lemma fresh_key:
  "k \<notin> S \<Longrightarrow> distinct xs \<and> insert k S \<inter> set xs = {} \<longleftrightarrow> distinct (k # xs) \<and> S \<inter> set (k # xs) = {}"
  by auto

lemma collect_overrides_Ok:
  "collect_overrides l seen ignored files = Ok r \<longleftrightarrow>
     (\<exists>ids. mapOk (\<lambda>(n, d). cl_identity l d) files = Ok ids \<and> distinct (map identity_key ids)
        \<and> fst ` set seen \<inter> set (map identity_key ids) = {} \<and> r = ignored @ map unmanaged ids)"
proof (induction l seen ignored files arbitrary: r rule: collect_overrides.induct)
  case (2 l seen ignored filename d files)
  show ?case
  proof (cases "cl_identity l d")
    case (Ok id)
    obtain grp kind ns name where id: "id = (grp, kind, ns, name)" by (cases id)
    let ?k = "override_key grp kind ns name"
    show ?thesis
    proof (cases "map_of seen ?k")
      case None
      then have notin: "?k \<notin> fst ` set seen" by (simp add: map_of_eq_None_iff)
      have step: "collect_overrides l seen ignored ((filename, d) # files)
          = collect_overrides l ((?k, filename) # seen) (ignored @ [unmanaged id]) files"
        using Ok None by (simp add: wrap_def id unmanaged_def Let_def)
      have k: "identity_key id = ?k" by (simp add: identity_key_def id)
      have fresh: "(distinct (map identity_key ids) \<and> insert ?k (fst ` set seen) \<inter> set (map identity_key ids) = {}) \<longleftrightarrow>
         (distinct (map identity_key (id # ids)) \<and> fst ` set seen \<inter> set (map identity_key (id # ids)) = {})" for ids
        using fresh_key [OF notin, of "map identity_key ids"] k by simp
      have rec: "collect_overrides l ((?k, filename) # seen) (ignored @ [unmanaged id]) files = Ok r \<longleftrightarrow>
         (\<exists>ids. mapOk (\<lambda>(n, d). cl_identity l d) files = Ok ids \<and> (distinct (map identity_key ids)
            \<and> insert ?k (fst ` set seen) \<inter> set (map identity_key ids) = {}) \<and> r = ignored @ map unmanaged (id # ids))"
        using "2.IH" [of ?k grp kind ns name r] None by (simp add: id unmanaged_def)
      have ex: "(\<exists>ids. mapOk (\<lambda>(n, d). cl_identity l d) ((filename, d) # files) = Ok ids \<and> P ids) \<longleftrightarrow>
         (\<exists>ids. mapOk (\<lambda>(n, d). cl_identity l d) files = Ok ids \<and> P (id # ids))" for P
        using Ok by (auto simp: outcome_simps)
      show ?thesis
        unfolding step rec fresh conj_assoc by (rule sym, rule ex)
    next
      case (Some f)
      have "(?k, f) \<in> set seen" using Some by (rule map_of_SomeD)
      then have "?k \<in> fst ` set seen" by (rule image_eqI [rotated]) simp
      moreover have "identity_key id = ?k" by (simp add: identity_key_def id)
      moreover have "collect_overrides l seen ignored ((filename, d) # files) \<noteq> Ok r"
        using Ok Some by (simp add: wrap_def id Let_def)
      ultimately show ?thesis using Ok by (auto simp: outcome_simps)
    qed
  qed (auto simp: outcome_simps wrap_def)
qed auto

lemma rewrite_overrides_skip:
  "cvoOverridesFilename \<notin> fst ` set files \<Longrightarrow> rewrite_overrides l ignored cv t files = Ok (files, t)"
  by (induction files) auto

lemma rewrite_overrides_one:
  assumes "cvoOverridesFilename \<notin> fst ` set pre" "cvoOverridesFilename \<notin> fst ` set post"
  shows "rewrite_overrides l ignored cv t0 (pre @ (cvoOverridesFilename, t) # post) = Ok r \<longleftrightarrow>
    (\<exists>cv' out. cl_read_ClusterVersion l t cv = Ok cv'
       \<and> cl_yaml_ClusterVersion l (cv'\<lparr>cv_Overrides := cv_Overrides cv' @ ignored\<rparr>) = Ok out
       \<and> r = (pre @ (cvoOverridesFilename, out) # post, out))"
  using assms
proof (induction pre arbitrary: r)
  case Nil
  then show ?case by (auto simp: outcome_simps wrap_def rewrite_overrides_skip)
next
  case (Cons p pre)
  then show ?case by (cases p) (fastforce simp: outcome_simps)
qed

definition empty_version :: cluster_version where
  "empty_version = \<lparr>cv_Overrides = [], cv_rest = []\<rparr>"

text \<open>C27: The manifests that the wrapper adds are taken out of the cluster version operator's hands: the
  overrides that were there stay, in their order, and one unmanaged override for each manifest follows;
  no two manifests have the same identity (such a pair is an error); the new text is in the asset and
  in every bootstrap file with its path, and no other file changes.\<close>

theorem cvo_overrides_extended:
  assumes "appendFilesToCvoOverrides l files g = Ok g'"
    and "cvo_in g = Ok (pre @ (cvoOverridesFilename, t) # post)" "bootstrap_in g = Ok b"
    and "cvoOverridesFilename \<notin> fst ` set (pre @ post)"
  shows "\<exists>ids cv out b'. mapOk (\<lambda>(n, d). cl_identity l d) files = Ok ids \<and> distinct (map identity_key ids)
    \<and> cl_read_ClusterVersion l t empty_version = Ok cv
    \<and> cl_yaml_ClusterVersion l (cv\<lparr>cv_Overrides := cv_Overrides cv @ map unmanaged ids\<rparr>) = Ok out
    \<and> cvo_in g' = Ok (pre @ (cvoOverridesFilename, out) # post) \<and> bootstrap_in g' = Ok b'
    \<and> ig_Files (bs_Config b') = map (\<lambda>f. if fi_Path f = rooted cvoOverridesFilename
         then FileFromBytes (cl_ign l) (rooted cvoOverridesFilename) ''root'' 272 out else f) (ig_Files (bs_Config b))"
proof -
  have nin: "cvoOverridesFilename \<notin> fst ` set pre" "cvoOverridesFilename \<notin> fst ` set post" using assms(4) by auto
  obtain ids cvo' cvData where ids: "mapOk (\<lambda>(n, d). cl_identity l d) files = Ok ids" "distinct (map identity_key ids)"
    and rw: "rewrite_overrides l (map unmanaged ids) empty_version [] (pre @ (cvoOverridesFilename, t) # post) = Ok (cvo', cvData)"
    and g': "g' = graph_Set [(cvo_name, AssetCVOIgnore cvo'),
             (bootstrap_asset, AssetBootstrap (with_files (map (\<lambda>f. if fi_Path f = rooted cvoOverridesFilename
               then FileFromBytes (cl_ign l) (rooted cvoOverridesFilename) ''root'' 272 cvData else f)) b))] g"
    using assms(1-3)
    by (auto simp: appendFilesToCvoOverrides_def outcome_simps collect_overrides_Ok empty_version_def Let_def)
  from rw [unfolded rewrite_overrides_one [OF nin]] obtain cv out where
    cv: "cl_read_ClusterVersion l t empty_version = Ok cv"
      "cl_yaml_ClusterVersion l (cv\<lparr>cv_Overrides := cv_Overrides cv @ map unmanaged ids\<rparr>) = Ok out"
      "cvo' = pre @ (cvoOverridesFilename, out) # post" "cvData = out" by blast
  have "cvo_in g' = Ok cvo'"
    by (simp add: g' cvo_in_def graph_Set_def sm_get_put asset_names)
  moreover have "bootstrap_in g' = Ok (with_files (map (\<lambda>f. if fi_Path f = rooted cvoOverridesFilename
               then FileFromBytes (cl_ign l) (rooted cvoOverridesFilename) ''root'' 272 cvData else f)) b)"
    by (simp add: g' bootstrap_in_def graph_Set_def sm_get_put asset_names)
  ultimately show ?thesis using ids cv by (intro exI [of _ ids] exI [of _ cv] exI [of _ out] exI) (auto simp: comp_def)
qed

section \<open>Pointer ignition\<close>

lemma set_merge_source_Ok:
  "set_merge_source src p = Ok q \<longleftrightarrow>
     (\<exists>old rest. pc_Merge (pt_Config p) = old # rest \<and> q = p\<lparr>pt_Config := (pt_Config p)\<lparr>pc_Merge := Some src # rest\<rparr>\<rparr>)"
  by (cases "pc_Merge (pt_Config p)") (auto simp: set_merge_source_def)

definition points_to :: "custom_libs \<Rightarrow> dns_config \<Rightarrow> string \<Rightarrow> pointer_asset \<Rightarrow> pointer_asset \<Rightarrow> bool" where
  "points_to l dns role p q =
     (pc_Merge (pt_Config q) = Some (pointer_source dns role) # tl (pc_Merge (pt_Config p))
      \<and> pc_rest (pt_Config q) = pc_rest (pt_Config p) \<and> cl_pointer_json l (pt_Config q) = Ok (pt_Data q))"

lemma replacePointerIgnition_Ok:
  assumes "replacePointerIgnition l dns g = Ok g'"
  obtains b p w p' w' where "bootstrap_in g = Ok b" "master_in g = Ok p" "worker_in g = Ok w"
    "points_to l dns ''master'' p p'" "points_to l dns ''worker'' w w'"
    "g' = graph_Set [(master_name, AssetMaster p'), (worker_name, AssetWorker w'),
       (bootstrap_asset, AssetBootstrap (with_files (\<lambda>fs. ReplaceOrAppend fs
          [user_data_file l ''master'' p', user_data_file l ''worker'' w']) b))] g"
proof -
  from assms obtain b p w p1 w1 d1 d2 where *: "bootstrap_in g = Ok b" "master_in g = Ok p" "worker_in g = Ok w"
    "set_merge_source (pointer_source dns ''master'') p = Ok p1" "set_merge_source (pointer_source dns ''worker'') w = Ok w1"
    "cl_pointer_json l (pt_Config p1) = Ok d1" "cl_pointer_json l (pt_Config w1) = Ok d2"
    "g' = graph_Set [(master_name, AssetMaster (p1\<lparr>pt_Data := d1\<rparr>)), (worker_name, AssetWorker (w1\<lparr>pt_Data := d2\<rparr>)),
       (bootstrap_asset, AssetBootstrap (with_files (\<lambda>fs. ReplaceOrAppend fs
          [user_data_file l ''master'' (p1\<lparr>pt_Data := d1\<rparr>), user_data_file l ''worker'' (w1\<lparr>pt_Data := d2\<rparr>)]) b))] g"
    by (auto simp: replacePointerIgnition_eq outcome_simps wrap_def Let_def)
  have "points_to l dns ''master'' p (p1\<lparr>pt_Data := d1\<rparr>)" "points_to l dns ''worker'' w (w1\<lparr>pt_Data := d2\<rparr>)"
    using *(4-7) by (auto simp: points_to_def set_merge_source_Ok)
  with *(1-3,8) show thesis using that by blast
qed

lemma user_data_files_at:
  "at_key fi_Path q (ReplaceOrAppend fs [user_data_file l ''master'' p, user_data_file l ''worker'' w]) =
     (if q = user_data_path ''worker'' then Some (user_data_file l ''worker'' w)
      else if q = user_data_path ''master'' then Some (user_data_file l ''master'' p)
      else at_key fi_Path q fs)"
  by (simp add: at_key_ReplaceOrAppend user_data_file_def FileFromBytes_def)

text \<open>After the pointer ignition is replaced, the first configuration that a master and a worker merge is
  the one of its role at the internal address of the API server, port 22623 (in brackets for an IPv6
  address); the others stay, the text of each asset is that of its new configuration, and the user-data
  secret of each role in the bootstrap files carries exactly that text; no other file changes.\<close>

theorem pointer_ignition_replaced:
  assumes "replacePointerIgnition l dns g = Ok g'"
  shows "\<exists>b p w b' p' w'. bootstrap_in g = Ok b \<and> master_in g = Ok p \<and> worker_in g = Ok w
    \<and> bootstrap_in g' = Ok b' \<and> master_in g' = Ok p' \<and> worker_in g' = Ok w'
    \<and> points_to l dns ''master'' p p' \<and> points_to l dns ''worker'' w w'
    \<and> (\<forall>q. at_key fi_Path q (ig_Files (bs_Config b')) =
         (if q = user_data_path ''worker'' then Some (user_data_file l ''worker'' w')
          else if q = user_data_path ''master'' then Some (user_data_file l ''master'' p')
          else at_key fi_Path q (ig_Files (bs_Config b))))"
proof -
  obtain b p w p' w' where g: "bootstrap_in g = Ok b" "master_in g = Ok p" "worker_in g = Ok w"
    "points_to l dns ''master'' p p'" "points_to l dns ''worker'' w w'"
    "g' = graph_Set [(master_name, AssetMaster p'), (worker_name, AssetWorker w'),
       (bootstrap_asset, AssetBootstrap (with_files (\<lambda>fs. ReplaceOrAppend fs
          [user_data_file l ''master'' p', user_data_file l ''worker'' w']) b))] g"
    using replacePointerIgnition_Ok [OF assms] by metis
  let ?b = "with_files (\<lambda>fs. ReplaceOrAppend fs [user_data_file l ''master'' p', user_data_file l ''worker'' w']) b"
  have g': "bootstrap_in g' = Ok ?b" "master_in g' = Ok p'" "worker_in g' = Ok w'"
    by (simp_all add: g(6) bootstrap_in_def master_in_def worker_in_def graph_Set_def sm_get_put asset_names)
  have at: "\<forall>q. at_key fi_Path q (ig_Files (bs_Config ?b)) =
         (if q = user_data_path ''worker'' then Some (user_data_file l ''worker'' w')
          else if q = user_data_path ''master'' then Some (user_data_file l ''master'' p')
          else at_key fi_Path q (ig_Files (bs_Config b)))"
    by (simp add: user_data_files_at)
  show ?thesis by (intro exI conjI) (rule g(1-5) g' at)+
qed

section \<open>The machine-config server's certificate\<close>

definition mcs_paths :: "string set" where
  "mcs_paths = {mcsCertKeyFilepath, mcsKeyFile, mcsCertFile}"

text \<open>What the branch for the secret reads from a file's source.\<close>

definition source_text :: "ign_file \<Rightarrow> string result" where
  "source_text f = andThen (deref (fi_Source f)) (\<lambda>source. andThen (at_index (split_on comma source) 1) b64_decode)"

lemma source_text_encoded [simp]: "source_text (encoded_source d f) = Ok d"
proof -
  have "split_on comma (data_header @ b64_encode d) = [butlast data_header, b64_encode d]"
    using split_on_append_sep [of comma "butlast data_header" "b64_encode d"] b64_no_comma [of d]
    by (simp add: data_header_def split_on_noocc)
  then show ?thesis by (simp add: source_text_def encoded_source_def b64_round_trip)
qed

definition mcs_updated :: "custom_libs \<Rightarrow> string \<Rightarrow> string \<Rightarrow> ign_file \<Rightarrow> ign_file \<Rightarrow> bool" where
  "mcs_updated l keyRaw certRaw f f' =
     (if fi_Path f = mcsCertKeyFilepath then
        (\<exists>raw secret m t. source_text f = Ok raw \<and> cl_read_Secret l raw = Ok secret \<and> ts_Data secret = Some m
           \<and> cl_yaml_Secret l (secret\<lparr>ts_Data := Some (sm_put ''tls.key'' keyRaw (sm_put ''tls.crt'' certRaw m))\<rparr>) = Ok t
           \<and> source_text f' = Ok t \<and> f' = encoded_source t f)
      else if fi_Path f = mcsKeyFile then source_text f' = Ok keyRaw \<and> f' = encoded_source keyRaw f
      else if fi_Path f = mcsCertFile then source_text f' = Ok certRaw \<and> f' = encoded_source certRaw f
      else f' = f)"

lemma update_mcs_file_Ok: "update_mcs_file l keyRaw certRaw f = Ok f' \<Longrightarrow> mcs_updated l keyRaw certRaw f f'"
proof (cases "fi_Path f = mcsCertKeyFilepath")
  case True
  assume "update_mcs_file l keyRaw certRaw f = Ok f'"
  with True obtain source u raw secret m t where "fi_Source f = Some source" "at_index (split_on comma source) 1 = Ok u"
    "b64_decode u = Ok raw" and s: "cl_read_Secret l raw = Ok secret" "ts_Data secret = Some m"
    "cl_yaml_Secret l (secret\<lparr>ts_Data := Some (sm_put ''tls.key'' keyRaw (sm_put ''tls.crt'' certRaw m))\<rparr>) = Ok t"
    and f': "f' = encoded_source t f"
    by (auto simp: update_mcs_file_def outcome_simps wrap_def Let_def)
  then have "source_text f = Ok raw" by (simp add: source_text_def)
  then show ?thesis using s f' True by (auto simp: mcs_updated_def)
qed (auto simp: update_mcs_file_def mcs_updated_def split: if_splits)

lemma mcs_updated_path: "mcs_updated l keyRaw certRaw f f' \<Longrightarrow> fi_Path f' = fi_Path f"
  by (auto simp: mcs_updated_def encoded_source_def split: if_splits)

lemma mcs_updated_other: "mcs_updated l keyRaw certRaw f f' \<Longrightarrow> fi_Path f \<notin> mcs_paths \<Longrightarrow> f' = f"
  by (auto simp: mcs_updated_def mcs_paths_def split: if_splits)

lemma mapOk_list_all2: "mapOk f xs = Ok ys \<Longrightarrow> (\<And>x y. f x = Ok y \<Longrightarrow> P x y) \<Longrightarrow> list_all2 P xs ys"
  by (induction xs arbitrary: ys) (auto simp: outcome_simps)

lemma at_key_updated:
  "list_all2 (mcs_updated l keyRaw certRaw) fs fs' \<Longrightarrow> p \<notin> mcs_paths \<Longrightarrow> at_key fi_Path p fs' = at_key fi_Path p fs"
proof (induction rule: list_all2_induct)
  case (Cons f fs f' fs')
  have "f' = f" if "fi_Path f = p" using mcs_updated_other [OF Cons(1)] Cons.prems that by simp
  moreover have "fi_Path f' = fi_Path f" using mcs_updated_path [OF Cons(1)] .
  ultimately show ?case using Cons by (simp add: at_key_def)
qed simp

lemma updateMCSCertKey_Ok:
  assumes "updateMCSCertKey l ic dns g = Ok g'" "dc_APIIntIP dns \<noteq> []"
  obtains ca key crt b fs where "rootCA_in g = Ok ca" "regenerateMCSCertKey l ic ca (dc_APIIntIP dns) = Ok (key, crt)"
    "bootstrap_in g = Ok b" "list_all2 (mcs_updated l key crt) (ig_Files (bs_Config b)) fs"
    "g' = put_bootstrap (with_files (\<lambda>_. fs) b) g"
proof -
  from assms obtain ca key crt b fs where *: "rootCA_in g = Ok ca"
    "regenerateMCSCertKey l ic ca (dc_APIIntIP dns) = Ok (key, crt)" "bootstrap_in g = Ok b"
    "mapOk (update_mcs_file l key crt) (ig_Files (bs_Config b)) = Ok fs" "g' = put_bootstrap (with_files (\<lambda>_. fs) b) g"
    by (auto simp: updateMCSCertKey_def outcome_simps wrap_def)
  have "list_all2 (mcs_updated l key crt) (ig_Files (bs_Config b)) fs"
    using *(4) by (rule mapOk_list_all2) (rule update_mcs_file_Ok)
  with * show thesis using that by blast
qed

text \<open>C28: Renewing the certificate of the machine-config server changes, of all the bootstrap files, only the
  source of the three with its paths: the key file and the certificate file decode to the new pair, and
  the secret's text is the old secret with the two entries replaced, each file as the function itself
  would read it again. The certificate is made from the root authority in the graph, for the internal
  name of the API server and its address.\<close>

theorem mcs_certificate_updated:
  assumes "updateMCSCertKey l ic dns g = Ok g'" "dc_APIIntIP dns \<noteq> []"
  shows "\<exists>ca key crt b b'. rootCA_in g = Ok ca
    \<and> regenerateSignedCertKey l (mcs_cert_cfg l ic (dc_APIIntIP dns)) ca False = Ok (key, crt)
    \<and> bootstrap_in g = Ok b \<and> bootstrap_in g' = Ok b' \<and> touches {bootstrap_asset} g g'
    \<and> map fi_Path (ig_Files (bs_Config b')) = map fi_Path (ig_Files (bs_Config b))
    \<and> list_all2 (mcs_updated l key crt) (ig_Files (bs_Config b)) (ig_Files (bs_Config b'))"
proof -
  obtain ca key crt b fs where u: "rootCA_in g = Ok ca" "regenerateMCSCertKey l ic ca (dc_APIIntIP dns) = Ok (key, crt)"
    "bootstrap_in g = Ok b" "list_all2 (mcs_updated l key crt) (ig_Files (bs_Config b)) fs"
    "g' = put_bootstrap (with_files (\<lambda>_. fs) b) g"
    using updateMCSCertKey_Ok [OF assms] by metis
  have "map fi_Path fs = map fi_Path (ig_Files (bs_Config b))"
    using u(4) by (induction rule: list_all2_induct) (auto dest: mcs_updated_path)
  moreover have "touches {bootstrap_asset} g g'"
    unfolding u(5) put_bootstrap_def by (rule touches_Set) simp
  ultimately show ?thesis using u by (auto simp: regenerateMCSCertKey_def)
qed

section \<open>The whole customisation\<close>

lemma touches_wrapper:
  "touches {bootstrap_asset} g g' \<Longrightarrow> touches wrapper_assets g g'"
  by (simp add: touches_def wrapper_assets_def)

lemma touches_on_bootstrap: "on_bootstrap f g = Ok g' \<Longrightarrow> touches wrapper_assets g g'"
  by (auto simp: on_bootstrap_Ok touches_put_bootstrap)

lemma touches_overrideEthernetMTU: "overrideEthernetMTU l g = Ok g' \<Longrightarrow> touches wrapper_assets g g'"
  by (auto simp: overrideEthernetMTU_def outcome_simps Let_def touches_put_bootstrap)

lemma touches_appendFilesToBootstrap: "appendFilesToBootstrap l k fs g = Ok g' \<Longrightarrow> touches wrapper_assets g g'"
  by (auto simp: appendFilesToBootstrap_def outcome_simps Let_def touches_put_bootstrap)

lemma touches_appendFilesToCvoOverrides: "appendFilesToCvoOverrides l fs g = Ok g' \<Longrightarrow> touches wrapper_assets g g'"
  by (auto simp: appendFilesToCvoOverrides_def outcome_simps Let_def wrapper_assets_def intro!: touches_Set)

lemma touches_removeDNSConfigData: "removeDNSConfigData l ic g = Ok g' \<Longrightarrow> touches wrapper_assets g g'"
  by (auto simp: removeDNSConfigData_def outcome_simps touches_put_bootstrap)

lemma touches_replacePointerIgnition: "replacePointerIgnition l dns g = Ok g' \<Longrightarrow> touches wrapper_assets g g'"
  by (erule replacePointerIgnition_Ok) (auto simp: wrapper_assets_def intro!: touches_Set)

lemma touches_updateMCSCertKey: "updateMCSCertKey l ic dns g = Ok g' \<Longrightarrow> touches wrapper_assets g g'"
  by (auto simp: updateMCSCertKey_def outcome_simps touches_put_bootstrap split: if_splits)

lemmas touches_steps = touches_on_bootstrap touches_overrideEthernetMTU touches_appendFilesToBootstrap
  touches_appendFilesToCvoOverrides touches_removeDNSConfigData touches_replacePointerIgnition touches_updateMCSCertKey

definition dns_config_path :: string where
  "dns_config_path = rooted ''manifests/cluster-dns-02-config.yml''"

lemma dns_config_path_kept: "dns_config_path \<notin> mcs_paths" "dns_config_path \<noteq> user_data_path ''master''"
    "dns_config_path \<noteq> user_data_path ''worker''"
  by (simp_all add: dns_config_path_def mcs_paths_def user_data_path_def rooted_def mcsCertKeyFilepath_def mcsKeyFile_def
      mcsCertFile_def)

definition file_in :: "string \<Rightarrow> asset_graph \<Rightarrow> ign_file option" where
  "file_in p g = (case bootstrap_in g of Ok b \<Rightarrow> at_key fi_Path p (ig_Files (bs_Config b)) | _ \<Rightarrow> None)"

lemma removeDNSConfigData_file:
  "removeDNSConfigData l ic g = Ok g' \<Longrightarrow>
   \<exists>t. cl_yaml_DNS l (ClusterDomain ic) = Ok t \<and> file_in dns_config_path g' = Some (FileFromBytes (cl_ign l) dns_config_path ''root'' 420 t)"
  by (auto simp: removeDNSConfigData_def outcome_simps file_in_def at_key_ReplaceOrAppend dns_config_path_def FileFromBytes_def)

lemma replacePointerIgnition_file:
  assumes "replacePointerIgnition l dns g = Ok g'" "p \<noteq> user_data_path ''master''" "p \<noteq> user_data_path ''worker''"
  shows "file_in p g' = file_in p g"
  using assms(1)
proof (rule replacePointerIgnition_Ok)
  fix b q w q' w'
  assume "bootstrap_in g = Ok b" and "g' = graph_Set [(master_name, AssetMaster q'), (worker_name, AssetWorker w'),
       (bootstrap_asset, AssetBootstrap (with_files (\<lambda>fs. ReplaceOrAppend fs
          [user_data_file l ''master'' q', user_data_file l ''worker'' w']) b))] g"
  then show ?thesis using assms(2,3)
    by (simp add: file_in_def bootstrap_in_def graph_Set_def sm_get_put user_data_files_at split: option.splits installer_asset.splits)
qed

lemma updateMCSCertKey_file:
  assumes "updateMCSCertKey l ic dns g = Ok g'" "p \<notin> mcs_paths"
  shows "file_in p g' = file_in p g"
proof (cases "dc_APIIntIP dns = []")
  case False
  from updateMCSCertKey_Ok [OF assms(1) False] obtain key crt b fs where "bootstrap_in g = Ok b"
    "list_all2 (mcs_updated l key crt) (ig_Files (bs_Config b)) fs" "g' = put_bootstrap (with_files (\<lambda>_. fs) b) g" by metis
  then show ?thesis using at_key_updated [of l key crt "ig_Files (bs_Config b)" fs p] assms(2) by (simp add: file_in_def)
qed (use assms in \<open>simp add: updateMCSCertKey_def\<close>)

lemma customise_Ok:
  assumes "customise d m ic pp g0 = Ok g"
  obtains b t where "touches wrapper_assets g0 g" "bootstrap_in g = Ok b"
    "bs_Data b = ignition_Marshal (cl_ign (cd_libs d)) (bs_Config b)" "cl_yaml_DNS (cd_libs d) (ClusterDomain ic) = Ok t"
    "file_in dns_config_path g = Some (FileFromBytes (cl_ign (cd_libs d)) dns_config_path ''root'' 420 t)"
proof -
  let ?l = "cd_libs d"
  from assms obtain g1 g2 g3 g4 g5 g6 g7 g8 g9 where
    1: "(if MTUSize (NetworkProfile (mg_oc m)) = MTU3900 then overrideEthernetMTU ?l g0 else Ok g0) = Ok g1" and
    2: "(if pp_manifestsExist pp
               then andThen (appendFilesToCvoOverrides ?l (pp_manifests pp) g1) (appendFilesToBootstrap ?l (cd_mkdir d) (pp_manifests pp))
               else Ok g1) = Ok g2" and
    3: "on_bootstrap (\<lambda>b. CreatednsmasqIgnitionFiles (cl_ign ?l) b ic (pp_dns pp)) g2 = Ok g3" and
    4: "on_bootstrap (\<lambda>b. AppendMdsdFiles (cl_ign ?l) b (pp_logging pp)) g3 = Ok g4" and
    5: "on_bootstrap (\<lambda>b. AppendManifestsFilesToBootstrap (cl_ign ?l) b
        (manifests_config_of m ic pp)) g4 = Ok g5" and
    6: "on_bootstrap (\<lambda>b. AppendEtcHostFiles (cl_ign ?l) b ic (pp_dns pp)) g5 = Ok g6" and
    7: "removeDNSConfigData ?l ic g6 = Ok g7" and 8: "replacePointerIgnition ?l (pp_dns pp) g7 = Ok g8" and
    9: "updateMCSCertKey ?l ic (pp_dns pp) g8 = Ok g9" and
    10: "on_bootstrap (\<lambda>b. Ok (marshalled (cl_ign ?l) b)) g9 = Ok g"
    unfolding customise_def Let_def andThen_Ok_iff by blast
  have t1: "touches wrapper_assets g0 g1" using 1 touches_steps(2) by (cases "MTUSize (NetworkProfile (mg_oc m)) = MTU3900") auto
  have t2: "touches wrapper_assets g1 g2"
    using 2 touches_steps(3,4) touches_trans by (cases "pp_manifestsExist pp") (auto simp: outcome_simps, blast)
  have "touches wrapper_assets g2 g"
    using touches_on_bootstrap [OF 3] touches_on_bootstrap [OF 4] touches_on_bootstrap [OF 5] touches_on_bootstrap [OF 6]
      touches_steps(5) [OF 7] touches_steps(6) [OF 8] touches_steps(7) [OF 9] touches_on_bootstrap [OF 10]
    by (blast intro: touches_trans)
  then have t: "touches wrapper_assets g0 g" using t1 t2 touches_trans by blast
  from 10 obtain b9 where b: "bootstrap_in g9 = Ok b9" "g = put_bootstrap (marshalled (cl_ign ?l) b9) g9"
    by (auto simp: on_bootstrap_Ok)
  have "file_in dns_config_path g = file_in dns_config_path g9" by (simp add: b file_in_def marshalled_def)
  also have "\<dots> = file_in dns_config_path g7"
    using updateMCSCertKey_file [OF 9] replacePointerIgnition_file [OF 8] dns_config_path_kept by simp
  finally have f: "file_in dns_config_path g = file_in dns_config_path g7" .
  from removeDNSConfigData_file [OF 7] obtain y where "cl_yaml_DNS ?l (ClusterDomain ic) = Ok y"
    "file_in dns_config_path g7 = Some (FileFromBytes (cl_ign ?l) dns_config_path ''root'' 420 y)" by blast
  then show thesis using that [OF t, of "marshalled (cl_ign ?l) b9"] f b by (simp add: marshalled_def)
qed

text \<open>C6: Customising an installation returns (the rank of the assets bounds the recursion). On success the
  install configuration, the release image, the cluster's identity and the signing key are in the graph
  as they were set; every target is resolved; of the resolved assets only the bootstrap, the two
  pointers and the overrides were touched; the bootstrap text is that of the final configuration, with
  every change in it; and the cluster's DNS has just the cluster domain.\<close>

theorem customisations_complete:
  assumes "ranked rk (cd_assets d)" "\<forall>t \<in> set ignition_targets. rk t < k"
  shows "\<exists>r. applyInstallConfigCustomisations k d m ia img = Some r \<and> (\<forall>g. r = Ok g \<longrightarrow>
    (\<exists>pp g0 b t. prepare d m = Ok pp
       \<and> Resolve_deps k (cd_assets d) ignition_targets (initial_graph m ia img (pp_signingKey pp)) = Some (Ok (), g0)
       \<and> touches wrapper_assets g0 g
       \<and> graph_Get g install_config_name = Some (AssetInstallConfig ia) \<and> graph_Get g image_name = Some (AssetReleaseImage img)
       \<and> graph_Get g cluster_id_name = Some (AssetClusterID (mg_clusterUUID m) (InfraID (mg_oc m)))
       \<and> graph_Get g signing_key_name = Some (AssetBoundSASigningKey (pp_signingKey pp))
       \<and> (\<forall>n \<in> set ignition_targets. graph_Get g n \<noteq> None)
       \<and> bootstrap_in g = Ok b \<and> bs_Data b = ignition_Marshal (cl_ign (cd_libs d)) (bs_Config b)
       \<and> cl_yaml_DNS (cd_libs d) (ClusterDomain (ia_Config ia)) = Ok t
       \<and> at_key fi_Path dns_config_path (ig_Files (bs_Config b)) =
           Some (FileFromBytes (cl_ign (cd_libs d)) dns_config_path ''root'' 420 t)))"
proof (cases "prepare d m")
  case (Ok pp)
  let ?g = "initial_graph m ia img (pp_signingKey pp)"
  obtain r g0 where r: "Resolve_deps k (cd_assets d) ignition_targets ?g = Some (r, g0)"
    using Resolve_terminates(2) [OF assms, of ?g] by auto
  have res: "resolved (cd_assets d) rk k ignition_targets ?g r g0"
    using Resolve_resolved(2) [OF assms(1) r assms(2)] .
  have ini: "graph_Get ?g install_config_name = Some (AssetInstallConfig ia)" "graph_Get ?g image_name = Some (AssetReleaseImage img)"
    "graph_Get ?g cluster_id_name = Some (AssetClusterID (mg_clusterUUID m) (InfraID (mg_oc m)))"
    "graph_Get ?g signing_key_name = Some (AssetBoundSASigningKey (pp_signingKey pp))"
    by (simp_all add: initial_graph_def graph_Set_def sm_get_put asset_names)
  show ?thesis
  proof (rule exI, rule conjI; (intro allI impI)?)
    show "applyInstallConfigCustomisations k d m ia img = Some (andThen r (\<lambda>_. customise d m (ia_Config ia) pp g0))"
      using Ok r by (simp add: applyInstallConfigCustomisations_def)
    fix g assume "andThen r (\<lambda>_. customise d m (ia_Config ia) pp g0) = Ok g"
    then have r': "r = Ok ()" and c: "customise d m (ia_Config ia) pp g0 = Ok g" by (auto simp: outcome_simps)
    obtain b t where t: "touches wrapper_assets g0 g" "bootstrap_in g = Ok b"
      "bs_Data b = ignition_Marshal (cl_ign (cd_libs d)) (bs_Config b)" "cl_yaml_DNS (cd_libs d) (ClusterDomain (ia_Config ia)) = Ok t"
      "file_in dns_config_path g = Some (FileFromBytes (cl_ign (cd_libs d)) dns_config_path ''root'' 420 t)"
      by (rule customise_Ok [OF c])
    have kept: "graph_Get g n = graph_Get ?g n" if "n \<notin> wrapper_assets" "graph_Get ?g n \<noteq> None" for n
      using that t(1) res grows_mono [of "cd_assets d" ?g g0 n] by (auto simp: touches_def resolved_def)
    have sets: "install_config_name \<notin> wrapper_assets" "image_name \<notin> wrapper_assets" "cluster_id_name \<notin> wrapper_assets"
      "signing_key_name \<notin> wrapper_assets" by (simp_all add: wrapper_assets_def asset_names)
    show "\<exists>pp g0 b t. prepare d m = Ok pp
       \<and> Resolve_deps k (cd_assets d) ignition_targets (initial_graph m ia img (pp_signingKey pp)) = Some (Ok (), g0)
       \<and> touches wrapper_assets g0 g
       \<and> graph_Get g install_config_name = Some (AssetInstallConfig ia) \<and> graph_Get g image_name = Some (AssetReleaseImage img)
       \<and> graph_Get g cluster_id_name = Some (AssetClusterID (mg_clusterUUID m) (InfraID (mg_oc m)))
       \<and> graph_Get g signing_key_name = Some (AssetBoundSASigningKey (pp_signingKey pp))
       \<and> (\<forall>n \<in> set ignition_targets. graph_Get g n \<noteq> None)
       \<and> bootstrap_in g = Ok b \<and> bs_Data b = ignition_Marshal (cl_ign (cd_libs d)) (bs_Config b)
       \<and> cl_yaml_DNS (cd_libs d) (ClusterDomain (ia_Config ia)) = Ok t
       \<and> at_key fi_Path dns_config_path (ig_Files (bs_Config b)) =
           Some (FileFromBytes (cl_ign (cd_libs d)) dns_config_path ''root'' 420 t)"
    proof (intro exI conjI)
      show "\<forall>n \<in> set ignition_targets. graph_Get g n \<noteq> None"
        using res r' t(1) by (simp add: resolved_def touches_def)
    qed (use Ok r r' t ini kept sets in \<open>simp_all add: file_in_def\<close>)
  qed
qed (simp_all add: applyInstallConfigCustomisations_def)

lemma applied_bootstrap:
  assumes "ranked rk (cd_assets d)" "\<forall>t \<in> set ignition_targets. rk t < k"
    and "applyInstallConfigCustomisations k d m ia img = Some (Ok g)"
  shows "\<exists>b. bootstrap_in g = Ok b \<and> bs_Data b = ignition_Marshal (cl_ign (cd_libs d)) (bs_Config b)"
  using assms(3)
  by (auto simp: applyInstallConfigCustomisations_def outcome_simps split: outcome.splits option.splits elim!: customise_Ok)

lemma applied_targets:
  assumes "ranked rk (cd_assets d)" "\<forall>t \<in> set ignition_targets. rk t < k"
    and "applyInstallConfigCustomisations k d m ia img = Some (Ok g)" "t \<in> set ignition_targets"
  shows "graph_Get g t \<noteq> None"
proof -
  from assms(3) obtain pp where "prepare d m = Ok pp"
    by (cases "prepare d m") (auto simp: applyInstallConfigCustomisations_def)
  then obtain r g0 where r: "Resolve_deps k (cd_assets d) ignition_targets (initial_graph m ia img (pp_signingKey pp)) = Some (r, g0)"
    and c: "r = Ok ()" "customise d m (ia_Config ia) pp g0 = Ok g"
    using assms(3) by (auto simp: applyInstallConfigCustomisations_def outcome_simps split: option.splits)
  have "graph_Get g0 t \<noteq> None"
    using Resolve_resolved(2) [OF assms(1) r assms(2)] c(1) assms(4) by (simp add: resolved_def)
  then show ?thesis using customise_Ok [OF c(2)] by (metis touches_def)
qed

section \<open>When the customisations succeed\<close>

lemma isOk_obtain: "isOk r \<Longrightarrow> \<exists>a. r = Ok a"
  by (cases r) auto

definition marshals :: "ign_lib \<Rightarrow> bool" where
  "marshals l \<longleftrightarrow> (\<forall>c. json_wf (gl_config_json l c)) \<and> (\<forall>mc. isOk (gl_yaml_MachineConfig l mc))"

text \<open>Every file can get the new key and certificate, if it is one of those that get them.\<close>

definition renewable :: "custom_libs \<Rightarrow> string \<Rightarrow> string \<Rightarrow> bootstrap \<Rightarrow> bool" where
  "renewable l key crt b \<longleftrightarrow> (\<forall>f \<in> set (ig_Files (bs_Config b)). isOk (update_mcs_file l key crt f))"

lemma update_mcs_other: "fi_Path f \<notin> mcs_paths \<Longrightarrow> update_mcs_file l key crt f = Ok f"
  by (simp add: update_mcs_file_def mcs_paths_def)

lemma set_ReplaceOrAppend: "set (ReplaceOrAppend fs new) \<subseteq> set fs \<union> set new"
proof -
  have "set (replaceOrAppend fs f) \<subseteq> insert f (set fs)" for fs f
    by (induction fs) auto
  then show ?thesis
    unfolding ReplaceOrAppend_def by (induction new arbitrary: fs) (simp, force)
qed

lemma renewable_files:
  assumes "renewable l key crt b" "set (ig_Files (bs_Config b')) \<subseteq> set (ig_Files (bs_Config b)) \<union> F" "fi_Path ` F \<inter> mcs_paths = {}"
  shows "renewable l key crt b'"
proof -
  have "isOk (update_mcs_file l key crt f)" if "f \<in> F" for f
    using that assms(3) update_mcs_other [of f] by fastforce
  then show ?thesis using assms(1,2) by (auto simp: renewable_def)
qed

text \<open>The file with the text of a machine configuration.\<close>

definition machine_config_at :: "ign_lib \<Rightarrow> string \<Rightarrow> machine_config \<Rightarrow> ign_file \<Rightarrow> bool" where
  "machine_config_at l p mc f \<longleftrightarrow> (\<exists>t. gl_yaml_MachineConfig l mc = Ok t \<and> f = FileFromBytes l p ''root'' 420 t)"

lemma machine_config_file:
  assumes "marshals l"
  obtains f where "AppendMachineConfigToBootstrap l mc b p =
     Ok (b\<lparr>bs_Config := (bs_Config b)\<lparr>ig_Files := ReplaceOrAppend (ig_Files (bs_Config b)) [f]\<rparr>\<rparr>)" "machine_config_at l p mc f"
proof -
  from assms obtain d where "gl_yaml_MachineConfig l mc = Ok d"
    unfolding marshals_def by (meson isOk_obtain)
  then show thesis using that [of "FileFromBytes l p ''root'' 420 d"] by (simp add: AppendMachineConfigToBootstrap_def machine_config_at_def)
qed

lemma machine_config_at_path: "machine_config_at l p mc f \<Longrightarrow> fi_Path f = p"
  by (auto simp: machine_config_at_def FileFromBytes_def)

lemma mcs_paths_other:
  "''/etc/dnsmasq.conf'' \<notin> mcs_paths" "''/usr/local/bin/aro-dnsmasq-pre.sh'' \<notin> mcs_paths"
  "''/opt/openshift/openshift/99_openshift-machineconfig_99-master-aro-dns.yaml'' \<notin> mcs_paths"
  "''/opt/openshift/openshift/99_openshift-machineconfig_99-worker-aro-dns.yaml'' \<notin> mcs_paths"
  "''/opt/openshift/openshift/99_openshift-machineconfig_99-master-aro-etc-hosts-gateway-domains.yaml'' \<notin> mcs_paths"
  "''/opt/openshift/openshift/99_openshift-machineconfig_99-worker-aro-etc-hosts-gateway-domains.yaml'' \<notin> mcs_paths"
  "''/etc/hosts.d/aro.conf'' \<notin> mcs_paths" "''/usr/local/bin/aro-etchosts-resolver.sh'' \<notin> mcs_paths"
  "user_data_path ''master'' \<notin> mcs_paths" "user_data_path ''worker'' \<notin> mcs_paths"
  "rooted ''manifests/cluster-dns-02-config.yml'' \<notin> mcs_paths"
  by (simp_all add: mcs_paths_def mcsCertKeyFilepath_def mcsKeyFile_def mcsCertFile_def user_data_path_def rooted_def)

lemma text_paths_other: "fst ` set (logging_texts c) \<inter> mcs_paths = {}" "fst ` set (manifests_texts m) \<inter> mcs_paths = {}"
  by (simp_all add: logging_texts_def manifests_texts_def mcs_paths_def mcsCertKeyFilepath_def mcsKeyFile_def mcsCertFile_def)

text \<open>What the two additions to the bootstrap that render machine configurations come to.\<close>

definition dnsmasq_files :: "ign_lib \<Rightarrow> string \<Rightarrow> dns_config \<Rightarrow> ign_file list" where
  "dnsmasq_files l cd dns =
     [FileFromBytes l ''/etc/dnsmasq.conf'' ''root'' 420
        (nl # lines_text (dnsmasq_lines cd (dc_APIIntIP dns) (dc_IngressIP dns) (dc_GatewayDomains dns) (dc_GatewayPrivateEndpointIP dns))),
      FileFromBytes l ''/usr/local/bin/aro-dnsmasq-pre.sh'' ''root'' 484 expected_prescript]"

definition dnsmasq_unit :: ign_unit where
  "dnsmasq_unit =
     \<lparr>un_Name = ''dnsmasq.service'', un_Enabled = Some True, un_Contents = Some expected_dnsmasq_service, un_Dropins = []\<rparr>"

definition dnsmasq_ignition :: "ign_lib \<Rightarrow> string \<Rightarrow> dns_config \<Rightarrow> ign_config" where
  "dnsmasq_ignition l cd dns = \<lparr>ig_Version = ''3.2.0'', ig_Files = dnsmasq_files l cd dns, ig_Units = [dnsmasq_unit]\<rparr>"

definition dnsmasq_machine_config :: "ign_lib \<Rightarrow> string \<Rightarrow> dns_config \<Rightarrow> string \<Rightarrow> machine_config" where
  "dnsmasq_machine_config l cd dns role =
     \<lparr>mc_Name = ''99-'' @ role @ ''-aro-dns'', mc_Role = role,
      mc_Config = print_json (canon (gl_config_json l (dnsmasq_ignition l cd dns)))\<rparr>"

lemma CreatednsmasqIgnitionFiles_Ok:
  assumes "marshals l"
  obtains f h where "CreatednsmasqIgnitionFiles l b ic dns = Ok (b\<lparr>bs_Config := (bs_Config b)
      \<lparr>ig_Files := ReplaceOrAppend (ig_Files (bs_Config b)) (dnsmasq_files l (ClusterDomain ic) dns @ [f, h]),
       ig_Units := ReplaceOrAppendSystemd (ig_Units (bs_Config b)) [dnsmasq_unit]\<rparr>\<rparr>)"
    "machine_config_at l ''/opt/openshift/openshift/99_openshift-machineconfig_99-master-aro-dns.yaml''
       (dnsmasq_machine_config l (ClusterDomain ic) dns ''master'') f"
    "machine_config_at l ''/opt/openshift/openshift/99_openshift-machineconfig_99-worker-aro-dns.yaml''
       (dnsmasq_machine_config l (ClusterDomain ic) dns ''worker'') h"
proof -
  let ?mc = "dnsmasq_machine_config l (ClusterDomain ic) dns"
  define ign where "ign = dnsmasq_ignition l (ClusterDomain ic) dns"
  have ign: "Ignition3Config l (ClusterDomain ic) (dc_APIIntIP dns) (dc_IngressIP dns) (dc_GatewayDomains dns) (dc_GatewayPrivateEndpointIP dns) = Ok ign"
    by (simp add: Ignition3Config_def dnsmasq_config_lines dnsmasq_files_def dnsmasq_unit_def ign_def dnsmasq_ignition_def)
  have "json_wf (gl_config_json l ign)" using assms by (simp add: marshals_def)
  then have parse: "parse_json (print_json (gl_config_json l ign)) = Some (gl_config_json l ign)" by (rule parse_print)
  have mc: "MachineConfig l (ClusterDomain ic) (dc_APIIntIP dns) (dc_IngressIP dns) role (dc_GatewayDomains dns) (dc_GatewayPrivateEndpointIP dns) = Ok (?mc role)" for role
    by (simp add: MachineConfig_def ign parse dnsmasq_machine_config_def flip: ign_def)
  let ?b = "b\<lparr>bs_Config := (bs_Config b)\<lparr>ig_Files := ReplaceOrAppend (ig_Files (bs_Config b)) (ig_Files ign),
      ig_Units := ReplaceOrAppendSystemd (ig_Units (bs_Config b)) (ig_Units ign)\<rparr>\<rparr>"
  let ?pm = "''/opt/openshift/openshift/99_openshift-machineconfig_99-master-aro-dns.yaml''"
  let ?pw = "''/opt/openshift/openshift/99_openshift-machineconfig_99-worker-aro-dns.yaml''"
  obtain f where f: "AppendMachineConfigToBootstrap l (?mc ''master'') ?b ?pm
      = Ok (?b\<lparr>bs_Config := (bs_Config ?b)\<lparr>ig_Files := ReplaceOrAppend (ig_Files (bs_Config ?b)) [f]\<rparr>\<rparr>)" "machine_config_at l ?pm (?mc ''master'') f"
    by (rule machine_config_file [OF assms])
  let ?b1 = "?b\<lparr>bs_Config := (bs_Config ?b)\<lparr>ig_Files := ReplaceOrAppend (ig_Files (bs_Config ?b)) [f]\<rparr>\<rparr>"
  obtain h where h: "AppendMachineConfigToBootstrap l (?mc ''worker'') ?b1 ?pw
      = Ok (?b1\<lparr>bs_Config := (bs_Config ?b1)\<lparr>ig_Files := ReplaceOrAppend (ig_Files (bs_Config ?b1)) [h]\<rparr>\<rparr>)" "machine_config_at l ?pw (?mc ''worker'') h"
    by (rule machine_config_file [OF assms])
  have "CreatednsmasqIgnitionFiles l b ic dns
      = Ok (?b1\<lparr>bs_Config := (bs_Config ?b1)\<lparr>ig_Files := ReplaceOrAppend (ig_Files (bs_Config ?b1)) [h]\<rparr>\<rparr>)"
    unfolding CreatednsmasqIgnitionFiles_def Let_def ign mc andThen.simps f(1) dropped_def outcome.case h(1) by simp
  then show thesis using f(2) h(2) that [of f h] by (simp add: ign_def dnsmasq_ignition_def ReplaceOrAppend_def)
qed

lemma dnsmasq_files_total:
  assumes "marshals l" "renewable cl key crt b"
  shows "\<exists>b'. CreatednsmasqIgnitionFiles l b ic dns = Ok b' \<and> renewable cl key crt b'"
proof -
  obtain f h where b': "CreatednsmasqIgnitionFiles l b ic dns = Ok (b\<lparr>bs_Config := (bs_Config b)
      \<lparr>ig_Files := ReplaceOrAppend (ig_Files (bs_Config b)) (dnsmasq_files l (ClusterDomain ic) dns @ [f, h]),
       ig_Units := ReplaceOrAppendSystemd (ig_Units (bs_Config b)) [dnsmasq_unit]\<rparr>\<rparr>)"
    "fi_Path f = ''/opt/openshift/openshift/99_openshift-machineconfig_99-master-aro-dns.yaml''"
    "fi_Path h = ''/opt/openshift/openshift/99_openshift-machineconfig_99-worker-aro-dns.yaml''"
    using CreatednsmasqIgnitionFiles_Ok [OF assms(1)] machine_config_at_path by metis
  let ?fs = "dnsmasq_files l (ClusterDomain ic) dns @ [f, h]"
  have "renewable cl key crt (b\<lparr>bs_Config := (bs_Config b)\<lparr>ig_Files := ReplaceOrAppend (ig_Files (bs_Config b)) ?fs, ig_Units := us\<rparr>\<rparr>)" for us
  proof (rule renewable_files [OF assms(2)])
    show "fi_Path ` set ?fs \<inter> mcs_paths = {}"
      using b'(2,3) mcs_paths_other by (simp add: dnsmasq_files_def FileFromBytes_def)
    show "set (ig_Files (bs_Config (b\<lparr>bs_Config := (bs_Config b)\<lparr>ig_Files := ReplaceOrAppend (ig_Files (bs_Config b)) ?fs,
        ig_Units := us\<rparr>\<rparr>))) \<subseteq> set (ig_Files (bs_Config b)) \<union> set ?fs"
      using set_ReplaceOrAppend [of "ig_Files (bs_Config b)" ?fs] by (simp del: set_append)
  qed
  then show ?thesis using b'(1) by blast
qed

definition etc_hosts_files :: "ign_lib \<Rightarrow> string \<Rightarrow> dns_config \<Rightarrow> ign_file list" where
  "etc_hosts_files l cd dns =
     [FileFromBytes l ''/etc/hosts.d/aro.conf'' ''root'' 420
        (aro_conf cd (dc_APIIntIP dns) (dc_GatewayDomains dns) (dc_GatewayPrivateEndpointIP dns)),
      FileFromBytes l ''/usr/local/bin/aro-etchosts-resolver.sh'' ''root'' 484 expected_resolver_script]"

definition etc_hosts_unit :: ign_unit where
  "etc_hosts_unit =
     \<lparr>un_Name = ''aro-etchosts-resolver.service'', un_Enabled = Some True, un_Contents = Some expected_resolver_service, un_Dropins = []\<rparr>"

definition etc_hosts_ignition :: "ign_lib \<Rightarrow> string \<Rightarrow> dns_config \<Rightarrow> ign_config" where
  "etc_hosts_ignition l cd dns = \<lparr>ig_Version = ''3.2.0'', ig_Files = etc_hosts_files l cd dns, ig_Units = [etc_hosts_unit]\<rparr>"

definition etc_hosts_machine_config :: "ign_lib \<Rightarrow> string \<Rightarrow> dns_config \<Rightarrow> string \<Rightarrow> machine_config" where
  "etc_hosts_machine_config l cd dns role =
     \<lparr>mc_Name = ''99-'' @ role @ ''-aro-etc-hosts-gateway-domains'', mc_Role = role,
      mc_Config = ignition_Marshal l (etc_hosts_ignition l cd dns)\<rparr>"

lemma AppendEtcHostFiles_Ok:
  assumes "marshals l"
  obtains f h where "AppendEtcHostFiles l b ic dns = Ok (b\<lparr>bs_Config := (bs_Config b)
      \<lparr>ig_Files := ReplaceOrAppend (ig_Files (bs_Config b) @ etc_hosts_files l (ClusterDomain ic) dns) [f, h],
       ig_Units := ig_Units (bs_Config b) @ [etc_hosts_unit]\<rparr>\<rparr>)"
    "machine_config_at l ''/opt/openshift/openshift/99_openshift-machineconfig_99-master-aro-etc-hosts-gateway-domains.yaml''
       (etc_hosts_machine_config l (ClusterDomain ic) dns ''master'') f"
    "machine_config_at l ''/opt/openshift/openshift/99_openshift-machineconfig_99-worker-aro-etc-hosts-gateway-domains.yaml''
       (etc_hosts_machine_config l (ClusterDomain ic) dns ''worker'') h"
proof -
  let ?mc = "etc_hosts_machine_config l (ClusterDomain ic) dns"
  define ign where "ign = etc_hosts_ignition l (ClusterDomain ic) dns"
  have ign: "EtcHostsIgnitionConfig l (ClusterDomain ic) (dc_APIIntIP dns) (dc_GatewayDomains dns) (dc_GatewayPrivateEndpointIP dns) = Ok ign"
    by (simp add: EtcHostsIgnitionConfig_def wrap_def etc_hosts_files_def etc_hosts_unit_def ign_def etc_hosts_ignition_def
        configFileName_def scriptFileName_def unitFileName_def)
  have mc: "EtcHostsMachineConfig l (ClusterDomain ic) (dc_APIIntIP dns) (dc_GatewayDomains dns) (dc_GatewayPrivateEndpointIP dns) role = Ok (?mc role)" for role
    unfolding EtcHostsMachineConfig_def ign andThen.simps etc_hosts_machine_config_def ign_def ..
  let ?b = "b\<lparr>bs_Config := (bs_Config b)\<lparr>ig_Files := ig_Files (bs_Config b) @ ig_Files ign,
      ig_Units := ig_Units (bs_Config b) @ ig_Units ign\<rparr>\<rparr>"
  let ?pm = "''/opt/openshift/openshift/99_openshift-machineconfig_99-master-aro-etc-hosts-gateway-domains.yaml''"
  let ?pw = "''/opt/openshift/openshift/99_openshift-machineconfig_99-worker-aro-etc-hosts-gateway-domains.yaml''"
  obtain f where f: "AppendMachineConfigToBootstrap l (?mc ''master'') ?b ?pm
      = Ok (?b\<lparr>bs_Config := (bs_Config ?b)\<lparr>ig_Files := ReplaceOrAppend (ig_Files (bs_Config ?b)) [f]\<rparr>\<rparr>)" "machine_config_at l ?pm (?mc ''master'') f"
    by (rule machine_config_file [OF assms])
  let ?b1 = "?b\<lparr>bs_Config := (bs_Config ?b)\<lparr>ig_Files := ReplaceOrAppend (ig_Files (bs_Config ?b)) [f]\<rparr>\<rparr>"
  obtain h where h: "AppendMachineConfigToBootstrap l (?mc ''worker'') ?b1 ?pw
      = Ok (?b1\<lparr>bs_Config := (bs_Config ?b1)\<lparr>ig_Files := ReplaceOrAppend (ig_Files (bs_Config ?b1)) [h]\<rparr>\<rparr>)" "machine_config_at l ?pw (?mc ''worker'') h"
    by (rule machine_config_file [OF assms])
  have "AppendEtcHostFiles l b ic dns
      = Ok (?b1\<lparr>bs_Config := (bs_Config ?b1)\<lparr>ig_Files := ReplaceOrAppend (ig_Files (bs_Config ?b1)) [h]\<rparr>\<rparr>)"
    unfolding AppendEtcHostFiles_def Let_def ign mc andThen.simps f(1) h(1) by simp
  then show thesis using f(2) h(2) that [of f h] by (simp add: ign_def etc_hosts_ignition_def ReplaceOrAppend_def)
qed

lemma etc_hosts_files_total:
  assumes "marshals l" "renewable cl key crt b"
  shows "\<exists>b'. AppendEtcHostFiles l b ic dns = Ok b' \<and> renewable cl key crt b'"
proof -
  obtain f h where b': "AppendEtcHostFiles l b ic dns = Ok (b\<lparr>bs_Config := (bs_Config b)
      \<lparr>ig_Files := ReplaceOrAppend (ig_Files (bs_Config b) @ etc_hosts_files l (ClusterDomain ic) dns) [f, h],
       ig_Units := ig_Units (bs_Config b) @ [etc_hosts_unit]\<rparr>\<rparr>)"
    "fi_Path f = ''/opt/openshift/openshift/99_openshift-machineconfig_99-master-aro-etc-hosts-gateway-domains.yaml''"
    "fi_Path h = ''/opt/openshift/openshift/99_openshift-machineconfig_99-worker-aro-etc-hosts-gateway-domains.yaml''"
    using AppendEtcHostFiles_Ok [OF assms(1)] machine_config_at_path by metis
  let ?fs = "etc_hosts_files l (ClusterDomain ic) dns"
  have "renewable cl key crt (b\<lparr>bs_Config := (bs_Config b)
      \<lparr>ig_Files := ReplaceOrAppend (ig_Files (bs_Config b) @ ?fs) [f, h], ig_Units := us\<rparr>\<rparr>)" for us
  proof (rule renewable_files [OF assms(2)])
    show "set (ig_Files (bs_Config (b\<lparr>bs_Config := (bs_Config b)
        \<lparr>ig_Files := ReplaceOrAppend (ig_Files (bs_Config b) @ ?fs) [f, h], ig_Units := us\<rparr>\<rparr>))) \<subseteq> set (ig_Files (bs_Config b)) \<union> set (?fs @ [f, h])"
      using set_ReplaceOrAppend [of "ig_Files (bs_Config b) @ ?fs" "[f, h]"] by auto
    show "fi_Path ` set (?fs @ [f, h]) \<inter> mcs_paths = {}"
      using b'(2,3) mcs_paths_other by (simp add: etc_hosts_files_def FileFromBytes_def)
  qed
  then show ?thesis using b'(1) by blast
qed

lemma private_paths: "fi_Path ` set (private_files l ts) = fst ` set ts"
  by (force simp: private_files_def FileFromBytes_def)

lemma logging_files_total:
  assumes "renewable cl key crt b"
  shows "\<exists>b'. AppendMdsdFiles l b c = Ok b' \<and> renewable cl key crt b'"
proof -
  have "renewable cl key crt (b\<lparr>bs_Config := (bs_Config b)
     \<lparr>ig_Files := ReplaceOrAppend (ig_Files (bs_Config b)) (private_files l (logging_texts c)), ig_Units := us\<rparr>\<rparr>)" for us
    by (rule renewable_files [OF assms, of _ "set (private_files l (logging_texts c))"])
      (simp_all add: set_ReplaceOrAppend private_paths text_paths_other)
  then show ?thesis by (simp add: AppendMdsdFiles_Ok)
qed

lemma manifests_files_total:
  assumes "renewable cl key crt b"
  shows "\<exists>b'. AppendManifestsFilesToBootstrap l b c = Ok b' \<and> renewable cl key crt b'"
proof -
  have "renewable cl key crt (b\<lparr>bs_Config := (bs_Config b)
     \<lparr>ig_Files := ReplaceOrAppend (ig_Files (bs_Config b)) (private_files l (manifests_texts c))\<rparr>\<rparr>)"
    by (rule renewable_files [OF assms, of _ "set (private_files l (manifests_texts c))"])
      (simp_all add: set_ReplaceOrAppend private_paths text_paths_other)
  then show ?thesis by (simp add: AppendManifestsFilesToBootstrap_Ok)
qed

text \<open>What the steps after the manifests need of the graph.\<close>

definition ready :: "custom_libs \<Rightarrow> string \<Rightarrow> string \<Rightarrow> root_ca \<Rightarrow> asset_graph \<Rightarrow> bool" where
  "ready l key crt ca g \<longleftrightarrow> (\<exists>b p w. bootstrap_in g = Ok b \<and> renewable l key crt b \<and> master_in g = Ok p \<and> worker_in g = Ok w
     \<and> pc_Merge (pt_Config p) \<noteq> [] \<and> pc_Merge (pt_Config w) \<noteq> [] \<and> rootCA_in g = Ok ca)"

lemma rootCA_put [simp]: "rootCA_in (put_bootstrap b g) = rootCA_in g"
  by (simp add: rootCA_in_def put_bootstrap_def graph_Set_def sm_get_put asset_names)

lemma ready_on_bootstrap:
  assumes "ready l key crt ca g" "\<And>b. renewable l key crt b \<Longrightarrow> \<exists>b'. f b = Ok b' \<and> renewable l key crt b'"
  shows "\<exists>g'. on_bootstrap f g = Ok g' \<and> ready l key crt ca g'"
proof -
  obtain b p w where g: "bootstrap_in g = Ok b" "renewable l key crt b" "master_in g = Ok p" "worker_in g = Ok w"
     "pc_Merge (pt_Config p) \<noteq> []" "pc_Merge (pt_Config w) \<noteq> []" "rootCA_in g = Ok ca"
    using assms(1) by (auto simp: ready_def)
  obtain b' where b': "f b = Ok b'" "renewable l key crt b'" using assms(2) [OF g(2)] by blast
  have "ready l key crt ca (put_bootstrap b' g)" using g b' by (auto simp: ready_def)
  then show ?thesis using g(1) b'(1) by (simp add: on_bootstrap_def)
qed

text \<open>Customising succeeds, for an installation without manifests of its own: if the texts
  of the configurations, of the pointers and of the DNS can be written, and a certificate can be made
  that every file that gets it can take.\<close>

definition writes_texts :: "custom_libs \<Rightarrow> bool" where
  "writes_texts l \<longleftrightarrow> marshals (cl_ign l) \<and> (\<forall>c. isOk (cl_pointer_json l c)) \<and> (\<forall>t. isOk (cl_yaml_DNS l t))"

text \<open>The installer's helper puts a machine configuration at a path with its name in the directory.\<close>

definition mtu_path :: "string \<Rightarrow> string" where
  "mtu_path role = ''/opt/openshift/openshift/99_openshift-machineconfig_99-'' @ role @ ''-mtu.yaml''"

definition names_manifests :: "custom_libs \<Rightarrow> bool" where
  "names_manifests l \<longleftrightarrow> (\<forall>mc role dir. \<exists>t. cl_mc_Manifests l [mc] role dir =
     Ok [(dir @ ''/99_openshift-machineconfig_'' @ mc_Name mc @ ''.yaml'', t)])"

lemma mtu_machine_config:
  assumes "names_manifests l"
  obtains t where "newMTUMachineConfigIgnitionFile l role = Ok (FileFromBytes (cl_ign l) (mtu_path role) ''root'' 420 t)"
proof -
  let ?c = "\<lparr>ig_Version = ''3.2.0'', ig_Files = [newMTUIgnitionFile (cl_ign l)], ig_Units = []\<rparr>"
  let ?mc = "\<lparr>mc_Name = ''99-'' @ role @ ''-mtu'', mc_Role = role, mc_Config = ignition_Marshal (cl_ign l) ?c\<rparr>"
  obtain t where "cl_mc_Manifests l [?mc] role ''/opt/openshift/openshift'' =
      Ok [(''/opt/openshift/openshift'' @ ''/99_openshift-machineconfig_'' @ mc_Name ?mc @ ''.yaml'', t)]"
    using assms unfolding names_manifests_def by blast
  then have "cl_mc_Manifests l [?mc] role ''/opt/openshift/openshift'' = Ok [(mtu_path role, t)]"
    by (simp add: mtu_path_def)
  then show thesis using that by (simp add: newMTUMachineConfigIgnitionFile_def Let_def)
qed

text \<open>The three files that are added for the larger MTU.\<close>

definition mtu_files :: "ign_lib \<Rightarrow> string \<Rightarrow> string \<Rightarrow> ign_file list" where
  "mtu_files l t u =
     [newMTUIgnitionFile l, FileFromBytes l (mtu_path ''master'') ''root'' 420 t, FileFromBytes l (mtu_path ''worker'') ''root'' 420 u]"

lemma overrideEthernetMTU_files:
  assumes "names_manifests l" "bootstrap_in g = Ok b"
  obtains t u where "overrideEthernetMTU l g =
    Ok (put_bootstrap (marshalled (cl_ign l) (with_files (\<lambda>fs. fs @ mtu_files (cl_ign l) t u) b)) g)"
proof -
  obtain t where t: "newMTUMachineConfigIgnitionFile l ''master'' = Ok (FileFromBytes (cl_ign l) (mtu_path ''master'') ''root'' 420 t)"
    by (rule mtu_machine_config [OF assms(1)])
  obtain u where u: "newMTUMachineConfigIgnitionFile l ''worker'' = Ok (FileFromBytes (cl_ign l) (mtu_path ''worker'') ''root'' 420 u)"
    by (rule mtu_machine_config [OF assms(1)])
  show thesis by (rule that [of t u]) (simp add: overrideEthernetMTU_def assms(2) t u with_files_def mtu_files_def Let_def)
qed

lemma mtu_paths_other: "fi_Path ` set (mtu_files l t u) \<inter> mcs_paths = {}"
  by (simp add: mtu_files_def newMTUIgnitionFile_def FileFromBytes_def mtu_path_def mcs_paths_def mcsCertKeyFilepath_def mcsKeyFile_def
      mcsCertFile_def)

lemma mtu_total:
  assumes "names_manifests l" "ready l key crt ca g"
  shows "\<exists>g'. overrideEthernetMTU l g = Ok g' \<and> ready l key crt ca g'"
proof -
  obtain b p w where g: "bootstrap_in g = Ok b" "renewable l key crt b" "master_in g = Ok p" "worker_in g = Ok w"
     "pc_Merge (pt_Config p) \<noteq> []" "pc_Merge (pt_Config w) \<noteq> []" "rootCA_in g = Ok ca"
    using assms(2) by (auto simp: ready_def)
  obtain t u where o: "overrideEthernetMTU l g =
      Ok (put_bootstrap (marshalled (cl_ign l) (with_files (\<lambda>fs. fs @ mtu_files (cl_ign l) t u) b)) g)"
    by (rule overrideEthernetMTU_files [OF assms(1) g(1)])
  have "renewable l key crt (marshalled (cl_ign l) (with_files (\<lambda>fs. fs @ mtu_files (cl_ign l) t u) b))"
    by (rule renewable_files [OF g(2) _ mtu_paths_other [of "cl_ign l" t u]]) (simp add: marshalled_def)
  then show ?thesis using o g by (auto simp: ready_def)
qed

lemma removeDNS_total:
  assumes "writes_texts l" "ready l key crt ca g"
  shows "\<exists>g'. removeDNSConfigData l ic g = Ok g' \<and> ready l key crt ca g'"
proof -
  obtain d where d: "cl_yaml_DNS l (ClusterDomain ic) = Ok d" using assms(1) isOk_obtain by (metis writes_texts_def)
  let ?f = "FileFromBytes (cl_ign l) (rooted ''manifests/cluster-dns-02-config.yml'') ''root'' 420 d"
  have "\<exists>g'. on_bootstrap (\<lambda>b. Ok (with_files (\<lambda>fs. ReplaceOrAppend fs [?f]) b)) g = Ok g' \<and> ready l key crt ca g'"
  proof (rule ready_on_bootstrap [OF assms(2)])
    fix b assume "renewable l key crt b"
    then have "renewable l key crt (with_files (\<lambda>fs. ReplaceOrAppend fs [?f]) b)"
    proof (rule renewable_files)
      show "set (ig_Files (bs_Config (with_files (\<lambda>fs. ReplaceOrAppend fs [?f]) b))) \<subseteq> set (ig_Files (bs_Config b)) \<union> {?f}"
        using set_ReplaceOrAppend [of "ig_Files (bs_Config b)" "[?f]"] by simp
      show "fi_Path ` {?f} \<inter> mcs_paths = {}" using mcs_paths_other by (simp add: FileFromBytes_def)
    qed
    then show "\<exists>b'. Ok (with_files (\<lambda>fs. ReplaceOrAppend fs [?f]) b) = Ok b' \<and> renewable l key crt b'" by blast
  qed
  then show ?thesis by (simp add: removeDNSConfigData_def d on_bootstrap_def)
qed

lemma pointers_total:
  assumes "writes_texts l" "ready l key crt ca g"
  shows "\<exists>g'. replacePointerIgnition l dns g = Ok g' \<and> ready l key crt ca g'"
proof -
  obtain b p w where g: "bootstrap_in g = Ok b" "renewable l key crt b" "master_in g = Ok p" "worker_in g = Ok w"
     "pc_Merge (pt_Config p) \<noteq> []" "pc_Merge (pt_Config w) \<noteq> []" "rootCA_in g = Ok ca"
    using assms(2) by (auto simp: ready_def)
  obtain p1 w1 where s: "set_merge_source (pointer_source dns ''master'') p = Ok p1" "set_merge_source (pointer_source dns ''worker'') w = Ok w1"
    and m: "pc_Merge (pt_Config p1) \<noteq> []" "pc_Merge (pt_Config w1) \<noteq> []"
    using g(5,6) by (auto simp: set_merge_source_def neq_Nil_conv)
  obtain d1 d2 where d: "cl_pointer_json l (pt_Config p1) = Ok d1" "cl_pointer_json l (pt_Config w1) = Ok d2"
    using assms(1) isOk_obtain by (metis writes_texts_def)
  let ?fs = "[user_data_file l ''master'' (p1\<lparr>pt_Data := d1\<rparr>), user_data_file l ''worker'' (w1\<lparr>pt_Data := d2\<rparr>)]"
  let ?b = "with_files (\<lambda>fs. ReplaceOrAppend fs ?fs) b"
  let ?g = "graph_Set [(master_name, AssetMaster (p1\<lparr>pt_Data := d1\<rparr>)), (worker_name, AssetWorker (w1\<lparr>pt_Data := d2\<rparr>)),
     (bootstrap_asset, AssetBootstrap ?b)] g"
  have "replacePointerIgnition l dns g = Ok ?g" using g s d by (simp add: replacePointerIgnition_eq wrap_def Let_def)
  moreover have "renewable l key crt ?b"
  proof (rule renewable_files [OF g(2)])
    show "set (ig_Files (bs_Config ?b)) \<subseteq> set (ig_Files (bs_Config b)) \<union> set ?fs"
      using set_ReplaceOrAppend [of "ig_Files (bs_Config b)" ?fs] by simp
    show "fi_Path ` set ?fs \<inter> mcs_paths = {}" using mcs_paths_other by (simp add: user_data_file_def FileFromBytes_def)
  qed
  then have "ready l key crt ca ?g"
    using m g(7) by (simp add: ready_def bootstrap_in_def master_in_def worker_in_def rootCA_in_def graph_Set_def sm_get_put asset_names)
  ultimately show ?thesis by blast
qed

lemma mcs_total:
  assumes "ready l key crt ca g" "regenerateMCSCertKey l ic ca (dc_APIIntIP dns) = Ok (key, crt)"
  shows "\<exists>g'. updateMCSCertKey l ic dns g = Ok g' \<and> isOk (bootstrap_in g')"
proof (cases "dc_APIIntIP dns = []")
  case False
  obtain b where b: "bootstrap_in g = Ok b" "renewable l key crt b" "rootCA_in g = Ok ca" using assms(1) by (auto simp: ready_def)
  have "\<exists>fs. mapOk (update_mcs_file l key crt) xs = Ok fs" if "\<forall>f \<in> set xs. isOk (update_mcs_file l key crt f)" for xs
    using that by (induction xs) (auto dest!: isOk_obtain)
  with b(2) obtain fs where "mapOk (update_mcs_file l key crt) (ig_Files (bs_Config b)) = Ok fs" by (auto simp: renewable_def)
  with False b assms(2) show ?thesis by (simp add: updateMCSCertKey_def wrap_def)
qed (use assms(1) in \<open>auto simp: updateMCSCertKey_def ready_def\<close>)

lemma customise_succeeds:
  assumes "writes_texts (cd_libs d)" "ready (cd_libs d) key crt ca g"
    and "regenerateMCSCertKey (cd_libs d) ic ca (dc_APIIntIP (pp_dns pp)) = Ok (key, crt)"
    and "MTUSize (NetworkProfile (mg_oc m)) = MTU3900 \<Longrightarrow> names_manifests (cd_libs d)" "\<not> pp_manifestsExist pp"
  shows "\<exists>g'. customise d m ic pp g = Ok g'"
proof -
  let ?l = "cd_libs d"
  note m = assms(1) [unfolded writes_texts_def, THEN conjunct1]
  obtain g0 where 0: "(if MTUSize (NetworkProfile (mg_oc m)) = MTU3900 then overrideEthernetMTU ?l g else Ok g) = Ok g0" "ready ?l key crt ca g0"
    using mtu_total [OF assms(4) assms(2)] assms(2) by (cases "MTUSize (NetworkProfile (mg_oc m)) = MTU3900") auto
  obtain g1 where 1: "on_bootstrap (\<lambda>b. CreatednsmasqIgnitionFiles (cl_ign ?l) b ic (pp_dns pp)) g0 = Ok g1" "ready ?l key crt ca g1"
    using ready_on_bootstrap [OF 0(2), of "\<lambda>b. CreatednsmasqIgnitionFiles (cl_ign ?l) b ic (pp_dns pp)"] dnsmasq_files_total [OF m] by blast
  obtain g2 where 2: "on_bootstrap (\<lambda>b. AppendMdsdFiles (cl_ign ?l) b (pp_logging pp)) g1 = Ok g2" "ready ?l key crt ca g2"
    using ready_on_bootstrap [OF 1(2), of "\<lambda>b. AppendMdsdFiles (cl_ign ?l) b (pp_logging pp)"] logging_files_total by blast
  obtain g3 where 3: "on_bootstrap (\<lambda>b. AppendManifestsFilesToBootstrap (cl_ign ?l) b (manifests_config_of m ic pp)) g2 = Ok g3"
    "ready ?l key crt ca g3"
    using ready_on_bootstrap [OF 2(2), of "\<lambda>b. AppendManifestsFilesToBootstrap (cl_ign ?l) b (manifests_config_of m ic pp)"] manifests_files_total by blast
  obtain g4 where 4: "on_bootstrap (\<lambda>b. AppendEtcHostFiles (cl_ign ?l) b ic (pp_dns pp)) g3 = Ok g4" "ready ?l key crt ca g4"
    using ready_on_bootstrap [OF 3(2), of "\<lambda>b. AppendEtcHostFiles (cl_ign ?l) b ic (pp_dns pp)"] etc_hosts_files_total [OF m] by blast
  obtain g5 where 5: "removeDNSConfigData ?l ic g4 = Ok g5" "ready ?l key crt ca g5"
    using removeDNS_total [OF assms(1) 4(2)] by blast
  obtain g6 where 6: "replacePointerIgnition ?l (pp_dns pp) g5 = Ok g6" "ready ?l key crt ca g6"
    using pointers_total [OF assms(1) 5(2)] by blast
  obtain g7 where 7: "updateMCSCertKey ?l ic (pp_dns pp) g6 = Ok g7" "isOk (bootstrap_in g7)"
    using mcs_total [OF 6(2) assms(3)] by blast
  obtain b7 where "bootstrap_in g7 = Ok b7" using 7(2) isOk_obtain by blast
  then have "on_bootstrap (\<lambda>b. Ok (marshalled (cl_ign ?l) b)) g7 = Ok (put_bootstrap (marshalled (cl_ign ?l) b7) g7)"
    by (simp add: on_bootstrap_def)
  then show ?thesis using assms(5)
    by (simp add: customise_def Let_def 0(1) 1(1) 2(1) 3(1) 4(1) 5(1) 6(1) 7(1))
qed

section \<open>The theorems at concrete assets\<close>

definition demo_custom_libs :: custom_libs where
  "demo_custom_libs =
     \<lparr>cl_ign = demo_ign_lib, cl_pointer_json = (\<lambda>c. Ok (pc_rest c)), cl_yaml_DNS = (\<lambda>t. Ok (''dns '' @ t)),
      cl_identity = (\<lambda>t. Ok ([], ''ConfigMap'', ''ns'', t)), cl_read_ClusterVersion = (\<lambda>t cv. Ok (cv\<lparr>cv_rest := t\<rparr>)),
      cl_yaml_ClusterVersion = (\<lambda>cv. Ok (concat (map co_Name (cv_Overrides cv)))),
      cl_read_Secret = (\<lambda>t. Ok \<lparr>ts_Data = Some [], ts_rest = t\<rparr>), cl_yaml_Secret = (\<lambda>x. Ok ''secret''),
      cl_PemToPrivateKey = (\<lambda>t. Ok (RsaKey t)), cl_PemToCertificate = (\<lambda>t. Ok demo_cert),
      cl_PublicKeyToPem = (\<lambda>k. Ok ''pub''), cl_GenerateSignedCertificate = (\<lambda>k c cfg. Ok (RsaKey ''new'', demo_cert)),
      cl_PrivateKeyToPem = (\<lambda>k. ''KEY''), cl_CertToPem = (\<lambda>c. ''CERT''), cl_ParseIP = Some,
      cl_mc_Manifests = (\<lambda>ms role dir. Ok (map (\<lambda>mc. (dir @ ''/99_openshift-machineconfig_'' @ mc_Name mc @ ''.yaml'', ''m'')) ms))\<rparr>"

definition demo_bootstrap :: bootstrap where
  "demo_bootstrap =
     \<lparr>bs_Config = \<lparr>ig_Version = ''3.2.0'', ig_Files =
        [demo_file (rooted cvoOverridesFilename) ''data:,old'', demo_file mcsKeyFile ''data:,old'',
         demo_file mcsCertKeyFilepath (data_header @ b64_encode ''s'')], ig_Units = []\<rparr>, bs_Data = []\<rparr>"

definition demo_pointer :: pointer_asset where
  "demo_pointer = \<lparr>pt_Config = \<lparr>pc_Merge = [None], pc_rest = ''ign''\<rparr>, pt_Data = []\<rparr>"

definition demo_custom_graph :: asset_graph where
  "demo_custom_graph = graph_Set [(bootstrap_asset, AssetBootstrap demo_bootstrap), (master_name, AssetMaster demo_pointer),
     (worker_name, AssetWorker demo_pointer), (cvo_name, AssetCVOIgnore [(cvoOverridesFilename, ''old'')]),
     (root_ca_name, AssetRootCA \<lparr>ca_Key = ''k'', ca_Cert = ''c''\<rparr>)] []"

definition demo_dns :: dns_config where
  "demo_dns = \<lparr>dc_APIIntIP = ''10.0.0.5'', dc_IngressIP = ''10.0.0.6'', dc_GatewayDomains = [], dc_GatewayPrivateEndpointIP = []\<rparr>"

lemma demo_custom_graph_assets:
  "bootstrap_in demo_custom_graph = Ok demo_bootstrap" "master_in demo_custom_graph = Ok demo_pointer" "worker_in demo_custom_graph = Ok demo_pointer"
  "cvo_in demo_custom_graph = Ok [(cvoOverridesFilename, ''old'')]" "rootCA_in demo_custom_graph = Ok \<lparr>ca_Key = ''k'', ca_Cert = ''c''\<rparr>"
  by (simp_all add: demo_custom_graph_def bootstrap_in_def master_in_def worker_in_def cvo_in_def rootCA_in_def graph_Set_def
      sm_get_put asset_names)

definition demo_config :: install_config where
  "demo_config =
     (let img = rhcos_image False in
     \<lparr>ic_Name = ''c'', ic_SSHKey = [], ic_BaseDomain = ''io'', ic_MachineNetwork = [], ic_NetworkType = ''OVNKubernetes'',
      ic_ClusterNetwork = [], ic_ServiceNetwork = [], ic_ControlPlane = control_plane_pool demo_cluster [] [] None img,
      ic_Compute = [worker_pool demo_profile [] [] None img],
      ic_Azure = azure_platform_of demo_cluster demo_prod [] demo_resource [] [], ic_PullSecret = [], ic_FIPS = False,
      ic_ImageDigestSources = [], ic_Publish = ''Internal'', ic_BaselineCapabilitySet = ''None'',
      ic_AdditionalEnabledCapabilities = [], ic_CredentialsMode = []\<rparr>)"

theorem cvo_overrides_extended_witness:
  "\<exists>g'. appendFilesToCvoOverrides demo_custom_libs [(''a.yaml'', ''A''), (''b.yaml'', ''B'')] demo_custom_graph = Ok g'
     \<and> cvo_in g' = Ok [(cvoOverridesFilename, ''AB'')]"
proof -
  have "isOk (appendFilesToCvoOverrides demo_custom_libs [(''a.yaml'', ''A''), (''b.yaml'', ''B'')] demo_custom_graph)" by code_simp
  then obtain g' where g': "appendFilesToCvoOverrides demo_custom_libs [(''a.yaml'', ''A''), (''b.yaml'', ''B'')] demo_custom_graph = Ok g'"
    using isOk_obtain by blast
  from cvo_overrides_extended [OF g', where pre = "[]" and post = "[]" and t = "''old''" and b = demo_bootstrap]
  have "cvo_in g' = Ok [(cvoOverridesFilename, ''AB'')]"
    by (auto simp: demo_custom_graph_assets demo_custom_libs_def empty_version_def unmanaged_def)
  then show ?thesis using g' by blast
qed

theorem pointer_ignition_replaced_witness:
  "\<exists>g' p'. replacePointerIgnition demo_custom_libs demo_dns demo_custom_graph = Ok g' \<and> master_in g' = Ok p'
     \<and> pc_Merge (pt_Config p') = [Some ''https://10.0.0.5:22623/config/master'']"
proof -
  have "isOk (replacePointerIgnition demo_custom_libs demo_dns demo_custom_graph)" by code_simp
  then obtain g' where g': "replacePointerIgnition demo_custom_libs demo_dns demo_custom_graph = Ok g'" using isOk_obtain by blast
  have src: "pointer_source demo_dns ''master'' = ''https://10.0.0.5:22623/config/master''" by code_simp
  from pointer_ignition_replaced [OF g'] obtain p' where "master_in g' = Ok p'" "points_to demo_custom_libs demo_dns ''master'' demo_pointer p'"
    by (auto simp: demo_custom_graph_assets)
  then show ?thesis using g' src by (auto simp: points_to_def demo_pointer_def)
qed

theorem mcs_certificate_updated_witness:
  "\<exists>g' b. updateMCSCertKey demo_custom_libs demo_config demo_dns demo_custom_graph = Ok g' \<and> bootstrap_in g' = Ok b
     \<and> map fi_Path (ig_Files (bs_Config b)) = map fi_Path (ig_Files (bs_Config demo_bootstrap))"
proof -
  have "\<exists>fs. mapOk (update_mcs_file demo_custom_libs ''KEY'' ''CERT'') (ig_Files (bs_Config demo_bootstrap)) = Ok fs"
    by (rule isOk_obtain) code_simp
  moreover have "regenerateMCSCertKey demo_custom_libs demo_config ca (dc_APIIntIP demo_dns) = Ok (''KEY'', ''CERT'')" for ca
    by (simp add: regenerateMCSCertKey_def regenerateSignedCertKey_def demo_custom_libs_def wrap_def)
  ultimately obtain g' where g': "updateMCSCertKey demo_custom_libs demo_config demo_dns demo_custom_graph = Ok g'"
    by (auto simp: updateMCSCertKey_def demo_custom_graph_assets wrap_def demo_dns_def)
  have "dc_APIIntIP demo_dns \<noteq> []" by (simp add: demo_dns_def)
  from mcs_certificate_updated [OF g' this] g' show ?thesis by (auto simp: demo_custom_graph_assets)
qed

definition demo_ia :: install_config_asset where
  "demo_ia = \<lparr>ia_Config = demo_config, ia_CloudName = [], ia_ResourceManagerEndpoint = [],
     ia_Credentials = \<lparr>cr_TenantID = [], cr_SubscriptionID = [], cr_ClientID = [], cr_ClientSecret = [], cr_ClientCertificatePath = []\<rparr>\<rparr>"

definition demo_rank :: "string \<Rightarrow> nat" where
  "demo_rank n = (if n = bootstrap_asset then 1 else 0)"

definition demo_custom_assets :: "installer_asset assets" where
  "demo_custom_assets =
     \<lparr>as_deps = (\<lambda>n. if n = bootstrap_asset then [install_config_name, cvo_name, root_ca_name] else []),
      as_generate = (\<lambda>n g. Ok (case graph_Get demo_custom_graph n of Some a \<Rightarrow> a | None \<Rightarrow> AssetOther n))\<rparr>"

definition demo_custom_deps :: custom_deps where
  "demo_custom_deps =
     \<lparr>cd_libs = demo_custom_libs, cd_ParseResourceID = (\<lambda>t. Ok demo_resource),
      cd_random = Ok ''random'', cd_files = \<lparr>fs_Glob = (\<lambda>p. Ok []), fs_ReadFile = (\<lambda>p. Err (ErrMsg ''missing'')), fs_missing = (\<lambda>e. True)\<rparr>,
      cd_mkdir = Ok (), cd_assets = demo_custom_assets\<rparr>"

text \<open>These customisations succeed for every configuration.\<close>

lemma demo_prepared: "case prepare demo_custom_deps demo_install of Ok pp \<Rightarrow> \<not> pp_manifestsExist pp \<and> pp_signingKey pp = [] | _ \<Rightarrow> False"
  by code_simp

lemma demo_resolves:
  "case Resolve_deps 2 (cd_assets demo_custom_deps) ignition_targets (initial_graph demo_install ia img []) of
     None \<Rightarrow> False
   | Some (r, g) \<Rightarrow> isOk r \<and> bootstrap_in g = Ok demo_bootstrap \<and> master_in g = Ok demo_pointer \<and> worker_in g = Ok demo_pointer
       \<and> rootCA_in g = Ok \<lparr>ca_Key = ''k'', ca_Cert = ''c''\<rparr>"
  by code_simp

lemma demo_renewable: "renewable demo_custom_libs ''KEY'' ''CERT'' demo_bootstrap"
  by code_simp

lemma demo_customisable:
  obtains pp g where "prepare demo_custom_deps demo_install = Ok pp" "\<not> pp_manifestsExist pp"
    "Resolve_deps 2 (cd_assets demo_custom_deps) ignition_targets (initial_graph demo_install ia ''release'' (pp_signingKey pp)) = Some (Ok (), g)"
    "writes_texts (cd_libs demo_custom_deps)"
    "ready (cd_libs demo_custom_deps) ''KEY'' ''CERT'' \<lparr>ca_Key = ''k'', ca_Cert = ''c''\<rparr> g"
    "regenerateMCSCertKey (cd_libs demo_custom_deps) (ia_Config ia) \<lparr>ca_Key = ''k'', ca_Cert = ''c''\<rparr> (dc_APIIntIP (pp_dns pp))
        = Ok (''KEY'', ''CERT'')"
    "MTUSize (NetworkProfile (mg_oc demo_install)) \<noteq> MTU3900"
proof -
  obtain pp where pp: "prepare demo_custom_deps demo_install = Ok pp" "\<not> pp_manifestsExist pp" "pp_signingKey pp = []"
    using demo_prepared by (auto split: outcome.splits)
  obtain g where g: "Resolve_deps 2 (cd_assets demo_custom_deps) ignition_targets (initial_graph demo_install ia ''release'' []) = Some (Ok (), g)"
    "bootstrap_in g = Ok demo_bootstrap" "master_in g = Ok demo_pointer" "worker_in g = Ok demo_pointer"
    "rootCA_in g = Ok \<lparr>ca_Key = ''k'', ca_Cert = ''c''\<rparr>"
    using demo_resolves [of ia "''release''"] by (auto split: option.splits prod.splits dest!: isOk_obtain)
  have libs: "cd_libs demo_custom_deps = demo_custom_libs" by (simp add: demo_custom_deps_def)
  show thesis
  proof (rule that [OF pp(1,2) g(1) [folded pp(3)]])
    show "writes_texts (cd_libs demo_custom_deps)"
      by (simp add: libs writes_texts_def marshals_def demo_custom_libs_def demo_ign_lib_def)
    show "ready (cd_libs demo_custom_deps) ''KEY'' ''CERT'' \<lparr>ca_Key = ''k'', ca_Cert = ''c''\<rparr> g"
      using demo_renewable by (simp add: libs ready_def g demo_pointer_def)
    show "regenerateMCSCertKey (cd_libs demo_custom_deps) (ia_Config ia) \<lparr>ca_Key = ''k'', ca_Cert = ''c''\<rparr> (dc_APIIntIP (pp_dns pp))
        = Ok (''KEY'', ''CERT'')"
      by (simp add: libs regenerateMCSCertKey_def regenerateSignedCertKey_def demo_custom_libs_def wrap_def)
    show "MTUSize (NetworkProfile (mg_oc demo_install)) \<noteq> MTU3900" by code_simp
  qed
qed

lemma customised_if:
  assumes "prepare d m = Ok pp"
    and "Resolve_deps k (cd_assets d) ignition_targets (initial_graph m ia img (pp_signingKey pp)) = Some (Ok (), g)"
    and "customise d m (ia_Config ia) pp g = Ok g'"
  shows "applyInstallConfigCustomisations k d m ia img = Some (Ok g')"
  using assms by (simp add: applyInstallConfigCustomisations_def)

lemma demo_customised: "case applyInstallConfigCustomisations 2 demo_custom_deps demo_install ia ''release'' of Some r \<Rightarrow> isOk r | None \<Rightarrow> False"
proof -
  obtain pp g where g: "prepare demo_custom_deps demo_install = Ok pp"
    "Resolve_deps 2 (cd_assets demo_custom_deps) ignition_targets (initial_graph demo_install ia ''release'' (pp_signingKey pp)) = Some (Ok (), g)"
    and "\<exists>g'. customise demo_custom_deps demo_install (ia_Config ia) pp g = Ok g'"
    using demo_customisable [of ia] by (metis customise_succeeds)
  then show ?thesis using customised_if [OF g] by auto
qed

theorem customisations_complete_witness:
  "\<exists>g b. applyInstallConfigCustomisations 2 demo_custom_deps demo_install demo_ia ''release'' = Some (Ok g)
     \<and> bootstrap_in g = Ok b \<and> bs_Data b = ignition_Marshal demo_ign_lib (bs_Config b)"
proof -
  obtain g where g: "applyInstallConfigCustomisations 2 demo_custom_deps demo_install demo_ia ''release'' = Some (Ok g)"
    using demo_customised [of demo_ia] isOk_obtain by (auto split: option.splits)
  have "ranked demo_rank (cd_assets demo_custom_deps)"
    by (simp add: ranked_def demo_rank_def demo_custom_deps_def demo_custom_assets_def asset_names)
  moreover have "\<forall>t \<in> set ignition_targets. demo_rank t < 2" by (simp add: demo_rank_def)
  ultimately have "\<exists>b. bootstrap_in g = Ok b \<and> bs_Data b = ignition_Marshal (cl_ign (cd_libs demo_custom_deps)) (bs_Config b)"
    using customisations_complete [of demo_rank demo_custom_deps 2 demo_install demo_ia "''release''"] g by fastforce
  then show ?thesis using g by (simp add: demo_custom_deps_def demo_custom_libs_def)
qed

end
