(* ===== verification/Arm_Template.thy ===== *)
theory Arm_Template
  imports Json Base64
begin

text \<open>
  pkg/util/arm: ARM templates and how a resource becomes JSON (types.go, marshal.go). Go values are
  trees: what package reflect sees of them, with the fields' names, JSON tags and visibility, and for a
  struct type with a \<open>MarshalJSON\<close> method of its own what that method gives. The resources that the
  program passes have a JSON tag on every embedded struct and no two fields with one tag.
\<close>

section \<open>Go values and encoding/json\<close>

record struct_field =
  sf_Name :: string
  sf_Tag :: string
  sf_OmitEmpty :: bool
  sf_Exported :: bool

datatype gval =
    GString string
  | GBool bool
  | GInt int
  | GUUID string
  | GBytesNil
  | GBytes string
  | GPtrNil
  | GPtr gval
  | GIfaceNil
  | GIface gval
  | GMapNil
  | GMap "(string \<times> gval) list"
  | GSliceNil
  | GSlice "gval list"
  | GArray "gval list"
  | GStruct "json option" "(struct_field \<times> gval) list"

text \<open>\<open>isEmptyValue\<close> of encoding/json, and \<open>Value.IsZero\<close>.\<close>

fun empty_value :: "gval \<Rightarrow> bool" where
  "empty_value (GString s) = (s = [])"
| "empty_value (GBool b) = (\<not> b)"
| "empty_value (GInt i) = (i = 0)"
| "empty_value (GUUID u) = False"
| "empty_value GBytesNil = True"
| "empty_value (GBytes b) = (b = [])"
| "empty_value GPtrNil = True"
| "empty_value (GPtr v) = False"
| "empty_value GIfaceNil = True"
| "empty_value (GIface v) = False"
| "empty_value GMapNil = True"
| "empty_value (GMap ms) = (ms = [])"
| "empty_value GSliceNil = True"
| "empty_value (GSlice vs) = (vs = [])"
| "empty_value (GArray vs) = (vs = [])"
| "empty_value (GStruct m fs) = False"

definition zero_uuid :: string where "zero_uuid = ''00000000-0000-0000-0000-000000000000''"

fun is_zero :: "gval \<Rightarrow> bool"
  and zero_fields :: "(struct_field \<times> gval) list \<Rightarrow> bool"
  and zero_elements :: "gval list \<Rightarrow> bool" where
  "is_zero (GString s) = (s = [])"
| "is_zero (GBool b) = (\<not> b)"
| "is_zero (GInt i) = (i = 0)"
| "is_zero (GUUID u) = (u = zero_uuid)"
| "is_zero GBytesNil = True"
| "is_zero (GBytes b) = False"
| "is_zero GPtrNil = True"
| "is_zero (GPtr v) = False"
| "is_zero GIfaceNil = True"
| "is_zero (GIface v) = False"
| "is_zero GMapNil = True"
| "is_zero (GMap ms) = False"
| "is_zero GSliceNil = True"
| "is_zero (GSlice vs) = False"
| "is_zero (GArray vs) = zero_elements vs"
| "is_zero (GStruct m fs) = zero_fields fs"
| "zero_fields [] = True"
| "zero_fields ((f, v) # fs) = (is_zero v \<and> zero_fields fs)"
| "zero_elements [] = True"
| "zero_elements (v # vs) = (is_zero v \<and> zero_elements vs)"

definition written :: "struct_field \<Rightarrow> gval \<Rightarrow> bool" where
  "written f v = (sf_Exported f \<and> sf_Tag f \<noteq> ''-'' \<and> \<not> (sf_OmitEmpty f \<and> empty_value v))"

text \<open>\<open>json.Marshal\<close>: a struct with a method of its own is what the method gives.\<close>

fun marshal :: "gval \<Rightarrow> json"
  and marshal_fields :: "(struct_field \<times> gval) list \<Rightarrow> (string \<times> json) list"
  and marshal_members :: "(string \<times> gval) list \<Rightarrow> (string \<times> json) list"
  and marshal_elements :: "gval list \<Rightarrow> json list" where
  "marshal (GString s) = JStr s"
| "marshal (GBool b) = JBool b"
| "marshal (GInt i) = JNum (show_int i)"
| "marshal (GUUID u) = JStr u"
| "marshal GBytesNil = JNull"
| "marshal (GBytes b) = JStr (b64_encode b)"
| "marshal GPtrNil = JNull"
| "marshal (GPtr v) = marshal v"
| "marshal GIfaceNil = JNull"
| "marshal (GIface v) = marshal v"
| "marshal GMapNil = JNull"
| "marshal (GMap ms) = JObj (marshal_members ms)"
| "marshal GSliceNil = JNull"
| "marshal (GSlice vs) = JArr (marshal_elements vs)"
| "marshal (GArray vs) = JArr (marshal_elements vs)"
| "marshal (GStruct m fs) = (case m of Some j \<Rightarrow> j | None \<Rightarrow> JObj (marshal_fields fs))"
| "marshal_fields [] = []"
| "marshal_fields ((f, v) # fs) = (if written f v then [(sf_Tag f, marshal v)] else []) @ marshal_fields fs"
| "marshal_members [] = []"
| "marshal_members ((k, v) # ms) = (k, marshal v) # marshal_members ms"
| "marshal_elements [] = []"
| "marshal_elements (v # vs) = marshal v # marshal_elements vs"

section \<open>shadowCopy\<close>

text \<open>A value put into a variable of the empty interface type: what an interface holds is no interface.\<close>

definition iface :: "gval \<Rightarrow> gval" where
  "iface v = (case v of GIfaceNil \<Rightarrow> GIfaceNil | GIface w \<Rightarrow> GIface w | w \<Rightarrow> GIface w)"

fun shadow :: "gval \<Rightarrow> gval"
  and shadow_fields :: "(struct_field \<times> gval) list \<Rightarrow> (struct_field \<times> gval) list"
  and shadow_members :: "(string \<times> gval) list \<Rightarrow> (string \<times> gval) list"
  and shadow_elements :: "gval list \<Rightarrow> gval list" where
  "shadow (GArray vs) = GArray (shadow_elements vs)"
| "shadow GPtrNil = GIfaceNil"
| "shadow (GPtr v) = iface (shadow v)"
| "shadow GIfaceNil = GIfaceNil"
| "shadow (GIface v) = iface (shadow v)"
| "shadow GMapNil = GMapNil"
| "shadow (GMap ms) = GMap (shadow_members ms)"
| "shadow GSliceNil = GSliceNil"
| "shadow (GSlice vs) = GSlice (shadow_elements vs)"
| "shadow (GStruct m fs) = GStruct None (shadow_fields fs)"
| "shadow (GString s) = GString s"
| "shadow (GBool b) = GBool b"
| "shadow (GInt i) = GInt i"
| "shadow (GUUID u) = GUUID u"
| "shadow GBytesNil = GBytesNil"
| "shadow (GBytes b) = GBytes b"
| "shadow_fields [] = []"
| "shadow_fields ((f, v) # fs) =
     (if \<not> sf_Exported f then shadow_fields fs
      else (f, if is_zero (shadow v) then GIfaceNil else iface (shadow v)) # shadow_fields fs)"
| "shadow_members [] = []"
| "shadow_members ((k, v) # ms) = (k, iface (shadow v)) # shadow_members ms"
| "shadow_elements [] = []"
| "shadow_elements (v # vs) = iface (shadow v) # shadow_elements vs"

definition shadowCopy :: "gval \<Rightarrow> gval result" where
  "shadowCopy v =
     (case v of
        GIfaceNil \<Rightarrow> Panic
      | _ \<Rightarrow> Ok (case shadow v of GIface w \<Rightarrow> w | w \<Rightarrow> w))"

section \<open>Resources\<close>

record arm_copy =
  cp_Name :: string
  cp_Count :: int
  cp_Mode :: string
  cp_BatchSize :: int

record arm_resource =
  ar_Resource :: gval
  ar_Name :: string
  ar_Type :: string
  ar_Condition :: gval
  ar_APIVersion :: string
  ar_DependsOn :: "string list"
  ar_Location :: string
  ar_Tags :: "(string \<times> gval) list"
  ar_Copy :: "arm_copy option"
  ar_Comments :: string

definition omit :: "string \<Rightarrow> string \<Rightarrow> struct_field" where
  "omit name tag = \<lparr>sf_Name = name, sf_Tag = tag, sf_OmitEmpty = True, sf_Exported = True\<rparr>"

definition copy_value :: "arm_copy \<Rightarrow> gval" where
  "copy_value c =
     GStruct None [(omit ''Name'' ''name'', GString (cp_Name c)), (omit ''Count'' ''count'', GInt (cp_Count c)),
       (omit ''Mode'' ''mode'', GString (cp_Mode c)), (omit ''BatchSize'' ''batchSize'', GInt (cp_BatchSize c))]"

definition strings_value :: "string list \<Rightarrow> gval" where
  "strings_value ss = (if ss = [] then GSliceNil else GSlice (map GString ss))"

text \<open>The fields of the outer struct from the second on.\<close>

definition outer_fields :: "arm_resource \<Rightarrow> (struct_field \<times> gval) list" where
  "outer_fields r =
     [(omit ''Name'' ''name'', GString (ar_Name r)), (omit ''Type'' ''type'', GString (ar_Type r)),
      (omit ''Condition'' ''condition'', ar_Condition r), (omit ''APIVersion'' ''apiVersion'', GString (ar_APIVersion r)),
      (omit ''DependsOn'' ''dependsOn'', strings_value (ar_DependsOn r)), (omit ''Location'' ''location'', GString (ar_Location r)),
      (omit ''Tags'' ''tags'', if ar_Tags r = [] then GMapNil else GMap (ar_Tags r)),
      (omit ''Copy'' ''copy'', case ar_Copy r of None \<Rightarrow> GPtrNil | Some c \<Rightarrow> GPtr (copy_value c)),
      (omit ''Comments'' ''comments'', GString (ar_Comments r))]"

fun override :: "(struct_field \<times> gval) list \<Rightarrow> struct_field \<times> gval \<Rightarrow> (struct_field \<times> gval) list" where
  "override [] o' = [o']"
| "override ((g, w) # fs) o' =
     (if sf_Name g = sf_Name (fst o') then (fst o', if is_zero (snd o') then w else iface (snd o')) # fs
      else (g, w) # override fs o')"

definition combined_fields :: "(struct_field \<times> gval) list \<Rightarrow> (struct_field \<times> gval) list \<Rightarrow> (struct_field \<times> gval) list" where
  "combined_fields fs os = fold (\<lambda>o' fs. override fs o') os fs"

definition MarshalJSON :: "arm_resource \<Rightarrow> json result" where
  "MarshalJSON r =
     andThen (shadowCopy (ar_Resource r)) (\<lambda>v.
       case v of
         GStruct m fs \<Rightarrow> Ok (marshal (GStruct None (combined_fields fs (outer_fields r))))
       | _ \<Rightarrow> Err (ErrMsg ''Resource field must be a struct''))"

section \<open>Templates\<close>

record arm_template =
  at_Schema :: string
  at_ContentVersion :: string
  at_Parameters :: "(string \<times> string) list"
  at_Resources :: "arm_resource list"

text \<open>The fields of a template that the program sets; a parameter is its type, the rest are empty and omitted.\<close>

definition template_json :: "arm_template \<Rightarrow> json result" where
  "template_json t =
     andThen (mapOk MarshalJSON (at_Resources t)) (\<lambda>rs.
       Ok (JObj ((if at_Schema t = [] then [] else [(''$schema'', JStr (at_Schema t))])
         @ (if at_ContentVersion t = [] then [] else [(''contentVersion'', JStr (at_ContentVersion t))])
         @ (if at_Parameters t = [] then [] else
              [(''parameters'', JObj (map (\<lambda>(n, ty). (n, JObj (if ty = [] then [] else [(''type'', JStr ty)]))) (at_Parameters t)))])
         @ (if at_Resources t = [] then [] else [(''resources'', JArr rs)]))))"

section \<open>Properties\<close>

text \<open>The value without its types' own methods.\<close>

fun native :: "gval \<Rightarrow> gval"
  and native_fields :: "(struct_field \<times> gval) list \<Rightarrow> (struct_field \<times> gval) list"
  and native_members :: "(string \<times> gval) list \<Rightarrow> (string \<times> gval) list"
  and native_elements :: "gval list \<Rightarrow> gval list" where
  "native (GPtr v) = GPtr (native v)"
| "native (GIface v) = GIface (native v)"
| "native (GMap ms) = GMap (native_members ms)"
| "native (GSlice vs) = GSlice (native_elements vs)"
| "native (GArray vs) = GArray (native_elements vs)"
| "native (GStruct m fs) = GStruct None (native_fields fs)"
| "native v = v"
| "native_fields [] = []"
| "native_fields ((f, v) # fs) = (f, native v) # native_fields fs"
| "native_members [] = []"
| "native_members ((k, v) # ms) = (k, native v) # native_members ms"
| "native_elements [] = []"
| "native_elements (v # vs) = native v # native_elements vs"

text \<open>
  A field that the copy keeps: a zero one is omitted when it is empty or was null anyway, and one that
  is not zero is not omitted as empty.
\<close>

definition nil_value :: "gval \<Rightarrow> bool" where
  "nil_value v = (v \<in> {GPtrNil, GIfaceNil, GMapNil, GSliceNil, GBytesNil})"

definition faithful_field :: "struct_field \<Rightarrow> gval \<Rightarrow> bool" where
  "faithful_field f v =
     (if is_zero (shadow v) then nil_value v \<or> sf_OmitEmpty f \<and> empty_value v
      else sf_OmitEmpty f \<longrightarrow> \<not> empty_value v)"

fun faithful :: "gval \<Rightarrow> bool"
  and faithful_fields :: "(struct_field \<times> gval) list \<Rightarrow> bool"
  and faithful_members :: "(string \<times> gval) list \<Rightarrow> bool"
  and faithful_elements :: "gval list \<Rightarrow> bool" where
  "faithful (GPtr v) = faithful v"
| "faithful (GIface v) = faithful v"
| "faithful (GMap ms) = faithful_members ms"
| "faithful (GSlice vs) = faithful_elements vs"
| "faithful (GArray vs) = faithful_elements vs"
| "faithful (GStruct m fs) = faithful_fields fs"
| "faithful v = True"
| "faithful_fields [] = True"
| "faithful_fields ((f, v) # fs) =
     ((sf_Exported f \<and> sf_Tag f \<noteq> ''-'' \<longrightarrow> faithful_field f v \<and> faithful v) \<and> faithful_fields fs)"
| "faithful_members [] = True"
| "faithful_members ((k, v) # ms) = (faithful v \<and> faithful_members ms)"
| "faithful_elements [] = True"
| "faithful_elements (v # vs) = (faithful v \<and> faithful_elements vs)"

lemma marshal_iface [simp]: "marshal (iface v) = marshal v"
  by (cases v) (simp_all add: iface_def)

lemma empty_iface: "empty_value (iface v) \<longleftrightarrow> v = GIfaceNil"
  by (cases v) (simp_all add: iface_def)

lemma empty_native [simp]: "empty_value (native v) = empty_value v"
  by (cases v) (auto elim: native_members.elims native_elements.elims)

lemma nil_native: "nil_value v \<Longrightarrow> native v = v \<and> marshal v = JNull \<and> empty_value v"
  by (auto simp: nil_value_def)

lemma marshal_shadow:
  "faithful v \<Longrightarrow> marshal (shadow v) = marshal (native v)"
  "faithful_fields fs \<Longrightarrow> marshal_fields (shadow_fields fs) = marshal_fields (native_fields fs)"
  "faithful_members ms \<Longrightarrow> marshal_members (shadow_members ms) = marshal_members (native_members ms)"
  "faithful_elements vs \<Longrightarrow> marshal_elements (shadow_elements vs) = marshal_elements (native_elements vs)"
proof (induction v and fs and ms and vs rule: shadow_shadow_fields_shadow_members_shadow_elements.induct)
  case (18 f v fs)
  show ?case
  proof (cases "sf_Exported f \<and> sf_Tag f \<noteq> ''-''")
    case True
    then have fa: "faithful_field f v" "faithful v" and IH: "marshal_fields (shadow_fields fs) = marshal_fields (native_fields fs)"
      using "18" by auto
    show ?thesis
    proof (cases "is_zero (shadow v)")
      case z: True
      then show ?thesis
        using True fa(1) IH nil_native [of v] by (auto simp: faithful_field_def written_def)
    next
      case nz: False
      have "marshal (shadow v) = marshal (native v)" using "18" True fa by simp
      moreover have "shadow v \<noteq> GIfaceNil" using nz by auto
      ultimately show ?thesis using True fa(1) IH nz by (simp add: faithful_field_def written_def empty_iface)
    qed
  qed (use "18" in \<open>auto simp: written_def\<close>)
qed simp_all

text \<open>The copy that \<open>MarshalJSON\<close> makes of a resource is encoded as the resource's own fields are, without
  the methods of its types, wherever every field with a value that is zero is omitted when empty (or is
  a nil), and every field that is omitted when empty and has a value that is not zero is not empty.\<close>

theorem shadow_copy_native:
  assumes "faithful v"
  shows "marshal (shadow v) = marshal (native v)"
  using assms by (rule marshal_shadow(1))

definition demo_value :: gval where
  "demo_value =
     GPtr (GStruct (Some (JStr ''dropped''))
       [(omit ''Name'' ''name'', GPtr (GString ''vm'')), (omit ''Zones'' ''zones'', GPtrNil),
        (omit ''Enabled'' ''enabled'', GPtr (GBool False)), (omit ''Size'' ''size'', GString [])])"

theorem shadow_copy_native_witness:
  "marshal (shadow demo_value) = JObj [(''name'', JStr ''vm''), (''enabled'', JBool False)]"
proof -
  have "faithful demo_value"
    by (simp add: demo_value_def faithful_field_def omit_def nil_value_def iface_def)
  then have "marshal (shadow demo_value) = marshal (native demo_value)" by (rule shadow_copy_native)
  then show ?thesis by (simp add: demo_value_def omit_def written_def)
qed

text \<open>Outside that the copy is not encoded natively, as its comment says it is: a zero number that is not
  omitted becomes null, and an empty slice that is to be omitted is written.\<close>

theorem shadow_copy_differs:
  "marshal (GStruct None [(\<lparr>sf_Name = ''Count'', sf_Tag = ''count'', sf_OmitEmpty = False, sf_Exported = True\<rparr>, GInt 0)])
     = JObj [(''count'', JNum ''0'')]
   \<and> marshal (shadow (GStruct None [(\<lparr>sf_Name = ''Count'', sf_Tag = ''count'', sf_OmitEmpty = False, sf_Exported = True\<rparr>, GInt 0)]))
     = JObj [(''count'', JNull)]
   \<and> marshal (GStruct None [(omit ''Zones'' ''zones'', GSlice [])]) = JObj []
   \<and> marshal (shadow (GStruct None [(omit ''Zones'' ''zones'', GSlice [])])) = JObj [(''zones'', JArr [])]"
  by code_simp

text \<open>The field with a Go name.\<close>

definition field_named :: "string \<Rightarrow> (struct_field \<times> gval) list \<Rightarrow> (struct_field \<times> gval) option" where
  "field_named n fs = find (\<lambda>(f, v). sf_Name f = n) fs"

lemma field_named_Cons: "field_named n ((f, v) # fs) = (if sf_Name f = n then Some (f, v) else field_named n fs)"
  by (simp add: field_named_def)

lemma field_override:
  "field_named n (override fs (f, v)) =
     (if sf_Name f = n then
        Some (case field_named n fs of Some (g, w) \<Rightarrow> (f, if is_zero v then w else iface v) | None \<Rightarrow> (f, v))
      else field_named n fs)"
  by (induction fs) (auto simp: field_named_def)

lemma field_combined:
  assumes "distinct (map (sf_Name \<circ> fst) os)"
  shows "field_named n (combined_fields fs os) =
    (case field_named n os of
       Some (f, v) \<Rightarrow> Some (case field_named n fs of Some (g, w) \<Rightarrow> (f, if is_zero v then w else iface v) | None \<Rightarrow> (f, v))
     | None \<Rightarrow> field_named n fs)"
  using assms
proof (induction os arbitrary: fs)
  case (Cons p os)
  obtain f v where p: "p = (f, v)" by (cases p)
  have no: "field_named (sf_Name f) os = None"
    using Cons.prems by (force simp: p field_named_def find_None_iff)
  have "field_named n (combined_fields fs (p # os)) = field_named n (combined_fields (override fs (f, v)) os)"
    by (simp add: combined_fields_def p)
  also have "\<dots> = (case field_named n os of
       Some (f', v') \<Rightarrow> Some (case field_named n (override fs (f, v)) of Some (g, w) \<Rightarrow> (f', if is_zero v' then w else iface v') | None \<Rightarrow> (f', v'))
     | None \<Rightarrow> field_named n (override fs (f, v)))"
    using Cons by simp
  also have "\<dots> = (case field_named n ((f, v) # os) of
       Some (f, v) \<Rightarrow> Some (case field_named n fs of Some (g, w) \<Rightarrow> (f, if is_zero v then w else iface v) | None \<Rightarrow> (f, v))
     | None \<Rightarrow> field_named n fs)"
    using no by (auto simp: field_override field_named_Cons split: option.splits)
  finally show ?case by (simp add: p)
qed (simp add: combined_fields_def field_named_def)

lemma outer_fields_distinct: "distinct (map (sf_Name \<circ> fst) (outer_fields r))"
  by (simp add: outer_fields_def omit_def)

text \<open>C29: A resource that points to a struct is encoded as one object: for each Go field name, the value of the
  outer struct if it has the field and its value is not zero, else the nested resource's copy, else the
  outer zero; the name and the options in the JSON are the outer field's where it has one.\<close>

theorem MarshalJSON_fields:
  assumes "ar_Resource r = GPtr (GStruct m fs)"
  shows "\<exists>cs. MarshalJSON r = Ok (JObj (marshal_fields cs)) \<and> (\<forall>n. field_named n cs =
    (case field_named n (outer_fields r) of
       Some (f, v) \<Rightarrow> Some (case field_named n (shadow_fields fs) of
           Some (g, w) \<Rightarrow> (f, if is_zero v then w else iface v) | None \<Rightarrow> (f, v))
     | None \<Rightarrow> field_named n (shadow_fields fs)))"
proof -
  have "MarshalJSON r = Ok (JObj (marshal_fields (combined_fields (shadow_fields fs) (outer_fields r))))"
    using assms by (simp add: MarshalJSON_def shadowCopy_def iface_def)
  then show ?thesis using field_combined [OF outer_fields_distinct] by blast
qed

definition demo_resource_value :: arm_resource where
  "demo_resource_value =
     \<lparr>ar_Resource = demo_value, ar_Name = [], ar_Type = ''t'', ar_Condition = GIfaceNil, ar_APIVersion = ''2020'', ar_DependsOn = [],
      ar_Location = [], ar_Tags = [], ar_Copy = None, ar_Comments = []\<rparr>"

theorem MarshalJSON_fields_witness:
  "\<exists>cs. MarshalJSON demo_resource_value = Ok (JObj (marshal_fields cs))
     \<and> field_named ''Name'' cs = Some (omit ''Name'' ''name'', GIface (GString ''vm''))
     \<and> field_named ''Type'' cs = Some (omit ''Type'' ''type'', GString ''t'')"
proof -
  have "ar_Resource demo_resource_value = GPtr (GStruct (Some (JStr ''dropped''))
       [(omit ''Name'' ''name'', GPtr (GString ''vm'')), (omit ''Zones'' ''zones'', GPtrNil),
        (omit ''Enabled'' ''enabled'', GPtr (GBool False)), (omit ''Size'' ''size'', GString [])])"
    by (simp add: demo_resource_value_def demo_value_def)
  from MarshalJSON_fields [OF this] show ?thesis
    by (auto simp: field_named_def outer_fields_def demo_resource_value_def omit_def iface_def)
qed

end
