(* ===== verification/Deploy_Resources.thy ===== *)
theory Deploy_Resources
  imports Customise Deployments Arm_Template
begin

text \<open>
  pkg/installer/deployresources.go and deployresources_resources.go: the ARM template of the bootstrap and
  control-plane machines, and its deployment. An SDK struct is a tree with the fields that the code sets,
  all of them omitted when empty, and the one field that the SDK never omits, the tags.
\<close>

section \<open>Values\<close>

definition ptr_s :: "string \<Rightarrow> gval" where "ptr_s s = GPtr (GString s)"

definition st :: "(struct_field \<times> gval) list \<Rightarrow> gval" where "st fs = GStruct None fs"

definition tags_field :: "struct_field \<times> gval" where
  "tags_field = (\<lparr>sf_Name = ''Tags'', sf_Tag = ''tags'', sf_OmitEmpty = False, sf_Exported = True\<rparr>, GMapNil)"

definition quoted :: "string \<Rightarrow> string" where "quoted s = [CHR 0x27] @ s @ [CHR 0x27]"

definition network_version :: string where "network_version = APIVersion ''Microsoft.Network''"
definition compute_version :: string where "compute_version = APIVersion ''Microsoft.Compute''"

section \<open>Network interfaces\<close>

definition backend_pool :: "string \<Rightarrow> string \<Rightarrow> gval" where
  "backend_pool lb pool =
     st [(omit ''ID'' ''id'', ptr_s (''[resourceId('' @ quoted ''Microsoft.Network/loadBalancers/backendAddressPools''
       @ '', '' @ quoted lb @ '', '' @ pool @ '')]''))]"

definition external_pool :: "openshift_cluster \<Rightarrow> gval list" where
  "external_pool oc =
     (if OutboundType (NetworkProfile oc) = ''Loadbalancer'' then [backend_pool (InfraID oc) (quoted (InfraID oc))] else [])"

definition internal_pool :: "openshift_cluster \<Rightarrow> gval" where
  "internal_pool oc = backend_pool (InfraID oc @ ''-internal'') (quoted (InfraID oc))"

definition ip_configuration :: "openshift_cluster \<Rightarrow> gval list \<Rightarrow> string \<Rightarrow> gval" where
  "ip_configuration oc pools name =
     st [(omit ''InterfaceIPConfigurationPropertiesFormat'' ''properties'', GPtr (st
           [(omit ''LoadBalancerBackendAddressPools'' ''loadBalancerBackendAddressPools'', GPtr (GSlice pools)),
            (omit ''Subnet'' ''subnet'', GPtr (st [(omit ''ID'' ''id'', ptr_s (m_SubnetID (MasterProfile oc)))]))])),
         (omit ''Name'' ''name'', ptr_s name)]"

definition interface_value :: "(struct_field \<times> gval) list \<Rightarrow> gval \<Rightarrow> string \<Rightarrow> string \<Rightarrow> gval" where
  "interface_value accelerated ipconf name location =
     GPtr (st [(omit ''InterfacePropertiesFormat'' ''properties'', GPtr (st
           (accelerated @ [(omit ''IPConfigurations'' ''ipConfigurations'', GPtr (GSlice [ipconf]))]))),
         (omit ''Name'' ''name'', ptr_s name), (omit ''Type'' ''type'', ptr_s ''Microsoft.Network/networkInterfaces''),
         (omit ''Location'' ''location'', ptr_s location), tags_field])"

definition plain_resource :: "gval \<Rightarrow> string \<Rightarrow> arm_resource" where
  "plain_resource v version =
     \<lparr>ar_Resource = v, ar_Name = [], ar_Type = [], ar_Condition = GIfaceNil, ar_APIVersion = version, ar_DependsOn = [],
      ar_Location = [], ar_Tags = [], ar_Copy = None, ar_Comments = []\<rparr>"

definition bootstrap_nic_name :: "openshift_cluster \<Rightarrow> string" where
  "bootstrap_nic_name oc = InfraID oc @ ''-bootstrap-nic''"

definition networkBootstrapNIC :: "openshift_cluster \<Rightarrow> install_config \<Rightarrow> arm_resource" where
  "networkBootstrapNIC oc ic =
     plain_resource (interface_value [] (ip_configuration oc ([internal_pool oc] @ external_pool oc) ''bootstrap-nic-ip-v4'')
       (bootstrap_nic_name oc) (ap_Region (ic_Azure ic))) network_version"

definition master_nic_expression :: "openshift_cluster \<Rightarrow> string" where
  "master_nic_expression oc = ''concat('' @ quoted (InfraID oc @ ''-master'') @ '', copyIndex(), '' @ quoted ''-nic'' @ '')''"

definition replicas :: "install_config \<Rightarrow> int" where "replicas ic = po_Replicas (ic_ControlPlane ic)"

definition copies :: "string \<Rightarrow> install_config \<Rightarrow> arm_copy" where
  "copies name ic = \<lparr>cp_Name = name, cp_Count = replicas ic, cp_Mode = [], cp_BatchSize = 0\<rparr>"

definition networkMasterNICs :: "openshift_cluster \<Rightarrow> install_config \<Rightarrow> arm_resource" where
  "networkMasterNICs oc ic =
     (let ssh = backend_pool (InfraID oc @ ''-internal'') (''concat('' @ quoted ''ssh-'' @ '', copyIndex())'');
          accelerated = (omit ''EnableAcceleratedNetworking'' ''enableAcceleratedNetworking'',
            GPtr (GBool (am_VMNetworkingType (po_Azure (ic_ControlPlane ic)) = ''Accelerated''))) in
      (plain_resource (interface_value [accelerated] (ip_configuration oc ([internal_pool oc, ssh] @ external_pool oc) ''pipConfig'')
        (''['' @ master_nic_expression oc @ '']'') (ap_Region (ic_Azure ic))) network_version)
      \<lparr>ar_Copy := Some (copies ''networkcopy'' ic)\<rparr>)"

section \<open>Virtual machines\<close>

text \<open>\<open>ToID\<close> of a disk encryption set.\<close>

definition ToID :: "disk_encryption_set \<Rightarrow> string" where
  "ToID d = ''/subscriptions/'' @ de_SubscriptionID d @ ''/resourceGroups/'' @ de_ResourceGroup d
     @ ''/providers/Microsoft.Compute/diskEncryptionSets/'' @ de_Name d"

record vm_settings =
  vm_Name :: string
  vm_ComputerName :: string
  vm_DiskName :: string
  vm_Caching :: string
  vm_DiskSizeGB :: int
  vm_CustomData :: string
  vm_NIC :: string
  vm_Zones :: "string list option"

text \<open>The struct of a machine, with what both machines take from the control plane's pool.\<close>

definition managed_disk :: "disk_encryption_set option \<Rightarrow> gval" where
  "managed_disk des =
     GPtr (st ((omit ''StorageAccountType'' ''storageAccountType'', GString ''Premium_LRS'') #
       (case des of
          None \<Rightarrow> []
        | Some d \<Rightarrow> [(omit ''DiskEncryptionSet'' ''diskEncryptionSet'', GPtr (st [(omit ''ID'' ''id'', ptr_s (ToID d))]))])))"

definition storage_profile :: "azure_machine_pool \<Rightarrow> vm_settings \<Rightarrow> gval" where
  "storage_profile pool v =
     (let img = am_OSImage pool in
      GPtr (st
        [(omit ''ImageReference'' ''imageReference'', GPtr (st
            [(omit ''Publisher'' ''publisher'', ptr_s (oi_Publisher img)), (omit ''Offer'' ''offer'', ptr_s (oi_Offer img)),
             (omit ''Sku'' ''sku'', ptr_s (oi_SKU img)), (omit ''Version'' ''version'', ptr_s (oi_Version img))])),
         (omit ''OsDisk'' ''osDisk'', GPtr (st
            [(omit ''Name'' ''name'', ptr_s (vm_DiskName v)), (omit ''Caching'' ''caching'', GString (vm_Caching v)),
             (omit ''CreateOption'' ''createOption'', GString ''FromImage''),
             (omit ''DiskSizeGB'' ''diskSizeGB'', GPtr (GInt (vm_DiskSizeGB v))),
             (omit ''ManagedDisk'' ''managedDisk'', managed_disk (am_DiskEncryptionSet pool))]))]))"

definition os_profile :: "vm_settings \<Rightarrow> gval" where
  "os_profile v =
     GPtr (st
       [(omit ''ComputerName'' ''computerName'', ptr_s (vm_ComputerName v)), (omit ''AdminUsername'' ''adminUsername'', ptr_s ''core''),
        (omit ''AdminPassword'' ''adminPassword'', ptr_s ''NotActuallyApplied!''), (omit ''CustomData'' ''customData'', ptr_s (vm_CustomData v)),
        (omit ''LinuxConfiguration'' ''linuxConfiguration'',
           GPtr (st [(omit ''DisablePasswordAuthentication'' ''disablePasswordAuthentication'', GPtr (GBool False))]))])"

definition vm_properties :: "azure_machine_pool \<Rightarrow> vm_settings \<Rightarrow> gval" where
  "vm_properties pool v =
     GPtr (st
       ([(omit ''HardwareProfile'' ''hardwareProfile'', GPtr (st [(omit ''VMSize'' ''vmSize'', GString (am_InstanceType pool))])),
         (omit ''StorageProfile'' ''storageProfile'', storage_profile pool v),
         (omit ''OsProfile'' ''osProfile'', os_profile v),
         (omit ''NetworkProfile'' ''networkProfile'', GPtr (st [(omit ''NetworkInterfaces'' ''networkInterfaces'',
            GPtr (GSlice [st [(omit ''ID'' ''id'', ptr_s (vm_NIC v))]]))])),
         (omit ''DiagnosticsProfile'' ''diagnosticsProfile'', GPtr (st [(omit ''BootDiagnostics'' ''bootDiagnostics'',
            GPtr (st [(omit ''Enabled'' ''enabled'', GPtr (GBool True))]))]))]
        @ (if am_EncryptionAtHost pool
           then [(omit ''SecurityProfile'' ''securityProfile'', GPtr (st [(omit ''EncryptionAtHost'' ''encryptionAtHost'', GPtr (GBool True))]))]
           else [])))"

definition vm_fields :: "install_config \<Rightarrow> vm_settings \<Rightarrow> (struct_field \<times> gval) list" where
  "vm_fields ic v =
     [(omit ''VirtualMachineProperties'' ''properties'', vm_properties (po_Azure (ic_ControlPlane ic)) v),
      (omit ''Zones'' ''zones'', case vm_Zones v of None \<Rightarrow> GPtrNil | Some zs \<Rightarrow> GPtr (GSlice (map GString zs))),
      (omit ''Name'' ''name'', ptr_s (vm_Name v)), (omit ''Type'' ''type'', ptr_s ''Microsoft.Compute/virtualMachines''),
      (omit ''Location'' ''location'', ptr_s (ap_Region (ic_Azure ic))), tags_field]"

definition bootstrap_source :: "openshift_cluster \<Rightarrow> string \<Rightarrow> string" where
  "bootstrap_source oc storageSuffix =
     (if UsesWorkloadIdentity oc then quoted '',parameters('sas'),''
      else ''https://cluster'' @ StorageSuffix oc @ ''.blob.'' @ storageSuffix @ ''/ignition/bootstrap.ign?''
        @ quoted ('', listAccountSas(resourceId('' @ quoted ''Microsoft.Storage/storageAccounts'' @ '', ''
          @ quoted (''cluster'' @ StorageSuffix oc) @ ''), '' @ quoted ''2019-04-01'' @ '', parameters('' @ quoted ''sas''
          @ '')).accountSasToken, ''))"

definition bootstrap_custom_data :: "openshift_cluster \<Rightarrow> string \<Rightarrow> string" where
  \<open>bootstrap_custom_data oc storageSuffix =
     (let gateway = GatewayPrivateEndpointIP (NetworkProfile oc) in
      ''[base64(concat('' @ quoted (''{"ignition":{"version":"3.2.0",''
        @ (if gateway \<noteq> [] then ''"proxy":{"httpsProxy":"http://'' @ gateway @ ''"},'' else [])
        @ ''"config":{"replace":{"source":"'' @ bootstrap_source oc storageSuffix @ ''"}}}}'') @ ''))]'')\<close>

definition computeBootstrapVM :: "openshift_cluster \<Rightarrow> string \<Rightarrow> install_config \<Rightarrow> arm_resource" where
  "computeBootstrapVM oc storageSuffix ic =
     (let infra = InfraID oc;
          v = \<lparr>vm_Name = infra @ ''-bootstrap'', vm_ComputerName = infra @ ''-bootstrap-vm'', vm_DiskName = infra @ ''-bootstrap_OSDisk'',
               vm_Caching = ''ReadWrite'', vm_DiskSizeGB = 100, vm_CustomData = bootstrap_custom_data oc storageSuffix,
               vm_NIC = ''[resourceId('' @ quoted ''Microsoft.Network/networkInterfaces'' @ '', '' @ quoted (bootstrap_nic_name oc) @ '')]'',
               vm_Zones = None\<rparr> in
      (plain_resource (GPtr (st (vm_fields ic v))) compute_version)
      \<lparr>ar_DependsOn := [''Microsoft.Network/networkInterfaces/'' @ bootstrap_nic_name oc]\<rparr>)"

definition master_expression :: "openshift_cluster \<Rightarrow> string \<Rightarrow> string" where
  "master_expression oc rest = ''[concat('' @ quoted (InfraID oc @ ''-master-'') @ '', copyIndex()'' @ rest @ '')]''"

definition computeMasterVMs :: "openshift_cluster \<Rightarrow> install_config \<Rightarrow> string list option \<Rightarrow> string \<Rightarrow> arm_resource" where
  "computeMasterVMs oc ic zns masterData =
     (let v = \<lparr>vm_Name = master_expression oc [], vm_ComputerName = master_expression oc [],
               vm_DiskName = master_expression oc ('', '' @ quoted ''_OSDisk''), vm_Caching = ''ReadOnly'',
               vm_DiskSizeGB = am_DiskSizeGB (po_Azure (ic_ControlPlane ic)), vm_CustomData = b64_encode masterData,
               vm_NIC = ''[resourceId('' @ quoted ''Microsoft.Network/networkInterfaces'' @ '', '' @ master_nic_expression oc @ '')]'',
               vm_Zones = zns\<rparr> in
      (plain_resource (GPtr (st (vm_fields ic v))) compute_version)
      \<lparr>ar_Copy := Some (copies ''computecopy'' ic),
       ar_DependsOn := [''[concat('' @ quoted (''Microsoft.Network/networkInterfaces/'' @ InfraID oc @ ''-master'') @ '', copyIndex(), ''
         @ quoted ''-nic'' @ '')]'']\<rparr>)"

section \<open>The template and its deployment\<close>

definition zones :: "install_config \<Rightarrow> string list option" where
  "zones ic =
     (if am_Zones (po_Azure (ic_ControlPlane ic)) = [[]] then None
      else Some [''[parameters('' @ quoted ''controlPlaneZones'' @ '')[copyIndex(0)]]''])"

definition resource_template :: "openshift_cluster \<Rightarrow> string \<Rightarrow> install_config \<Rightarrow> string \<Rightarrow> arm_template" where
  "resource_template oc storageSuffix ic masterData =
     \<lparr>at_Schema = ''https://schema.management.azure.com/schemas/2015-01-01/deploymentTemplate.json#'', at_ContentVersion = ''1.0.0.0'',
      at_Parameters = [(''controlPlaneZones'', ''array''),
        (''sas'', if UsesWorkloadIdentity oc then ''secureString'' else ''object'')],
      at_Resources = [networkBootstrapNIC oc ic, networkMasterNICs oc ic, computeBootstrapVM oc storageSuffix ic,
        computeMasterVMs oc ic (zones ic) masterData]\<rparr>"

definition value_of :: "json \<Rightarrow> json" where "value_of j = JObj [(''value'', j)]"

definition template_parameters :: "json \<Rightarrow> install_config \<Rightarrow> json" where
  "template_parameters sas ic =
     JObj [(''controlPlaneZones'', value_of (JArr (map JStr (am_Zones (po_Azure (ic_ControlPlane ic)))))), (''sas'', value_of sas)]"

definition account_sas :: "(int \<Rightarrow> string) \<Rightarrow> int \<Rightarrow> json" where
  "account_sas rfc3339 now =
     JObj [(''signedExpiry'', JStr (rfc3339 (now + 24 * 3600))), (''signedPermission'', JStr ''rl''), (''signedProtocol'', JStr ''https''),
       (''signedResourceTypes'', JStr ''o''), (''signedServices'', JStr ''b''), (''signedStart'', JStr (rfc3339 now))]"

text \<open>
  What the deployment uses: the graph manager, the decoders of the two assets (a null one is a nil
  pointer, whose use panics), the SAS library and the current time, and the deployments client.
\<close>

record ('u, 'k, 'q, 's) deploy_deps =
  dd_graph :: "(installer_asset, 's) graph_manager"
  dd_read_config :: "json \<Rightarrow> install_config_asset result"
  dd_read_master :: "json \<Rightarrow> pointer_asset result"
  dd_sas :: "('u, 'k, 'q, 's) sas_sdk"
  dd_now :: "int \<times> int"
  dd_rfc3339 :: "int \<Rightarrow> string"
  dd_deployments :: "(arm_template \<times> json, 's) deploymentsClient"
  dd_clock :: "nat \<Rightarrow> nat \<Rightarrow> wake list"

definition nil_asset :: installer_asset where "nil_asset = AssetOther []"

definition decode_asset :: "('u, 'k, 'q, 's) deploy_deps \<Rightarrow> string \<Rightarrow> json \<Rightarrow> installer_asset result" where
  "decode_asset d n j =
     (if j = JNull then Ok nil_asset
      else if n = install_config_name then andThen (dd_read_config d j) (\<lambda>a. Ok (AssetInstallConfig a))
      else andThen (dd_read_master d j) (\<lambda>a. Ok (AssetMaster a)))"

definition resource_group :: "'m manager \<Rightarrow> string" where
  "resource_group m = LastTokenByte (ResourceGroupID (ClusterProfile (mg_oc m))) slash"

definition storage_account :: "'m manager \<Rightarrow> string" where
  "storage_account m = ''cluster'' @ StorageSuffix (mg_oc m)"

definition endpoint_suffix :: "'m manager \<Rightarrow> string" where
  "endpoint_suffix m = env_StorageEndpointSuffix (im_environment (p_im (mg_env m)))"

definition sas_parameter :: "('u, 'k, 'q, 's) deploy_deps \<Rightarrow> 'm manager \<Rightarrow> 's \<Rightarrow> json result \<times> 's" where
  "sas_parameter d m s =
     (let oc = mg_oc m; wi = UsesWorkloadIdentity oc in
      if wi
      then st_bind (GetUserDelegatedSASIgnitionBlobURL (dd_sas d) (dd_now d) (dd_graph d) (resource_group m) (storage_account m)
             (''https://cluster'' @ StorageSuffix oc @ ''.blob.'' @ endpoint_suffix m
               @ ''/ignition/bootstrap.ign'') wi s) (\<lambda>sasURL s. (Ok (JStr sasURL), s))
      else (andThen (deref (InstallNow oc)) (\<lambda>now. Ok (account_sas (dd_rfc3339 d) now)), s))"

definition deployment_of :: "'m manager \<Rightarrow> json \<Rightarrow> installer_asset list \<Rightarrow> (arm_template \<times> json) result" where
  "deployment_of m sas assets =
     (case assets of
        [AssetInstallConfig ia, AssetMaster master] \<Rightarrow>
          Ok (resource_template (mg_oc m) (endpoint_suffix m) (ia_Config ia) (pt_Data master),
              template_parameters sas (ia_Config ia))
      | _ \<Rightarrow> Panic)"

definition prepare_deployment ::
  "('u, 'k, 'q, 's) deploy_deps \<Rightarrow> 'm manager \<Rightarrow> 's \<Rightarrow> (arm_template \<times> json) result \<times> 's" where
  "prepare_deployment d m s =
     st_bind (LoadPersisted (dd_graph d) (resource_group m) (storage_account m) s) (\<lambda>pg s.
     st_bind (persisted_Get (decode_asset d) [install_config_name, master_name] pg, s) (\<lambda>assets s.
     st_bind (sas_parameter d m s) (\<lambda>sas s.
       (deployment_of m sas assets, s))))"

definition deployResourceTemplate ::
  "('u, 'k, 'q, 's) deploy_deps \<Rightarrow> 'm manager \<Rightarrow> 's \<Rightarrow> (unit result \<times> 's) option" where
  "deployResourceTemplate d m s =
     (case prepare_deployment d m s of
        (Ok t, s') \<Rightarrow> DeployTemplate (dd_clock d) (dd_deployments d) (resource_group m) ''resources'' t s'
      | (Err e, s') \<Rightarrow> Some (Err e, s')
      | (Panic, s') \<Rightarrow> Some (Panic, s'))"

section \<open>Properties\<close>

lemma MarshalJSON_struct:
  "ar_Resource r = GPtr (st fs) \<Longrightarrow>
   MarshalJSON r = Ok (JObj (marshal_fields (combined_fields (shadow_fields fs) (outer_fields r))))"
  by (simp add: MarshalJSON_def shadowCopy_def st_def iface_def)

lemma shadow_ptr_struct [simp]: "shadow (GPtr (st fs)) = GIface (GStruct None (shadow_fields fs))"
    "shadow (GPtr (GStruct None fs)) = GIface (GStruct None (shadow_fields fs))"
  by (simp_all add: st_def iface_def)

lemma MarshalJSON_plain:
  fixes fs ver c deps
  defines "r \<equiv> plain_resource (GPtr (st fs)) ver"
  defines "enc \<equiv> \<lambda>q. Ok (JObj (marshal_fields (combined_fields (shadow_fields fs) (outer_fields q))))"
  shows "MarshalJSON r = enc r" "MarshalJSON (r\<lparr>ar_Copy := Some c\<rparr>) = enc (r\<lparr>ar_Copy := Some c\<rparr>)"
    "MarshalJSON (r\<lparr>ar_DependsOn := deps\<rparr>) = enc (r\<lparr>ar_DependsOn := deps\<rparr>)"
    "MarshalJSON (r\<lparr>ar_Copy := Some c, ar_DependsOn := deps\<rparr>) = enc (r\<lparr>ar_Copy := Some c, ar_DependsOn := deps\<rparr>)"
  unfolding enc_def by (rule MarshalJSON_struct, simp add: r_def plain_resource_def)+

text \<open>The members of a resource that only its outer struct has, and those that only the SDK's struct has.\<close>

lemma combined_unfold: "combined_fields fs (o1 # os) = combined_fields (override fs o1) os" "combined_fields fs [] = fs"
  by (simp_all add: combined_fields_def)

lemmas resource_simps = plain_resource_def outer_fields_def combined_unfold omit_def written_def iface_def ptr_s_def
  strings_value_def tags_field_def

lemma interface_json:
  "\<exists>ms. MarshalJSON (plain_resource (interface_value acc ipconf name loc) ver) = Ok (JObj ms)
     \<and> map_of ms ''tags'' = None \<and> map_of ms ''name'' = Some (JStr name) \<and> map_of ms ''location'' = Some (JStr loc)
     \<and> map_of ms ''copy'' = None"
  "\<exists>ms. MarshalJSON ((plain_resource (interface_value acc ipconf name loc) ver)\<lparr>ar_Copy := Some c\<rparr>) = Ok (JObj ms)
     \<and> map_of ms ''tags'' = None \<and> map_of ms ''name'' = Some (JStr name) \<and> map_of ms ''location'' = Some (JStr loc)
     \<and> map_of ms ''copy'' = Some (marshal (copy_value c))"
  unfolding interface_value_def MarshalJSON_plain by (simp_all add: resource_simps)

lemma vm_json:
  assumes "deps \<noteq> []"
  shows "\<exists>ms. MarshalJSON ((plain_resource (GPtr (st (vm_fields ic v))) ver)\<lparr>ar_DependsOn := deps\<rparr>) = Ok (JObj ms)
     \<and> map_of ms ''tags'' = None \<and> map_of ms ''name'' = Some (JStr (vm_Name v)) \<and> map_of ms ''location'' = Some (JStr (ap_Region (ic_Azure ic)))
     \<and> map_of ms ''copy'' = None
     \<and> map_of ms ''zones'' = map_option (\<lambda>zs. JArr (map JStr zs)) (vm_Zones v)
     \<and> map_of ms ''dependsOn'' = Some (JArr (map JStr deps))
     \<and> map_of ms ''properties'' = Some (marshal (shadow (vm_properties (po_Azure (ic_ControlPlane ic)) v)))"
    "\<exists>ms. MarshalJSON ((plain_resource (GPtr (st (vm_fields ic v))) ver)\<lparr>ar_Copy := Some c, ar_DependsOn := deps\<rparr>) = Ok (JObj ms)
     \<and> map_of ms ''tags'' = None \<and> map_of ms ''name'' = Some (JStr (vm_Name v)) \<and> map_of ms ''location'' = Some (JStr (ap_Region (ic_Azure ic)))
     \<and> map_of ms ''copy'' = Some (marshal (copy_value c))
     \<and> map_of ms ''zones'' = map_option (\<lambda>zs. JArr (map JStr zs)) (vm_Zones v)
     \<and> map_of ms ''dependsOn'' = Some (JArr (map JStr deps))
     \<and> map_of ms ''properties'' = Some (marshal (shadow (vm_properties (po_Azure (ic_ControlPlane ic)) v)))"
proof -
  have el: "marshal_elements (map GString xs) = map JStr xs" "marshal_elements (shadow_elements (map GString xs)) = map JStr xs" for xs
    by (induction xs) (simp_all add: iface_def)
  have pr: "vm_properties p v = GPtr (GStruct None fs) \<Longrightarrow> shadow (vm_properties p v) = GIface (GStruct None (shadow_fields fs))" for p fs
    by (simp add: iface_def)
  obtain fs where fs: "vm_properties (po_Azure (ic_ControlPlane ic)) v = GPtr (GStruct None fs)"
    by (simp add: vm_properties_def st_def)
  show "\<exists>ms. MarshalJSON ((plain_resource (GPtr (st (vm_fields ic v))) ver)\<lparr>ar_DependsOn := deps\<rparr>) = Ok (JObj ms)
     \<and> map_of ms ''tags'' = None \<and> map_of ms ''name'' = Some (JStr (vm_Name v)) \<and> map_of ms ''location'' = Some (JStr (ap_Region (ic_Azure ic)))
     \<and> map_of ms ''copy'' = None
     \<and> map_of ms ''zones'' = map_option (\<lambda>zs. JArr (map JStr zs)) (vm_Zones v)
     \<and> map_of ms ''dependsOn'' = Some (JArr (map JStr deps))
     \<and> map_of ms ''properties'' = Some (marshal (shadow (vm_properties (po_Azure (ic_ControlPlane ic)) v)))"
    unfolding MarshalJSON_plain using assms by (cases "vm_Zones v"; simp add: vm_fields_def resource_simps el fs)
  show "\<exists>ms. MarshalJSON ((plain_resource (GPtr (st (vm_fields ic v))) ver)\<lparr>ar_Copy := Some c, ar_DependsOn := deps\<rparr>) = Ok (JObj ms)
     \<and> map_of ms ''tags'' = None \<and> map_of ms ''name'' = Some (JStr (vm_Name v)) \<and> map_of ms ''location'' = Some (JStr (ap_Region (ic_Azure ic)))
     \<and> map_of ms ''copy'' = Some (marshal (copy_value c))
     \<and> map_of ms ''zones'' = map_option (\<lambda>zs. JArr (map JStr zs)) (vm_Zones v)
     \<and> map_of ms ''dependsOn'' = Some (JArr (map JStr deps))
     \<and> map_of ms ''properties'' = Some (marshal (shadow (vm_properties (po_Azure (ic_ControlPlane ic)) v)))"
    unfolding MarshalJSON_plain using assms by (cases "vm_Zones v"; simp add: vm_fields_def resource_simps el fs)
qed

text \<open>The custom data in the JSON of a machine.\<close>

definition member :: "string \<Rightarrow> json \<Rightarrow> json option" where
  "member k j = (case j of JObj ms \<Rightarrow> map_of ms k | _ \<Rightarrow> None)"

lemma member_JObj [simp]: "member k (JObj ms) = map_of ms k"
  by (simp add: member_def)

definition custom_data :: "json \<Rightarrow> string option" where
  "custom_data j =
     (case Option.bind (Option.bind (Option.bind (Some j) (member ''properties'')) (member ''osProfile'')) (member ''customData'') of
        Some (JStr t) \<Rightarrow> Some t
      | _ \<Rightarrow> None)"

lemma vm_custom_data:
  "Option.bind (Option.bind (Some (marshal (shadow (vm_properties pool v)))) (member ''osProfile'')) (member ''customData'')
     = Some (JStr (vm_CustomData v))"
  by (simp add: vm_properties_def os_profile_def storage_profile_def st_def ptr_s_def omit_def written_def iface_def member_def Let_def)

text \<open>C25: The template's four resources are encoded without an error, none of them with the tags that the SDK's
  structs never omit, all in the region of the configuration. The control plane has zones exactly if the
  configuration is not the non-zonal one, and as many copies of its interfaces as of its machines; the
  bootstrap machine has none, and waits for the interface of the name that the template gives it; and the
  control plane's custom data decodes to the pointer ignition.\<close>

theorem template_resources:
  "\<exists>nb nm vb vm rest. template_json (resource_template oc sfx ic masterData) =
       Ok (JObj (rest @ [(''resources'', JArr [nb, nm, vb, vm])]))
   \<and> map (member ''tags'') [nb, nm, vb, vm] = [None, None, None, None]
   \<and> map (member ''location'') [nb, nm, vb, vm] = replicate 4 (Some (JStr (ap_Region (ic_Azure ic))))
   \<and> map (member ''zones'') [vb, vm] = [None, if am_Zones (po_Azure (ic_ControlPlane ic)) = [[]] then None
        else Some (JArr [JStr (''[parameters('' @ quoted ''controlPlaneZones'' @ '')[copyIndex(0)]]'')])]
   \<and> map (member ''copy'') [nb, nm, vb, vm] =
        [None, Some (marshal (copy_value (copies ''networkcopy'' ic))), None, Some (marshal (copy_value (copies ''computecopy'' ic)))]
   \<and> (\<exists>n. member ''name'' nb = Some (JStr n) \<and> member ''dependsOn'' vb = Some (JArr [JStr (''Microsoft.Network/networkInterfaces/'' @ n)]))
   \<and> map_option b64_decode (custom_data vm) = Some (Ok masterData)"
proof -
  have i1: "networkBootstrapNIC oc ic = plain_resource (interface_value [] (ip_configuration oc ([internal_pool oc] @ external_pool oc) ''bootstrap-nic-ip-v4'')
       (bootstrap_nic_name oc) (ap_Region (ic_Azure ic))) network_version" by (simp add: networkBootstrapNIC_def)
  obtain nb where nb: "MarshalJSON (networkBootstrapNIC oc ic) = Ok (JObj nb)" "map_of nb ''tags'' = None"
    "map_of nb ''name'' = Some (JStr (bootstrap_nic_name oc))" "map_of nb ''location'' = Some (JStr (ap_Region (ic_Azure ic)))"
    "map_of nb ''copy'' = None"
    unfolding i1 using interface_json(1) by blast
  obtain nm where nm: "MarshalJSON (networkMasterNICs oc ic) = Ok (JObj nm)" "map_of nm ''tags'' = None"
    "map_of nm ''location'' = Some (JStr (ap_Region (ic_Azure ic)))" "map_of nm ''copy'' = Some (marshal (copy_value (copies ''networkcopy'' ic)))"
    unfolding networkMasterNICs_def Let_def using interface_json(2) by blast
  let ?vb = "\<lparr>vm_Name = InfraID oc @ ''-bootstrap'', vm_ComputerName = InfraID oc @ ''-bootstrap-vm'', vm_DiskName = InfraID oc @ ''-bootstrap_OSDisk'',
               vm_Caching = ''ReadWrite'', vm_DiskSizeGB = 100, vm_CustomData = bootstrap_custom_data oc sfx,
               vm_NIC = ''[resourceId('' @ quoted ''Microsoft.Network/networkInterfaces'' @ '', '' @ quoted (bootstrap_nic_name oc) @ '')]'',
               vm_Zones = None\<rparr>"
  obtain vb where vb: "MarshalJSON (computeBootstrapVM oc sfx ic) = Ok (JObj vb)" "map_of vb ''tags'' = None"
    "map_of vb ''location'' = Some (JStr (ap_Region (ic_Azure ic)))" "map_of vb ''copy'' = None" "map_of vb ''zones'' = None"
    "map_of vb ''dependsOn'' = Some (JArr [JStr (''Microsoft.Network/networkInterfaces/'' @ bootstrap_nic_name oc)])"
    unfolding computeBootstrapVM_def Let_def
    using vm_json(1) [where deps = "[''Microsoft.Network/networkInterfaces/'' @ bootstrap_nic_name oc]" and ic = ic and v = ?vb
        and ver = compute_version] by auto
  let ?vm = "\<lparr>vm_Name = master_expression oc [], vm_ComputerName = master_expression oc [],
               vm_DiskName = master_expression oc ('', '' @ quoted ''_OSDisk''), vm_Caching = ''ReadOnly'',
               vm_DiskSizeGB = am_DiskSizeGB (po_Azure (ic_ControlPlane ic)), vm_CustomData = b64_encode masterData,
               vm_NIC = ''[resourceId('' @ quoted ''Microsoft.Network/networkInterfaces'' @ '', '' @ master_nic_expression oc @ '')]'',
               vm_Zones = zones ic\<rparr>"
  let ?deps = "[''[concat('' @ quoted (''Microsoft.Network/networkInterfaces/'' @ InfraID oc @ ''-master'') @ '', copyIndex(), ''
         @ quoted ''-nic'' @ '')]'']"
  obtain vm where vm: "MarshalJSON (computeMasterVMs oc ic (zones ic) masterData) = Ok (JObj vm)" "map_of vm ''tags'' = None"
    "map_of vm ''location'' = Some (JStr (ap_Region (ic_Azure ic)))" "map_of vm ''copy'' = Some (marshal (copy_value (copies ''computecopy'' ic)))"
    "map_of vm ''zones'' = map_option (\<lambda>zs. JArr (map JStr zs)) (zones ic)"
    "map_of vm ''properties'' = Some (marshal (shadow (vm_properties (po_Azure (ic_ControlPlane ic)) ?vm)))"
    unfolding computeMasterVMs_def Let_def
    using vm_json(2) [where deps = ?deps and ic = ic and v = ?vm and ver = compute_version and c = "copies ''computecopy'' ic"] by auto
  have cd: "custom_data (JObj vm) = Some (b64_encode masterData)"
    using vm_custom_data [of "po_Azure (ic_ControlPlane ic)" ?vm] vm(6) by (simp add: custom_data_def member_def)
  have t: "\<exists>rest. template_json (resource_template oc sfx ic masterData) =
      Ok (JObj (rest @ [(''resources'', JArr [JObj nb, JObj nm, JObj vb, JObj vm])]))"
    using nb(1) nm(1) vb(1) vm(1) by (simp add: template_json_def resource_template_def)
  have z: "map_option (\<lambda>zs. JArr (map JStr zs)) (zones ic) = (if am_Zones (po_Azure (ic_ControlPlane ic)) = [[]] then None
        else Some (JArr [JStr (''[parameters('' @ quoted ''controlPlaneZones'' @ '')[copyIndex(0)]]'')]))"
    by (simp add: zones_def)
  obtain rest where "template_json (resource_template oc sfx ic masterData) =
      Ok (JObj (rest @ [(''resources'', JArr [JObj nb, JObj nm, JObj vb, JObj vm])]))" using t by blast
  then show ?thesis
    using nb(2-) nm(2-) vb(2-) vm(2-5) cd z
    by (intro exI [of _ "JObj nb"] exI [of _ "JObj nm"] exI [of _ "JObj vb"] exI [of _ "JObj vm"] exI [of _ rest] conjI)
      (simp_all add: b64_round_trip eval_nat_numeral)
qed

lemma deployed_assets:
  assumes "LoadPersisted (dd_graph d) (resource_group m) (storage_account m) s = (Ok pg, s1)"
    and "deployResourceTemplate d m s = Some (Ok (), s')"
  shows "\<exists>j ia k master sas s2. sm_get pg install_config_name = Some j \<and> dd_read_config d j = Ok ia
    \<and> sm_get pg master_name = Some k \<and> dd_read_master d k = Ok master
    \<and> sas_parameter d m s1 = (Ok sas, s2)
    \<and> DeployTemplate (dd_clock d) (dd_deployments d) (resource_group m) ''resources''
        (resource_template (mg_oc m) (endpoint_suffix m) (ia_Config ia) (pt_Data master), template_parameters sas (ia_Config ia)) s2
        = Some (Ok (), s')"
proof -
  from assms(2) obtain t s2 where p: "prepare_deployment d m s = (Ok t, s2)"
    and dep: "DeployTemplate (dd_clock d) (dd_deployments d) (resource_group m) ''resources'' t s2 = Some (Ok (), s')"
    by (auto simp: deployResourceTemplate_def split: prod.splits outcome.splits)
  from p assms(1) obtain assets sas where a: "persisted_Get (decode_asset d) [install_config_name, master_name] pg = Ok assets"
    "sas_parameter d m s1 = (Ok sas, s2)" "deployment_of m sas assets = Ok t"
    by (auto simp: prepare_deployment_def outcome_simps)
  then obtain ia master where assets: "assets = [AssetInstallConfig ia, AssetMaster master]"
    and t: "t = (resource_template (mg_oc m) (endpoint_suffix m) (ia_Config ia) (pt_Data master), template_parameters sas (ia_Config ia))"
    by (auto simp: deployment_of_def split: list.splits installer_asset.splits)
  from a(1) assets obtain j k where "sm_get pg install_config_name = Some j" "dd_read_config d j = Ok ia"
    "sm_get pg master_name = Some k" "dd_read_master d k = Ok master"
    by (auto simp: persisted_Get_def outcome_simps decode_asset_def nil_asset_def install_config_name_def master_name_def
        split: option.splits if_splits)
  then show ?thesis using a(2) dep t by blast
qed

text \<open>A deployment that succeeds was made from what the graph holds: both assets were read from the persisted
  graph, and the resources deployment of exactly their template and parameters succeeded. A graph without
  the install configuration deploys nothing and is an error.\<close>

theorem deploys_persisted_assets:
  assumes "LoadPersisted (dd_graph d) (resource_group m) (storage_account m) s = (Ok pg, s1)"
  shows "(deployResourceTemplate d m s = Some (Ok (), s') \<longrightarrow>
      (\<exists>j ia k master sas s2. sm_get pg install_config_name = Some j \<and> dd_read_config d j = Ok ia
        \<and> sm_get pg master_name = Some k \<and> dd_read_master d k = Ok master
        \<and> sas_parameter d m s1 = (Ok sas, s2)
        \<and> DeployTemplate (dd_clock d) (dd_deployments d) (resource_group m) ''resources''
            (resource_template (mg_oc m) (endpoint_suffix m) (ia_Config ia) (pt_Data master), template_parameters sas (ia_Config ia)) s2
            = Some (Ok (), s')))
    \<and> (sm_get pg install_config_name = None \<longrightarrow> deployResourceTemplate d m s = Some (Err (ErrMsg ''EOF''), s1))"
  using deployed_assets [OF assms]
  by (auto simp: deployResourceTemplate_def prepare_deployment_def persisted_Get_def assms)

definition demo_assets_stored :: "(string, json) gomap" where
  "demo_assets_stored =
     [(install_config_name, JStr ''c''), (''*kubeconfig.AdminInternalClient'', JStr ''k''), (master_name, JStr ''m'')]"

definition demo_document :: json where "demo_document = JObj demo_assets_stored"

definition demo_stored :: memory where
  "demo_stored = (\<lambda>_. None)((graphContainer, graphBlob) \<mapsto> replicate 32 (CHR ''t'') @ ''k:'' @ print_json demo_document)"

definition demo_deploy :: "(unit, unit, unit, memory) deploy_deps" where
  "demo_deploy =
     \<lparr>dd_graph = \<lparr>gm_aead = Aes256Sha512 (tag_cipher ''k''), gm_storage = gm_storage demo_manager, gm_encode = (\<lambda>a. Ok JNull),
        gm_ignition = (\<lambda>a. None)\<rparr>,
      dd_read_config = (\<lambda>j. Ok \<lparr>ia_Config =
         \<lparr>ic_Name = ''c'', ic_SSHKey = [], ic_BaseDomain = ''io'', ic_MachineNetwork = [], ic_NetworkType = ''OVNKubernetes'',
          ic_ClusterNetwork = [], ic_ServiceNetwork = [], ic_ControlPlane = control_plane_pool demo_cluster [] [] None (rhcos_image False),
          ic_Compute = [], ic_Azure = azure_platform_of demo_cluster demo_prod [] demo_resource [] [], ic_PullSecret = [], ic_FIPS = False,
          ic_ImageDigestSources = [], ic_Publish = ''Internal'', ic_BaselineCapabilitySet = ''None'',
          ic_AdditionalEnabledCapabilities = [], ic_CredentialsMode = []\<rparr>, ia_CloudName = [], ia_ResourceManagerEndpoint = [],
         ia_Credentials = \<lparr>cr_TenantID = [], cr_SubscriptionID = [], cr_ClientID = [], cr_ClientSecret = [], cr_ClientCertificatePath = []\<rparr>\<rparr>),
      dd_read_master = (\<lambda>j. Ok \<lparr>pt_Config = \<lparr>pc_Merge = [], pc_rest = []\<rparr>, pt_Data = ''ign''\<rparr>),
      dd_sas = \<lparr>sdk_ParseURL = (\<lambda>t. Ok ()), sdk_GetUserDelegationCredential = (\<lambda>b a e s. (Ok (), s)), sdk_Sign = (\<lambda>v k. Ok ()),
        sdk_String = (\<lambda>u q. [])\<rparr>,
      dd_now = (0, 0), dd_rfc3339 = (\<lambda>t. ''time''),
      dd_deployments = \<lparr>dc_CreateOrUpdate = (\<lambda>rg n t s. (Ok (), s)), dc_WaitForCompletion = (\<lambda>s. (Ok (), s)),
        dc_Delete = (\<lambda>rg n s. (Ok (), s)), dc_Get = (\<lambda>rg n s. (Ok None, s)), dc_PollingDelay = 1, dc_PollingDuration = 2\<rparr>,
      dd_clock = ideal_wakes\<rparr>"

lemma demo_document_wf: "json_wf demo_document"
  by (simp add: demo_document_def demo_assets_stored_def)

lemma demo_loads:
  "LoadPersisted (dd_graph demo_deploy) rg acc demo_stored = (Ok demo_assets_stored, demo_stored)"
proof -
  have "sm_invar demo_assets_stored"
    by (simp add: demo_assets_stored_def sm_invar_def install_config_name_def master_name_def)
  then have "decode_persisted (print_json demo_document) = Ok demo_assets_stored"
    using parse_print [OF demo_document_wf] by (simp add: decode_persisted_def demo_document_def sm_of_list_id)
  then show ?thesis
    by (simp add: LoadPersisted_def demo_deploy_def demo_manager_def BlobService_def memory_client_def demo_stored_def tag_cipher_def)
qed

lemma demo_deploy_calls:
  "\<exists>ia. dd_read_config demo_deploy j = Ok ia" "\<exists>p. dd_read_master demo_deploy j = Ok p" "dd_rfc3339 demo_deploy t = ''time''"
  "CreateOrUpdateAndWait (dd_deployments demo_deploy) rg n x s = (Ok (), s)"
  by (simp_all add: demo_deploy_def CreateOrUpdateAndWait_def and_wait_def)

lemma demo_deployed: "deployResourceTemplate demo_deploy demo_install demo_stored = Some (Ok (), demo_stored)"
proof -
  have p: "persisted_Get (decode_asset demo_deploy) [install_config_name, master_name] demo_assets_stored
      = andThen (dd_read_config demo_deploy (JStr ''c'')) (\<lambda>a.
        andThen (dd_read_master demo_deploy (JStr ''m'')) (\<lambda>b. Ok [AssetInstallConfig a, AssetMaster b]))"
    by (simp add: demo_assets_stored_def persisted_Get_def decode_asset_def install_config_name_def master_name_def andThen_assoc)
  obtain ia p where ip: "dd_read_config demo_deploy (JStr ''c'') = Ok ia" "dd_read_master demo_deploy (JStr ''m'') = Ok p"
    using demo_deploy_calls(1,2) by blast
  have sas: "sas_parameter demo_deploy demo_install s = (Ok (account_sas (dd_rfc3339 demo_deploy) 0), s)" for s
    by (simp add: sas_parameter_def demo_fields) (simp add: demo_cluster_def)
  show ?thesis
    unfolding deployResourceTemplate_def prepare_deployment_def demo_loads
    by (simp add: p ip sas deployment_of_def DeployTemplate_def demo_deploy_calls error_of_def IsDeploymentActiveError_def)
qed

theorem deploys_persisted_assets_witness:
  "\<exists>master. sm_get demo_assets_stored master_name = Some (JStr ''m'') \<and> dd_read_master demo_deploy (JStr ''m'') = Ok master"
proof -
  from deploys_persisted_assets [OF demo_loads] demo_deployed obtain k master where
    "sm_get demo_assets_stored master_name = Some k" "dd_read_master demo_deploy k = Ok master" by blast
  then show ?thesis by (simp add: demo_assets_stored_def install_config_name_def master_name_def)
qed

end
