(* ===== verification/Install.thy ===== *)
theory Install
  imports Customised Deploy_Resources Steps Dialer
begin

text \<open>
  pkg/installer/install.go and condition.go: the two operations of the installer as runs of steps. The
  state of a run is what the steps' closures capture, with the file system, the storage service and the
  randomness left. A recursion over the assets that is deeper than the bound, and a deployment that is
  never read as finished, end here like a crash; the properties exclude both by their hypotheses.
\<close>

section \<open>Manifests\<close>

record ('f, 's) manifests_state =
  ms_files :: 'f
  ms_store :: 's
  ms_random :: string
  ms_config :: "(install_config_asset \<times> string) option"
  ms_graph :: asset_graph

record ('f, 's) installer =
  in_libs :: "'f install_libs"
  in_custom :: custom_deps
  in_depth :: nat
  in_graph :: "(installer_asset, 's) graph_manager"

definition generate_action :: "('f, 's) installer \<Rightarrow> 'm manager \<Rightarrow> ('f, 's) manifests_state action" where
  "generate_action i m w =
     (case generateInstallConfig (in_libs i) m (ms_files w) of
        (Ok (ia, img), f) \<Rightarrow> (Ok (), w\<lparr>ms_files := f, ms_config := Some (ia, img)\<rparr>)
      | (Err e, f) \<Rightarrow> (Err e, w\<lparr>ms_files := f, ms_config := None\<rparr>)
      | (Panic, f) \<Rightarrow> (Panic, w\<lparr>ms_files := f\<rparr>))"

definition customise_action :: "('f, 's) installer \<Rightarrow> 'm manager \<Rightarrow> ('f, 's) manifests_state action" where
  "customise_action i m w =
     (case ms_config w of
        None \<Rightarrow> (Panic, w)
      | Some (ia, img) \<Rightarrow>
          (case applyInstallConfigCustomisations (in_depth i) (in_custom i) m ia img of
             Some (Ok g) \<Rightarrow> (Ok (), w\<lparr>ms_graph := g\<rparr>)
           | Some (Err e) \<Rightarrow> (Err e, w\<lparr>ms_graph := []\<rparr>)
           | _ \<Rightarrow> (Panic, w)))"

definition persist_action :: "('f, 's) installer \<Rightarrow> 'm manager \<Rightarrow> ('f, 's) manifests_state action" where
  "persist_action i m w =
     (case persistGraph (in_graph i) (ResourceGroupID (ClusterProfile (mg_oc m))) (StorageSuffix (mg_oc m)) (ms_graph w)
             (ms_store w) (ms_random w) of
        (r, s, rnd) \<Rightarrow> (r, w\<lparr>ms_store := s, ms_random := rnd\<rparr>))"

text \<open>The graph is returned with the error of the run, whatever that is.\<close>

definition Manifests ::
  "clock list \<Rightarrow> ('f, 's) installer \<Rightarrow> 'm manager \<Rightarrow> ('f, 's) manifests_state \<Rightarrow> (asset_graph \<times> unit result \<times> ('f, 's) manifests_state) option" where
  "Manifests clocks i m w =
     map_option (\<lambda>(r, w'). (ms_graph w', r, w'))
       (Run clocks [Action (generate_action i m), Action (customise_action i m), Action (persist_action i m)]
         (w\<lparr>ms_config := None, ms_graph := []\<rparr>))"

section \<open>Install\<close>

record ('c, 's) install_state =
  is_store :: 's
  is_authorizer :: "authorizer option"
  is_kubernetes :: "'c option"

record ('k, 'r, 'c, 's, 'e) install_deps =
  id_env :: "'e env_deps"
  id_load :: "string \<Rightarrow> 'k result"
  id_client_config :: "'k \<Rightarrow> 'r result"
  id_new_client :: "'r rest_config \<Rightarrow> 'c result"
  id_admin_client :: "json \<Rightarrow> string option result"
  id_config_map :: "'c \<Rightarrow> string \<Rightarrow> string \<Rightarrow> 's \<Rightarrow> (string, string) gomap result \<times> 's"

definition admin_client_name :: string where "admin_client_name = ''*kubeconfig.AdminInternalClient''"

text \<open>The state after an action on the store alone.\<close>

definition on_store :: "('s \<Rightarrow> (unit result \<times> 's) option) \<Rightarrow> ('c, 's) install_state action" where
  "on_store f w =
     (case f (is_store w) of
        Some (r, s) \<Rightarrow> (r, w\<lparr>is_store := s\<rparr>)
      | None \<Rightarrow> (Panic, w))"

definition rebuild_action :: "'e env_deps \<Rightarrow> 'e manager \<Rightarrow> ('c, 's) install_state action" where
  "rebuild_action d m w =
     (case mg_TenantID m of
        None \<Rightarrow> (Panic, w)
      | Some tenant \<Rightarrow> (case Rebuild d (mg_env m) tenant (is_authorizer w) of (r, a) \<Rightarrow> (r, w\<lparr>is_authorizer := a\<rparr>)))"

definition kubernetes_client ::
  "('k, 'r, 'c, 's, 'e) install_deps \<Rightarrow> 'e manager \<Rightarrow> string option list \<Rightarrow> 'c result" where
  "kubernetes_client d m kubeconfigs =
     (let endpoint = APIServerPrivateEndpointIP (NetworkProfile (mg_oc m)) in
      if endpoint = [] then Err (ErrMsg ''privateEndpointIP is empty'')
      else
        andThen (at_index kubeconfigs 0) (\<lambda>k.
        andThen (deref k) (\<lambda>kubeconfig.
        andThen (id_load d kubeconfig) (\<lambda>config.
        andThen (id_client_config d config) (\<lambda>r.
          id_new_client d \<lparr>rc_loaded = r, rc_endpoint = endpoint\<rparr>)))))"

definition initializeKubernetesClients ::
  "('k, 'r, 'c, 's, 'e) install_deps \<Rightarrow> ('u, 'dk, 'q, 's) deploy_deps \<Rightarrow> 'e manager \<Rightarrow> ('c, 's) install_state action" where
  "initializeKubernetesClients d dd m w =
     (case st_bind (LoadPersisted (dd_graph dd) (resource_group m) (storage_account m) (is_store w)) (\<lambda>pg s.
           st_bind (persisted_Get (\<lambda>n j. id_admin_client d j) [admin_client_name] pg, s) (\<lambda>ks s.
             (kubernetes_client d m ks, s))) of
        (Ok c, s) \<Rightarrow> (Ok (), w\<lparr>is_store := s, is_kubernetes := Some c\<rparr>)
      | (Err e, s) \<Rightarrow> (Err e, w\<lparr>is_store := s\<rparr>)
      | (Panic, s) \<Rightarrow> (Panic, w\<lparr>is_store := s\<rparr>))"

definition bootstrapConfigMapReady :: "('k, 'r, 'c, 's, 'e) install_deps \<Rightarrow> ('c, 's) install_state condition" where
  "bootstrapConfigMapReady d w =
     (case is_kubernetes w of
        None \<Rightarrow> (Panic, w)
      | Some c \<Rightarrow>
          (case id_config_map d c ''kube-system'' ''bootstrap'' (is_store w) of
             (Ok cm, s) \<Rightarrow> (Ok (sm_get cm ''status'' = Some ''complete''), w\<lparr>is_store := s\<rparr>)
           | (Err e, s) \<Rightarrow> (Ok False, w\<lparr>is_store := s\<rparr>)
           | (Panic, s) \<Rightarrow> (Panic, w\<lparr>is_store := s\<rparr>)))"

definition install_steps ::
  "('k, 'r, 'c, 's, 'e) install_deps \<Rightarrow> ('u, 'dk, 'q, 's) deploy_deps \<Rightarrow> 'e manager \<Rightarrow> ('c, 's) install_state step list" where
  "install_steps d dd m =
     [AuthorizationRetryingAction (rebuild_action (id_env d) m) (on_store (deployResourceTemplate dd m)),
      Action (initializeKubernetesClients d dd m),
      Condition (bootstrapConfigMapReady d) (60 * minute) True]"

definition Install ::
  "clock list \<Rightarrow> ('k, 'r, 'c, 's, 'e) install_deps \<Rightarrow> ('u, 'dk, 'q, 's) deploy_deps \<Rightarrow> 'e manager \<Rightarrow> ('c, 's) install_state
    \<Rightarrow> (unit result \<times> ('c, 's) install_state) option" where
  "Install clocks d dd m w = Run clocks (install_steps d dd m) w"

section \<open>Properties of Manifests\<close>

definition installer_ignition :: "installer_asset \<Rightarrow> string option" where
  "installer_ignition a = (case a of AssetBootstrap b \<Rightarrow> Some (bs_Data b) | _ \<Rightarrow> None)"

lemma persistGraph_fresh:
  assumes "blob_laws content blobs" "serves m (LastTokenByte rgID slash) (''cluster'' @ suf) blobs"
    and "content s graphContainer graphBlob = None" "persistGraph m rgID suf g s rnd = (Ok (), s', rnd')"
  shows "\<exists>a d. graph_Get g bootstrap_asset = Some a \<and> gm_ignition m a = Some d
    \<and> content s' ignitionContainer ignitionBlob = Some d \<and> content s' graphContainer graphBlob \<noteq> None"
proof -
  obtain q s1 where e: "BlobExists blobs graphContainer graphBlob s = (q, s1)" by fastforce
  have ex: "Exists m (LastTokenByte rgID slash) (''cluster'' @ suf) s = (q, s1)"
    using assms(2) e by (simp add: Exists_def serves_def)
  then obtain x where q: "q = Ok x" using assms(4) by (cases q) (auto simp: persistGraph_def Let_def)
  then have "x = False" using BlobExists_sound [OF assms(1)] e assms(3) by blast
  then have sv: "Save m (LastTokenByte rgID slash) (''cluster'' @ suf) g s1 rnd = (Ok (), s', rnd')"
    using assms(4) ex q by (simp add: persistGraph_def Let_def)
  show ?thesis
    using assms(2) sv
  proof (cases rule: Save_cases)
    case (both a d s2 b c rnd1)
    have "content s' graphContainer graphBlob = Some c" using blob_uploaded [OF assms(1) both(6)] .
    moreover have "content s' ignitionContainer ignitionBlob = Some d"
      using blob_uploaded [OF assms(1) both(3)] blob_other [OF assms(1) both(6) containers_differ [symmetric]] by simp
    ultimately show ?thesis using both by blast
  qed simp_all
qed

lemma Run_three:
  "Run clocks [Action a, Action b, Action c] w = Some (Ok (), w') \<Longrightarrow>
   \<exists>w1 w2. a w = (Ok (), w1) \<and> b w1 = (Ok (), w2) \<and> c w2 = (Ok (), w')"
proof (cases clocks rule: remdups_adj.cases)
  case (3 x y zs)
  assume "Run clocks [Action a, Action b, Action c] w = Some (Ok (), w')"
  then show ?thesis
    using 3 by (cases zs) (auto simp: Action_def split: prod.splits outcome.splits option.splits)
qed (auto simp: Action_def split: prod.splits outcome.splits)

text \<open>C2: When the manifests are made without an error, the graph that is returned is the customised graph of
  the configuration that was generated; if no graph was stored before, the ignition that was uploaded is
  the text of that graph's final bootstrap configuration, the one the bootstrap machine will fetch, and a
  graph is stored now; if one was stored before, no blob is changed.\<close>

theorem manifests_store_final_ignition:
  assumes "Manifests clocks i m w = Some (g, Ok (), w')"
    and "blob_laws content blobs" "serves (in_graph i) (resource_group m) (storage_account m) blobs"
    and "gm_ignition (in_graph i) = installer_ignition"
    and "ranked rk (cd_assets (in_custom i))" "\<forall>t \<in> set ignition_targets. rk t < in_depth i"
  shows "\<exists>ia img b. fst (generateInstallConfig (in_libs i) m (ms_files w)) = Ok (ia, img)
    \<and> applyInstallConfigCustomisations (in_depth i) (in_custom i) m ia img = Some (Ok g) \<and> bootstrap_in g = Ok b
    \<and> (if content (ms_store w) graphContainer graphBlob = None
       then content (ms_store w') ignitionContainer ignitionBlob = Some (ignition_Marshal (cl_ign (cd_libs (in_custom i))) (bs_Config b))
            \<and> content (ms_store w') graphContainer graphBlob \<noteq> None
       else content (ms_store w') = content (ms_store w))"
proof -
  let ?w = "w\<lparr>ms_config := None, ms_graph := []\<rparr>"
  from assms(1) have "Run clocks [Action (generate_action i m), Action (customise_action i m), Action (persist_action i m)] ?w = Some (Ok (), w')"
    and g: "g = ms_graph w'" by (auto simp: Manifests_def)
  then obtain w1 w2 where r: "generate_action i m ?w = (Ok (), w1)" "customise_action i m w1 = (Ok (), w2)"
    "persist_action i m w2 = (Ok (), w')" using Run_three by meson
  from r(1) obtain ia img f where gen: "generateInstallConfig (in_libs i) m (ms_files w) = (Ok (ia, img), f)"
    and w1: "w1 = ?w\<lparr>ms_files := f, ms_config := Some (ia, img)\<rparr>"
    by (auto simp: generate_action_def split: prod.splits outcome.splits)
  from r(2) obtain h where cus: "applyInstallConfigCustomisations (in_depth i) (in_custom i) m ia img = Some (Ok h)"
    and w2: "w2 = w1\<lparr>ms_graph := h\<rparr>"
    by (auto simp: customise_action_def w1 split: option.splits outcome.splits)
  from r(3) obtain s rnd where per: "persistGraph (in_graph i) (ResourceGroupID (ClusterProfile (mg_oc m))) (StorageSuffix (mg_oc m)) h
      (ms_store w) (ms_random w) = (Ok (), s, rnd)" and w': "w' = w2\<lparr>ms_store := s, ms_random := rnd\<rparr>"
    by (auto simp: persist_action_def w2 w1 split: prod.splits)
  have gh: "g = h" by (simp add: g w' w2)
  from applied_bootstrap [OF assms(5,6) cus] obtain b where b: "bootstrap_in h = Ok b"
    "bs_Data b = ignition_Marshal (cl_ign (cd_libs (in_custom i))) (bs_Config b)" by blast
  have sv: "serves (in_graph i) (LastTokenByte (ResourceGroupID (ClusterProfile (mg_oc m))) slash) (''cluster'' @ StorageSuffix (mg_oc m)) blobs"
    using assms(3) by (simp add: resource_group_def storage_account_def)
  show ?thesis
  proof (cases "content (ms_store w) graphContainer graphBlob = None")
    case True
    have "graph_Get h bootstrap_asset = Some (AssetBootstrap b)"
      using b(1) by (auto simp: bootstrap_in_def split: installer_asset.splits option.splits)
    with persistGraph_fresh [OF assms(2) sv True per]
    have "content s ignitionContainer ignitionBlob = Some (bs_Data b)" "content s graphContainer graphBlob \<noteq> None"
      by (auto simp: assms(4) installer_ignition_def)
    then show ?thesis using True gen cus b gh w' by auto
  next
    case False
    from persistGraph_kept [OF assms(2) sv False per] have "content s = content (ms_store w)" by blast
    then show ?thesis using False gen cus b gh w' by auto
  qed
qed

section \<open>Properties of Install\<close>

text \<open>Reading the configuration map never fails the wait: an error of the API server asks for another round.\<close>

interpretation rc: poll_condition "condition_call (bootstrapConfigMapReady d)" "\<lambda>w. is_kubernetes w = Some c"
  "\<lambda>w. \<exists>cm s. is_kubernetes w = Some c \<and> id_config_map d c ''kube-system'' ''bootstrap'' s = (Ok cm, is_store w)
      \<and> sm_get cm ''status'' = Some ''complete''"
  "\<lambda>e w. False" for d c
  by unfold_locales
    (auto simp: condition_call_def bootstrapConfigMapReady_def split: prod.splits outcome.splits)

interpretation da: poll_condition "auth_call f rebuild" "\<lambda>w. True" "\<lambda>w. \<exists>w0. f w0 = (Ok (), w)" "\<lambda>e w. True" for f rebuild
  by unfold_locales (auto simp: auth_call_def split: prod.splits outcome.splits if_splits bool.splits)

lemma run_auth_Ok: "run_auth k \<lparr>as_f = f, as_rebuild = g, as_retryTimeout = t, as_pollInterval = i\<rparr> w = Some (Ok (), w') \<Longrightarrow> \<exists>w0. f w0 = (Ok (), w')"
  using da.poll_Ok by (fastforce simp: run_auth_def poll_immediate_def simp del: poll.simps split: prod.splits)

lemma initialize_client:
  "initializeKubernetesClients d dd m w = (Ok (), w') \<Longrightarrow>
   \<exists>c r. is_kubernetes w' = Some c \<and> APIServerPrivateEndpointIP (NetworkProfile (mg_oc m)) \<noteq> []
     \<and> id_new_client d \<lparr>rc_loaded = r, rc_endpoint = APIServerPrivateEndpointIP (NetworkProfile (mg_oc m))\<rparr> = Ok c"
  by (auto simp: initializeKubernetesClients_def outcome_simps kubernetes_client_def Let_def
      split: prod.splits outcome.splits if_splits)

text \<open>C3: An installation that returns nil has deployed the resources (a call of the deployment returned nil), has
  a client that was made for the private endpoint of the API server, which is not empty, and the last
  thing it read with that client is a bootstrap configuration map whose status is complete.\<close>

theorem install_waited_for_bootstrap:
  assumes "Install [k1, k2, k3] d dd m w = Some (Ok (), w')"
  shows "\<exists>s s1 c r cm s2. deployResourceTemplate dd m s = Some (Ok (), s1)
    \<and> APIServerPrivateEndpointIP (NetworkProfile (mg_oc m)) \<noteq> []
    \<and> id_new_client d \<lparr>rc_loaded = r, rc_endpoint = APIServerPrivateEndpointIP (NetworkProfile (mg_oc m))\<rparr> = Ok c
    \<and> is_kubernetes w' = Some c \<and> id_config_map d c ''kube-system'' ''bootstrap'' s2 = (Ok cm, is_store w')
    \<and> sm_get cm ''status'' = Some ''complete''"
proof -
  from assms obtain w1 w2 where
    1: "run_auth k1 \<lparr>as_f = on_store (deployResourceTemplate dd m), as_rebuild = rebuild_action (id_env d) m, as_retryTimeout = 0, as_pollInterval = 0\<rparr> w = Some (Ok (), w1)"
    and 2: "initializeKubernetesClients d dd m w1 = (Ok (), w2)"
    and 3: "run_condition k3 \<lparr>cs_f = bootstrapConfigMapReady d, cs_fail = True, cs_timeout = 60 * minute, cs_pollInterval = 0\<rparr> w2 = Some (Ok (), w')"
    by (auto simp: Install_def install_steps_def AuthorizationRetryingAction_def Action_def Condition_def
        split: option.splits prod.splits outcome.splits)
  from run_auth_Ok [OF 1] obtain s s1 where s: "deployResourceTemplate dd m s = Some (Ok (), s1)"
    by (auto simp: on_store_def split: option.splits)
  from initialize_client [OF 2] obtain c r where c: "is_kubernetes w2 = Some c" "APIServerPrivateEndpointIP (NetworkProfile (mg_oc m)) \<noteq> []"
    "id_new_client d \<lparr>rc_loaded = r, rc_endpoint = APIServerPrivateEndpointIP (NetworkProfile (mg_oc m))\<rparr> = Ok c" by blast
  obtain live ws where k: "k3 (defaulted (10 * second) 0) (60 * minute) = (live, ws)" by fastforce
  from 3 have "poll (condition_call (bootstrapConfigMapReady d)) (wake.Tick live # ws) w2 = Some (Ok (), w')"
    by (auto simp: run_condition_def k poll_immediate_def simp del: poll.simps split: option.splits prod.splits outcome.splits)
  from rc.poll_Ok [OF c(1) this] s c show ?thesis by blast
qed

text \<open>C19: Once there is a client, the wait for the bootstrap map returns after at most 360 reads of it (one every
  ten seconds for an hour), and only its own deadline is an error: no error of the API server ends it.\<close>

theorem bootstrap_wait_bounded:
  assumes "is_kubernetes w = Some c"
  shows "\<exists>n r w'. poll (counted (condition_call (bootstrapConfigMapReady d))) (wake.Tick live # ideal_wakes (10 * second) (60 * minute)) (0, w)
      = Some (r, (n, w')) \<and> n \<le> 360
    \<and> run_step (\<lambda>i t. (live, ideal_wakes i t)) (Condition (bootstrapConfigMapReady d) (60 * minute) True) w = Some (r, w')
    \<and> r \<in> {Ok (), Panic, Err DeadlineExceeded}"
proof -
  let ?ws = "ideal_wakes (10 * second) (60 * minute)" and ?f = "condition_call (bootstrapConfigMapReady d)"
  have n: "ticks (wake.Tick live # ?ws) = 360"
    by (simp add: ticks_def ideal_wakes_def takeWhile_append second_def minute_def)
  have "ends (wake.Tick live # ?ws)" by simp
  then obtain r n w' where p: "poll (counted ?f) (wake.Tick live # ?ws) (0, w) = Some (r, (n, w'))"
    using poll_returns [of "wake.Tick live # ?ws" "counted ?f" "(0, w)"] by auto
  have q: "poll ?f (wake.Tick live # ?ws) w = Some (r, w')" using poll_counted_same [OF p] .
  have "r \<in> {Ok (), Panic, Err DeadlineExceeded}"
  proof (cases r)
    case (Err e)
    then have "Expired e \<in> set (wake.Tick live # ?ws)" using rc.poll_Err [OF assms] q by blast
    then show ?thesis using Err by (auto simp: ideal_wakes_def)
  qed auto
  moreover have "run_step (\<lambda>i t. (live, ideal_wakes i t)) (Condition (bootstrapConfigMapReady d) (60 * minute) True) w = Some (r, w')"
    using q by (cases r) (auto simp: Condition_def run_condition_def defaulted_def poll_immediate_def simp del: poll.simps)
  moreover have "n \<le> 360" using poll_counted_bound [OF p] n by simp
  ultimately show ?thesis using p by blast
qed

text \<open>C4: An installation comes to its end: once the deployment returns nil and a client is there, it returns nil with
  the first complete bootstrap map, if that comes within the first 360 reads (an hour at one every ten
  seconds); until then the map may be missing or incomplete and the API server may fail.\<close>

theorem installation_completes:
  assumes "deployResourceTemplate dd m (is_store w) = Some (Ok (), s1)"
    and "initializeKubernetesClients d dd m (w\<lparr>is_store := s1\<rparr>) = (Ok (), w2)" "is_kubernetes w2 = Some c"
    and "sq 0 = is_store w2" "n < 360"
    and "\<forall>j < n. \<exists>r. id_config_map d c ''kube-system'' ''bootstrap'' (sq j) = (r, sq (Suc j)) \<and> r \<noteq> Panic
      \<and> (\<forall>cm. r = Ok cm \<longrightarrow> sm_get cm ''status'' \<noteq> Some ''complete'')"
    and "id_config_map d c ''kube-system'' ''bootstrap'' (sq n) = (Ok cm, s2)" "sm_get cm ''status'' = Some ''complete''"
  shows "Install (replicate 3 ideal_clock) d dd m w = Some (Ok (), w2\<lparr>is_store := s2\<rparr>)"
proof -
  define ws where "ws j = w2\<lparr>is_store := sq j\<rparr>" for j
  have "\<forall>j < n. bootstrapConfigMapReady d (ws j) = (Ok False, ws (Suc j))"
    using assms(3,6) by (fastforce simp: bootstrapConfigMapReady_def ws_def split: outcome.splits)
  moreover have "bootstrapConfigMapReady d (ws n) = (Ok True, w2\<lparr>is_store := s2\<rparr>)"
    using assms(3,7,8) by (simp add: bootstrapConfigMapReady_def ws_def)
  moreover have "n \<le> (60 * minute - 1) div (10 * second)" using assms(5) by (simp add: minute_def second_def)
  ultimately have c: "run_step ideal_clock (Condition (bootstrapConfigMapReady d) (60 * minute) True) w2 = Some (Ok (), w2\<lparr>is_store := s2\<rparr>)"
    using run_condition_reached [of n "bootstrapConfigMapReady d" ws] assms(4) by (simp add: ws_def)
  have a: "run_step ideal_clock (AuthorizationRetryingAction rebuild (on_store (deployResourceTemplate dd m))) w
      = Some (Ok (), w\<lparr>is_store := s1\<rparr>)" for rebuild
    by (simp add: AuthorizationRetryingAction_def run_auth_def ideal_clock_def poll_immediate_def auth_call_def on_store_def assms(1))
  show ?thesis using a c assms(2) by (simp add: Install_def install_steps_def numeral_3_eq_3 Action_def)
qed

section \<open>The theorems at a concrete installation\<close>

definition demo_installer :: "(unit, memory) installer" where
  "demo_installer =
     \<lparr>in_libs = demo_libs, in_custom = demo_custom_deps, in_depth = 2,
      in_graph = \<lparr>gm_aead = gm_aead demo_manager, gm_storage = gm_storage demo_manager, gm_encode = (\<lambda>a. Ok (JStr ''asset'')),
        gm_ignition = installer_ignition\<rparr>\<rparr>"

definition demo_start :: "(unit, memory) manifests_state" where
  "demo_start = \<lparr>ms_files = (), ms_store = (\<lambda>_. None), ms_random = [], ms_config = None, ms_graph = []\<rparr>"

lemma graph_document_total: "\<exists>t. graph_document (\<lambda>a. Ok (JStr ''asset'')) g = Ok t"
  using graph_document_Ok [of g "\<lambda>a. Ok (JStr ''asset'')" "\<lambda>a. JStr ''asset''"] by blast

lemma demo_persisted:
  assumes "graph_Get g bootstrap_asset = Some (AssetBootstrap b)"
  shows "\<exists>s. persistGraph (in_graph demo_installer) rg suf g (\<lambda>_. None) [] = (Ok (), s, [])"
proof -
  obtain t where "graph_document (\<lambda>a::installer_asset. Ok (JStr ''asset'')) g = Ok t" using graph_document_total by blast
  then show ?thesis using assms
    by (simp add: persistGraph_def Exists_def Save_def demo_installer_def demo_manager_def BlobService_def BlobExists_def
        memory_client_def installer_ignition_def tag_cipher_def read_full_def Let_def)
qed

lemma demo_ranked: "ranked demo_rank (cd_assets demo_custom_deps)" "\<forall>t \<in> set ignition_targets. demo_rank t < 2"
  by (simp_all add: ranked_def demo_rank_def demo_custom_deps_def demo_custom_assets_def asset_names)

lemma demo_manifests:
  "\<exists>g w'. Manifests (replicate 3 demo_clock) demo_installer demo_install demo_start = Some (g, Ok (), w')"
proof -
  obtain ia where ia: "generateInstallConfig demo_libs demo_install () = (Ok (ia, ''release''), ())"
    using demo_generates by blast
  obtain g where g: "applyInstallConfigCustomisations 2 demo_custom_deps demo_install ia ''release'' = Some (Ok g)"
    using demo_customised [of ia] isOk_obtain by (auto split: option.splits)
  obtain b where "bootstrap_in g = Ok b" using applied_bootstrap [OF demo_ranked g] by blast
  then have b: "graph_Get g bootstrap_asset = Some (AssetBootstrap b)"
    by (auto simp: bootstrap_in_def split: installer_asset.splits option.splits)
  obtain s where "persistGraph (in_graph demo_installer) (ResourceGroupID (ClusterProfile (mg_oc demo_install)))
      (StorageSuffix (mg_oc demo_install)) g (\<lambda>_. None) [] = (Ok (), s, [])" using demo_persisted [OF b] by blast
  then show ?thesis using ia g
    by (simp add: Manifests_def numeral_3_eq_3 Action_def generate_action_def customise_action_def persist_action_def
        demo_installer_def demo_start_def)
qed

theorem manifests_store_final_ignition_witness:
  "\<exists>g w' b. Manifests (replicate 3 demo_clock) demo_installer demo_install demo_start = Some (g, Ok (), w')
     \<and> bootstrap_in g = Ok b \<and> ms_store w' (ignitionContainer, ignitionBlob) = Some (ignition_Marshal demo_ign_lib (bs_Config b))"
proof -
  obtain g w' where m: "Manifests (replicate 3 demo_clock) demo_installer demo_install demo_start = Some (g, Ok (), w')"
    using demo_manifests by blast
  have "gm_ignition (in_graph demo_installer) = installer_ignition" "in_custom demo_installer = demo_custom_deps"
    "in_depth demo_installer = 2" "gm_storage (in_graph demo_installer) = gm_storage demo_manager"
    "cl_ign (cd_libs demo_custom_deps) = demo_ign_lib" "ms_store demo_start = (\<lambda>_. None)"
    by (simp_all add: demo_installer_def demo_custom_deps_def demo_custom_libs_def demo_start_def)
  note f = this
  have "serves (in_graph demo_installer) (resource_group demo_install) (storage_account demo_install) memory_client"
    using demo_serves by (simp add: serves_def f)
  from manifests_store_final_ignition [OF m memory_client_laws this f(1), unfolded f(2,3), OF demo_ranked] m
  show ?thesis by (auto simp: f)
qed

definition demo_install_deps :: "(unit, unit, unit, memory, unit) install_deps" where
  "demo_install_deps =
     \<lparr>id_env = \<lparr>ed_env = demo_install_vars, ed_ReadFile = (\<lambda>f. Err (ErrMsg ''no such file'')),
        ed_http = (\<lambda>r s. (Err Canceled, s)), ed_hostname = Ok ''h'', ed_claim = (\<lambda>t. Ok ''tenant''), ed_x509 = demo_x509,
        ed_new_credential = (\<lambda>c. Ok ()), ed_vault = (\<lambda>a. km_kv (demo_secrets [])), ed_list_skus = (\<lambda>env sub a f s. (Ok [], s)),
        ed_ParseResourceID = (\<lambda>t. Ok demo_resource)\<rparr>,
      id_load = (\<lambda>t. Ok ()), id_client_config = (\<lambda>k. Ok ()), id_new_client = (\<lambda>r. Ok ()),
      id_admin_client = (\<lambda>j. Ok (Some ''config'')), id_config_map = (\<lambda>c ns n s. (Ok [(''status'', ''complete'')], s))\<rparr>"

definition demo_installation :: "(unit, memory) install_state" where
  "demo_installation = \<lparr>is_store = demo_stored, is_authorizer = None, is_kubernetes = None\<rparr>"

lemma demo_connected:
  "\<exists>w. initializeKubernetesClients demo_install_deps demo_deploy demo_install demo_installation = (Ok (), w) \<and> is_kubernetes w = Some ()
     \<and> is_store w = demo_stored"
proof -
  have "APIServerPrivateEndpointIP (NetworkProfile demo_cluster) \<noteq> []" by (simp add: demo_cluster_def)
  then show ?thesis
    by (simp add: initializeKubernetesClients_def demo_installation_def demo_loads persisted_Get_def admin_client_name_def
        demo_assets_stored_def install_config_name_def demo_install_deps_def kubernetes_client_def demo_fields Let_def)
qed

theorem install_waited_for_bootstrap_witness:
  "\<exists>w'. Install (replicate 3 demo_clock) demo_install_deps demo_deploy demo_install demo_installation = Some (Ok (), w')
     \<and> is_kubernetes w' = Some ()"
proof -
  obtain w where w: "initializeKubernetesClients demo_install_deps demo_deploy demo_install demo_installation = (Ok (), w)"
    "is_kubernetes w = Some ()" using demo_connected by blast
  have deploy: "on_store (deployResourceTemplate demo_deploy demo_install) demo_installation = (Ok (), demo_installation)"
    by (simp add: on_store_def demo_deployed demo_installation_def)
  have ready: "bootstrapConfigMapReady demo_install_deps w = (Ok True, w)"
    using w(2) by (simp add: bootstrapConfigMapReady_def demo_install_deps_def)
  have "Install (replicate 3 demo_clock) demo_install_deps demo_deploy demo_install demo_installation = Some (Ok (), w)"
    using w(1) by (simp add: Install_def install_steps_def numeral_3_eq_3 AuthorizationRetryingAction_def Action_def Condition_def
        run_auth_def run_condition_def poll_immediate_def auth_call_def condition_call_def deploy ready demo_clock_def)
  then show ?thesis
    using install_waited_for_bootstrap [of demo_clock demo_clock demo_clock demo_install_deps demo_deploy demo_install demo_installation w]
    by (auto simp: numeral_3_eq_3)
qed

theorem bootstrap_wait_bounded_witness:
  "\<exists>n r w'. poll (counted (condition_call (bootstrapConfigMapReady demo_install_deps)))
      (wake.Tick True # ideal_wakes (10 * second) (60 * minute)) (0, demo_installation\<lparr>is_kubernetes := Some ()\<rparr>) = Some (r, (n, w'))
    \<and> n \<le> 360 \<and> r \<in> {Ok (), Panic, Err DeadlineExceeded}"
  using bootstrap_wait_bounded [of "demo_installation\<lparr>is_kubernetes := Some ()\<rparr>" "()" demo_install_deps True] by force

definition demo_flaky_deps :: "(unit, unit, unit, memory, unit) install_deps" where
  "demo_flaky_deps = demo_install_deps\<lparr>id_config_map := (\<lambda>c ns n s.
     if s (''probe'', ''read'') = None then (Err Canceled, s((''probe'', ''read'') \<mapsto> [])) else (Ok [(''status'', ''complete'')], s))\<rparr>"

theorem installation_completes_witness:
  "\<exists>w2. Install (replicate 3 ideal_clock) demo_flaky_deps demo_deploy demo_install demo_installation
     = Some (Ok (), w2\<lparr>is_store := (is_store w2)((''probe'', ''read'') \<mapsto> [])\<rparr>)"
proof -
  obtain w2 where w: "initializeKubernetesClients demo_install_deps demo_deploy demo_install demo_installation = (Ok (), w2)"
    "is_kubernetes w2 = Some ()" and st: "is_store w2 = demo_stored" using demo_connected by blast
  have same: "initializeKubernetesClients demo_flaky_deps demo_deploy demo_install = initializeKubernetesClients demo_install_deps demo_deploy demo_install"
  proof -
    have "id_load demo_flaky_deps = id_load demo_install_deps" "id_client_config demo_flaky_deps = id_client_config demo_install_deps"
      "id_new_client demo_flaky_deps = id_new_client demo_install_deps" "id_admin_client demo_flaky_deps = id_admin_client demo_install_deps"
      by (simp_all add: demo_flaky_deps_def)
    note fields = this
    show ?thesis unfolding initializeKubernetesClients_def kubernetes_client_def fields ..
  qed
  let ?s = "demo_stored((''probe'', ''read'') \<mapsto> [])" 
  have dep: "deployResourceTemplate demo_deploy demo_install (is_store demo_installation) = Some (Ok (), demo_stored)"
    "demo_installation\<lparr>is_store := demo_stored\<rparr> = demo_installation"
    by (simp_all add: demo_deployed demo_installation_def)
  have fresh: "demo_stored (''probe'', ''read'') = None" by (simp add: demo_stored_def graphContainer_def)
  have w1: "initializeKubernetesClients demo_flaky_deps demo_deploy demo_install demo_installation = (Ok (), w2)" using w(1) same by simp
  from installation_completes [OF dep(1), unfolded dep(2), OF w1 w(2), where sq = "\<lambda>j. if j = 0 then demo_stored else ?s" and n = 1]
  have "Install (replicate 3 ideal_clock) demo_flaky_deps demo_deploy demo_install demo_installation = Some (Ok (), w2\<lparr>is_store := ?s\<rparr>)"
    using fresh st by (auto simp: demo_flaky_deps_def)
  then show ?thesis using st by (intro exI [of _ w2]) simp
qed

end
