(* ===== verification/Transitions.thy ===== *)
theory Transitions
  imports Main
begin

text \<open>
  Interleaved runs of goroutines as step relations: the two contracts that the proofs about them use. A
  step keeps an invariant; a system that can always get closer to a goal can always still reach it.
\<close>

section \<open>Invariants\<close>

locale guarded_steps =
  fixes step :: "'s \<Rightarrow> 's \<Rightarrow> bool" and inv :: "'s \<Rightarrow> bool"
  assumes keeps: "inv s \<Longrightarrow> step s t \<Longrightarrow> inv t"
begin

lemma reached_inv: "step\<^sup>*\<^sup>* s t \<Longrightarrow> inv s \<Longrightarrow> inv t"
  by (induction rule: rtranclp_induct) (auto intro: keeps)

end

section \<open>Goals that stay reachable\<close>

locale progressing = guarded_steps step inv
  for step :: "'s \<Rightarrow> 's \<Rightarrow> bool" and inv :: "'s \<Rightarrow> bool" +
  fixes goal :: "'s \<Rightarrow> bool" and variant :: "'s \<Rightarrow> nat"
  assumes advance: "inv s \<Longrightarrow> \<not> goal s \<Longrightarrow> \<exists>t. step s t \<and> variant t < variant s"
begin

lemma goal_from_inv: "inv s \<Longrightarrow> \<exists>t. step\<^sup>*\<^sup>* s t \<and> goal t \<and> inv t"
proof (induction "variant s" arbitrary: s rule: less_induct)
  case less
  show ?case
  proof (cases "goal s")
    case False
    then obtain u where u: "step s u" "variant u < variant s" using advance [OF less.prems] by blast
    from less.hyps [OF u(2) keeps [OF less.prems u(1)]] obtain t where "step\<^sup>*\<^sup>* u t" "goal t" "inv t" by blast
    then show ?thesis using u(1) by (meson converse_rtranclp_into_rtranclp)
  qed (use less.prems in blast)
qed

lemma goal_stays_reachable: "inv s \<Longrightarrow> step\<^sup>*\<^sup>* s u \<Longrightarrow> \<exists>t. step\<^sup>*\<^sup>* u t \<and> goal t \<and> inv t"
  using goal_from_inv reached_inv by blast

end

section \<open>Counting in a list of phases\<close>

definition count_where :: "('a \<Rightarrow> bool) \<Rightarrow> 'a list \<Rightarrow> nat" where
  "count_where P xs = length (filter P xs)"

lemma count_where_simps [simp]:
  "count_where P [] = 0" "count_where P (x # xs) = (if P x then Suc (count_where P xs) else count_where P xs)"
  by (simp_all add: count_where_def)

lemma count_where_replicate [simp]: "count_where P (replicate n x) = (if P x then n else 0)"
  by (induction n) auto

lemma count_where_update:
  "i < length xs \<Longrightarrow> count_where P (xs[i := y]) + (if P (xs ! i) then 1 else 0) = count_where P xs + (if P y then 1 else 0)"
proof (induction xs arbitrary: i)
  case (Cons x xs)
  then show ?case by (cases i) auto
qed simp

lemma count_where_pos: "i < length xs \<Longrightarrow> P (xs ! i) \<Longrightarrow> 0 < count_where P xs"
  using nth_mem [of i xs] by (auto simp: count_where_def filter_empty_conv)

lemma count_where_zero: "count_where P xs = 0 \<longleftrightarrow> (\<forall>i < length xs. \<not> P (xs ! i))"
  by (fastforce simp: count_where_def filter_empty_conv in_set_conv_nth)

lemma count_where_le: "count_where P xs \<le> length xs"
  by (simp add: count_where_def)

lemma sum_list_update_less:
  fixes f :: "'a \<Rightarrow> nat"
  shows "i < length xs \<Longrightarrow> f y < f (xs ! i) \<Longrightarrow> sum_list (map f (xs[i := y])) < sum_list (map f xs)"
proof (induction xs arbitrary: i)
  case (Cons x xs)
  then show ?case by (cases i) auto
qed simp

end
