(* ===== verification/Go_Path.thy ===== *)
theory Go_Path
  imports Go_Strings
begin

text \<open>
  Packages path and path/filepath as far as the repository calls them: cleaning and joining of paths, and
  the walk over a directory tree with a function that may prune it.
\<close>

section \<open>Clean and Join\<close>

text \<open>The elements of a path one after the other; the result of those before is \<open>acc\<close>.\<close>

definition clean_element :: "bool \<Rightarrow> string \<Rightarrow> string list \<Rightarrow> string list" where
  "clean_element rooted e acc =
     (if e = [] \<or> e = ''.'' then acc
      else if e = ''..'' then
        (if acc \<noteq> [] \<and> last acc \<noteq> ''..'' then butlast acc else if rooted then acc else acc @ [e])
      else acc @ [e])"

definition path_Clean :: "string \<Rightarrow> string" where
  "path_Clean p =
     (let rooted = (p \<noteq> [] \<and> hd p = slash); es = fold (clean_element rooted) (split_on slash p) [] in
      if rooted then slash # join_with [slash] es else if es = [] then ''.'' else join_with [slash] es)"

definition path_Join :: "string list \<Rightarrow> string" where
  "path_Join ps =
     (let qs = filter (\<lambda>p. p \<noteq> []) ps in if qs = [] then [] else path_Clean (join_with [slash] qs))"

text \<open>A plain name is no special element and has no separator; joining it to a plain path appends it.\<close>

definition plain_name :: "string \<Rightarrow> bool" where
  "plain_name e \<longleftrightarrow> e \<noteq> [] \<and> e \<noteq> ''.'' \<and> e \<noteq> ''..'' \<and> slash \<notin> set e"

lemma fold_clean_plain: "list_all plain_name es \<Longrightarrow> fold (clean_element rooted) es acc = acc @ es"
  by (induction es arbitrary: acc) (auto simp: clean_element_def plain_name_def)

lemma split_join_plain: "list_all plain_name es \<Longrightarrow> es \<noteq> [] \<Longrightarrow> split_on slash (join_with [slash] es) = es"
  by (rule split_join) (auto simp: plain_name_def list_all_iff)

lemma plain_hd: "plain_name e \<Longrightarrow> e \<noteq> [] \<and> hd e \<noteq> slash"
  by (cases e) (auto simp: plain_name_def)

lemma join_plain_hd:
  assumes "list_all plain_name es" "es \<noteq> []"
  shows "join_with [slash] es \<noteq> [] \<and> hd (join_with [slash] es) \<noteq> slash"
proof (cases es)
  case (Cons e es')
  then have "plain_name e" using assms(1) by simp
  then show ?thesis using Cons plain_hd [of e] by (cases es') auto
qed (use assms(2) in simp)

lemma path_Clean_plain: "list_all plain_name es \<Longrightarrow> es \<noteq> [] \<Longrightarrow> path_Clean (join_with [slash] es) = join_with [slash] es"
  using join_plain_hd [of es] by (simp add: path_Clean_def Let_def split_join_plain fold_clean_plain)

section \<open>Walk\<close>

text \<open>
  A tree as Walk sees it: a file with the answer of reading it and the error, if any, of writing it; a
  directory with the error, if any, of reading its names, and its entries in lexical order; an entry
  whose Lstat fails.
\<close>

datatype 'e fs_node =
    FileNode "('e, string) outcome" "'e option"
  | DirNode "'e option" "(string \<times> 'e fs_node) list"
  | BrokenNode 'e

datatype 'e visit = Continue | SkipDir | Fail 'e | Crash

text \<open>The function that Walk calls gets the path, what is there, and the error of looking at it. It returns
  what is there afterwards, because it may write the file.\<close>

type_synonym ('e, 's) walk_fn = "string \<Rightarrow> 'e fs_node \<Rightarrow> 'e option \<Rightarrow> 's \<Rightarrow> 'e visit \<times> 'e fs_node \<times> 's"

fun is_file :: "'e fs_node \<Rightarrow> bool" where
  "is_file (FileNode c w) = True"
| "is_file _ = False"

fun walk :: "('e, 's) walk_fn \<Rightarrow> string \<Rightarrow> 'e fs_node \<Rightarrow> 's \<Rightarrow> 'e visit \<times> 'e fs_node \<times> 's"
and walk_entries :: "('e, 's) walk_fn \<Rightarrow> string \<Rightarrow> (string \<times> 'e fs_node) list \<Rightarrow> 's \<Rightarrow> 'e visit \<times> (string \<times> 'e fs_node) list \<times> 's" where
  "walk f p (FileNode c w) s = f p (FileNode c w) None s"
| "walk f p (BrokenNode e) s = f p (BrokenNode e) (Some e) s"
| "walk f p (DirNode err es) s =
     (case f p (DirNode err es) err s of
        (v, _, s') \<Rightarrow>
          if err \<noteq> None \<or> v \<noteq> Continue then (v, DirNode err es, s')
          else (case walk_entries f p es s' of (v, es', s'') \<Rightarrow> (v, DirNode err es', s'')))"
| "walk_entries f p [] s = (Continue, [], s)"
| "walk_entries f p ((name, n) # es) s =
     (case walk f (path_Join [p, name]) n s of
        (v, n', s') \<Rightarrow>
          if v = Continue \<or> v = SkipDir \<and> \<not> is_file n
          then (case walk_entries f p es s' of (v, es', s'') \<Rightarrow> (v, (name, n') # es', s''))
          else (v, (name, n') # es, s'))"

text \<open>\<open>Walk\<close> itself: a skipped root is no error.\<close>

definition Walk :: "('e, 's) walk_fn \<Rightarrow> string \<Rightarrow> 'e fs_node \<Rightarrow> 's \<Rightarrow> ('e, unit) outcome \<times> 'e fs_node \<times> 's" where
  "Walk f root n s =
     (case walk f root n s of
        (v, n', s') \<Rightarrow>
          ((case v of Fail e \<Rightarrow> Err e | Crash \<Rightarrow> Panic | _ \<Rightarrow> Ok ()), n', s'))"

end
