(* ===== verification/Load_Test.thy ===== *)
theory Load_Test
  imports Transitions Go_Path Go_Errors
begin

text \<open>
  hack/installtest/run.go: a load test that runs a script per cluster, at most so many at a time. The
  limiter is a channel of tokens, the wait group a counter, and the goroutines (one per script, and one
  that reports the progress) are interleaved in any order. What a command does is a parameter.
\<close>

section \<open>Configuration\<close>

record run_flags =
  fl_regions :: string
  fl_num :: int
  fl_version :: string
  fl_concurrency :: int
  fl_delete :: bool
  fl_create :: bool

record runConf =
  CreateScriptPath :: string
  DeleteScriptPath :: string
  LogDir :: string
  Locations :: "string list"
  MaxConcurrency :: int
  Version :: string
  ClustersPerRegion :: int
  DeleteClusters :: bool
  CreateClusters :: bool

text \<open>\<open>log.Fatalf\<close> ends the program: an error here.\<close>

definition makeConfig :: "string result \<Rightarrow> run_flags \<Rightarrow> runConf result" where
  "makeConfig Getwd f =
     andThen (mapErr (Wrapped ''Could not get workdir'') Getwd) (\<lambda>workdir.
       if fl_regions f = [] then Err (ErrMsg ''-regions can't be empty'')
       else if fl_version f = [] then Err (ErrMsg ''-version can't be empty'')
       else Ok \<lparr>CreateScriptPath = path_Join [workdir, ''create.sh''], DeleteScriptPath = path_Join [workdir, ''delete.sh''],
         LogDir = path_Join [workdir, ''logs''], Locations = split_on comma (fl_regions f), MaxConcurrency = fl_concurrency f,
         Version = fl_version f, ClustersPerRegion = fl_num f, DeleteClusters = fl_delete f, CreateClusters = fl_create f\<rparr>)"

section \<open>Runners\<close>

record CmdRunner =
  cr_Args :: "string list"
  cr_Env :: "string list"
  cr_exited :: bool
  Output :: string
  cr_Err :: "go_error option"
  Location :: string
  Num :: nat

definition cluster_of :: "string \<Rightarrow> nat \<Rightarrow> string" where
  "cluster_of location num = ''loadtest-'' @ location @ ''-'' @ show_nat num"

definition NewRunner :: "string \<Rightarrow> string \<Rightarrow> string \<Rightarrow> string \<Rightarrow> nat \<Rightarrow> CmdRunner" where
  "NewRunner SHELL script location version num =
     \<lparr>cr_Args = [if SHELL = [] then ''bash'' else SHELL, ''-i'', ''-c'', script],
      cr_Env = [''VERSION='' @ version, ''RESOURCEGROUP='' @ cluster_of location num, ''CLUSTER='' @ cluster_of location num,
        ''LOCATION='' @ location],
      cr_exited = False, Output = [], cr_Err = None, Location = location, Num = num\<rparr>"

text \<open>\<open>CombinedOutput\<close> starts the command and waits for it. A command that cannot be started has no
  process state, ever.\<close>

datatype command_result = NotStarted go_error | Exited string "go_error option"

fun Run_command :: "command_result \<Rightarrow> CmdRunner \<Rightarrow> CmdRunner" where
  "Run_command (NotStarted e) c = c\<lparr>Output := [], cr_Err := Some e\<rparr>"
| "Run_command (Exited out err) c = c\<lparr>cr_exited := True, Output := out, cr_Err := err\<rparr>"

fun exits :: "command_result \<Rightarrow> bool" where
  "exits (Exited out err) = True"
| "exits (NotStarted e) = False"

section \<open>ExecuteRunners\<close>

text \<open>The life of a script's goroutine: its deferred calls run in reverse order, so the wait group is told
  before the token goes back.\<close>

datatype phase = Waiting | Started | Ran | Counted | Released

text \<open>The goroutine that reports the progress reads one runner after the other.\<close>

datatype status = Scanning nat nat | StatusDone

record run_state =
  rs_runners :: "CmdRunner list"
  rs_phases :: "phase list"
  rs_cap :: nat
  rs_tokens :: nat
  rs_next :: nat
  rs_wg :: nat
  rs_status :: status
  rs_returned :: bool

definition effective_limit :: "int \<Rightarrow> CmdRunner list \<Rightarrow> nat" where
  "effective_limit maxConcurrency runners = (if maxConcurrency \<le> 0 then length runners else nat maxConcurrency)"

definition started_state :: "CmdRunner list \<Rightarrow> int \<Rightarrow> run_state" where
  "started_state runners maxConcurrency =
     \<lparr>rs_runners = runners, rs_phases = replicate (length runners) Waiting,
      rs_cap = effective_limit maxConcurrency runners, rs_tokens = effective_limit maxConcurrency runners,
      rs_next = 0, rs_wg = length runners, rs_status = Scanning 0 0, rs_returned = False\<rparr>"

inductive ExecuteRunners :: "(nat \<Rightarrow> command_result) \<Rightarrow> run_state \<Rightarrow> run_state \<Rightarrow> bool" for result where
  start: "rs_next s < length (rs_phases s) \<Longrightarrow> 0 < rs_tokens s \<Longrightarrow>
    ExecuteRunners result s (s\<lparr>rs_tokens := rs_tokens s - 1, rs_phases := (rs_phases s)[rs_next s := Started], rs_next := Suc (rs_next s)\<rparr>)"
| run: "i < length (rs_phases s) \<Longrightarrow> rs_phases s ! i = Started \<Longrightarrow>
    ExecuteRunners result s (s\<lparr>rs_runners := (rs_runners s)[i := Run_command (result i) (rs_runners s ! i)], rs_phases := (rs_phases s)[i := Ran]\<rparr>)"
| count: "i < length (rs_phases s) \<Longrightarrow> rs_phases s ! i = Ran \<Longrightarrow>
    ExecuteRunners result s (s\<lparr>rs_wg := rs_wg s - 1, rs_phases := (rs_phases s)[i := Counted]\<rparr>)"
| release: "i < length (rs_phases s) \<Longrightarrow> rs_phases s ! i = Counted \<Longrightarrow> rs_tokens s < rs_cap s \<Longrightarrow>
    ExecuteRunners result s (s\<lparr>rs_tokens := Suc (rs_tokens s), rs_phases := (rs_phases s)[i := Released]\<rparr>)"
| look: "rs_status s = Scanning i k \<Longrightarrow> i < length (rs_runners s) \<Longrightarrow>
    ExecuteRunners result s (s\<lparr>rs_status := Scanning (Suc i) (if cr_exited (rs_runners s ! i) then Suc k else k)\<rparr>)"
| all_done: "rs_status s = Scanning i k \<Longrightarrow> i = length (rs_runners s) \<Longrightarrow> length (rs_runners s) \<le> k \<Longrightarrow>
    ExecuteRunners result s (s\<lparr>rs_status := StatusDone\<rparr>)"
| sleep: "rs_status s = Scanning i k \<Longrightarrow> i = length (rs_runners s) \<Longrightarrow> k < length (rs_runners s) \<Longrightarrow>
    ExecuteRunners result s (s\<lparr>rs_status := Scanning 0 0\<rparr>)"
| return: "\<not> rs_returned s \<Longrightarrow> rs_next s = length (rs_phases s) \<Longrightarrow> rs_wg s = 0 \<Longrightarrow> rs_status s = StatusDone \<Longrightarrow>
    ExecuteRunners result s (s\<lparr>rs_returned := True\<rparr>)"

section \<open>The program\<close>

definition cluster_runners :: "string \<Rightarrow> string \<Rightarrow> runConf \<Rightarrow> CmdRunner list" where
  "cluster_runners SHELL script c =
     concat (map (\<lambda>loc. map (NewRunner SHELL script loc (Version c)) [0 ..< nat (ClustersPerRegion c)]) (Locations c))"

definition create_runners :: "string \<Rightarrow> runConf \<Rightarrow> CmdRunner list" where
  "create_runners SHELL c = (if CreateClusters c then cluster_runners SHELL (CreateScriptPath c) c else [])"

definition delete_runners :: "string \<Rightarrow> runConf \<Rightarrow> CmdRunner list" where
  "delete_runners SHELL c = (if DeleteClusters c then cluster_runners SHELL (DeleteScriptPath c) c else [])"

text \<open>What is left to do once the scripts have run: the log of each, and the runners that failed.\<close>

definition script_logs :: "runConf \<Rightarrow> CmdRunner list \<Rightarrow> (string \<times> string) list" where
  "script_logs c rs = map (\<lambda>r. (path_Join [LogDir c, Location r @ ''-'' @ show_nat (Num r)], Output r)) rs"

definition errored_runners :: "CmdRunner list \<Rightarrow> CmdRunner list" where
  "errored_runners rs = filter (\<lambda>r. cr_Err r \<noteq> None) rs"

section \<open>The invariant of the runners\<close>

definition held :: "phase \<Rightarrow> bool" where "held p = (p \<in> {Started, Ran, Counted})"
definition uncounted :: "phase \<Rightarrow> bool" where "uncounted p = (p \<in> {Waiting, Started, Ran})"

fun scanned :: "CmdRunner list \<Rightarrow> status \<Rightarrow> bool" where
  "scanned rs (Scanning i k) = (i \<le> length rs \<and> k \<le> i \<and> (k = i \<longrightarrow> (\<forall>j < i. cr_exited (rs ! j))))"
| "scanned rs StatusDone = (\<forall>j < length rs. cr_exited (rs ! j))"

definition shape :: "CmdRunner list \<Rightarrow> nat \<Rightarrow> run_state \<Rightarrow> bool" where
  "shape orig cap s \<longleftrightarrow> length (rs_phases s) = length orig \<and> length (rs_runners s) = length orig \<and> rs_cap s = cap
     \<and> rs_next s \<le> length orig \<and> (\<forall>i < length orig. rs_phases s ! i = Waiting \<longleftrightarrow> rs_next s \<le> i)"

definition counts :: "nat \<Rightarrow> run_state \<Rightarrow> bool" where
  "counts cap s \<longleftrightarrow> rs_tokens s + count_where held (rs_phases s) = cap \<and> rs_wg s = count_where uncounted (rs_phases s)"

definition commands_run :: "(nat \<Rightarrow> command_result) \<Rightarrow> CmdRunner list \<Rightarrow> run_state \<Rightarrow> bool" where
  "commands_run result orig s \<longleftrightarrow>
     (\<forall>i < length orig. rs_runners s ! i = (if rs_phases s ! i \<in> {Waiting, Started} then orig ! i else Run_command (result i) (orig ! i)))"

definition run_inv :: "(nat \<Rightarrow> command_result) \<Rightarrow> CmdRunner list \<Rightarrow> nat \<Rightarrow> run_state \<Rightarrow> bool" where
  "run_inv result orig cap s \<longleftrightarrow> shape orig cap s \<and> counts cap s \<and> commands_run result orig s \<and> scanned (rs_runners s) (rs_status s)
     \<and> (rs_returned s \<longrightarrow> rs_next s = length orig \<and> rs_wg s = 0 \<and> rs_status s = StatusDone) \<and> (\<forall>r \<in> set orig. \<not> cr_exited r)"

inductive_cases executeE: "ExecuteRunners result s t"

lemma shape_kept: "shape orig cap s \<Longrightarrow> ExecuteRunners result s t \<Longrightarrow> shape orig cap t"
  by (erule executeE) (auto simp: shape_def nth_list_update)

lemma counts_kept:
  assumes "shape orig cap s" "counts cap s" "ExecuteRunners result s t"
  shows "counts cap t"
  using assms(3)
proof cases
  case start
  then have "rs_phases s ! rs_next s = Waiting" using assms(1) by (simp add: shape_def)
  then show ?thesis
    using start assms(2) count_where_update [OF start(2), of held Started] count_where_update [OF start(2), of uncounted Started]
    by (auto simp: counts_def held_def uncounted_def)
next
  case (run i)
  then show ?thesis
    using assms(2) count_where_update [OF run(2), of held Ran] count_where_update [OF run(2), of uncounted Ran]
    by (auto simp: counts_def held_def uncounted_def)
next
  case (count i)
  then show ?thesis
    using assms(2) count_where_update [OF count(2), of held Counted] count_where_update [OF count(2), of uncounted Counted]
    by (auto simp: counts_def held_def uncounted_def)
next
  case (release i)
  then show ?thesis
    using assms(2) count_where_update [OF release(2), of held Released] count_where_update [OF release(2), of uncounted Released]
    by (auto simp: counts_def held_def uncounted_def)
qed (use assms(2) in \<open>simp_all add: counts_def\<close>)

lemma commands_kept:
  "shape orig cap s \<Longrightarrow> commands_run result orig s \<Longrightarrow> ExecuteRunners result s t \<Longrightarrow> commands_run result orig t"
  by (erule executeE) (auto simp: shape_def commands_run_def nth_list_update)

text \<open>A process state that is set stays set.\<close>

lemma scanned_mono:
  assumes "scanned rs st" "length rs' = length rs" "\<And>j. j < length rs \<Longrightarrow> cr_exited (rs ! j) \<Longrightarrow> cr_exited (rs' ! j)"
  shows "scanned rs' st"
proof (cases st)
  case (Scanning i k)
  then have "i \<le> length rs" "k = i \<longrightarrow> (\<forall>j < i. cr_exited (rs ! j))" "k \<le> i" using assms(1) by auto
  then show ?thesis using Scanning assms(2,3) by auto
qed (use assms in auto)

lemma run_scanned:
  assumes "shape orig cap s" "commands_run result orig s" "scanned (rs_runners s) (rs_status s)" "\<forall>r \<in> set orig. \<not> cr_exited r"
    and "i < length (rs_phases s)" "rs_phases s ! i = Started"
  shows "scanned ((rs_runners s)[i := Run_command (result i) (rs_runners s ! i)]) (rs_status s)"
proof (rule scanned_mono [OF assms(3)])
  have "\<not> cr_exited (rs_runners s ! i)" using assms by (auto simp: shape_def commands_run_def)
  then show "cr_exited (rs_runners s ! j) \<Longrightarrow> cr_exited ((rs_runners s)[i := Run_command (result i) (rs_runners s ! i)] ! j)" for j
    by (cases "i = j") auto
qed simp

lemma scanned_kept:
  assumes "run_inv result orig cap s" "ExecuteRunners result s t"
  shows "scanned (rs_runners t) (rs_status t)"
  using assms(2)
proof cases
  case (run i)
  then show ?thesis using run_scanned [of orig cap s result i] assms(1) by (simp add: run_inv_def)
next
  case (look i k)
  then show ?thesis using assms(1) by (auto simp: run_inv_def less_Suc_eq)
qed (use assms(1) in \<open>auto simp: run_inv_def\<close>)

lemma run_inv_kept: "run_inv result orig cap s \<Longrightarrow> ExecuteRunners result s t \<Longrightarrow> run_inv result orig cap t"
proof -
  assume i: "run_inv result orig cap s" and e: "ExecuteRunners result s t"
  have "rs_returned t \<longrightarrow> rs_next t = length orig \<and> rs_wg t = 0 \<and> rs_status t = StatusDone"
    using e i count_where_pos [of _ "rs_phases s" uncounted]
    by (cases rule: ExecuteRunners.cases) (fastforce simp: run_inv_def shape_def counts_def uncounted_def)+
  then show ?thesis
    using i shape_kept [OF _ e, of orig cap] counts_kept [OF _ _ e, of orig cap] commands_kept [OF _ _ e, of orig cap] scanned_kept [OF i e]
    by (simp add: run_inv_def)
qed

lemma effective_limit_pos: "orig \<noteq> [] \<Longrightarrow> 0 < effective_limit maxConcurrency orig"
  by (simp add: effective_limit_def)

lemma run_inv_start:
  "\<forall>r \<in> set orig. \<not> cr_exited r \<Longrightarrow> run_inv result orig (effective_limit maxConcurrency orig) (started_state orig maxConcurrency)"
  by (simp add: run_inv_def shape_def counts_def commands_run_def started_state_def held_def uncounted_def)

section \<open>Progress\<close>

fun weight :: "phase \<Rightarrow> nat" where
  "weight Waiting = 4"
| "weight Started = 3"
| "weight Ran = 2"
| "weight Counted = 1"
| "weight Released = 0"

lemma weight_inject: "weight a = weight b \<Longrightarrow> a = b"
  by (cases a; cases b) simp_all

text \<open>The phases of a goroutine in the order of its life.\<close>

instantiation phase :: linorder
begin

definition less_eq_phase :: "phase \<Rightarrow> phase \<Rightarrow> bool" where
  "less_eq_phase a b = (weight b \<le> weight a)"

definition less_phase :: "phase \<Rightarrow> phase \<Rightarrow> bool" where
  "less_phase a b = (weight b < weight a)"

instance
  by standard (auto simp: less_eq_phase_def less_phase_def intro: weight_inject)

end

fun scan_left :: "nat \<Rightarrow> status \<Rightarrow> nat" where
  "scan_left n (Scanning i k) = (if k = i then n - i + 1 else 2 * n + 3 - i)"
| "scan_left n StatusDone = 0"

definition left :: "run_state \<Rightarrow> nat" where
  "left s = sum_list (map weight (rs_phases s)) + scan_left (length (rs_runners s)) (rs_status s) + (if rs_returned s then 0 else 1)"

lemma left_phase:
  "i < length (rs_phases s) \<Longrightarrow> weight p < weight (rs_phases s ! i) \<Longrightarrow> rs_phases t = (rs_phases s)[i := p]
     \<Longrightarrow> length (rs_runners t) = length (rs_runners s) \<Longrightarrow> rs_status t = rs_status s \<Longrightarrow> rs_returned t = rs_returned s
     \<Longrightarrow> left t < left s"
  using sum_list_update_less [of i "rs_phases s" weight p] by (simp add: left_def)

text \<open>No goroutine goes back to an earlier phase: each script is run once.\<close>

lemma phases_advance:
  assumes "ExecuteRunners result s t" "shape orig cap s" "i < length orig"
  shows "rs_phases s ! i \<le> rs_phases t ! i"
proof -
  have w: "rs_phases s ! rs_next s = Waiting" if "rs_next s < length orig" using that assms(2) by (simp add: shape_def)
  show ?thesis
    using assms w by (elim executeE) (auto simp: shape_def nth_list_update less_eq_phase_def)
qed

definition able :: "(nat \<Rightarrow> command_result) \<Rightarrow> CmdRunner list \<Rightarrow> nat \<Rightarrow> run_state \<Rightarrow> bool" where
  "able result orig cap s \<longleftrightarrow> run_inv result orig cap s \<and> (\<forall>i < length orig. exits (result i)) \<and> (orig \<noteq> [] \<longrightarrow> 0 < cap)"

lemma advance_held:
  assumes "able result orig cap s" "i < length (rs_phases s)" "held (rs_phases s ! i)"
  shows "\<exists>t. ExecuteRunners result s t \<and> left t < left s"
proof -
  have "0 < count_where held (rs_phases s)" using count_where_pos assms(2,3) .
  then have room: "rs_tokens s < rs_cap s" using assms(1) by (simp add: able_def run_inv_def counts_def shape_def)
  from assms(3) consider "rs_phases s ! i = Started" | "rs_phases s ! i = Ran" | "rs_phases s ! i = Counted"
    by (auto simp: held_def)
  then show ?thesis
  proof cases
    case 1
    from run [OF assms(2) 1] show ?thesis by (intro exI conjI) (assumption, rule left_phase [OF assms(2), of Ran], simp_all add: 1)
  next
    case 2
    from count [OF assms(2) 2] show ?thesis by (intro exI conjI) (assumption, rule left_phase [OF assms(2), of Counted], simp_all add: 2)
  next
    case 3
    from release [OF assms(2) 3 room] show ?thesis
      by (intro exI conjI) (assumption, rule left_phase [OF assms(2), of Released], simp_all add: 3)
  qed
qed

lemma advance_start:
  assumes "able result orig cap s" "\<forall>i < length (rs_phases s). \<not> held (rs_phases s ! i)" "rs_next s < length (rs_phases s)"
  shows "\<exists>t. ExecuteRunners result s t \<and> left t < left s"
proof -
  have "count_where held (rs_phases s) = 0" using assms(2) by (simp add: count_where_zero)
  then have "0 < rs_tokens s" using assms by (auto simp: able_def run_inv_def counts_def shape_def)
  moreover have "rs_phases s ! rs_next s = Waiting" using assms(1,3) by (simp add: able_def run_inv_def shape_def)
  ultimately show ?thesis
    using start [OF assms(3), of result] by (intro exI conjI) (assumption, rule left_phase [OF assms(3), of Started], simp_all)
qed

lemma exits_exited: "exits r \<Longrightarrow> cr_exited (Run_command r c)"
  by (cases r) auto

lemma advance_status:
  assumes "able result orig cap s" "\<forall>i < length (rs_phases s). rs_phases s ! i = Released" "\<not> rs_returned s"
  shows "\<exists>t. ExecuteRunners result s t \<and> left t < left s"
proof -
  have inv: "run_inv result orig cap s" using assms(1) by (simp add: able_def)
  have n: "rs_next s = length (rs_phases s)" using inv assms(2) by (auto simp: run_inv_def shape_def le_less)
  have wg: "rs_wg s = 0" using inv assms(2) by (simp add: run_inv_def counts_def count_where_zero uncounted_def)
  have ex: "j < length (rs_runners s) \<Longrightarrow> cr_exited (rs_runners s ! j)" for j
    using inv assms(1,2) by (auto simp: able_def run_inv_def shape_def commands_run_def exits_exited)
  show ?thesis
  proof (cases "rs_status s")
    case (Scanning i k)
    then have ik: "i \<le> length (rs_runners s)" "k \<le> i" using inv by (simp_all add: run_inv_def)
    show ?thesis
    proof (cases "i < length (rs_runners s)")
      case True
      from look [OF Scanning True, of result] ex [OF True] Scanning True ik show ?thesis
        by (intro exI conjI) (assumption, auto simp: left_def)
    next
      case False
      then have i: "i = length (rs_runners s)" using ik by simp
      show ?thesis
      proof (cases "k = i")
        case True
        from all_done [OF Scanning i, of result] True i Scanning show ?thesis
          by (intro exI conjI) (blast, simp add: left_def)
      next
        case False
        then have "k < length (rs_runners s)" using ik i by simp
        from sleep [OF Scanning i this, of result] Scanning False i ik show ?thesis
          by (intro exI conjI) (assumption, simp add: left_def)
      qed
    qed
  next
    case StatusDone
    from return [OF assms(3) n wg StatusDone, of result] assms(3) show ?thesis
      by (intro exI conjI) (assumption, simp add: left_def)
  qed
qed

lemma advance_run:
  assumes "able result orig cap s" "\<not> rs_returned s"
  shows "\<exists>t. ExecuteRunners result s t \<and> left t < left s"
proof (cases "\<exists>i < length (rs_phases s). held (rs_phases s ! i)")
  case True
  then show ?thesis using advance_held [OF assms(1)] by blast
next
  case none: False
  show ?thesis
  proof (cases "rs_next s < length (rs_phases s)")
    case True
    then show ?thesis using advance_start [OF assms(1) _ True] none by blast
  next
    case False
    have "rs_phases s ! i = Released" if "i < length (rs_phases s)" for i
      using none that False assms(1) by (cases "rs_phases s ! i") (auto simp: held_def able_def run_inv_def shape_def)
    then show ?thesis using advance_status [OF assms(1) _ assms(2)] by blast
  qed
qed

interpretation rr: progressing "ExecuteRunners result" "able result orig cap" rs_returned left for result orig cap
  by unfold_locales (auto simp: able_def intro: run_inv_kept advance_run [unfolded able_def])

interpretation ri: guarded_steps "ExecuteRunners result" "run_inv result orig cap" for result orig cap
  by unfold_locales (rule run_inv_kept)

section \<open>Properties\<close>

lemma count_where_mono: "(\<And>x. P x \<Longrightarrow> Q x) \<Longrightarrow> count_where P xs \<le> count_where Q xs"
  by (induction xs) auto

lemma started_inv:
  assumes "\<forall>r \<in> set orig. \<not> cr_exited r" "(ExecuteRunners result)\<^sup>*\<^sup>* (started_state orig maxConcurrency) s"
  shows "run_inv result orig (effective_limit maxConcurrency orig) s"
  using ri.reached_inv [OF assms(2) run_inv_start [OF assms(1)]] .

lemma NewRunner_not_exited: "\<forall>r \<in> set (cluster_runners SHELL script c). \<not> cr_exited r"
  by (auto simp: cluster_runners_def NewRunner_def)

text \<open>C13: At no time more scripts run than the limit allows (all of them, if it is not positive), and there is
  always room in the channel for a token that comes back, so that no goroutine waits to give it back.\<close>

theorem load_test_limited:
  assumes "(ExecuteRunners result)\<^sup>*\<^sup>* (started_state (cluster_runners SHELL script c) m) s"
  shows "count_where (\<lambda>p. p = Started) (rs_phases s) \<le> (if m \<le> 0 then length (cluster_runners SHELL script c) else nat m)
    \<and> (Counted \<in> set (rs_phases s) \<longrightarrow> rs_tokens s < rs_cap s)"
proof -
  let ?cap = "effective_limit m (cluster_runners SHELL script c)"
  have i: "run_inv result (cluster_runners SHELL script c) ?cap s" using started_inv [OF NewRunner_not_exited assms] .
  have "count_where (\<lambda>p. p = Started) (rs_phases s) \<le> count_where held (rs_phases s)"
    by (rule count_where_mono) (simp add: held_def)
  moreover have "Counted \<in> set (rs_phases s) \<Longrightarrow> 0 < count_where held (rs_phases s)"
    using count_where_pos [of _ "rs_phases s" held] by (auto simp: in_set_conv_nth held_def)
  ultimately show ?thesis using i by (auto simp: run_inv_def counts_def shape_def effective_limit_def)
qed

text \<open>C30: If every script can be started and ends, then from wherever the run has got to, it can still return;
  whenever it has returned, each runner holds the output and the error of its own script.\<close>

theorem load_test_returns:
  assumes "\<forall>i < length (cluster_runners SHELL script c). exits (result i)"
    and "(ExecuteRunners result)\<^sup>*\<^sup>* (started_state (cluster_runners SHELL script c) m) s"
  shows "(\<exists>t. (ExecuteRunners result)\<^sup>*\<^sup>* s t \<and> rs_returned t)
    \<and> (rs_returned s \<longrightarrow> rs_runners s = map2 (\<lambda>i. Run_command (result i)) [0 ..< length (cluster_runners SHELL script c)] (cluster_runners SHELL script c))"
proof
  let ?orig = "cluster_runners SHELL script c"
  let ?cap = "effective_limit m ?orig"
  have i: "run_inv result ?orig ?cap s" using started_inv [OF NewRunner_not_exited assms(2)] .
  then have "able result ?orig ?cap s" using assms(1) by (simp add: able_def effective_limit_pos)
  from rr.goal_from_inv [OF this] show "\<exists>t. (ExecuteRunners result)\<^sup>*\<^sup>* s t \<and> rs_returned t" by blast
  show "rs_returned s \<longrightarrow> rs_runners s = map2 (\<lambda>i. Run_command (result i)) [0 ..< length ?orig] ?orig"
  proof
    assume r: "rs_returned s"
    have "\<not> uncounted (rs_phases s ! j)" if "j < length ?orig" for j
      using i r that by (auto simp: run_inv_def shape_def counts_def count_where_zero)
    then show "rs_runners s = map2 (\<lambda>i. Run_command (result i)) [0 ..< length ?orig] ?orig"
      using i by (intro nth_equalityI) (auto simp: run_inv_def shape_def commands_run_def uncounted_def)
  qed
qed

text \<open>C39: A script that cannot be started has no process state: the goroutine that reports the progress never
  counts it, so that the run does not return even when every goroutine of a script has ended.\<close>

theorem load_test_hangs:
  assumes "i < length (cluster_runners SHELL script c)" "result i = NotStarted e"
    and "(ExecuteRunners result)\<^sup>*\<^sup>* (started_state (cluster_runners SHELL script c) m) s"
  shows "\<not> rs_returned s"
proof
  let ?orig = "cluster_runners SHELL script c"
  assume r: "rs_returned s"
  have inv: "run_inv result ?orig (effective_limit m ?orig) s" using started_inv [OF NewRunner_not_exited assms(3)] .
  then have "cr_exited (rs_runners s ! i)" using r assms(1) by (auto simp: run_inv_def shape_def)
  moreover have "\<not> cr_exited (?orig ! i)" using NewRunner_not_exited assms(1) by (auto dest: nth_mem)
  ultimately show False using inv assms(1,2) by (auto simp: run_inv_def commands_run_def split: if_splits)
qed

text \<open>The runners of a configuration: one per region and number, told the names of their own cluster; the
  two lists do not differ in anything but the script.\<close>

theorem runners_planned:
  "length (cluster_runners SHELL script c) = length (Locations c) * nat (ClustersPerRegion c)
   \<and> map (\<lambda>r. (Location r, Num r)) (cluster_runners SHELL script c)
       = concat (map (\<lambda>l. map (Pair l) [0 ..< nat (ClustersPerRegion c)]) (Locations c))
   \<and> list_all (\<lambda>r. cr_Env r = [''VERSION='' @ Version c, ''RESOURCEGROUP='' @ cluster_of (Location r) (Num r),
        ''CLUSTER='' @ cluster_of (Location r) (Num r), ''LOCATION='' @ Location r]) (cluster_runners SHELL script c)"
  by (auto simp: cluster_runners_def NewRunner_def length_concat comp_def sum_list_triv map_concat list_all_iff
      intro!: arg_cong [where f = concat])

section \<open>The theorems at a concrete load test\<close>

definition demo_conf :: runConf where
  "demo_conf =
     \<lparr>CreateScriptPath = ''/w/create.sh'', DeleteScriptPath = ''/w/delete.sh'', LogDir = ''/w/logs'', Locations = [''uksouth''],
      MaxConcurrency = 1, Version = ''4.15.23'', ClustersPerRegion = 2, DeleteClusters = False, CreateClusters = True\<rparr>"

lemma demo_length [simp]: "length (cluster_runners [] script demo_conf) = 2"
  by (simp add: cluster_runners_def demo_conf_def upt_rec numeral_2_eq_2)

definition demo_result :: "nat \<Rightarrow> command_result" where
  "demo_result i = (if i = 0 then Exited ''ok'' None else NotStarted (ErrMsg ''no such file''))"

definition demo_running :: run_state where
  "demo_running =
     (started_state (cluster_runners [] ''/w/create.sh'' demo_conf) 1)\<lparr>rs_tokens := 0, rs_phases := [Started, Waiting], rs_next := 1\<rparr>"

lemma demo_started:
  "(ExecuteRunners result)\<^sup>*\<^sup>* (started_state (cluster_runners [] ''/w/create.sh'' demo_conf) 1) demo_running"
proof (rule r_into_rtranclp)
  let ?s = "started_state (cluster_runners [] ''/w/create.sh'' demo_conf) 1"
  have "rs_next ?s < length (rs_phases ?s)" "0 < rs_tokens ?s" by (simp_all add: started_state_def effective_limit_def)
  from start [OF this, of result] show "ExecuteRunners result ?s demo_running"
    by (simp add: started_state_def effective_limit_def demo_running_def numeral_2_eq_2)
qed

theorem load_test_limited_witness: "count_where (\<lambda>p. p = Started) (rs_phases demo_running) \<le> 1"
  using load_test_limited [OF demo_started [of demo_result]] by simp

theorem load_test_returns_witness: "\<exists>t. (ExecuteRunners (\<lambda>i. Exited ''ok'' None))\<^sup>*\<^sup>* demo_running t \<and> rs_returned t"
  using load_test_returns [OF _ demo_started] by simp

theorem load_test_hangs_witness: "\<not> rs_returned demo_running"
  using load_test_hangs [OF _ _ demo_started [of demo_result], of 1 "ErrMsg ''no such file''"] by (simp add: demo_result_def)

end
