(* ===== verification/Proxy.thy ===== *)
theory Proxy
  imports Transitions Dialer "HOL-Library.Word"
begin

unbundle bit_operations_syntax

text \<open>
  pkg/proxy/proxy.go and pkg/util/net: the development proxy. Its set-up and the check of a request are
  functions; the forwarding of a connection is a step relation, because two goroutines copy at once. A
  stream is the bytes that its sender will still send before it ends.
\<close>

section \<open>Networks of net.IPNet\<close>

text \<open>Addresses and masks as the byte slices of package net; parsing a text is a parameter.\<close>

type_synonym ip = "8 word list"

record ip_net =
  net_IP :: ip
  net_Mask :: ip

definition v4_prefix :: ip where "v4_prefix = replicate 10 0 @ [0xff, 0xff]"

definition To4 :: "ip \<Rightarrow> ip option" where
  "To4 i =
     (if length i = 4 then Some i
      else if length i = 16 \<and> take 12 i = v4_prefix then Some (drop 12 i)
      else None)"

definition networkNumberAndMask :: "ip_net \<Rightarrow> ip \<times> ip" where
  "networkNumberAndMask n =
     (let i = (case To4 (net_IP n) of Some x \<Rightarrow> x | None \<Rightarrow> net_IP n); m = net_Mask n in
      if length i \<noteq> 4 \<and> length i \<noteq> 16 then ([], [])
      else if length m = 4 then (if length i = 4 then (i, m) else ([], []))
      else if length m = 16 then (i, if length i = 4 then drop 12 m else m)
      else ([], []))"

definition Contains :: "ip_net \<Rightarrow> ip \<Rightarrow> bool" where
  "Contains n i =
     (let (nn, m) = networkNumberAndMask n; x = (case To4 i of Some x \<Rightarrow> x | None \<Rightarrow> i) in
      length x = length nn \<and> list_all (\<lambda>((a, b), k). (a AND k) = (b AND k)) (zip (zip nn x) m))"

section \<open>The server\<close>

record server =
  sv_CertFile :: string
  sv_KeyFile :: string
  sv_ClientCertFile :: string
  sv_Subnet :: string
  sv_subnet :: "ip_net option"

record tls_config =
  tc_Certificate :: string
  tc_PrivateKey :: rsa_key
  tc_ClientCAs :: "x509_cert list"
  tc_ClientAuth :: string
  tc_CipherSuites :: "string list"
  tc_SessionTicketsDisabled :: bool
  tc_MinVersion :: string
  tc_CurvePreferences :: "string list"

record server_libs =
  sl_ParseCIDR :: "string \<Rightarrow> ip_net result"
  sl_ParseIP :: "string \<Rightarrow> ip"
  sl_ReadFile :: "string \<Rightarrow> string result"
  sl_x509 :: x509_lib
  sl_Serve :: "tls_config \<Rightarrow> server \<Rightarrow> unit result"

text \<open>\<open>ParseIP\<close> returns the empty slice for a text that is no address. \<open>Serve\<close> is the listener with the
  HTTP server, which calls the handler with every request.\<close>

definition server_tls :: "string \<Rightarrow> rsa_key \<Rightarrow> x509_cert \<Rightarrow> tls_config" where
  "server_tls cert key clientCert =
     \<lparr>tc_Certificate = cert, tc_PrivateKey = key, tc_ClientCAs = [clientCert], tc_ClientAuth = ''RequireAndVerifyClientCert'',
      tc_CipherSuites = [''TLS_ECDHE_RSA_WITH_CHACHA20_POLY1305'', ''TLS_ECDHE_ECDSA_WITH_CHACHA20_POLY1305'',
        ''TLS_ECDHE_RSA_WITH_AES_128_GCM_SHA256'', ''TLS_ECDHE_ECDSA_WITH_AES_128_GCM_SHA256'',
        ''TLS_ECDHE_RSA_WITH_AES_256_GCM_SHA384'', ''TLS_ECDHE_ECDSA_WITH_AES_256_GCM_SHA384''],
      tc_SessionTicketsDisabled = True, tc_MinVersion = ''VersionTLS12'', tc_CurvePreferences = [''CurveP256'', ''X25519'']\<rparr>"

definition Server_Run :: "server_libs \<Rightarrow> server \<Rightarrow> unit result" where
  "Server_Run l s =
     andThen (sl_ParseCIDR l (sv_Subnet s)) (\<lambda>subnet.
     andThen (sl_ReadFile l (sv_ClientCertFile s)) (\<lambda>b.
     andThen (x_ParseCertificate (sl_x509 l) b) (\<lambda>clientCert.
     andThen (sl_ReadFile l (sv_CertFile s)) (\<lambda>cert.
     andThen (sl_ReadFile l (sv_KeyFile s)) (\<lambda>b.
     andThen (x_ParsePKCS1PrivateKey (sl_x509 l) b) (\<lambda>key.
       sl_Serve l (server_tls cert key clientCert) (s\<lparr>sv_subnet := Some subnet\<rparr>)))))))"

record request =
  rq_Method :: string
  rq_Host :: string

text \<open>What a handler writes: the status and the body of a reply, in order.\<close>

type_synonym replies = "(nat \<times> string) list"

definition validateProxyRequest :: "server_libs \<Rightarrow> server \<Rightarrow> request \<Rightarrow> replies \<times> unit result" where
  "validateProxyRequest l s r =
     (case SplitHostPort (rq_Host r) of
        Err e \<Rightarrow> ([(400, err_text e)], Err e)
      | Panic \<Rightarrow> ([], Panic)
      | Ok (ip, _) \<Rightarrow>
          if rq_Method r \<noteq> ''CONNECT'' then
            ([(405, ''Method Not Allowed'')], Err (ErrMsg ''request is not valid, method is not CONNECT''))
          else
            (case sv_subnet s of
               None \<Rightarrow> ([], Panic)
             | Some n \<Rightarrow>
                 if \<not> Contains n (sl_ParseIP l ip) then
                   ([(403, ''Forbidden'')],
                    Err (ErrMsg ''request is not allowed, the originating IP is not part of the allowed subnet''))
                 else ([], Ok ())))"

section \<open>pkg/util/net\<close>

text \<open>A raw connection runs the closure on its descriptor or refuses to; in the closure one option is set.\<close>

datatype control_result = In_closure "go_error option" | Refused go_error

definition setBuffers :: "(string \<Rightarrow> int \<Rightarrow> control_result) \<Rightarrow> int \<Rightarrow> unit result" where
  "setBuffers setsockopt sz =
     (let one = (\<lambda>opt. case setsockopt opt sz of In_closure e \<Rightarrow> failWith e | Refused e \<Rightarrow> Err e) in
      andThen (one ''SO_RCVBUF'') (\<lambda>_. one ''SO_SNDBUF''))"

definition dial_control :: "(string \<Rightarrow> int \<Rightarrow> control_result) \<Rightarrow> int \<Rightarrow> unit result" where
  "dial_control setsockopt sz = (if sz \<le> 0 then Ok () else setBuffers setsockopt sz)"

section \<open>Forwarding a connection\<close>

text \<open>The goroutine that copies from the client (\<open>c1\<close>) to the server (\<open>c2\<close>) and its deferred calls.\<close>

datatype upward = NotSpawned | UpCopying | UpCopied | UpHalfClosed | UpDone

text \<open>The handler itself: it dials, hijacks, copies from \<open>c2\<close> to \<open>c1\<close>, and its deferred calls run in
  reverse order: half-close, wait, close \<open>c1\<close>, close \<open>c2\<close>.\<close>

datatype handler = Dialling | Dialled | DownCopying | DownHalfClosed | Joined | C1Closed | Returned

record forward_state =
  fw_handler :: handler
  fw_up :: upward
  fw_replies :: replies
  fw_c1_open :: bool
  fw_c2_open :: bool
  fw_client_sends :: string
  fw_server_got :: string
  fw_up_cut :: bool
  fw_server_sends :: string
  fw_client_got :: string
  fw_down_cut :: bool

record proxy_env =
  px_dial :: "unit result"
  px_hijacker :: bool
  px_hijack :: "unit result"

text \<open>A copy moves a chunk that it has read and written (\<open>move\<close>), or ends: at the end of the stream, or
  because a read or a write failed, in which case only a part of the last chunk arrived (\<open>cut\<close>).\<close>

inductive forward :: "proxy_env \<Rightarrow> forward_state \<Rightarrow> forward_state \<Rightarrow> bool" for e where
  dial_fails: "fw_handler s = Dialling \<Longrightarrow> px_dial e = Err x \<Longrightarrow>
    forward e s (s\<lparr>fw_replies := fw_replies s @ [(400, err_text x)], fw_handler := Returned\<rparr>)"
| dials: "fw_handler s = Dialling \<Longrightarrow> px_dial e = Ok () \<Longrightarrow> forward e s (s\<lparr>fw_c2_open := True, fw_handler := Dialled\<rparr>)"
| no_hijacker: "fw_handler s = Dialled \<Longrightarrow> \<not> px_hijacker e \<Longrightarrow>
    forward e s (s\<lparr>fw_replies := fw_replies s @ [(500, ''hijacking not supported'')], fw_handler := C1Closed\<rparr>)"
| hijack_fails: "fw_handler s = Dialled \<Longrightarrow> px_hijacker e \<Longrightarrow> px_hijack e = Err x \<Longrightarrow>
    forward e s (s\<lparr>fw_replies := fw_replies s @ [(200, []), (500, err_text x)], fw_handler := C1Closed\<rparr>)"
| hijacks: "fw_handler s = Dialled \<Longrightarrow> px_hijacker e \<Longrightarrow> px_hijack e = Ok () \<Longrightarrow>
    forward e s (s\<lparr>fw_replies := fw_replies s @ [(200, [])], fw_c1_open := True, fw_up := UpCopying, fw_handler := DownCopying\<rparr>)"
| up_move: "fw_up s = UpCopying \<Longrightarrow> fw_client_sends s = ch @ rest \<Longrightarrow> ch \<noteq> [] \<Longrightarrow>
    forward e s (s\<lparr>fw_client_sends := rest, fw_server_got := fw_server_got s @ ch\<rparr>)"
| up_end: "fw_up s = UpCopying \<Longrightarrow> fw_client_sends s = [] \<Longrightarrow> forward e s (s\<lparr>fw_up := UpCopied\<rparr>)"
| up_cut: "fw_up s = UpCopying \<Longrightarrow> fw_client_sends s = p @ lost @ rest \<Longrightarrow>
    forward e s (s\<lparr>fw_client_sends := rest, fw_server_got := fw_server_got s @ p, fw_up_cut := True, fw_up := UpCopied\<rparr>)"
| up_half_close: "fw_up s = UpCopied \<Longrightarrow> forward e s (s\<lparr>fw_up := UpHalfClosed\<rparr>)"
| up_counted: "fw_up s = UpHalfClosed \<Longrightarrow> forward e s (s\<lparr>fw_up := UpDone\<rparr>)"
| down_move: "fw_handler s = DownCopying \<Longrightarrow> fw_server_sends s = ch @ rest \<Longrightarrow> ch \<noteq> [] \<Longrightarrow>
    forward e s (s\<lparr>fw_server_sends := rest, fw_client_got := fw_client_got s @ ch\<rparr>)"
| down_end: "fw_handler s = DownCopying \<Longrightarrow> fw_server_sends s = [] \<Longrightarrow> forward e s (s\<lparr>fw_handler := DownHalfClosed\<rparr>)"
| down_cut: "fw_handler s = DownCopying \<Longrightarrow> fw_server_sends s = p @ lost @ rest \<Longrightarrow>
    forward e s (s\<lparr>fw_server_sends := rest, fw_client_got := fw_client_got s @ p, fw_down_cut := True, fw_handler := DownHalfClosed\<rparr>)"
| join: "fw_handler s = DownHalfClosed \<Longrightarrow> fw_up s = UpDone \<Longrightarrow> forward e s (s\<lparr>fw_handler := Joined\<rparr>)"
| close_c1: "fw_handler s = Joined \<Longrightarrow> forward e s (s\<lparr>fw_c1_open := False, fw_handler := C1Closed\<rparr>)"
| close_c2: "fw_handler s = C1Closed \<Longrightarrow> forward e s (s\<lparr>fw_c2_open := False, fw_handler := Returned\<rparr>)"

definition Proxy_start :: "string \<Rightarrow> string \<Rightarrow> replies \<Rightarrow> forward_state" where
  "Proxy_start client server_text replies =
     \<lparr>fw_handler = Dialling, fw_up = NotSpawned, fw_replies = replies, fw_c1_open = False, fw_c2_open = False,
      fw_client_sends = client, fw_server_got = [], fw_up_cut = False, fw_server_sends = server_text, fw_client_got = [],
      fw_down_cut = False\<rparr>"

text \<open>A request that is not valid is answered and not forwarded.\<close>

definition proxyHandler :: "server_libs \<Rightarrow> server \<Rightarrow> request \<Rightarrow> string \<Rightarrow> string \<Rightarrow> forward_state result" where
  "proxyHandler l s r client server_text =
     (case validateProxyRequest l s r of
        (rs, Ok u) \<Rightarrow> Ok (Proxy_start client server_text rs)
      | (rs, Err e) \<Rightarrow> Ok ((Proxy_start client server_text rs)\<lparr>fw_handler := Returned\<rparr>)
      | (rs, Panic) \<Rightarrow> Panic)"

section \<open>The invariant of a forwarded connection\<close>

definition stream_ok :: "string \<Rightarrow> string \<Rightarrow> string \<Rightarrow> bool \<Rightarrow> bool" where
  "stream_ok sent got left broken \<longleftrightarrow> (\<exists>lost. sent = got @ lost @ left \<and> (\<not> broken \<longrightarrow> lost = []))"

lemma stream_ok_moved: "stream_ok sent got (ch @ rest) broken \<Longrightarrow> \<not> broken \<Longrightarrow> stream_ok sent (got @ ch) rest broken"
  by (auto simp: stream_ok_def)

lemma stream_ok_cut: "stream_ok sent got (p @ lost @ rest) broken \<Longrightarrow> \<not> broken \<Longrightarrow> stream_ok sent (got @ p) rest True"
  by (auto simp: stream_ok_def)

lemma stream_ok_prefix: "stream_ok sent got left broken \<Longrightarrow> prefix got sent"
  by (auto simp: stream_ok_def)

lemma stream_ok_all: "stream_ok sent got [] False \<Longrightarrow> got = sent"
  by (simp add: stream_ok_def)

definition connections_ok :: "forward_state \<Rightarrow> bool" where
  "connections_ok s \<longleftrightarrow>
     (fw_c1_open s \<longleftrightarrow> fw_handler s \<in> {DownCopying, DownHalfClosed, Joined})
   \<and> (fw_c2_open s \<longleftrightarrow> fw_handler s \<in> {Dialled, DownCopying, DownHalfClosed, Joined, C1Closed})
   \<and> (fw_up s \<in> {UpCopying, UpCopied, UpHalfClosed} \<longrightarrow> fw_handler s \<in> {DownCopying, DownHalfClosed})
   \<and> (fw_handler s \<in> {Dialling, Dialled} \<longrightarrow> fw_up s = NotSpawned)
   \<and> (fw_handler s \<in> {DownCopying, DownHalfClosed, Joined} \<longrightarrow> fw_up s \<noteq> NotSpawned)"

definition streams_ok :: "string \<Rightarrow> string \<Rightarrow> forward_state \<Rightarrow> bool" where
  "streams_ok client server_text s \<longleftrightarrow>
     stream_ok client (fw_server_got s) (fw_client_sends s) (fw_up_cut s)
   \<and> stream_ok server_text (fw_client_got s) (fw_server_sends s) (fw_down_cut s)
   \<and> (fw_up s \<in> {NotSpawned, UpCopying} \<longrightarrow> \<not> fw_up_cut s)
   \<and> (fw_handler s \<in> {Dialling, Dialled, DownCopying} \<longrightarrow> \<not> fw_down_cut s)
   \<and> (fw_up s \<in> {UpCopied, UpHalfClosed, UpDone} \<and> \<not> fw_up_cut s \<longrightarrow> fw_client_sends s = [])
   \<and> (fw_up s \<noteq> NotSpawned \<and> fw_handler s \<noteq> DownCopying \<and> \<not> fw_down_cut s \<longrightarrow> fw_server_sends s = [])"

definition forward_inv :: "proxy_env \<Rightarrow> string \<Rightarrow> string \<Rightarrow> forward_state \<Rightarrow> bool" where
  "forward_inv e client server_text s \<longleftrightarrow>
     connections_ok s \<and> streams_ok client server_text s \<and> px_dial e \<noteq> Panic \<and> px_hijack e \<noteq> Panic"

inductive_cases forwardE: "forward e s t"

lemma connections_kept: "connections_ok s \<Longrightarrow> forward e s t \<Longrightarrow> connections_ok t"
  by (erule forwardE) (auto simp: connections_ok_def split: if_splits)

lemma streams_kept:
  assumes "connections_ok s" "streams_ok client server_text s" "forward e s t"
  shows "streams_ok client server_text t"
  using assms(3)
proof cases
  case (up_move ch rest)
  then show ?thesis using assms(2) stream_ok_moved [of client "fw_server_got s" ch rest False] by (auto simp: streams_ok_def)
next
  case (up_cut p lost rest)
  then show ?thesis using assms(2) stream_ok_cut [of client "fw_server_got s" p lost rest False] by (auto simp: streams_ok_def)
next
  case (down_move ch rest)
  then show ?thesis using assms(2) stream_ok_moved [of server_text "fw_client_got s" ch rest False] by (auto simp: streams_ok_def)
next
  case (down_cut p lost rest)
  then show ?thesis using assms(2) stream_ok_cut [of server_text "fw_client_got s" p lost rest False] by (auto simp: streams_ok_def)
qed (use assms(1,2) in \<open>auto simp: streams_ok_def connections_ok_def\<close>)

lemma forward_inv_start:
  "px_dial e \<noteq> Panic \<Longrightarrow> px_hijack e \<noteq> Panic \<Longrightarrow> forward_inv e client server_text (Proxy_start client server_text [])"
  by (simp add: forward_inv_def connections_ok_def streams_ok_def stream_ok_def Proxy_start_def)

section \<open>Progress\<close>

fun handler_left :: "handler \<Rightarrow> nat" where
  "handler_left Dialling = 10"
| "handler_left Dialled = 9"
| "handler_left DownCopying = 4"
| "handler_left DownHalfClosed = 3"
| "handler_left Joined = 2"
| "handler_left C1Closed = 1"
| "handler_left Returned = 0"

lemma handler_left_inject: "handler_left a = handler_left b \<Longrightarrow> a = b"
  by (cases a; cases b) simp_all

text \<open>The handler's phases in the order in which it goes through them.\<close>

instantiation handler :: linorder
begin

definition less_eq_handler :: "handler \<Rightarrow> handler \<Rightarrow> bool" where
  "less_eq_handler a b = (handler_left b \<le> handler_left a)"

definition less_handler :: "handler \<Rightarrow> handler \<Rightarrow> bool" where
  "less_handler a b = (handler_left b < handler_left a)"

instance
  by standard (auto simp: less_eq_handler_def less_handler_def intro: handler_left_inject)

end

fun up_left :: "upward \<Rightarrow> nat" where
  "up_left UpCopying = 3"
| "up_left UpCopied = 2"
| "up_left UpHalfClosed = 1"
| "up_left _ = 0"

definition forward_left :: "forward_state \<Rightarrow> nat" where
  "forward_left s = handler_left (fw_handler s) + up_left (fw_up s) + length (fw_client_sends s) + length (fw_server_sends s)"

lemma handler_advances: "forward e s t \<Longrightarrow> fw_handler s \<le> fw_handler t"
  by (elim forwardE) (auto simp: less_eq_handler_def)

text \<open>The handler never goes back to an earlier phase; in particular it returns once.\<close>

lemma handler_monotone: "(forward e)\<^sup>*\<^sup>* s t \<Longrightarrow> fw_handler s \<le> fw_handler t"
  by (induction rule: rtranclp_induct) (auto dest: handler_advances)

lemma returned_stays: "(forward e)\<^sup>*\<^sup>* s t \<Longrightarrow> fw_handler s = Returned \<Longrightarrow> fw_handler t = Returned"
  using handler_monotone [of e s t] by (auto simp: less_eq_handler_def intro: handler_left_inject)

lemma up_advances:
  assumes "fw_up s \<in> {UpCopying, UpCopied, UpHalfClosed}"
  shows "\<exists>t. forward e s t \<and> forward_left t < forward_left s"
proof -
  consider (move) "fw_up s = UpCopying" "fw_client_sends s \<noteq> []" | (drained) "fw_up s = UpCopying" "fw_client_sends s = []"
    | (half) "fw_up s = UpCopied" | (counted) "fw_up s = UpHalfClosed"
    using assms by blast
  then show ?thesis
  proof cases
    case move
    from up_move [OF move(1), of "fw_client_sends s" "[]" e] move show ?thesis
      by (intro exI conjI) (force, simp add: forward_left_def)
  next
    case drained
    from up_end [OF drained, of e] drained show ?thesis by (intro exI conjI) (assumption, simp add: forward_left_def)
  next
    case half
    from up_half_close [OF half, of e] half show ?thesis by (intro exI conjI) (assumption, simp add: forward_left_def)
  next
    case counted
    from up_counted [OF counted, of e] counted show ?thesis by (intro exI conjI) (assumption, simp add: forward_left_def)
  qed
qed

lemma down_advances:
  assumes "fw_handler s = DownCopying"
  shows "\<exists>t. forward e s t \<and> forward_left t < forward_left s"
proof (cases "fw_server_sends s = []")
  case True
  from down_end [OF assms True, of e] assms show ?thesis by (intro exI conjI) (assumption, simp add: forward_left_def)
next
  case False
  from down_move [OF assms, of "fw_server_sends s" "[]" e] False show ?thesis
    by (intro exI conjI) (force, simp add: forward_left_def)
qed

lemma forward_advances:
  assumes "forward_inv e client server_text s" "fw_handler s \<noteq> Returned"
  shows "\<exists>t. forward e s t \<and> forward_left t < forward_left s"
proof (cases "fw_handler s")
  case Dialling
  have up: "fw_up s = NotSpawned" using assms(1) Dialling by (simp add: forward_inv_def connections_ok_def)
  show ?thesis
  proof (cases "px_dial e")
    case (Ok u)
    from dials [OF Dialling, of e] Ok Dialling show ?thesis by (intro exI conjI) (force, simp add: forward_left_def)
  next
    case (Err x)
    from dial_fails [OF Dialling Err] Dialling show ?thesis by (intro exI conjI) (assumption, simp add: forward_left_def)
  qed (use assms(1) in \<open>simp add: forward_inv_def\<close>)
next
  case Dialled
  have up: "fw_up s = NotSpawned" using assms(1) Dialled by (simp add: forward_inv_def connections_ok_def)
  show ?thesis
  proof (cases "px_hijacker e")
    case True
    show ?thesis
    proof (cases "px_hijack e")
      case (Ok u)
      from hijacks [OF Dialled True] Ok Dialled up show ?thesis by (intro exI conjI) (force, simp add: forward_left_def)
    next
      case (Err x)
      from hijack_fails [OF Dialled True Err] Dialled show ?thesis by (intro exI conjI) (assumption, simp add: forward_left_def)
    qed (use assms(1) in \<open>simp add: forward_inv_def\<close>)
  next
    case False
    from no_hijacker [OF Dialled False] Dialled show ?thesis by (intro exI conjI) (assumption, simp add: forward_left_def)
  qed
next
  case DownCopying
  then show ?thesis by (rule down_advances)
next
  case DownHalfClosed
  show ?thesis
  proof (cases "fw_up s = UpDone")
    case True
    from join [OF DownHalfClosed True, of e] DownHalfClosed show ?thesis by (intro exI conjI) (assumption, simp add: forward_left_def)
  next
    case False
    have "fw_up s \<noteq> NotSpawned" using assms(1) DownHalfClosed by (simp add: forward_inv_def connections_ok_def)
    then have "fw_up s \<in> {UpCopying, UpCopied, UpHalfClosed}" using False by (cases "fw_up s") simp_all
    then show ?thesis by (rule up_advances)
  qed
next
  case Joined
  from close_c1 [OF Joined, of e] Joined show ?thesis by (intro exI conjI) (assumption, simp add: forward_left_def)
next
  case C1Closed
  from close_c2 [OF C1Closed, of e] C1Closed show ?thesis by (intro exI conjI) (assumption, simp add: forward_left_def)
qed (use assms(2) in simp)

interpretation fw: progressing "forward e" "forward_inv e client server_text" "\<lambda>s. fw_handler s = Returned" forward_left
  for e client server_text
proof unfold_locales
  show "forward_inv e client server_text t" if "forward_inv e client server_text s" "forward e s t" for s t
    using that connections_kept [of s e t] streams_kept [of s client server_text e t] by (simp add: forward_inv_def)
qed (rule forward_advances)

section \<open>Properties\<close>

lemma started_forward:
  assumes "px_dial e \<noteq> Panic" "px_hijack e \<noteq> Panic" "(forward e)\<^sup>*\<^sup>* (Proxy_start client server_text []) s"
  shows "forward_inv e client server_text s"
  using fw.reached_inv [OF assms(3) forward_inv_start [OF assms(1,2)]] .

text \<open>C12: However the two copies interleave: what the server got is a beginning of what the client sends, and the
  other way round; a connection is open as long as something is still copied over it; and at the return
  both are closed, and if the tunnel was set up and no copy broke off, both got everything.\<close>

theorem proxy_forwards:
  assumes "px_dial e \<noteq> Panic" "px_hijack e \<noteq> Panic" "(forward e)\<^sup>*\<^sup>* (Proxy_start client server_text []) s"
  shows "prefix (fw_server_got s) client \<and> prefix (fw_client_got s) server_text
    \<and> (fw_up s \<in> {UpCopying, UpCopied} \<or> fw_handler s = DownCopying \<longrightarrow> fw_c1_open s \<and> fw_c2_open s)
    \<and> (fw_handler s = Returned \<longrightarrow> \<not> fw_c1_open s \<and> \<not> fw_c2_open s)
    \<and> (fw_handler s = Returned \<and> fw_up s \<noteq> NotSpawned \<and> \<not> fw_up_cut s \<and> \<not> fw_down_cut s
        \<longrightarrow> fw_server_got s = client \<and> fw_client_got s = server_text)"
proof -
  have i: "connections_ok s" "streams_ok client server_text s" using started_forward [OF assms] by (simp_all add: forward_inv_def)
  have "fw_server_got s = client \<and> fw_client_got s = server_text"
    if r: "fw_handler s = Returned" "fw_up s \<noteq> NotSpawned" and b: "\<not> fw_up_cut s" "\<not> fw_down_cut s"
  proof -
    have "fw_up s \<in> {UpCopied, UpHalfClosed, UpDone}" using r i(1) by (cases "fw_up s") (simp_all add: connections_ok_def)
    then have "stream_ok client (fw_server_got s) [] False" "stream_ok server_text (fw_client_got s) [] False"
      using i(2) r b by (auto simp: streams_ok_def)
    then show ?thesis by (simp add: stream_ok_all)
  qed
  moreover have "prefix (fw_server_got s) client" "prefix (fw_client_got s) server_text"
    using i(2) stream_ok_prefix by (auto simp: streams_ok_def)
  moreover have "fw_up s \<in> {UpCopying, UpCopied} \<or> fw_handler s = DownCopying \<longrightarrow> fw_c1_open s \<and> fw_c2_open s"
    "fw_handler s = Returned \<longrightarrow> \<not> fw_c1_open s \<and> \<not> fw_c2_open s"
    using i(1) by (auto simp: connections_ok_def)
  ultimately show ?thesis by blast
qed

text \<open>C23: From wherever it has got to, the handler can still return: the goroutine, the wait and the deferred
  calls cannot block each other.\<close>

theorem proxy_returns:
  assumes "px_dial e \<noteq> Panic" "px_hijack e \<noteq> Panic" "(forward e)\<^sup>*\<^sup>* (Proxy_start client server_text []) s"
  shows "\<exists>t. (forward e)\<^sup>*\<^sup>* s t \<and> fw_handler t = Returned"
  using fw.goal_from_inv [OF started_forward [OF assms]] by blast

text \<open>Membership in an IPv4 network: an address that has a four-byte form which the mask cannot tell from the
  network's address; no other address, in particular not the empty one of a text that is none.\<close>

lemma Contains_v4:
  assumes "length (net_IP n) = 4" "length (net_Mask n) = 4"
  shows "Contains n i \<longleftrightarrow> (\<exists>x. To4 i = Some x \<and> (\<forall>k < 4. (x ! k AND net_Mask n ! k) = (net_IP n ! k AND net_Mask n ! k)))"
proof -
  have nm: "networkNumberAndMask n = (net_IP n, net_Mask n)" using assms by (simp add: networkNumberAndMask_def To4_def)
  have len: "To4 i = Some x \<Longrightarrow> length x = 4" for x by (auto simp: To4_def split: if_splits)
  have no: "To4 i = None \<Longrightarrow> length i \<noteq> 4" by (auto simp: To4_def split: if_splits)
  show ?thesis
  proof (cases "To4 i")
    case None
    then show ?thesis using no assms by (simp add: Contains_def nm)
  next
    case (Some x)
    have "Contains n i \<longleftrightarrow> (\<forall>k < 4. (net_IP n ! k AND net_Mask n ! k) = (x ! k AND net_Mask n ! k))"
      using Some len [OF Some] assms by (simp add: Contains_def nm list_all_length)
    also have "\<dots> \<longleftrightarrow> (\<forall>k < 4. (x ! k AND net_Mask n ! k) = (net_IP n ! k AND net_Mask n ! k))"
      by (intro all_cong1 imp_cong refl eq_commute)
    finally show ?thesis using Some by simp
  qed
qed

text \<open>A request passes exactly if its method is CONNECT and the host it wants to reach, not the one that it
  comes from, is an address of the server's subnet; any other request gets one reply, 400, 405 or 403,
  and is not dialled.\<close>

theorem requests_validated:
  assumes "sv_subnet s = Some n" "length (net_IP n) = 4" "length (net_Mask n) = 4"
  shows "(validateProxyRequest l s r = ([], Ok ()) \<longleftrightarrow>
       rq_Method r = ''CONNECT'' \<and> (\<exists>h p x. SplitHostPort (rq_Host r) = Ok (h, p) \<and> To4 (sl_ParseIP l h) = Some x
         \<and> (\<forall>k < 4. (x ! k AND net_Mask n ! k) = (net_IP n ! k AND net_Mask n ! k))))
    \<and> (SplitHostPort (rq_Host r) \<noteq> Panic \<and> validateProxyRequest l s r \<noteq> ([], Ok ()) \<longrightarrow>
        (\<exists>c t st. proxyHandler l s r client server_text = Ok st \<and> c \<in> {400, 405, 403} \<and> fw_replies st = [(c, t)]
          \<and> fw_handler st = Returned \<and> \<not> fw_c2_open st))"
  by (auto simp: validateProxyRequest_def proxyHandler_def Proxy_start_def assms(1) Contains_v4 [OF assms(2,3)]
      split: outcome.splits prod.splits)

section \<open>The theorems at a concrete server\<close>

definition demo_server_libs :: server_libs where
  "demo_server_libs =
     \<lparr>sl_ParseCIDR = (\<lambda>t. Ok \<lparr>net_IP = [10, 0, 0, 0], net_Mask = [255, 0, 0, 0]\<rparr>),
      sl_ParseIP = (\<lambda>t. if t = ''10.1.2.3'' then v4_prefix @ [10, 1, 2, 3] else []),
      sl_ReadFile = (\<lambda>f. Ok f), sl_x509 = demo_x509, sl_Serve = (\<lambda>t s. Ok ())\<rparr>"

definition demo_server :: server where
  "demo_server =
     \<lparr>sv_CertFile = ''crt'', sv_KeyFile = ''key'', sv_ClientCertFile = ''ca'', sv_Subnet = ''10.0.0.0/8'',
      sv_subnet = Some \<lparr>net_IP = [10, 0, 0, 0], net_Mask = [255, 0, 0, 0]\<rparr>\<rparr>"

theorem requests_validated_witness:
  "validateProxyRequest demo_server_libs demo_server \<lparr>rq_Method = ''CONNECT'', rq_Host = ''10.1.2.3:443''\<rparr> = ([], Ok ())
   \<and> (\<exists>st. proxyHandler demo_server_libs demo_server \<lparr>rq_Method = ''CONNECT'', rq_Host = ''example.com:443''\<rparr> [] [] = Ok st
        \<and> fw_handler st = Returned)"
proof -
  have n: "sv_subnet demo_server = Some \<lparr>net_IP = [10, 0, 0, 0], net_Mask = [255, 0, 0, 0]\<rparr>" by (simp add: demo_server_def)
  have h: "SplitHostPort ''10.1.2.3:443'' = Ok (''10.1.2.3'', ''443'')" "SplitHostPort ''example.com:443'' = Ok (''example.com'', ''443'')"
    by code_simp+
  have v4: "To4 (sl_ParseIP demo_server_libs ''10.1.2.3'') = Some [10, 1, 2, 3]" "To4 (sl_ParseIP demo_server_libs ''example.com'') = None"
    by (simp_all add: demo_server_libs_def To4_def v4_prefix_def)
  have four: "(k::nat) < 4 \<longleftrightarrow> k \<in> {0, 1, 2, 3}" for k by auto
  have "validateProxyRequest demo_server_libs demo_server \<lparr>rq_Method = ''CONNECT'', rq_Host = ''10.1.2.3:443''\<rparr> = ([], Ok ())"
    using requests_validated [OF n, of demo_server_libs "\<lparr>rq_Method = ''CONNECT'', rq_Host = ''10.1.2.3:443''\<rparr>"] h v4
    by (simp add: four)
  moreover have "\<exists>st. proxyHandler demo_server_libs demo_server \<lparr>rq_Method = ''CONNECT'', rq_Host = ''example.com:443''\<rparr> [] [] = Ok st
        \<and> fw_handler st = Returned"
    using requests_validated [OF n, of demo_server_libs "\<lparr>rq_Method = ''CONNECT'', rq_Host = ''example.com:443''\<rparr>" "[]" "[]"] h v4
    by auto
  ultimately show ?thesis ..
qed

definition demo_proxy_env :: proxy_env where
  "demo_proxy_env = \<lparr>px_dial = Ok (), px_hijacker = True, px_hijack = Ok ()\<rparr>"

definition demo_tunnel :: forward_state where
  "demo_tunnel =
     \<lparr>fw_handler = DownCopying, fw_up = UpCopying, fw_replies = [(200, [])], fw_c1_open = True, fw_c2_open = True,
      fw_client_sends = ''lo'', fw_server_got = ''hel'', fw_up_cut = False, fw_server_sends = ''hi'', fw_client_got = [],
      fw_down_cut = False\<rparr>"

lemma demo_tunnelled: "(forward demo_proxy_env)\<^sup>*\<^sup>* (Proxy_start ''hello'' ''hi'' []) demo_tunnel"
proof -
  let ?s0 = "Proxy_start ''hello'' ''hi'' []"
  let ?s1 = "?s0\<lparr>fw_c2_open := True, fw_handler := Dialled\<rparr>"
  let ?s2 = "?s1\<lparr>fw_replies := [(200, [])], fw_c1_open := True, fw_up := UpCopying, fw_handler := DownCopying\<rparr>"
  have "forward demo_proxy_env ?s0 ?s1" by (rule dials) (simp_all add: Proxy_start_def demo_proxy_env_def)
  moreover have "forward demo_proxy_env ?s1 ?s2"
    using hijacks [of ?s1 demo_proxy_env] by (simp add: Proxy_start_def demo_proxy_env_def)
  moreover have "forward demo_proxy_env ?s2 demo_tunnel"
    using up_move [of ?s2 "''hel''" "''lo''" demo_proxy_env] by (simp add: Proxy_start_def demo_tunnel_def)
  ultimately show ?thesis by (meson rtranclp.rtrancl_into_rtrancl rtranclp.rtrancl_refl)
qed

theorem proxy_forwards_witness: "prefix (fw_server_got demo_tunnel) ''hello'' \<and> fw_c1_open demo_tunnel \<and> fw_c2_open demo_tunnel"
  using proxy_forwards [OF _ _ demo_tunnelled] by (simp add: demo_proxy_env_def demo_tunnel_def)

theorem proxy_returns_witness: "\<exists>t. (forward demo_proxy_env)\<^sup>*\<^sup>* demo_tunnel t \<and> fw_handler t = Returned"
  by (rule proxy_returns [OF _ _ demo_tunnelled]) (simp_all add: demo_proxy_env_def)

end
