(* ===== verification/Licenses.thy ===== *)
theory Licenses
  imports Go_Path Go_Errors
begin

text \<open>
  hack/licenses/main.go: the tool that adds the licence header to Go files and checks that it is there.
\<close>

section \<open>The licence in a file\<close>

definition goLicense :: string where
  "goLicense = ''// Copyright (c) Microsoft Corporation.'' @ [nl] @ ''// Licensed under the Apache License 2.0.''"

fun first_index :: "string \<Rightarrow> string \<Rightarrow> nat option" where
  "first_index [] sub = (if sub = [] then Some 0 else None)"
| "first_index (c # s) sub = (if prefix sub (c # s) then Some 0 else map_option Suc (first_index s sub))"

text \<open>\<open>bytes.Index\<close>, with its \<open>-1\<close>.\<close>

definition bytes_Index :: "string \<Rightarrow> string \<Rightarrow> int" where
  "bytes_Index s sub = (case first_index s sub of None \<Rightarrow> -1 | Some i \<Rightarrow> int i)"

text \<open>A slice expression with a negative index panics.\<close>

definition slice_from :: "string \<Rightarrow> int \<Rightarrow> string result" where
  "slice_from b i = (if i < 0 \<or> int (length b) < i then Panic else Ok (drop (nat i) b))"

definition slice_to :: "string \<Rightarrow> int \<Rightarrow> string result" where
  "slice_to b i = (if i < 0 \<or> int (length b) < i then Panic else Ok (take (nat i) b))"

definition package_clause :: string where "package_clause = ''package ''"

definition with_license :: "string \<Rightarrow> string result" where
  "with_license b =
     (let i = bytes_Index b package_clause in
      andThen (slice_from b i) (\<lambda>rest.
      let i = i + bytes_Index rest [nl] in
      andThen (slice_to b i) (\<lambda>front.
      andThen (slice_from b i) (\<lambda>back.
        Ok (front @ [nl, nl] @ goLicense @ back)))))"

definition generated :: "string \<Rightarrow> bool" where "generated b = contains b ''DO NOT EDIT.''"
definition licensed :: "string \<Rightarrow> bool" where "licensed b = contains b goLicense"

section \<open>applyGoLicense\<close>

fun read_node :: "go_error fs_node \<Rightarrow> string result" where
  "read_node (FileNode c w) = c"
| "read_node (DirNode e es) = Err (ErrMsg ''is a directory'')"
| "read_node (BrokenNode e) = Err e"

fun write_node :: "go_error fs_node \<Rightarrow> string \<Rightarrow> go_error visit \<times> go_error fs_node" where
  "write_node (FileNode c None) bb = (Continue, FileNode (Ok bb) None)"
| "write_node (FileNode c (Some e)) bb = (Fail e, FileNode c (Some e))"
| "write_node n bb = (Fail (ErrMsg ''is a directory''), n)"

definition skipped_dirs :: "string set" where "skipped_dirs = {''pkg/client'', ''vendor'', ''.git''}"

definition apply_file :: "(go_error, 's) walk_fn" where
  "apply_file path n err s =
     (case err of
        Some e \<Rightarrow> (Fail e, n, s)
      | None \<Rightarrow>
          if path \<in> skipped_dirs then (SkipDir, n, s)
          else if \<not> suffix ''.go'' path then (Continue, n, s)
          else (case read_node n of
                  Err e \<Rightarrow> (Fail e, n, s)
                | Panic \<Rightarrow> (Crash, n, s)
                | Ok b \<Rightarrow>
                    if generated b then (Continue, n, s)
                    else if \<not> licensed b then
                      (case with_license b of
                         Ok bb \<Rightarrow> (case write_node n bb of (v, n') \<Rightarrow> (v, n', s))
                       | _ \<Rightarrow> (Crash, n, s))
                    else (Continue, n, s)))"

definition applyGoLicense :: "go_error fs_node \<Rightarrow> unit result \<times> go_error fs_node" where
  "applyGoLicense root = (case Walk apply_file ''.'' root () of (r, n, _) \<Rightarrow> (r, n))"

section \<open>validateLicenses\<close>

definition parseIgnored :: "string \<Rightarrow> string \<Rightarrow> bool" where
  "parseIgnored commaSeparated path = (path \<in> set (split_on comma commaSeparated))"

definition validate_file :: "(string \<Rightarrow> bool) \<Rightarrow> (go_error, string list) walk_fn" where
  "validate_file ignored path n err unlicensed =
     (case err of
        Some e \<Rightarrow> (Fail e, n, unlicensed)
      | None \<Rightarrow>
          if ignored path then (SkipDir, n, unlicensed)
          else if \<not> suffix ''.go'' path then (Continue, n, unlicensed)
          else (case read_node n of
                  Err e \<Rightarrow> (Fail e, n, unlicensed)
                | Panic \<Rightarrow> (Crash, n, unlicensed)
                | Ok b \<Rightarrow>
                    if generated b then (Continue, n, unlicensed)
                    else if \<not> licensed b then (Continue, n, unlicensed @ [path])
                    else (Continue, n, unlicensed)))"

text \<open>What \<open>Walk\<close> returns is not looked at; only a panic ends the loop.\<close>

definition validateGoLicenses ::
  "(string \<Rightarrow> go_error fs_node) \<Rightarrow> (string \<Rightarrow> bool) \<Rightarrow> string list \<Rightarrow> string list result" where
  "validateGoLicenses fs ignored dirs =
     foldOk (\<lambda>dir unlicensed.
         case Walk (validate_file ignored) dir (fs dir) unlicensed of
           (Panic, _, _) \<Rightarrow> Panic
         | (_, _, us) \<Rightarrow> Ok us) dirs []"

definition validateLicenses :: "(string \<Rightarrow> go_error fs_node) \<Rightarrow> string \<Rightarrow> string \<Rightarrow> string \<Rightarrow> (string list \<times> unit result) result" where
  "validateLicenses fs ignoredGo ignoredPython dirs =
     andThen (validateGoLicenses fs (parseIgnored ignoredGo) (split_on comma dirs)) (\<lambda>unlicensed.
       Ok (map (\<lambda>v. v @ '' does not have a license'') unlicensed,
           if unlicensed \<noteq> [] then Err (ErrMsg ''validation failed'') else Ok ()))"

record license_flags =
  lf_ignoredGo :: string
  lf_ignoredPython :: string
  lf_dirs :: string
  lf_validateOnly :: bool

text \<open>The exit status of the program, and the tree that it leaves.\<close>

definition license_main :: "(string \<Rightarrow> go_error fs_node) \<Rightarrow> license_flags \<Rightarrow> (nat \<times> go_error fs_node) result" where
  "license_main fs f =
     (if lf_validateOnly f then
        andThen (validateLicenses fs (lf_ignoredGo f) (lf_ignoredPython f) (lf_dirs f)) (\<lambda>(_, r).
          Ok (if isOk r then 0 else 1, fs ''.''))
      else
        (case applyGoLicense (fs ''.'') of
           (Panic, _) \<Rightarrow> Panic
         | (Err e, n) \<Rightarrow> Ok (1, n)
         | (Ok u, n) \<Rightarrow> Ok (0, n)))"

section \<open>Indices\<close>

lemma first_index_Some: "first_index s sub = Some i \<Longrightarrow> \<exists>p q. s = p @ sub @ q \<and> length p = i"
proof (induction s arbitrary: i)
  case (Cons c s)
  show ?case
  proof (cases "prefix sub (c # s)")
    case True
    then show ?thesis using Cons.prems by (auto simp: prefix_def)
  next
    case False
    then obtain j where j: "first_index s sub = Some j" "i = Suc j" using Cons.prems by auto
    from Cons.IH [OF j(1)] obtain p q where "s = p @ sub @ q" "length p = j" by blast
    then show ?thesis using j(2) by (intro exI [of _ "c # p"] exI [of _ q]) simp
  qed
qed (auto split: if_splits)

lemma first_index_None: "first_index s sub = None \<Longrightarrow> \<not> contains s sub"
proof (induction s)
  case (Cons c s)
  then have n: "\<not> prefix sub (c # s)" "\<not> contains s sub" by (auto split: if_splits)
  show ?case
  proof
    assume "contains (c # s) sub"
    then obtain p q where "c # s = p @ sub @ q" by (auto simp: contains_iff)
    then show False using n by (cases p) (auto simp: prefix_def contains_iff)
  qed
qed (auto simp: contains_iff split: if_splits)

lemma first_index_append: "first_index (p @ sub @ q) sub \<noteq> None"
  using first_index_None [of "p @ sub @ q" sub] by (auto simp: contains_iff)

lemma first_index_absent: "nl \<notin> set s \<Longrightarrow> first_index s [nl] = None"
  by (induction s) auto

lemma first_index_nl: "nl \<notin> set p \<Longrightarrow> first_index (p @ nl # q) [nl] = Some (length p)"
  by (induction p) auto

section \<open>What the tool writes\<close>

lemma bytes_Index_found: "first_index s sub = Some i \<Longrightarrow> bytes_Index s sub = int i"
  and bytes_Index_missing: "first_index s sub = None \<Longrightarrow> bytes_Index s sub = -1"
  by (simp_all add: bytes_Index_def)

lemma with_license_licensed: "with_license b = Ok bb \<Longrightarrow> licensed bb"
proof -
  assume "with_license b = Ok bb"
  then obtain front rest where "bb = (front @ [nl, nl]) @ goLicense @ rest"
    by (auto simp: with_license_def Let_def outcome_simps)
  then show ?thesis unfolding licensed_def contains_iff by blast
qed

text \<open>Where the header goes: after the line of the first package clause; but if no line ends after it, one
  byte before the clause (which then continues the comment) or, if it opens the file, nowhere: the
  tool panics, as it does on a file without a package clause.\<close>

theorem license_placed:
  assumes "first_index b package_clause = Some (length p)" "b = p @ package_clause @ name @ rest" "nl \<notin> set name"
  shows "(\<forall>r. rest = nl # r \<longrightarrow> with_license b = Ok (p @ package_clause @ name @ [nl, nl] @ goLicense @ rest))
    \<and> (rest = [] \<and> p \<noteq> [] \<longrightarrow> with_license b = Ok (butlast p @ [nl, nl] @ goLicense @ [last p] @ package_clause @ name))
    \<and> (rest = [] \<and> p = [] \<longrightarrow> with_license b = Panic)"
proof (intro conjI allI impI)
  have i: "bytes_Index b package_clause = int (length p)" using bytes_Index_found [OF assms(1)] .
  have d: "drop (length p) b = package_clause @ name @ rest" using assms(2) by simp
  have no: "nl \<notin> set (package_clause @ name)" using assms(3) by (simp add: package_clause_def)
  show "with_license b = Ok (p @ package_clause @ name @ [nl, nl] @ goLicense @ rest)" if "rest = nl # r" for r
  proof -
    have "bytes_Index (package_clause @ name @ rest) [nl] = int (length package_clause + length name)"
      using bytes_Index_found [OF first_index_nl [OF no, of r]] that by simp
    then show ?thesis
      unfolding with_license_def Let_def i slice_from_def slice_to_def using assms(2) that by (simp add: nat_add_distrib)
  qed
  have m: "rest = [] \<Longrightarrow> bytes_Index (package_clause @ name @ rest) [nl] = -1"
    using bytes_Index_missing [OF first_index_absent [OF no]] by simp
  show "with_license b = Ok (butlast p @ [nl, nl] @ goLicense @ [last p] @ package_clause @ name)" if r: "rest = [] \<and> p \<noteq> []"
  proof -
    have "b = butlast p @ [last p] @ package_clause @ name" using r assms(2) by simp
    then have "take (length p - 1) b = butlast p" "drop (length p - 1) b = [last p] @ package_clause @ name" by simp_all
    moreover have "nat (int (length p) - 1) = length p - 1" "\<not> int (length p) - 1 < 0" "int (length p) - 1 \<le> int (length b)"
      using r assms(2) by (simp_all add: Suc_leI)
    ultimately show ?thesis
      unfolding with_license_def Let_def i slice_from_def slice_to_def using assms(2) r m by simp
  qed
  show "with_license b = Panic" if "rest = [] \<and> p = []"
    unfolding with_license_def Let_def i slice_from_def slice_to_def using assms(2) that m by simp
qed

theorem license_placed_witness:
  "with_license (''// doc'' @ [nl] @ ''package main'' @ [nl]) = Ok (''// doc'' @ [nl] @ ''package main'' @ [nl, nl] @ goLicense @ [nl])
   \<and> with_license ''/**/ package main'' = Ok (''/**/'' @ [nl, nl] @ goLicense @ '' package main'')"
proof -
  have "first_index (''// doc'' @ [nl] @ ''package main'' @ [nl]) package_clause = Some (length (''// doc'' @ [nl]))"
    "first_index ''/**/ package main'' package_clause = Some (length ''/**/ '')" by code_simp+
  note f = this
  have e: "''// doc'' @ [nl] @ ''package main'' @ [nl] = (''// doc'' @ [nl]) @ package_clause @ ''main'' @ [nl]"
    "''/**/ package main'' = ''/**/ '' @ package_clause @ ''main'' @ []" by (simp_all add: package_clause_def)
  have n: "nl \<notin> set ''main''" by simp
  have "with_license (''// doc'' @ [nl] @ ''package main'' @ [nl]) = Ok ((''// doc'' @ [nl]) @ package_clause @ ''main'' @ [nl, nl] @ goLicense @ [nl])"
    using license_placed [OF f(1) e(1) n] by blast
  moreover have "with_license ''/**/ package main'' = Ok (butlast ''/**/ '' @ [nl, nl] @ goLicense @ [last ''/**/ ''] @ package_clause @ ''main'')"
    using license_placed [OF f(2) e(2) n] by blast
  ultimately show ?thesis by (simp add: package_clause_def)
qed

section \<open>Applying, then validating\<close>

lemma apply_node:
  assumes "apply_file p n None s = (v, n', s')" "v \<in> {Continue, SkipDir}" "\<And>q. ignored q \<longleftrightarrow> q \<in> skipped_dirs"
  shows "s' = s \<and> is_file n' = is_file n \<and> validate_file ignored p n' None us = (v, n', us) \<and> apply_file p n' None t = (v, n', t)"
proof (cases "p \<in> skipped_dirs \<or> \<not> suffix ''.go'' p")
  case True
  then show ?thesis using assms(1,2) by (auto simp: apply_file_def validate_file_def assms(3) split: if_splits)
next
  case False
  then obtain b where b: "read_node n = Ok b" using assms(1,2) by (cases "read_node n") (auto simp: apply_file_def)
  then obtain w where n: "n = FileNode (Ok b) w" by (cases n) auto
  show ?thesis
  proof (cases "generated b \<or> licensed b")
    case True
    then show ?thesis using assms(1) False n by (cases "generated b"; auto simp: apply_file_def validate_file_def assms(3))
  next
    case gl: False
    then obtain bb where bb: "with_license b = Ok bb" using assms(1,2) False n
      by (cases "with_license b") (auto simp: apply_file_def)
    then have "(case write_node n bb of (v', m) \<Rightarrow> (v', m, s)) = (v, n', s')"
      using assms(1) False n gl by (simp add: apply_file_def)
    then have "v = Continue" "n' = FileNode (Ok bb) None" "s' = s" using n assms(2) by (cases w; auto)+
    then show ?thesis using False n with_license_licensed [OF bb] by (simp add: apply_file_def validate_file_def assms(3))
  qed
qed

lemma apply_dir: "apply_file p (DirNode e es) None s = (v, n, s') \<Longrightarrow> apply_file p (DirNode e es') None s = (v, DirNode e es', s')"
  by (auto simp: apply_file_def split: if_splits)

lemma apply_then_validate:
  fixes ignored :: "string \<Rightarrow> bool"
  assumes ig: "\<And>q. ignored q \<longleftrightarrow> q \<in> skipped_dirs"
  shows "walk apply_file p n s = (v, n', s') \<Longrightarrow> v \<in> {Continue, SkipDir} \<Longrightarrow>
      s' = s \<and> is_file n' = is_file n \<and> walk (validate_file ignored) p n' us = (v, n', us) \<and> walk apply_file p n' s = (v, n', s)"
    and "walk_entries apply_file p es s = (v, es', s') \<Longrightarrow> v \<in> {Continue, SkipDir} \<Longrightarrow>
      s' = s \<and> walk_entries (validate_file ignored) p es' us = (v, es', us) \<and> walk_entries apply_file p es' s = (v, es', s)"
proof (induction "apply_file :: (go_error, 'a) walk_fn" p n s and "apply_file :: (go_error, 'a) walk_fn" p es s
    arbitrary: v n' s' and v es' s' rule: walk_walk_entries.induct)
  case (1 p c w s)
  from 1(1) have a: "apply_file p (FileNode c w) None s = (v, n', s')" by simp
  from apply_node [OF a 1(2) ig, of us s] have f: "is_file n'" "s' = s"
    "validate_file ignored p n' None us = (v, n', us)" "apply_file p n' None s = (v, n', s)" by auto
  then show ?case by (cases n') auto
next
  case (2 p e s)
  then show ?case by (auto simp: apply_file_def)
next
  case (3 p err es s)
  obtain v1 n1 s1 where a: "apply_file p (DirNode err es) err s = (v1, n1, s1)" using prod_cases3 by blast
  have none: "err = None" using 3(2,3) a by (cases err) (auto simp: apply_file_def)
  from a none have s1: "s1 = s" by (auto simp: apply_file_def split: if_splits)
  show ?case
  proof (cases "v1 = Continue")
    case True
    obtain v2 es2 s2 where e: "walk_entries apply_file p es s = (v2, es2, s2)" using prod_cases3 by blast
    have r: "v = v2" "n' = DirNode None es2" "s' = s2" using 3(2) a none True s1 e by auto
    have b: "apply_file p (DirNode None es2) None s = (Continue, DirNode None es2, s)"
      using apply_dir [OF a [unfolded none], of es2] True s1 by simp
    then have c: "validate_file ignored p (DirNode None es2) None us = (Continue, DirNode None es2, us)"
      using apply_node [OF b _ ig, of us s] by simp
    from 3(1) [OF a [symmetric] refl] True none s1 e 3(3) r
    have "s2 = s \<and> walk_entries (validate_file ignored) p es2 us = (v2, es2, us) \<and> walk_entries apply_file p es2 s = (v2, es2, s)"
      by auto
    then show ?thesis using r b c by simp
  next
    case False
    then have r: "v = v1" "n' = DirNode None es" "s' = s" using 3(2) a none s1 by auto
    have "n1 = DirNode None es" using a none by (auto simp: apply_file_def split: if_splits)
    then have b: "apply_file p (DirNode None es) None s = (v, DirNode None es, s)" using a none s1 r by simp
    then show ?thesis using r False apply_node [OF b _ ig, of us s] 3(3) by simp
  qed
next
  case (4 p s)
  then show ?case by simp
next
  case (5 p name n es s)
  obtain v1 n1 s1 where a: "walk apply_file (path_Join [p, name]) n s = (v1, n1, s1)" using prod_cases3 by blast
  show ?case
  proof (cases "v1 = Continue \<or> v1 = SkipDir \<and> \<not> is_file n")
    case True
    then have v1: "v1 \<in> {Continue, SkipDir}" by auto
    from 5(1) [OF a v1] have n1: "s1 = s" "is_file n1 = is_file n" "walk (validate_file ignored) (path_Join [p, name]) n1 us = (v1, n1, us)"
      "walk apply_file (path_Join [p, name]) n1 s = (v1, n1, s)" by auto
    obtain v2 es2 s2 where e: "walk_entries apply_file p es s = (v2, es2, s2)" using prod_cases3 by blast
    have r: "v = v2" "es' = (name, n1) # es2" "s' = s2" using 5(3) a True e n1(1) by auto
    from 5(2) [OF a [symmetric] refl True] e n1(1) 5(4) r
    have "s2 = s \<and> walk_entries (validate_file ignored) p es2 us = (v2, es2, us) \<and> walk_entries apply_file p es2 s = (v2, es2, s)"
      by auto
    then show ?thesis using r n1 True by simp
  next
    case False
    then have r: "v = v1" "es' = (name, n1) # es" "s' = s1" using 5(3) a by auto
    from 5(1) [OF a] r 5(4) show ?thesis using False by simp
  qed
qed

text \<open>C40: What \<open>applyGoLicense\<close> leaves when it returns nil is in order: applying it again changes nothing, and the
  check of the working directory, told to ignore the three directories that are not touched, finds no
  file without the licence.\<close>

theorem apply_makes_valid:
  assumes "applyGoLicense root = (Ok (), root')"
  shows "applyGoLicense root' = (Ok (), root')
    \<and> validateLicenses (\<lambda>d. root') ''pkg/client,vendor,.git'' py ''.'' = Ok ([], Ok ())"
proof -
  obtain v where w: "walk apply_file ''.'' root () = (v, root', ())" "v \<in> {Continue, SkipDir}"
    using assms by (auto simp: applyGoLicense_def Walk_def split: prod.splits visit.splits)
  have ig: "parseIgnored ''pkg/client,vendor,.git'' q \<longleftrightarrow> q \<in> skipped_dirs" for q
    by (auto simp: parseIgnored_def skipped_dirs_def)
  from apply_then_validate(1) [OF ig w] have a: "walk apply_file ''.'' root' () = (v, root', ())"
    "walk (validate_file (parseIgnored ''pkg/client,vendor,.git'')) ''.'' root' us = (v, root', us)" for us by blast+
  then show ?thesis using w(2)
    by (auto simp: applyGoLicense_def Walk_def validateLicenses_def validateGoLicenses_def)
qed

section \<open>What the check reports\<close>

text \<open>A tree in which nothing stops the walk: every entry can be looked at, no file is ignored by its name and
  no directory is called like a Go file. Its files, without the ignored directories.\<close>

fun walkable :: "(string \<Rightarrow> bool) \<Rightarrow> string \<Rightarrow> go_error fs_node \<Rightarrow> bool"
and walkable_entries :: "(string \<Rightarrow> bool) \<Rightarrow> string \<Rightarrow> (string \<times> go_error fs_node) list \<Rightarrow> bool" where
  "walkable ig p (FileNode c w) = (\<not> ig p \<and> isOk c)"
| "walkable ig p (BrokenNode e) = False"
| "walkable ig p (DirNode err es) = (err = None \<and> (ig p \<or> \<not> suffix ''.go'' p \<and> walkable_entries ig p es))"
| "walkable_entries ig p [] = True"
| "walkable_entries ig p ((name, n) # es) = (walkable ig (path_Join [p, name]) n \<and> walkable_entries ig p es)"

fun files_of :: "(string \<Rightarrow> bool) \<Rightarrow> string \<Rightarrow> go_error fs_node \<Rightarrow> (string \<times> string) list"
and files_of_entries :: "(string \<Rightarrow> bool) \<Rightarrow> string \<Rightarrow> (string \<times> go_error fs_node) list \<Rightarrow> (string \<times> string) list" where
  "files_of ig p (FileNode c w) = (case c of Ok b \<Rightarrow> [(p, b)] | _ \<Rightarrow> [])"
| "files_of ig p (BrokenNode e) = []"
| "files_of ig p (DirNode err es) = (if ig p then [] else files_of_entries ig p es)"
| "files_of_entries ig p [] = []"
| "files_of_entries ig p ((name, n) # es) = files_of ig (path_Join [p, name]) n @ files_of_entries ig p es"

definition lacks_license :: "string \<times> string \<Rightarrow> bool" where
  "lacks_license f \<longleftrightarrow> suffix ''.go'' (fst f) \<and> \<not> generated (snd f) \<and> \<not> licensed (snd f)"

lemma validate_walk:
  "walkable ig p n \<Longrightarrow> \<exists>v. walk (validate_file ig) p n us = (v, n, us @ map fst (filter lacks_license (files_of ig p n)))
     \<and> (v = Continue \<or> v = SkipDir \<and> \<not> is_file n)"
  "walkable_entries ig p es \<Longrightarrow> walk_entries (validate_file ig) p es us
     = (Continue, es, us @ map fst (filter lacks_license (files_of_entries ig p es)))"
proof (induction ig p n and ig p es arbitrary: us and us rule: walkable_walkable_entries.induct)
  case (1 ig p c w)
  then show ?case by (cases c) (auto simp: validate_file_def lacks_license_def)
next
  case (3 ig p err es)
  then show ?case by (cases "ig p") (auto simp: validate_file_def)
next
  case (5 ig p name n es)
  from 5(3) have w: "walkable ig (path_Join [p, name]) n" "walkable_entries ig p es" by simp_all
  from 5(1) [OF w(1)] obtain v where v: "walk (validate_file ig) (path_Join [p, name]) n us
      = (v, n, us @ map fst (filter lacks_license (files_of ig (path_Join [p, name]) n)))" "v = Continue \<or> v = SkipDir \<and> \<not> is_file n" by blast
  show ?case using v 5(2) [OF w(2)] by auto
qed auto

text \<open>C26: On trees that nothing stops the walk of, the check reports, in the order of the walk, exactly the Go files that are
  outside every ignored directory, are not generated and do not have the licence, and fails if and only if there is one;
  whatever is below an ignored directory is not looked at.\<close>

theorem unlicensed_exactly:
  assumes "list_all (\<lambda>d. walkable (parseIgnored ignoredGo) d (fs d)) (split_on comma dirs)"
  shows "validateLicenses fs ignoredGo py dirs =
    (let us = concat (map (\<lambda>d. map fst (filter lacks_license (files_of (parseIgnored ignoredGo) d (fs d)))) (split_on comma dirs))
     in Ok (map (\<lambda>v. v @ '' does not have a license'') us, if us = [] then Ok () else Err (ErrMsg ''validation failed'')))"
proof -
  let ?ig = "parseIgnored ignoredGo"
  let ?us = "\<lambda>d. map fst (filter lacks_license (files_of ?ig d (fs d)))"
  have "foldOk (\<lambda>dir unlicensed. case Walk (validate_file ?ig) dir (fs dir) unlicensed of
      (Panic, _, _) \<Rightarrow> Panic | (_, _, us) \<Rightarrow> Ok us) ds us = (Ok (us @ concat (map ?us ds)) :: string list result)"
    if "list_all (\<lambda>d. walkable ?ig d (fs d)) ds" for ds us
    using that
  proof (induction ds arbitrary: us)
    case (Cons d ds)
    from Cons.prems have "walkable ?ig d (fs d)" by simp
    from validate_walk(1) [OF this, of us] obtain v where
      "walk (validate_file ?ig) d (fs d) us = (v, fs d, us @ ?us d)" "v = Continue \<or> v = SkipDir \<and> \<not> is_file (fs d)" by blast
    then have "Walk (validate_file ?ig) d (fs d) us = (Ok (), fs d, us @ ?us d)" by (auto simp: Walk_def)
    then show ?case using Cons by simp
  qed simp
  from this [OF assms, of "[]"] show ?thesis by (simp add: validateLicenses_def validateGoLicenses_def Let_def)
qed

text \<open>What stops the walk of a directory: a file that is ignored by its name, or a Go file that cannot be read.\<close>

definition stops_walk :: "(string \<Rightarrow> bool) \<Rightarrow> string \<Rightarrow> string result \<Rightarrow> bool" where
  "stops_walk ig p c \<longleftrightarrow> ig p \<or> suffix ''.go'' p \<and> (\<exists>e. c = Err e)"

lemma walk_stopped:
  assumes "\<And>s. \<exists>v. walk f (path_Join [p, name]) n s = (v, n, s) \<and> (v = SkipDir \<and> is_file n \<or> (\<exists>e. v = Fail e))"
  shows "snd (snd (walk_entries f p (es @ (name, n) # rest) s)) = snd (snd (walk_entries f p es s))
    \<and> (fst (walk_entries f p (es @ (name, n) # rest) s) = Crash \<longleftrightarrow> fst (walk_entries f p es s) = Crash)"
proof (induction es arbitrary: s)
  case Nil
  obtain v where v: "walk f (path_Join [p, name]) n s = (v, n, s)" "v = SkipDir \<and> is_file n \<or> (\<exists>e. v = Fail e)"
    using assms by blast
  then have "v \<noteq> Continue" "v \<noteq> Crash" "\<not> (v = SkipDir \<and> \<not> is_file n)" by auto
  then show ?case using v(1) by auto
next
  case (Cons e es)
  obtain nm m where e: "e = (nm, m)" by fastforce
  obtain v m' s1 where w: "walk f (path_Join [p, nm]) m s = (v, m', s1)" using prod_cases3 by blast
  show ?case using Cons [of s1] by (auto simp: e w split: prod.splits)
qed

text \<open>Such a file hides all that follows it in its directory: nothing behind it is looked at, whatever it is, and
  the check may pass. (An ignored directory hides only itself.)\<close>

theorem stopped_check_passes:
  assumes "stops_walk (parseIgnored ig) (path_Join [p, name]) c" "\<not> suffix ''.go'' p" "split_on comma p = [p]"
    and "fs p = DirNode None (es @ (name, FileNode c w) # rest)"
  shows "validateLicenses fs ig py p = validateLicenses (\<lambda>d. DirNode None es) ig py p"
proof (cases "parseIgnored ig p")
  case True
  then show ?thesis using assms(2-4)
    by (simp add: validateLicenses_def validateGoLicenses_def Walk_def validate_file_def)
next
  case False
  let ?f = "validate_file (parseIgnored ig)"
  have "\<exists>v. walk ?f (path_Join [p, name]) (FileNode c w) s = (v, FileNode c w, s)
      \<and> (v = SkipDir \<and> is_file (FileNode c w) \<or> (\<exists>e. v = Fail e))" for s
    using assms(1) by (auto simp: stops_walk_def validate_file_def)
  from walk_stopped [of ?f p name "FileNode c w", OF this, of es rest "[]"]
  show ?thesis using False assms(2-4)
    by (auto simp: validateLicenses_def validateGoLicenses_def Walk_def validate_file_def split: prod.splits visit.splits)
qed

section \<open>The theorems at concrete trees\<close>

definition licensed_text :: string where
  "licensed_text = ''package main'' @ [nl, nl] @ goLicense @ [nl]"

definition demo_tree :: "go_error fs_node" where
  "demo_tree = DirNode None [(''a.go'', FileNode (Ok (''package main'' @ [nl])) None), (''README'', FileNode (Ok []) None),
     (''vendor'', DirNode None [(''x.go'', FileNode (Ok ''package x'') None)])]"

lemma demo_applied:
  "applyGoLicense demo_tree = (Ok (), DirNode None [(''a.go'', FileNode (Ok licensed_text) None), (''README'', FileNode (Ok []) None),
     (''vendor'', DirNode None [(''x.go'', FileNode (Ok ''package x'') None)])])"
  by code_simp

theorem apply_makes_valid_witness:
  "validateLicenses (\<lambda>d. snd (applyGoLicense demo_tree)) ''pkg/client,vendor,.git'' [] ''.'' = Ok ([], Ok ())"
  using apply_makes_valid [OF demo_applied] demo_applied by simp

theorem unlicensed_exactly_witness:
  "validateLicenses (\<lambda>d. demo_tree) ''vendor'' [] ''.'' = Ok ([''a.go does not have a license''], Err (ErrMsg ''validation failed''))"
proof -
  have "list_all (\<lambda>d. walkable (parseIgnored ''vendor'') d demo_tree) (split_on comma ''.'')" by code_simp
  from unlicensed_exactly [OF this, of "[]"]
  have "validateLicenses (\<lambda>d. demo_tree) ''vendor'' [] ''.'' =
    (let us = concat (map (\<lambda>d. map fst (filter lacks_license (files_of (parseIgnored ''vendor'') d demo_tree))) (split_on comma ''.''))
     in Ok (map (\<lambda>v. v @ '' does not have a license'') us, if us = [] then Ok () else Err (ErrMsg ''validation failed'')))" .
  moreover have "concat (map (\<lambda>d. map fst (filter lacks_license (files_of (parseIgnored ''vendor'') d demo_tree))) (split_on comma ''.'')) = [''a.go'']"
    by code_simp
  ultimately show ?thesis by (simp only: Let_def) simp
qed

theorem stopped_check_passes_witness:
  "validateLicenses (\<lambda>d. DirNode None [(''a.go'', FileNode (Err Canceled) None), (''b.go'', FileNode (Ok ''package b'') None)]) [] [] ''.''
     = Ok ([], Ok ())"
proof -
  have "path_Join [''.'', ''a.go''] = ''a.go''" by code_simp
  then have "stops_walk (parseIgnored []) (path_Join [''.'', ''a.go'']) (Err Canceled)" by (simp add: stops_walk_def suffix_def)
  from stopped_check_passes [OF this, of "\<lambda>d. DirNode None [(''a.go'', FileNode (Err Canceled) None), (''b.go'', FileNode (Ok ''package b'') None)]"
      "[]" None "[(''b.go'', FileNode (Ok ''package b'') None)]" "[]"]
  have "validateLicenses (\<lambda>d. DirNode None [(''a.go'', FileNode (Err Canceled) None), (''b.go'', FileNode (Ok ''package b'') None)]) [] [] ''.''
      = validateLicenses (\<lambda>d. DirNode None []) [] [] ''.''" by (simp add: suffix_def)
  also have "\<dots> = Ok ([], Ok ())" by code_simp
  finally show ?thesis .
qed

end
