(* ===== verification/Client_Addons.thy ===== *)
theory Client_Addons
  imports Azure_Clients
begin

text \<open>
  The additions to the generated clients under pkg/util/azureclient: a call that returns a future and the
  wait for it, and a list call that collects the pages. The clients of the SDK are records of their calls,
  whose arguments (resource group, names, filters) are a list of texts.
\<close>

section \<open>Calls that wait for their future\<close>

record ('p, 'f, 's) future_client =
  fc_CreateOrUpdate :: "string list \<Rightarrow> 'p \<Rightarrow> 's \<Rightarrow> 'f result \<times> 's"
  fc_Delete :: "string list \<Rightarrow> 's \<Rightarrow> 'f result \<times> 's"
  fc_Wait :: "'f \<Rightarrow> 's \<Rightarrow> unit result \<times> 's"

definition Disks_DeleteAndWait :: "('p, 'f, 's) future_client \<Rightarrow> string \<Rightarrow> string \<Rightarrow> 's \<Rightarrow> unit result \<times> 's" where
  "Disks_DeleteAndWait c rg name s = st_bind (fc_Delete c [rg, name] s) (fc_Wait c)"

definition VirtualMachineScaleSets_DeleteAndWait :: "('p, 'f, 's) future_client \<Rightarrow> string \<Rightarrow> string \<Rightarrow> 's \<Rightarrow> unit result \<times> 's" where
  "VirtualMachineScaleSets_DeleteAndWait c rg name s = st_bind (fc_Delete c [rg, name] s) (fc_Wait c)"

definition VirtualNetworkPeerings_DeleteAndWait :: "('p, 'f, 's) future_client \<Rightarrow> string \<Rightarrow> string \<Rightarrow> string \<Rightarrow> 's \<Rightarrow> unit result \<times> 's" where
  "VirtualNetworkPeerings_DeleteAndWait c rg vnet name s = st_bind (fc_Delete c [rg, vnet, name] s) (fc_Wait c)"

definition PublicIPAddresses_DeleteAndWait :: "('p, 'f, 's) future_client \<Rightarrow> string \<Rightarrow> string \<Rightarrow> 's \<Rightarrow> unit result \<times> 's" where
  "PublicIPAddresses_DeleteAndWait c rg name s = st_bind (fc_Delete c [rg, name] s) (fc_Wait c)"

definition RouteTables_DeleteAndWait :: "('p, 'f, 's) future_client \<Rightarrow> string \<Rightarrow> string \<Rightarrow> 's \<Rightarrow> unit result \<times> 's" where
  "RouteTables_DeleteAndWait c rg name s = st_bind (fc_Delete c [rg, name] s) (fc_Wait c)"

definition ResourceGroups_DeleteAndWait :: "('p, 'f, 's) future_client \<Rightarrow> string \<Rightarrow> 's \<Rightarrow> unit result \<times> 's" where
  "ResourceGroups_DeleteAndWait c rg s = st_bind (fc_Delete c [rg] s) (fc_Wait c)"

definition SecurityGroups_CreateOrUpdateAndWait :: "('p, 'f, 's) future_client \<Rightarrow> string \<Rightarrow> string \<Rightarrow> 'p \<Rightarrow> 's \<Rightarrow> unit result \<times> 's" where
  "SecurityGroups_CreateOrUpdateAndWait c rg name parameters s = st_bind (fc_CreateOrUpdate c [rg, name] parameters s) (fc_Wait c)"

definition SecurityGroups_DeleteAndWait :: "('p, 'f, 's) future_client \<Rightarrow> string \<Rightarrow> string \<Rightarrow> 's \<Rightarrow> unit result \<times> 's" where
  "SecurityGroups_DeleteAndWait c rg name s = st_bind (fc_Delete c [rg, name] s) (fc_Wait c)"

definition FlowLogs_CreateOrUpdateAndWait :: "('p, 'f, 's) future_client \<Rightarrow> string \<Rightarrow> string \<Rightarrow> string \<Rightarrow> 'p \<Rightarrow> 's \<Rightarrow> unit result \<times> 's" where
  "FlowLogs_CreateOrUpdateAndWait c rg watcher name parameters s = st_bind (fc_CreateOrUpdate c [rg, watcher, name] parameters s) (fc_Wait c)"

definition FlowLogs_DeleteAndWait :: "('p, 'f, 's) future_client \<Rightarrow> string \<Rightarrow> string \<Rightarrow> string \<Rightarrow> 's \<Rightarrow> unit result \<times> 's" where
  "FlowLogs_DeleteAndWait c rg watcher name s = st_bind (fc_Delete c [rg, watcher, name] s) (fc_Wait c)"

definition Interfaces_CreateOrUpdateAndWait :: "('p, 'f, 's) future_client \<Rightarrow> string \<Rightarrow> string \<Rightarrow> 'p \<Rightarrow> 's \<Rightarrow> unit result \<times> 's" where
  "Interfaces_CreateOrUpdateAndWait c rg name parameters s = st_bind (fc_CreateOrUpdate c [rg, name] parameters s) (fc_Wait c)"

definition Interfaces_DeleteAndWait :: "('p, 'f, 's) future_client \<Rightarrow> string \<Rightarrow> string \<Rightarrow> 's \<Rightarrow> unit result \<times> 's" where
  "Interfaces_DeleteAndWait c rg name s = st_bind (fc_Delete c [rg, name] s) (fc_Wait c)"

definition PrivateEndpoints_CreateOrUpdateAndWait :: "('p, 'f, 's) future_client \<Rightarrow> string \<Rightarrow> string \<Rightarrow> 'p \<Rightarrow> 's \<Rightarrow> unit result \<times> 's" where
  "PrivateEndpoints_CreateOrUpdateAndWait c rg name parameters s = st_bind (fc_CreateOrUpdate c [rg, name] parameters s) (fc_Wait c)"

definition PrivateEndpoints_DeleteAndWait :: "('p, 'f, 's) future_client \<Rightarrow> string \<Rightarrow> string \<Rightarrow> 's \<Rightarrow> unit result \<times> 's" where
  "PrivateEndpoints_DeleteAndWait c rg name s = st_bind (fc_Delete c [rg, name] s) (fc_Wait c)"

definition Subnets_CreateOrUpdateAndWait :: "('p, 'f, 's) future_client \<Rightarrow> string \<Rightarrow> string \<Rightarrow> string \<Rightarrow> 'p \<Rightarrow> 's \<Rightarrow> unit result \<times> 's" where
  "Subnets_CreateOrUpdateAndWait c rg vnet name parameters s = st_bind (fc_CreateOrUpdate c [rg, vnet, name] parameters s) (fc_Wait c)"

definition Subnets_DeleteAndWait :: "('p, 'f, 's) future_client \<Rightarrow> string \<Rightarrow> string \<Rightarrow> string \<Rightarrow> 's \<Rightarrow> unit result \<times> 's" where
  "Subnets_DeleteAndWait c rg vnet name s = st_bind (fc_Delete c [rg, vnet, name] s) (fc_Wait c)"

definition LoadBalancers_CreateOrUpdateAndWait :: "('p, 'f, 's) future_client \<Rightarrow> string \<Rightarrow> string \<Rightarrow> 'p \<Rightarrow> 's \<Rightarrow> unit result \<times> 's" where
  "LoadBalancers_CreateOrUpdateAndWait c rg name parameters s = st_bind (fc_CreateOrUpdate c [rg, name] parameters s) (fc_Wait c)"

record ('p, 'f, 's) vm_client =
  vc_CreateOrUpdate :: "string \<Rightarrow> string \<Rightarrow> 'p \<Rightarrow> 's \<Rightarrow> 'f result \<times> 's"
  vc_Delete :: "string \<Rightarrow> string \<Rightarrow> bool option \<Rightarrow> 's \<Rightarrow> 'f result \<times> 's"
  vc_Redeploy :: "string \<Rightarrow> string \<Rightarrow> 's \<Rightarrow> 'f result \<times> 's"
  vc_Start :: "string \<Rightarrow> string \<Rightarrow> 's \<Rightarrow> 'f result \<times> 's"
  vc_PowerOff :: "string \<Rightarrow> string \<Rightarrow> bool option \<Rightarrow> 's \<Rightarrow> 'f result \<times> 's"
  vc_Wait :: "'f \<Rightarrow> 's \<Rightarrow> unit result \<times> 's"

definition VirtualMachines_CreateOrUpdateAndWait :: "('p, 'f, 's) vm_client \<Rightarrow> string \<Rightarrow> string \<Rightarrow> 'p \<Rightarrow> 's \<Rightarrow> unit result \<times> 's" where
  "VirtualMachines_CreateOrUpdateAndWait c rg vm parameters s = st_bind (vc_CreateOrUpdate c rg vm parameters s) (vc_Wait c)"

definition VirtualMachines_DeleteAndWait :: "('p, 'f, 's) vm_client \<Rightarrow> string \<Rightarrow> string \<Rightarrow> bool option \<Rightarrow> 's \<Rightarrow> unit result \<times> 's" where
  "VirtualMachines_DeleteAndWait c rg vm forceDeletion s = st_bind (vc_Delete c rg vm forceDeletion s) (vc_Wait c)"

definition RedeployAndWait :: "('p, 'f, 's) vm_client \<Rightarrow> string \<Rightarrow> string \<Rightarrow> 's \<Rightarrow> unit result \<times> 's" where
  "RedeployAndWait c rg vm s = st_bind (vc_Redeploy c rg vm s) (vc_Wait c)"

definition StartAndWait :: "('p, 'f, 's) vm_client \<Rightarrow> string \<Rightarrow> string \<Rightarrow> 's \<Rightarrow> unit result \<times> 's" where
  "StartAndWait c rg vm s = st_bind (vc_Start c rg vm s) (vc_Wait c)"

definition StopAndWait :: "('p, 'f, 's) vm_client \<Rightarrow> string \<Rightarrow> string \<Rightarrow> 's \<Rightarrow> unit result \<times> 's" where
  "StopAndWait c rg vm s = st_bind (vc_PowerOff c rg vm (Some False) s) (vc_Wait c)"

definition RunCommandAndWait ::
  "(string \<Rightarrow> string \<Rightarrow> string \<Rightarrow> 'p \<Rightarrow> 's \<Rightarrow> 'f result \<times> 's) \<Rightarrow> ('f \<Rightarrow> 's \<Rightarrow> unit result \<times> 's) \<Rightarrow>
    string \<Rightarrow> string \<Rightarrow> string \<Rightarrow> 'p \<Rightarrow> 's \<Rightarrow> unit result \<times> 's" where
  "RunCommandAndWait RunCommand wait rg scaleSet instance_id parameters s =
     st_bind (RunCommand rg scaleSet instance_id parameters s) wait"

definition CreateOrUpdateAtSubscriptionScopeAndWait ::
  "(string \<Rightarrow> 'p \<Rightarrow> 's \<Rightarrow> 'f result \<times> 's) \<Rightarrow> ('f \<Rightarrow> 's \<Rightarrow> unit result \<times> 's) \<Rightarrow> string \<Rightarrow> 'p \<Rightarrow> 's \<Rightarrow> unit result \<times> 's" where
  "CreateOrUpdateAtSubscriptionScopeAndWait CreateOrUpdateAtSubscriptionScope wait deploymentName parameters s =
     st_bind (CreateOrUpdateAtSubscriptionScope deploymentName parameters s) wait"

section \<open>Calls that collect pages\<close>

record ('a, 's) pager_client =
  pl_List :: "string list \<Rightarrow> ('a, 's) page_call"
  pl_Next :: "('a, 's) page_call"

definition SecurityGroups_List :: "('a, 's) pager_client \<Rightarrow> string \<Rightarrow> 's \<Rightarrow> ('a list result \<times> 's) option" where
  "SecurityGroups_List c rg = list_all_pages (pl_List c [rg]) (pl_Next c)"

definition VirtualMachines_List :: "('a, 's) pager_client \<Rightarrow> string \<Rightarrow> 's \<Rightarrow> ('a list result \<times> 's) option" where
  "VirtualMachines_List c rg = list_all_pages (pl_List c [rg]) (pl_Next c)"

definition VirtualMachineScaleSets_List :: "('a, 's) pager_client \<Rightarrow> string \<Rightarrow> 's \<Rightarrow> ('a list result \<times> 's) option" where
  "VirtualMachineScaleSets_List c rg = list_all_pages (pl_List c [rg]) (pl_Next c)"

definition VirtualMachineScaleSetVMs_List :: "('a, 's) pager_client \<Rightarrow> string \<Rightarrow> string \<Rightarrow> string \<Rightarrow> string \<Rightarrow> string \<Rightarrow> 's \<Rightarrow> ('a list result \<times> 's) option" where
  "VirtualMachineScaleSetVMs_List c rg scaleSet filt selectParameter expand = list_all_pages (pl_List c [rg, scaleSet, filt, selectParameter, expand]) (pl_Next c)"

definition ResourceSkus_List :: "('a, 's) pager_client \<Rightarrow> string \<Rightarrow> 's \<Rightarrow> ('a list result \<times> 's) option" where
  "ResourceSkus_List c filt = list_all_pages (pl_List c [filt]) (pl_Next c)"

definition ComputeUsage_List :: "('a, 's) pager_client \<Rightarrow> string \<Rightarrow> 's \<Rightarrow> ('a list result \<times> 's) option" where
  "ComputeUsage_List c location = list_all_pages (pl_List c [location]) (pl_Next c)"

definition NetworkUsage_List :: "('a, 's) pager_client \<Rightarrow> string \<Rightarrow> 's \<Rightarrow> ('a list result \<times> 's) option" where
  "NetworkUsage_List c location = list_all_pages (pl_List c [location]) (pl_Next c)"

definition PrivateLinkServices_List :: "('a, 's) pager_client \<Rightarrow> string \<Rightarrow> 's \<Rightarrow> ('a list result \<times> 's) option" where
  "PrivateLinkServices_List c rg = list_all_pages (pl_List c [rg]) (pl_Next c)"

definition Resources_ListByResourceGroup :: "('a, 's) pager_client \<Rightarrow> string \<Rightarrow> string \<Rightarrow> string \<Rightarrow> string \<Rightarrow> 's \<Rightarrow> ('a list result \<times> 's) option" where
  "Resources_ListByResourceGroup c rg filt expand maximum = list_all_pages (pl_List c [rg, filt, expand, maximum]) (pl_Next c)"

definition Providers_List :: "('a, 's) pager_client \<Rightarrow> string \<Rightarrow> string \<Rightarrow> 's \<Rightarrow> ('a list result \<times> 's) option" where
  "Providers_List c maximum expand = list_all_pages (pl_List c [maximum, expand]) (pl_Next c)"

definition ResourceGroups_List :: "('a, 's) pager_client \<Rightarrow> string \<Rightarrow> string \<Rightarrow> 's \<Rightarrow> ('a list result \<times> 's) option" where
  "ResourceGroups_List c filt maximum = list_all_pages (pl_List c [filt, maximum]) (pl_Next c)"

definition KeyVault_GetSecrets :: "('a, 's) pager_client \<Rightarrow> string \<Rightarrow> 's \<Rightarrow> ('a list result \<times> 's) option" where
  "KeyVault_GetSecrets c vault = list_all_pages (pl_List c [vault]) (pl_Next c)"

definition KeyVault_GetSecretVersions :: "('a, 's) pager_client \<Rightarrow> string \<Rightarrow> string \<Rightarrow> 's \<Rightarrow> ('a list result \<times> 's) option" where
  "KeyVault_GetSecretVersions c vault name = list_all_pages (pl_List c [vault, name]) (pl_Next c)"

section \<open>Properties\<close>

text \<open>A list call returns once the service sends an empty page or an error: with all the values of the pages
  before, in order, or with the first error and no value at all.\<close>

theorem pages_collected:
  "\<exists>ps'. ResourceSkus_List \<lparr>pl_List = (\<lambda>args. send), pl_Next = send\<rparr> filt (p # ps) = Some (drain (p # ps), ps')"
proof (cases p)
  case (Ok vs)
  obtain ps' where "page_loop send vs [] ps = Some (andThen (drain (Ok vs # ps)) (\<lambda>ws. Ok ([] @ ws)), ps')"
    using page_loop_drain by blast
  then show ?thesis using Ok by (simp add: ResourceSkus_List_def list_all_pages_def del: drain.simps)
qed (simp_all add: ResourceSkus_List_def list_all_pages_def)

end
