(* ===== verification/Client_Constructors.thy ===== *)
theory Client_Constructors
  imports Env Steps
begin

text \<open>
  The constructors of the Resource Manager clients under pkg/util/azureclient/mgmt and the sender that logs
  requests (debug.go). Of a client of the SDK this keeps what the code sets: the constructor it comes from,
  the endpoint, the subscription (a tenant, for some), the authorizer, and the polling times, \<open>None\<close> where
  they are left as the SDK has them.
\<close>

section \<open>Constructors\<close>

record arm_settings =
  as_Client :: string
  as_BaseURI :: string
  as_SubscriptionID :: string
  as_Authorizer :: "authorizer option"
  as_PollingDelay :: "nat option"
  as_PollingDuration :: "nat option"

definition with_base_uri :: "string \<Rightarrow> environment \<Rightarrow> string \<Rightarrow> authorizer option \<Rightarrow> arm_settings" where
  "with_base_uri client e sid auth =
     \<lparr>as_Client = client, as_BaseURI = env_ResourceManagerEndpoint e, as_SubscriptionID = sid, as_Authorizer = auth,
      as_PollingDelay = None, as_PollingDuration = None\<rparr>"

definition NewDiskEncryptionSetsClient :: "environment \<Rightarrow> string \<Rightarrow> authorizer option \<Rightarrow> arm_settings" where
  "NewDiskEncryptionSetsClient e sid auth = with_base_uri ''DiskEncryptionSetsClient'' e sid auth"

definition NewDisksClient :: "environment \<Rightarrow> string \<Rightarrow> authorizer option \<Rightarrow> arm_settings" where
  "NewDisksClient e sid auth = with_base_uri ''DisksClient'' e sid auth"

definition NewResourceSkusClient :: "environment \<Rightarrow> string \<Rightarrow> authorizer option \<Rightarrow> arm_settings" where
  "NewResourceSkusClient e sid auth = with_base_uri ''ResourceSkusClient'' e sid auth"

definition NewComputeUsageClient :: "environment \<Rightarrow> string \<Rightarrow> authorizer option \<Rightarrow> arm_settings" where
  "NewComputeUsageClient e sid auth = with_base_uri ''UsageClient'' e sid auth"

definition NewVirtualMachinesClient :: "environment \<Rightarrow> string \<Rightarrow> authorizer option \<Rightarrow> arm_settings" where
  "NewVirtualMachinesClient e sid auth = with_base_uri ''VirtualMachinesClient'' e sid auth"

definition NewVirtualMachineScaleSetVMsClient :: "environment \<Rightarrow> string \<Rightarrow> authorizer option \<Rightarrow> arm_settings" where
  "NewVirtualMachineScaleSetVMsClient e sid auth = (with_base_uri ''VirtualMachineScaleSetVMsClient'' e sid auth)\<lparr>as_PollingDuration := Some (60 * minute)\<rparr>"

definition NewVirtualMachineScaleSetsClient :: "environment \<Rightarrow> string \<Rightarrow> authorizer option \<Rightarrow> arm_settings" where
  "NewVirtualMachineScaleSetsClient e sid auth = with_base_uri ''VirtualMachineScaleSetsClient'' e sid auth"

definition NewProvidersClient :: "environment \<Rightarrow> string \<Rightarrow> authorizer option \<Rightarrow> arm_settings" where
  "NewProvidersClient e sid auth = with_base_uri ''ProvidersClient'' e sid auth"

definition NewResourceGroupsClient :: "environment \<Rightarrow> string \<Rightarrow> authorizer option \<Rightarrow> arm_settings" where
  "NewResourceGroupsClient e sid auth = (with_base_uri ''ResourceGroupsClient'' e sid auth)\<lparr>as_PollingDelay := Some (10 * second), as_PollingDuration := Some (60 * minute)\<rparr>"

definition NewResourcesClient :: "environment \<Rightarrow> string \<Rightarrow> authorizer option \<Rightarrow> arm_settings" where
  "NewResourcesClient e sid auth = with_base_uri ''ResourcesClient'' e sid auth"

definition NewFlowLogsClient :: "environment \<Rightarrow> string \<Rightarrow> authorizer option \<Rightarrow> arm_settings" where
  "NewFlowLogsClient e sid auth = with_base_uri ''FlowLogsClient'' e sid auth"

definition NewInterfacesClient :: "environment \<Rightarrow> string \<Rightarrow> authorizer option \<Rightarrow> arm_settings" where
  "NewInterfacesClient e sid auth = with_base_uri ''InterfacesClient'' e sid auth"

definition NewLoadBalancersClient :: "environment \<Rightarrow> string \<Rightarrow> authorizer option \<Rightarrow> arm_settings" where
  "NewLoadBalancersClient e sid auth = with_base_uri ''LoadBalancersClient'' e sid auth"

definition NewPrivateEndpointsClient :: "environment \<Rightarrow> string \<Rightarrow> authorizer option \<Rightarrow> arm_settings" where
  "NewPrivateEndpointsClient e sid auth = with_base_uri ''PrivateEndpointsClient'' e sid auth"

definition NewPrivateLinkServicesClient :: "environment \<Rightarrow> string \<Rightarrow> authorizer option \<Rightarrow> arm_settings" where
  "NewPrivateLinkServicesClient e sid auth = with_base_uri ''PrivateLinkServicesClient'' e sid auth"

definition NewPublicIPAddressesClient :: "environment \<Rightarrow> string \<Rightarrow> authorizer option \<Rightarrow> arm_settings" where
  "NewPublicIPAddressesClient e sid auth = with_base_uri ''PublicIPAddressesClient'' e sid auth"

definition NewRouteTablesClient :: "environment \<Rightarrow> string \<Rightarrow> authorizer option \<Rightarrow> arm_settings" where
  "NewRouteTablesClient e sid auth = with_base_uri ''RouteTablesClient'' e sid auth"

definition NewSecurityGroupsClient :: "environment \<Rightarrow> string \<Rightarrow> authorizer option \<Rightarrow> arm_settings" where
  "NewSecurityGroupsClient e sid auth = with_base_uri ''SecurityGroupsClient'' e sid auth"

definition NewSubnetsClient :: "environment \<Rightarrow> string \<Rightarrow> authorizer option \<Rightarrow> arm_settings" where
  "NewSubnetsClient e sid auth = with_base_uri ''SubnetsClient'' e sid auth"

definition NewNetworkUsageClient :: "environment \<Rightarrow> string \<Rightarrow> authorizer option \<Rightarrow> arm_settings" where
  "NewNetworkUsageClient e sid auth = with_base_uri ''UsagesClient'' e sid auth"

definition NewVirtualNetworkPeeringsClient :: "environment \<Rightarrow> string \<Rightarrow> authorizer option \<Rightarrow> arm_settings" where
  "NewVirtualNetworkPeeringsClient e sid auth = with_base_uri ''VirtualNetworkPeeringsClient'' e sid auth"

definition NewVirtualNetworksClient :: "environment \<Rightarrow> string \<Rightarrow> authorizer option \<Rightarrow> arm_settings" where
  "NewVirtualNetworksClient e sid auth = with_base_uri ''VirtualNetworksClient'' e sid auth"

lemmas constructor_defs = with_base_uri_def NewDiskEncryptionSetsClient_def NewDisksClient_def NewResourceSkusClient_def NewComputeUsageClient_def NewVirtualMachinesClient_def NewVirtualMachineScaleSetVMsClient_def NewVirtualMachineScaleSetsClient_def NewProvidersClient_def NewResourceGroupsClient_def NewResourcesClient_def NewFlowLogsClient_def NewInterfacesClient_def NewLoadBalancersClient_def NewPrivateEndpointsClient_def NewPrivateLinkServicesClient_def NewPublicIPAddressesClient_def NewRouteTablesClient_def NewSecurityGroupsClient_def NewSubnetsClient_def NewNetworkUsageClient_def NewVirtualNetworkPeeringsClient_def NewVirtualNetworksClient_def

text \<open>Whatever it is a client of, it talks to its cloud's Resource Manager with the authorizer it was given.\<close>

lemma constructors_connect:
  "\<forall>new \<in> set [NewDiskEncryptionSetsClient, NewDisksClient, NewResourceSkusClient, NewComputeUsageClient, NewVirtualMachinesClient, NewVirtualMachineScaleSetVMsClient, NewVirtualMachineScaleSetsClient, NewProvidersClient, NewResourceGroupsClient, NewResourcesClient, NewFlowLogsClient, NewInterfacesClient, NewLoadBalancersClient, NewPrivateEndpointsClient, NewPrivateLinkServicesClient, NewPublicIPAddressesClient, NewRouteTablesClient, NewSecurityGroupsClient, NewSubnetsClient, NewNetworkUsageClient, NewVirtualNetworkPeeringsClient, NewVirtualNetworksClient].
     as_BaseURI (new e sid auth) = env_ResourceManagerEndpoint e \<and> as_SubscriptionID (new e sid auth) = sid
     \<and> as_Authorizer (new e sid auth) = auth"
  by (simp add: constructor_defs)

section \<open>debug.go\<close>

text \<open>
  A request's headers are a map with canonical keys. Its body is a reader, shared by the request and its
  clone: \<open>Clone\<close> copies the headers but not the reader, and reading it to the end leaves nothing. The
  texts of a dump are parameters; the dump of a request reads its body, and gives the request that it is
  called with (the clone, here) a copy of what it read.
\<close>

record debug_request =
  dr_line :: string
  dr_Header :: "(string, string list) gomap"
  dr_Body :: "nat option"

type_synonym readers = "nat \<Rightarrow> string"

definition body_text :: "debug_request \<Rightarrow> readers \<Rightarrow> string" where
  "body_text r readers = (case dr_Body r of None \<Rightarrow> [] | Some l \<Rightarrow> readers l)"

definition DumpRequestOut ::
  "(string \<Rightarrow> (string, string list) gomap \<Rightarrow> string \<Rightarrow> string) \<Rightarrow> debug_request \<Rightarrow> readers \<Rightarrow> string \<times> readers" where
  "DumpRequestOut render r readers =
     (render (dr_line r) (dr_Header r) (body_text r readers),
      case dr_Body r of None \<Rightarrow> readers | Some l \<Rightarrow> readers(l := []))"

record ('p, 's) sender_libs =
  sl_render :: "string \<Rightarrow> (string, string list) gomap \<Rightarrow> string \<Rightarrow> string"
  sl_render_response :: "'p \<Rightarrow> string"
  sl_send :: "debug_request \<Rightarrow> readers \<Rightarrow> 's \<Rightarrow> 'p option \<times> go_error option \<times> readers \<times> 's"

definition LoggingSender_Do ::
  "('p, 's) sender_libs \<Rightarrow> debug_request \<Rightarrow> string list \<Rightarrow> readers \<Rightarrow> 's
     \<Rightarrow> ('p option \<times> go_error option) \<times> string list \<times> readers \<times> 's" where
  "LoggingSender_Do l req stderr readers s =
     (let clone = req\<lparr>dr_Header := sm_del ''Authorization'' (dr_Header req)\<rparr>;
          (b, readers) = DumpRequestOut (sl_render l) clone readers;
          stderr = stderr @ [b @ [nl, nl]];
          (resp, err, readers, s) = sl_send l req readers s
      in ((resp, err), (case resp of None \<Rightarrow> stderr | Some p \<Rightarrow> stderr @ [sl_render_response l p @ [nl, nl]]), readers, s))"

text \<open>The token of a request is not logged: two requests that differ only in their authorization and are answered
  with the same response leave the same log.\<close>

theorem authorization_not_logged:
  assumes "dr_line q = dr_line r" "sm_del ''Authorization'' (dr_Header q) = sm_del ''Authorization'' (dr_Header r)" "dr_Body q = dr_Body r"
    and "LoggingSender_Do l q log readers s = ((resp, e), log1, readers1, s1)"
    and "LoggingSender_Do l r log readers s = ((resp, e'), log2, readers2, s2)"
  shows "log1 = log2"
proof -
  have clones: "q\<lparr>dr_Header := sm_del ''Authorization'' (dr_Header q)\<rparr> = r\<lparr>dr_Header := sm_del ''Authorization'' (dr_Header r)\<rparr>"
    using assms(1-3) by simp
  show ?thesis using assms(4,5) clones
    by (auto simp: LoggingSender_Do_def Let_def split: prod.splits)
qed

text \<open>The sender that is called next is given the request itself, with its authorization, but, if it has a body,
  with a reader that has been read to its end.\<close>

theorem body_read_before_it_is_sent:
  assumes "dr_Body req = Some n"
  shows "\<exists>log'. LoggingSender_Do l req log readers s =
    (case sl_send l req (readers(n := [])) s of (resp, err, readers', s') \<Rightarrow> ((resp, err), log' resp, readers', s'))
    \<and> body_text req (readers(n := [])) = []"
proof -
  obtain resp err rs t where send: "sl_send l req (readers(n := [])) s = (resp, err, rs, t)" by (metis prod_cases4)
  show ?thesis using assms by (auto simp: LoggingSender_Do_def DumpRequestOut_def body_text_def Let_def send)
qed

definition example_sender :: "(string, unit) sender_libs" where
  "example_sender = \<lparr>sl_render = (\<lambda>l h b. l @ concat (concat (map snd h)) @ b), sl_render_response = (\<lambda>p. p),
     sl_send = (\<lambda>r rs s. (Some ''200'', None, rs, s))\<rparr>"

definition example_request :: "(string, string list) gomap \<Rightarrow> debug_request" where
  "example_request h = \<lparr>dr_line = ''GET /'', dr_Header = h, dr_Body = None\<rparr>"

theorem authorization_not_logged_witness:
  "fst (snd (LoggingSender_Do example_sender (example_request [(''Authorization'', [''token''])]) [] (\<lambda>_. []) ()))
   = fst (snd (LoggingSender_Do example_sender (example_request []) [] (\<lambda>_. []) ()))"
proof -
  have ends: "\<exists>log rs. LoggingSender_Do example_sender (example_request h) [] (\<lambda>_. []) () = ((Some ''200'', None), log, rs, ())" for h
    by (simp add: LoggingSender_Do_def DumpRequestOut_def example_sender_def example_request_def Let_def)
  obtain log1 rs1 log2 rs2
    where "LoggingSender_Do example_sender (example_request [(''Authorization'', [''token''])]) [] (\<lambda>_. []) () = ((Some ''200'', None), log1, rs1, ())"
      and "LoggingSender_Do example_sender (example_request []) [] (\<lambda>_. []) () = ((Some ''200'', None), log2, rs2, ())"
    using ends by metis
  moreover from this have "log1 = log2"
    by (rule authorization_not_logged [rotated 3]) (simp_all add: example_request_def sm_del_def)
  ultimately show ?thesis by simp
qed

end
