(* ===== verification/Cli.thy ===== *)
theory Cli
  imports Install Go_Path
begin

text \<open>
  cmd/aro: the commands of the program over the parts of the development. The world of the vault and of
  the metadata service (\<open>'e\<close>) is used while the installer is made; the store of the cluster (\<open>'s\<close>)
  afterwards. Standard output and the texts of the log are left out.
\<close>

section \<open>The constructors that make an installer\<close>

record 's storage_sdk =
  sd_NewAccountsClient ::
    "string \<Rightarrow> credential \<Rightarrow> client_options option \<Rightarrow> (string \<Rightarrow> string \<Rightarrow> string \<Rightarrow> string \<Rightarrow> 's \<Rightarrow> string option result \<times> 's) result"
  sd_NewClient :: "string \<Rightarrow> credential \<Rightarrow> client_options \<Rightarrow> 's blobs_client result"
  sd_NewClientWithNoCredential :: "string \<Rightarrow> client_options \<Rightarrow> 's blobs_client result"

definition NewBlobsClientUsingSAS :: "'s storage_sdk \<Rightarrow> string \<Rightarrow> client_options option \<Rightarrow> 's blobs_client result" where
  "NewBlobsClientUsingSAS sdk sasURL options = andThen (deref options) (sd_NewClientWithNoCredential sdk sasURL)"

definition NewBlobsClientUsingEntra :: "'s storage_sdk \<Rightarrow> string \<Rightarrow> credential \<Rightarrow> client_options option \<Rightarrow> 's blobs_client result" where
  "NewBlobsClientUsingEntra sdk serviceURL cred options = andThen (deref options) (sd_NewClient sdk serviceURL cred)"

text \<open>With workload identity there is no accounts client: a call of it would dereference nil.\<close>

definition storage_NewManager ::
  "'s storage_sdk \<Rightarrow> string \<Rightarrow> string \<Rightarrow> credential \<Rightarrow> bool \<Rightarrow> client_options option \<Rightarrow> ('s blobs_client, 's) storage_manager result" where
  "storage_NewManager sdk subscriptionID storageEndpointSuffix cred usesWorkloadIdentity options =
     andThen (if usesWorkloadIdentity then Ok (\<lambda>rg acc p t s. (Panic, s)) else sd_NewAccountsClient sdk subscriptionID cred options)
       (\<lambda>accounts. Ok
         \<lparr>sm_ListAccountSAS = accounts,
          sm_NewUsingEntra = (\<lambda>url. NewBlobsClientUsingEntra sdk url cred options),
          sm_NewUsingSAS = (\<lambda>url. NewBlobsClientUsingSAS sdk url options),
          sm_usesWorkloadIdentity = usesWorkloadIdentity, sm_storageEndpointSuffix = storageEndpointSuffix\<rparr>)"

definition NewDeploymentsClient ::
  "(string \<Rightarrow> string \<Rightarrow> authorizer option \<Rightarrow> ('t, 's) deploymentsClient) \<Rightarrow> environment \<Rightarrow> string \<Rightarrow> authorizer option \<Rightarrow> ('t, 's) deploymentsClient" where
  "NewDeploymentsClient sdk e subscriptionID auth =
     (sdk (env_ResourceManagerEndpoint e) subscriptionID auth)\<lparr>dc_PollingDelay := 10 * second, dc_PollingDuration := 60 * minute\<rparr>"

definition EncryptionSecretName :: string where "EncryptionSecretName = ''encryption-key''"
definition EncryptionSecretV2Name :: string where "EncryptionSecretV2Name = ''encryption-key-v2''"

record ('e, 's) cli_deps =
  cli_env :: "'e env_deps"
  cli_read_cluster :: "string \<Rightarrow> openshift_cluster result"
  cli_read_subscription :: "string \<Rightarrow> string option result"
  cli_storage :: "'s storage_sdk"
  cli_deployments :: "string \<Rightarrow> string \<Rightarrow> authorizer option \<Rightarrow> (arm_template \<times> json, 's) deploymentsClient"
  cli_etm :: "string \<Rightarrow> cipher result"
  cli_chacha :: "string \<Rightarrow> cipher result"
  cli_encode :: "installer_asset \<Rightarrow> json result"

record ('e, 's) made_installer =
  mi_manager :: "'e manager"
  mi_authorizer :: "authorizer option"
  mi_deployments :: "(arm_template \<times> json, 's) deploymentsClient"
  mi_graph :: "(installer_asset, 's) graph_manager"

text \<open>The decoded subscription is the tenant behind its properties, which may be missing.\<close>

definition makeInstaller :: "('e, 's) cli_deps \<Rightarrow> 'e \<Rightarrow> ('e, 's) made_installer result \<times> 'e" where
  "makeInstaller d w =
     (let ed = cli_env d in
      st_bind (NewEnv ed w) (\<lambda>env w.
      st_bind (ed_ReadFile ed ''/.azure/99_aro.json'', w) (\<lambda>ocFile w.
      st_bind (cli_read_cluster d ocFile, w) (\<lambda>oc w.
      st_bind (ed_ReadFile ed ''/.azure/99_sub.json'', w) (\<lambda>subFile w.
      st_bind (cli_read_subscription d subFile, w) (\<lambda>properties w.
      st_bind (deref properties, w) (\<lambda>tenant w.
      st_bind (case NewAuthorizer ed env tenant of (r, a) \<Rightarrow> (andThen r (\<lambda>_. Ok a), w)) (\<lambda>fpAuthorizer w.
      st_bind (FPNewClientCertificateCredential ed (p_fpClientID env) (p_fpCertificateRefresher env) tenant, w) (\<lambda>fpCred w.
      st_bind (ed_ParseResourceID ed (oc_ID oc), w) (\<lambda>r w.
      let e = im_environment (p_im env) in
      st_bind (storage_NewManager (cli_storage d) (SubscriptionID r) (env_StorageEndpointSuffix e) fpCred (UsesWorkloadIdentity oc)
                 (Some (ArmClientOptions e)), w) (\<lambda>storage w.
      st_bind (NewMulti (cli_etm d) (cli_chacha d) (p_serviceKeyvault env) EncryptionSecretV2Name EncryptionSecretName w) (\<lambda>aead w.
        (Ok \<lparr>mi_manager = \<lparr>mg_vars = ed_env ed, mg_env = env, mg_clusterUUID = Getenv (ed_env ed) ''ARO_UUID'', mg_oc = oc,
               mg_TenantID = Some tenant\<rparr>,
             mi_authorizer = fpAuthorizer,
             mi_deployments = NewDeploymentsClient (cli_deployments d) e (SubscriptionID r) fpAuthorizer,
             mi_graph = \<lparr>gm_aead = aead, gm_storage = storage, gm_encode = cli_encode d, gm_ignition = installer_ignition\<rparr>\<rparr>, w)))))))))))))"

section \<open>The cluster command\<close>

text \<open>The exit status. A program that panics ends with status 2.\<close>

fun exit_status :: "'a result \<Rightarrow> nat" where
  "exit_status (Ok a) = 0"
| "exit_status (Err e) = 1"
| "exit_status Panic = 2"

definition cluster_command ::
  "clock list \<Rightarrow> ('e, 's) cli_deps \<Rightarrow> ('k, 'r, 'c, 's, 'e) install_deps \<Rightarrow> ('u, 'dk, 'q, 's) deploy_deps \<Rightarrow> 'e \<Rightarrow> 's
     \<Rightarrow> (nat \<times> ('c, 's) install_state) option" where
  "cluster_command clocks d insd dd w s =
     (case makeInstaller d w of
        (Ok i, _) \<Rightarrow>
          map_option (\<lambda>(r, st). (exit_status r, st))
            (Install clocks (insd\<lparr>id_env := cli_env d\<rparr>) (dd\<lparr>dd_graph := mi_graph i, dd_deployments := mi_deployments i\<rparr>) (mi_manager i)
              \<lparr>is_store = s, is_authorizer = mi_authorizer i, is_kubernetes = None\<rparr>)
      | (r, _) \<Rightarrow> Some (exit_status r, \<lparr>is_store = s, is_authorizer = None, is_kubernetes = None\<rparr>))"

section \<open>The manifests command\<close>

definition write_failure :: "string \<Rightarrow> go_error \<Rightarrow> go_error" where
  "write_failure name e = Wrapped (''failed to write asset ('' @ name @ '') to disk'') e"

text \<open>
  The loop that writes the assets. An error of \<open>Resolve\<close> is kept while the asset is looked up, and only
  returned if writing the asset fails, too; the assertion on a nil asset panics.
\<close>

fun write_assets ::
  "nat \<Rightarrow> installer_asset assets \<Rightarrow> (string \<Rightarrow> string) \<Rightarrow> (installer_asset \<Rightarrow> 'f \<Rightarrow> unit result \<times> 'f) \<Rightarrow> string list
     \<Rightarrow> asset_graph \<Rightarrow> 'f \<Rightarrow> (unit result \<times> 'f) option" where
  "write_assets k A Name PersistToFile [] g f = Some (Ok (), f)"
| "write_assets k A Name PersistToFile (m # ms) g f =
     (case Resolve k A m g of
        None \<Rightarrow> None
      | Some (Panic, g') \<Rightarrow> Some (Panic, f)
      | Some (r, g') \<Rightarrow>
          (case graph_Get g' m of
             None \<Rightarrow> Some (Panic, f)
           | Some a \<Rightarrow>
               (case PersistToFile a f of
                  (Ok u, f') \<Rightarrow> write_assets k A Name PersistToFile ms g' f'
                | (Panic, f') \<Rightarrow> Some (Panic, f')
                | (Err e2, f') \<Rightarrow>
                    Some (Err (case r of
                        Err e \<Rightarrow> Wrapped (''failed to fetch '' @ Name m) e
                      | _ \<Rightarrow> write_failure (Name m) e2), f'))))"

record ('f, 's) manifests_deps =
  md_libs :: "'f install_libs"
  md_custom :: custom_deps
  md_depth :: nat
  md_Name :: "string \<Rightarrow> string"
  md_PersistToFile :: "installer_asset \<Rightarrow> 'f \<Rightarrow> unit result \<times> 'f"

text \<open>What the command does once it has an installer.\<close>

definition run_manifests ::
  "clock list \<Rightarrow> ('f, 's) manifests_deps \<Rightarrow> ('e, 's) made_installer \<Rightarrow> ('f, 's) manifests_state \<Rightarrow> (unit result \<times> ('f, 's) manifests_state) option" where
  "run_manifests clocks md i s =
     (case Manifests clocks \<lparr>in_libs = md_libs md, in_custom = md_custom md, in_depth = md_depth md, in_graph = mi_graph i\<rparr>
         (mi_manager i) s of
        None \<Rightarrow> None
      | Some (g, Ok u, s') \<Rightarrow>
          map_option (\<lambda>(r, f). (r, s'\<lparr>ms_files := f\<rparr>))
            (write_assets (md_depth md) (cd_assets (md_custom md)) (md_Name md) (md_PersistToFile md) ignition_targets g (ms_files s'))
      | Some (g, r, s') \<Rightarrow> Some (r, s'))"

definition manifests_command ::
  "clock list \<Rightarrow> ('e, 's) cli_deps \<Rightarrow> ('f, 's) manifests_deps \<Rightarrow> 'e \<Rightarrow> ('f, 's) manifests_state \<Rightarrow> (nat \<times> ('f, 's) manifests_state) option" where
  "manifests_command clocks d md w s =
     (case makeInstaller d w of
        (Ok i, _) \<Rightarrow> map_option (\<lambda>(r, s'). (exit_status r, s')) (run_manifests clocks md i s)
      | (r, _) \<Rightarrow> Some (exit_status r, s))"

section \<open>The root command\<close>

text \<open>The levels of logrus, the most severe one first, and the names that \<open>ParseLevel\<close> knows.\<close>

definition level_names :: "string list" where
  "level_names = [''panic'', ''fatal'', ''error'', ''warning'', ''info'', ''debug'', ''trace'']"

definition ParseLevel :: "string \<Rightarrow> nat result" where
  "ParseLevel s =
     (let l = to_lower s; n = (if l = ''warn'' then ''warning'' else l) in
      if n \<in> set level_names then Ok (length (takeWhile (\<lambda>x. x \<noteq> n) level_names))
      else Err (ErrMsg (''not a valid logrus Level: '' @ quote_text s)))"

record fileHook =
  fh_level :: nat
  fh_truncateAtNewLine :: bool

definition newFileHook :: "nat \<Rightarrow> fileHook" where
  "newFileHook level = \<lparr>fh_level = level, fh_truncateAtNewLine = False\<rparr>"

definition newFileHookWithNewlineTruncate :: "nat \<Rightarrow> fileHook" where
  "newFileHookWithNewlineTruncate level = (newFileHook level)\<lparr>fh_truncateAtNewLine := True\<rparr>"

definition Levels :: "fileHook \<Rightarrow> nat list" where
  "Levels h = filter (\<lambda>l. l \<le> fh_level h) [0 ..< length level_names]"

text \<open>A log entry is its message; the formatter and the writer are parameters.\<close>

fun fire_lines :: "(string \<Rightarrow> string result) \<Rightarrow> (string \<Rightarrow> 'f \<Rightarrow> unit result \<times> 'f) \<Rightarrow> string list \<Rightarrow> 'f \<Rightarrow> unit result \<times> 'f" where
  "fire_lines Format Write [] f = (Ok (), f)"
| "fire_lines Format Write (msg # msgs) f =
     st_bind (Format msg, f) (\<lambda>line f. st_bind (Write line f) (\<lambda>_ f. fire_lines Format Write msgs f))"

text \<open>The entry's message is changed for each line and put back when the call returns.\<close>

definition Fire :: "(string \<Rightarrow> string result) \<Rightarrow> (string \<Rightarrow> 'f \<Rightarrow> unit result \<times> 'f) \<Rightarrow> fileHook \<Rightarrow> string \<Rightarrow> 'f \<Rightarrow> unit result \<times> string \<times> 'f" where
  "Fire Format Write h message f =
     (case fire_lines Format Write (if fh_truncateAtNewLine h then split_on nl message else [message]) f of
        (r, f') \<Rightarrow> (r, message, f'))"

text \<open>The hook is installed before an invalid level ends the program.\<close>

definition runRootCmd :: "string \<Rightarrow> fileHook \<times> unit result" where
  "runRootCmd logLevel =
     (case ParseLevel logLevel of
        Ok level \<Rightarrow> (newFileHookWithNewlineTruncate level, Ok ())
      | Err e \<Rightarrow> (newFileHookWithNewlineTruncate 4, Err (Wrapped ''invalid log-level'' e))
      | Panic \<Rightarrow> (newFileHookWithNewlineTruncate 4, Panic))"

section \<open>Properties of the manifests command\<close>

text \<open>The reference: the assets are written in their order, up to the first that cannot be.\<close>

fun persist_all :: "('a \<Rightarrow> string) \<Rightarrow> ('a \<Rightarrow> 'b) \<Rightarrow> ('b \<Rightarrow> 'f \<Rightarrow> unit result \<times> 'f) \<Rightarrow> 'a list \<Rightarrow> 'f \<Rightarrow> unit result \<times> 'f" where
  "persist_all Name asset PersistToFile [] f = (Ok (), f)"
| "persist_all Name asset PersistToFile (m # ms) f =
     (case PersistToFile (asset m) f of
        (Ok u, f') \<Rightarrow> persist_all Name asset PersistToFile ms f'
      | (Err e, f') \<Rightarrow> (Err (write_failure (Name m) e), f')
      | (Panic, f') \<Rightarrow> (Panic, f'))"

lemma write_present:
  "\<forall>m \<in> set ms. graph_Get g m \<noteq> None \<Longrightarrow>
   write_assets (Suc k) A Name P ms g f = Some (persist_all Name (\<lambda>m. the (graph_Get g m)) P ms f)"
proof (induction ms arbitrary: f)
  case (Cons m ms)
  then obtain a where "graph_Get g m = Some a" by auto
  then show ?case using Cons by (auto split: prod.splits outcome.splits)
qed simp

text \<open>What an asset that is not in the graph leaves of it: still no asset of that name, unless it was generated.\<close>

lemma Resolve_absent:
  assumes "ranked rk A" "Resolve k A a g = Some (r, g')" "r \<noteq> Ok ()"
  shows "graph_Get g' a = None"
proof (cases k)
  case (Suc n)
  with assms(2,3) have none: "graph_Get g a = None" by (auto split: if_splits)
  with Suc assms(2) obtain r1 g1 where d: "Resolve_deps n A (as_deps A a) g = Some (r1, g1)" by (auto split: option.splits)
  have "\<forall>x \<in> set (as_deps A a). rk x < rk a" using assms(1) by (simp add: ranked_def)
  then have "new_below rk (rk a) g g1" using Resolve_resolved(2) [OF assms(1) d] by (simp add: resolved_def)
  then have "graph_Get g1 a = None" using none unfolding new_below_def by (metis less_irrefl)
  moreover have "g' = g1" using Suc assms(2,3) none d by (auto split: outcome.splits)
  ultimately show ?thesis by simp
qed (use assms(2) in simp)

lemma write_error:
  assumes "ranked rk A" "write_assets k A Name P ms g f = Some (Err e, f')"
  shows "\<exists>m a h e1 f1. m \<in> set ms \<and> P a f1 = (Err e1, f') \<and> graph_Get h m = Some a
    \<and> e = write_failure (Name m) e1"
  using assms(2)
proof (induction ms arbitrary: g f)
  case (Cons m ms)
  obtain r h where r: "Resolve k A m g = Some (r, h)" "r \<noteq> Panic"
    using Cons.prems by (auto split: option.splits prod.splits outcome.splits)
  then obtain a where a: "graph_Get h m = Some a" using Cons.prems by (auto split: option.splits outcome.splits)
  then have ok: "r = Ok ()" using Resolve_absent [OF assms(1) r(1)] by auto
  obtain q f1 where q: "P a f = (q, f1)" by fastforce
  show ?case
  proof (cases q)
    case (Ok u)
    then have "write_assets k A Name P ms h f1 = Some (Err e, f')" using Cons.prems r a ok q by simp
    from Cons.IH [OF this] obtain m1 where "m1 \<in> set ms" "\<exists>a h e1 f1. P a f1 = (Err e1, f') \<and> graph_Get h m1 = Some a
      \<and> e = write_failure (Name m1) e1" by blast
    then show ?thesis by (intro exI [of _ m1]) simp
  next
    case (Err e1)
    then have "P a f = (Err e1, f')" "e = write_failure (Name m) e1" using Cons.prems r a ok q by simp_all
    then show ?thesis using a by (metis list.set_intros(1))
  next
    case Panic
    then show ?thesis using Cons.prems r a ok q by simp
  qed
qed simp

lemma Manifests_Ok:
  assumes "Manifests clocks i m w = Some (g, Ok (), w')"
  shows "\<exists>ia img. fst (generateInstallConfig (in_libs i) m (ms_files w)) = Ok (ia, img)
    \<and> applyInstallConfigCustomisations (in_depth i) (in_custom i) m ia img = Some (Ok g)
    \<and> snd (generateInstallConfig (in_libs i) m (ms_files w)) = ms_files w'"
proof -
  let ?w = "w\<lparr>ms_config := None, ms_graph := []\<rparr>"
  from assms have "Run clocks [Action (generate_action i m), Action (customise_action i m), Action (persist_action i m)] ?w = Some (Ok (), w')"
    and g: "g = ms_graph w'" by (auto simp: Manifests_def)
  then obtain w1 w2 where "generate_action i m ?w = (Ok (), w1)" "customise_action i m w1 = (Ok (), w2)"
    "persist_action i m w2 = (Ok (), w')" using Run_three by meson
  with g show ?thesis
    by (auto simp: generate_action_def customise_action_def persist_action_def split: prod.splits outcome.splits option.splits)
qed

text \<open>C22: When the manifests command ends without an error, it has written to disk every target of the ignition
  configurations, in the order of the targets and as it is in the customised graph of the configuration
  that was generated: nothing is resolved anew, and no asset is left out.\<close>

theorem manifests_written:
  assumes "run_manifests clocks md i s = Some (Ok (), s')"
    and "ranked rk (cd_assets (md_custom md))" "\<forall>t \<in> set ignition_targets. rk t < md_depth md"
  shows "\<exists>ia img f g. generateInstallConfig (md_libs md) (mi_manager i) (ms_files s) = (Ok (ia, img), f)
    \<and> applyInstallConfigCustomisations (md_depth md) (md_custom md) (mi_manager i) ia img = Some (Ok g)
    \<and> (\<forall>t \<in> set ignition_targets. graph_Get g t \<noteq> None)
    \<and> persist_all (md_Name md) (\<lambda>t. the (graph_Get g t)) (md_PersistToFile md) ignition_targets f = (Ok (), ms_files s')"
proof -
  let ?i = "\<lparr>in_libs = md_libs md, in_custom = md_custom md, in_depth = md_depth md, in_graph = mi_graph i\<rparr>"
  obtain g w1 f1 where m: "Manifests clocks ?i (mi_manager i) s = Some (g, Ok (), w1)"
    and w: "write_assets (md_depth md) (cd_assets (md_custom md)) (md_Name md) (md_PersistToFile md) ignition_targets g (ms_files w1)
      = Some (Ok (), f1)" and s': "s' = w1\<lparr>ms_files := f1\<rparr>"
    using assms(1) by (auto simp: run_manifests_def split: option.splits outcome.splits prod.splits)
  from Manifests_Ok [OF m] obtain ia img where gen: "generateInstallConfig (md_libs md) (mi_manager i) (ms_files s) = (Ok (ia, img), ms_files w1)"
    and app: "applyInstallConfigCustomisations (md_depth md) (md_custom md) (mi_manager i) ia img = Some (Ok g)"
    by (auto simp: prod_eq_iff)
  have t: "\<forall>t \<in> set ignition_targets. graph_Get g t \<noteq> None" using applied_targets [OF assms(2,3) app] by blast
  obtain k where "md_depth md = Suc k" using assms(3) by (cases "md_depth md") (auto simp: ignition_targets_def)
  with write_present [OF t, where f = "ms_files w1" and P = "md_PersistToFile md" and Name = "md_Name md" and A = "cd_assets (md_custom md)"] w
  have "persist_all (md_Name md) (\<lambda>t. the (graph_Get g t)) (md_PersistToFile md) ignition_targets (ms_files w1) = (Ok (), f1)"
    by simp
  then show ?thesis using gen app t s' by auto
qed

text \<open>An asset that cannot be resolved never ends the command with an error of its own: whatever graph the loop
  starts from, the only errors it returns are those of writing a file, and a first asset that is missing
  and cannot be generated makes it panic.\<close>

theorem unresolved_asset_panics:
  assumes "ranked rk A"
  shows "(write_assets k A Name P ms g f = Some (Err e, f') \<longrightarrow>
      (\<exists>m \<in> set ms. \<exists>a e1 f1. P a f1 = (Err e1, f') \<and> e = write_failure (Name m) e1))
    \<and> (Resolve k A m g = Some (Err e2, h) \<longrightarrow> write_assets k A Name P (m # ms) g f = Some (Panic, f))"
  using write_error [OF assms] Resolve_absent [OF assms, of k m g "Err e2" h] by fastforce

theorem unresolved_asset_panics_witness:
  "write_assets 1 \<lparr>as_deps = (\<lambda>a. []), as_generate = (\<lambda>a g. Err Canceled)\<rparr> (\<lambda>n. n) (\<lambda>a f. (Ok (), f)) [''*a''] [] () = Some (Panic, ())"
proof -
  let ?A = "\<lparr>as_deps = (\<lambda>a. []), as_generate = (\<lambda>a g. Err Canceled)\<rparr> :: installer_asset assets"
  have "ranked (\<lambda>_. 0) ?A" by (simp add: ranked_def)
  from unresolved_asset_panics [OF this, where k = 1 and m = "''*a''" and ms = "[]" and g = "[]" and f = "()" and P = "\<lambda>a f. (Ok (), f)" and Name = "\<lambda>n. n"]
  show ?thesis by simp
qed

definition demo_made :: "(unit, memory) made_installer" where
  "demo_made =
     \<lparr>mi_manager = demo_install, mi_authorizer = None, mi_deployments = dd_deployments demo_deploy, mi_graph = in_graph demo_installer\<rparr>"

definition demo_manifests_deps :: "(unit, memory) manifests_deps" where
  "demo_manifests_deps =
     \<lparr>md_libs = demo_libs, md_custom = demo_custom_deps, md_depth = 2, md_Name = (\<lambda>n. n), md_PersistToFile = (\<lambda>a f. (Ok (), f))\<rparr>"

lemma persist_all_writes: "persist_all Name asset (\<lambda>a f. (Ok (), f)) ms f = (Ok (), f)"
  by (induction ms) auto

theorem manifests_written_witness:
  "\<exists>s' ia img f g. run_manifests (replicate 3 demo_clock) demo_manifests_deps demo_made demo_start = Some (Ok (), s')
    \<and> generateInstallConfig demo_libs demo_install () = (Ok (ia, img), f)
    \<and> applyInstallConfigCustomisations 2 demo_custom_deps demo_install ia img = Some (Ok g)
    \<and> graph_Get g bootstrap_asset \<noteq> None"
proof -
  have i: "\<lparr>in_libs = md_libs demo_manifests_deps, in_custom = md_custom demo_manifests_deps, in_depth = md_depth demo_manifests_deps,
      in_graph = mi_graph demo_made\<rparr> = demo_installer" "mi_manager demo_made = demo_install"
    by (simp_all add: demo_manifests_deps_def demo_made_def demo_installer_def)
  obtain g w' where m: "Manifests (replicate 3 demo_clock) demo_installer demo_install demo_start = Some (g, Ok (), w')"
    using demo_manifests by blast
  have d: "in_custom demo_installer = demo_custom_deps" "in_depth demo_installer = Suc 1" "md_custom demo_manifests_deps = demo_custom_deps"
    "md_depth demo_manifests_deps = Suc 1" "ms_files demo_start = ()" "md_libs demo_manifests_deps = demo_libs"
    by (simp_all add: demo_installer_def demo_manifests_deps_def demo_start_def)
  have rk: "ranked demo_rank (cd_assets (md_custom demo_manifests_deps))" "\<forall>t \<in> set ignition_targets. demo_rank t < md_depth demo_manifests_deps"
    using demo_ranked by (simp_all add: d numeral_2_eq_2)
  have "\<forall>t \<in> set ignition_targets. graph_Get g t \<noteq> None"
    using applied_targets [OF rk] Manifests_Ok [OF m] unfolding d by metis
  note w = write_present [OF this]
  have "run_manifests (replicate 3 demo_clock) demo_manifests_deps demo_made demo_start = Some (Ok (), w')"
    unfolding run_manifests_def i unfolding m d by (simp add: w demo_manifests_deps_def persist_all_writes del: write_assets.simps)
  moreover from manifests_written [OF this rk] have "\<exists>ia img f g. generateInstallConfig demo_libs demo_install () = (Ok (ia, img), f)
    \<and> applyInstallConfigCustomisations 2 demo_custom_deps demo_install ia img = Some (Ok g) \<and> graph_Get g bootstrap_asset \<noteq> None"
    unfolding d i(2) numeral_2_eq_2 by (auto simp: ignition_targets_def bootstrap_asset_def)
  ultimately show ?thesis by blast
qed

section \<open>Properties of the log\<close>

lemma fire_lines_all:
  "fire_lines (\<lambda>m. Ok (F m)) (\<lambda>l f. (Ok (), f @ [l])) msgs f = (Ok (), f @ map F msgs)"
  by (induction msgs arbitrary: f) auto

lemma fire_lines_fails:
  assumes "\<forall>m \<in> set ms. Format m = Ok (F m)" "Format m = Err e"
  shows "fire_lines Format (\<lambda>l f. (Ok (), f @ [l])) (ms @ m # rest) f = (Err e, f @ map F ms)"
  using assms(1) by (induction ms arbitrary: f) (auto simp: assms(2))

text \<open>The hook that the root command installs writes one line for each line of the message, in their order and
  up to the first that cannot be formatted, and the message of the entry is as it was for the next
  hook, after an error, too.\<close>

theorem log_lines:
  "Fire (\<lambda>m. Ok (F m)) (\<lambda>l f. (Ok (), f @ [l])) (newFileHookWithNewlineTruncate level) message f
     = (Ok (), message, f @ map F (split_on nl message))
   \<and> length (split_on nl message) = Suc (count_list message nl)
   \<and> fst (snd (Fire Format Write h message f')) = message"
  by (auto simp: Fire_def fire_lines_all newFileHookWithNewlineTruncate_def newFileHook_def split_simps split: prod.splits)

lemma takeWhile_index:
  "n \<in> set xs \<Longrightarrow> length (takeWhile (\<lambda>x. x \<noteq> n) xs) < length xs \<and> xs ! length (takeWhile (\<lambda>x. x \<noteq> n) xs) = n"
  by (metis (mono_tags, lifting) length_takeWhile_le nth_length_takeWhile takeWhile_eq_all_conv le_neq_implies_less
      takeWhile_eq_take take_all_iff order_refl)

text \<open>A level that is accepted is one of the seven names in any case, or warn; the hook then is called for that
  level and for every more severe one, and for no other.\<close>

theorem log_levels:
  assumes "ParseLevel s = Ok level"
  shows "level < 7 \<and> (to_lower s = level_names ! level \<or> to_lower s = ''warn'' \<and> level = 3)
    \<and> set (Levels (fst (runRootCmd s))) = {l. l \<le> level}"
proof -
  define n where "n = (if to_lower s = ''warn'' then ''warning'' else to_lower s)"
  have n: "n \<in> set level_names" "level = length (takeWhile (\<lambda>x. x \<noteq> n) level_names)"
    using assms by (auto simp: ParseLevel_def Let_def n_def [symmetric] split: if_splits)
  then have l: "level < 7" "level_names ! level = n" using takeWhile_index [OF n(1)] by (auto simp: level_names_def)
  have "level = 3" if "to_lower s = ''warn''" using that n(2) by (simp add: n_def level_names_def)
  moreover have "set (Levels (fst (runRootCmd s))) = {x. x \<le> level}"
    using l(1) assms by (auto simp: Levels_def runRootCmd_def newFileHookWithNewlineTruncate_def newFileHook_def level_names_def)
  ultimately show ?thesis using l by (auto simp: n_def split: if_splits)
qed

theorem log_levels_witness:
  "ParseLevel ''Warn'' = Ok 3 \<and> set (Levels (fst (runRootCmd ''Warn''))) = {l. l \<le> 3}"
proof -
  have "ParseLevel ''Warn'' = Ok 3" by code_simp
  with log_levels [OF this] show ?thesis by simp
qed

end
