(* ===== verification/Typed_Graph.thy ===== *)
theory Typed_Graph
  imports Customised
begin

text \<open>
  The types of the assets in the graph. The code keeps assets of any type in one map and asserts the type
  of what it looks up; an assertion that fails is a panic. Here: the assets that the customisations look
  up are of the types they are asserted to be, in every graph the customisations see.
\<close>

section \<open>Typing\<close>

definition has_type :: "string \<Rightarrow> installer_asset \<Rightarrow> bool" where
  "has_type n a =
     ((n = bootstrap_asset \<longrightarrow> (case a of AssetBootstrap b \<Rightarrow> True | _ \<Rightarrow> False))
      \<and> (n \<in> {master_name} \<longrightarrow> (case a of AssetMaster p \<Rightarrow> True | _ \<Rightarrow> False))
      \<and> (n \<in> {worker_name} \<longrightarrow> (case a of AssetWorker p \<Rightarrow> True | _ \<Rightarrow> False))
      \<and> (n \<in> {cvo_name} \<longrightarrow> (case a of AssetCVOIgnore fs \<Rightarrow> True | _ \<Rightarrow> False))
      \<and> (n \<in> {root_ca_name} \<longrightarrow> (case a of AssetRootCA ca \<Rightarrow> True | _ \<Rightarrow> False)))"

definition well_typed :: "asset_graph \<Rightarrow> bool" where
  "well_typed g = (\<forall>n a. graph_Get g n = Some a \<longrightarrow> has_type n a)"

definition asserted_names :: "string list" where
  "asserted_names = [bootstrap_asset, master_name, worker_name, cvo_name, root_ca_name]"

text \<open>A generator puts an asset of its own type into the graph: the graph is keyed by that type's name.\<close>

definition generators_typed :: "installer_asset assets \<Rightarrow> bool" where
  "generators_typed A = (\<forall>n g a. as_generate A n g = Ok a \<longrightarrow> has_type n a)"

definition assertable :: "asset_graph \<Rightarrow> bool" where
  "assertable g \<longleftrightarrow> well_typed g \<and> (\<forall>n \<in> set asserted_names. graph_Get g n \<noteq> None)"

lemma typed_entry:
  assumes "well_typed g" "graph_Get g n \<noteq> None"
  obtains a where "graph_Get g n = Some a" "has_type n a"
  using assms by (auto simp: well_typed_def)

lemma well_typed_look_up:
  assumes "well_typed g"
  shows "graph_Get g bootstrap_asset \<noteq> None \<Longrightarrow> \<exists>b. bootstrap_in g = Ok b"
    and "graph_Get g master_name \<noteq> None \<Longrightarrow> \<exists>p. master_in g = Ok p"
    and "graph_Get g worker_name \<noteq> None \<Longrightarrow> \<exists>p. worker_in g = Ok p"
    and "graph_Get g cvo_name \<noteq> None \<Longrightarrow> \<exists>fs. cvo_in g = Ok fs"
    and "graph_Get g root_ca_name \<noteq> None \<Longrightarrow> \<exists>ca. rootCA_in g = Ok ca"
  by (erule typed_entry [OF assms], simp add: bootstrap_in_def master_in_def worker_in_def cvo_in_def rootCA_in_def has_type_def
      split: installer_asset.splits)+

lemma assertable_Ok:
  assumes "assertable g"
  shows "\<exists>b p q fs ca. bootstrap_in g = Ok b \<and> master_in g = Ok p \<and> worker_in g = Ok q \<and> cvo_in g = Ok fs \<and> rootCA_in g = Ok ca"
proof -
  have w: "well_typed g" using assms by (simp add: assertable_def)
  have n: "graph_Get g n \<noteq> None" if "n \<in> set asserted_names" for n using assms that by (simp add: assertable_def)
  show ?thesis using well_typed_look_up [OF w] n [unfolded asserted_names_def] by simp
qed

lemma well_typed_Set: "well_typed g \<Longrightarrow> \<forall>(n, a) \<in> set as. has_type n a \<Longrightarrow> well_typed (graph_Set as g)"
proof (induction as arbitrary: g)
  case (Cons x as)
  obtain n a where x: "x = (n, a)" by (cases x)
  have "well_typed (sm_put n a g)" using Cons.prems by (auto simp: well_typed_def sm_get_put x split: if_splits)
  then show ?case using Cons.IH [of "sm_put n a g"] Cons.prems(2) by (simp add: graph_Set_def x)
qed (simp add: graph_Set_def)

lemma has_type_wrappers [simp]:
  "has_type bootstrap_asset (AssetBootstrap b)" "has_type master_name (AssetMaster p)" "has_type worker_name (AssetWorker p)"
  "has_type cvo_name (AssetCVOIgnore fs)"
  by (simp_all add: has_type_def asset_names)

lemma well_typed_put [simp]: "well_typed g \<Longrightarrow> well_typed (put_bootstrap b g)"
  unfolding put_bootstrap_def by (rule well_typed_Set) simp_all

section \<open>The operations keep the types\<close>

lemma typed_steps:
  "well_typed g \<Longrightarrow> on_bootstrap f g = Ok g' \<Longrightarrow> well_typed g'"
  "well_typed g \<Longrightarrow> overrideEthernetMTU l g = Ok g' \<Longrightarrow> well_typed g'"
  "well_typed g \<Longrightarrow> appendFilesToBootstrap l k fs g = Ok g' \<Longrightarrow> well_typed g'"
  "well_typed g \<Longrightarrow> appendFilesToCvoOverrides l fs g = Ok g' \<Longrightarrow> well_typed g'"
  "well_typed g \<Longrightarrow> removeDNSConfigData l ic g = Ok g' \<Longrightarrow> well_typed g'"
  "well_typed g \<Longrightarrow> updateMCSCertKey l ic dns g = Ok g' \<Longrightarrow> well_typed g'"
  by (auto simp: on_bootstrap_Ok overrideEthernetMTU_def appendFilesToBootstrap_def appendFilesToCvoOverrides_def
      removeDNSConfigData_def updateMCSCertKey_def outcome_simps Let_def intro!: well_typed_Set split: if_splits)

lemma typed_pointers: "well_typed g \<Longrightarrow> replacePointerIgnition l dns g = Ok g' \<Longrightarrow> well_typed g'"
  by (erule replacePointerIgnition_Ok) (auto intro!: well_typed_Set)

text \<open>The customisations, as the operations that \<open>customise\<close> composes.\<close>

definition customisations :: "custom_deps \<Rightarrow> 's manager \<Rightarrow> install_config \<Rightarrow> prepared \<Rightarrow> (asset_graph \<Rightarrow> asset_graph result) list" where
  "customisations d m ic pp =
     (let l = cd_libs d; ign = cl_ign l; dns = pp_dns pp in
      (if MTUSize (NetworkProfile (mg_oc m)) = MTU3900 then [overrideEthernetMTU l] else [])
      @ (if pp_manifestsExist pp then [appendFilesToCvoOverrides l (pp_manifests pp), appendFilesToBootstrap l (cd_mkdir d) (pp_manifests pp)] else [])
      @ [on_bootstrap (\<lambda>b. CreatednsmasqIgnitionFiles ign b ic dns),
         on_bootstrap (\<lambda>b. AppendMdsdFiles ign b (pp_logging pp)),
         on_bootstrap (\<lambda>b. AppendManifestsFilesToBootstrap ign b (manifests_config_of m ic pp)),
         on_bootstrap (\<lambda>b. AppendEtcHostFiles ign b ic dns), removeDNSConfigData l ic, replacePointerIgnition l dns,
         updateMCSCertKey l ic dns, on_bootstrap (\<lambda>b. Ok (marshalled ign b))])"

lemma foldOk_composed:
  "foldOk f [] = Ok" "foldOk f (x # xs) = (\<lambda>s. andThen (f x s) (foldOk f xs))"
  by (simp_all add: fun_eq_iff)

lemma customise_composition: "customise d m ic pp g = foldOk (\<lambda>f g. f g) (customisations d m ic pp) g"
  by (cases "MTUSize (NetworkProfile (mg_oc m)) = MTU3900"; cases "pp_manifestsExist pp")
    (simp_all add: customise_def customisations_def Let_def foldOk_composed andThen_assoc del: foldOk.simps)

lemma sm_invar_Set: "sm_invar g \<Longrightarrow> sm_invar (graph_Set as g)"
  unfolding graph_Set_def by (induction as arbitrary: g) (auto simp: sm_invar_put)

lemma invar_steps:
  "sm_invar g \<Longrightarrow> on_bootstrap f g = Ok g' \<Longrightarrow> sm_invar g'"
  "sm_invar g \<Longrightarrow> overrideEthernetMTU l g = Ok g' \<Longrightarrow> sm_invar g'"
  "sm_invar g \<Longrightarrow> appendFilesToBootstrap l k fs g = Ok g' \<Longrightarrow> sm_invar g'"
  "sm_invar g \<Longrightarrow> appendFilesToCvoOverrides l fs g = Ok g' \<Longrightarrow> sm_invar g'"
  "sm_invar g \<Longrightarrow> removeDNSConfigData l ic g = Ok g' \<Longrightarrow> sm_invar g'"
  "sm_invar g \<Longrightarrow> updateMCSCertKey l ic dns g = Ok g' \<Longrightarrow> sm_invar g'"
  by (auto simp: on_bootstrap_Ok overrideEthernetMTU_def appendFilesToBootstrap_def appendFilesToCvoOverrides_def
      removeDNSConfigData_def updateMCSCertKey_def put_bootstrap_def outcome_simps Let_def intro!: sm_invar_Set split: if_splits)

lemma invar_pointers: "sm_invar g \<Longrightarrow> replacePointerIgnition l dns g = Ok g' \<Longrightarrow> sm_invar g'"
  by (erule replacePointerIgnition_Ok) (auto intro!: sm_invar_Set)

definition customisation :: "(asset_graph \<Rightarrow> asset_graph result) \<Rightarrow> bool" where
  "customisation f \<longleftrightarrow> (\<forall>g g'. f g = Ok g' \<longrightarrow>
     touches wrapper_assets g g' \<and> (well_typed g \<longrightarrow> well_typed g') \<and> (sm_invar g \<longrightarrow> sm_invar g'))"

lemma customisation_steps:
  "customisation (on_bootstrap h)" "customisation (overrideEthernetMTU l)" "customisation (appendFilesToBootstrap l k fs)"
  "customisation (appendFilesToCvoOverrides l fs)" "customisation (removeDNSConfigData l ic)"
  "customisation (replacePointerIgnition l dns)" "customisation (updateMCSCertKey l ic dns)"
  unfolding customisation_def using touches_steps typed_steps typed_pointers invar_steps invar_pointers by meson+

lemma customisations_are: "list_all customisation (customisations d m ic pp)"
  by (simp add: customisations_def Let_def customisation_steps)

lemma customised_invar:
  assumes "customise d m ic pp g = Ok g'" "sm_invar g"
  shows "sm_invar g'"
proof -
  have "list_all customisation fs \<Longrightarrow> sm_invar h \<Longrightarrow> foldOk (\<lambda>f g. f g) fs h = Ok h' \<Longrightarrow> sm_invar h'" for fs h h'
    by (induction fs arbitrary: h) (auto simp: outcome_simps customisation_def)
  from this [OF customisations_are assms(2) assms(1) [unfolded customise_composition]] show ?thesis .
qed

lemma customised_master:
  assumes "customise d m ic pp g0 = Ok g"
  shows "\<exists>p q. points_to (cd_libs d) (pp_dns pp) ''master'' p q \<and> graph_Get g master_name = Some (AssetMaster q)"
proof -
  let ?l = "cd_libs d"
  from assms obtain g7 g8 g9 where r: "replacePointerIgnition ?l (pp_dns pp) g7 = Ok g8"
    and u: "updateMCSCertKey ?l ic (pp_dns pp) g8 = Ok g9" and m: "on_bootstrap (\<lambda>b. Ok (marshalled (cl_ign ?l) b)) g9 = Ok g"
    unfolding customise_def Let_def andThen_Ok_iff by blast
  have names: "master_name \<noteq> bootstrap_asset" "master_name \<noteq> worker_name" by (simp_all add: asset_names)
  have "graph_Get g master_name = graph_Get g8 master_name"
    using u m names
    by (auto simp: on_bootstrap_Ok updateMCSCertKey_def put_bootstrap_def graph_Set_def sm_get_put outcome_simps split: if_splits)
  then show ?thesis
    using r names by (elim replacePointerIgnition_Ok) (auto simp: graph_Set_def sm_get_put)
qed

lemma customisation_keeps:
  assumes "f \<in> set (customisations d m ic pp)" "assertable g" "f g = Ok g'"
  shows "assertable g'"
  using customisations_are [of d m ic pp] assms by (auto simp: list_all_iff customisation_def assertable_def touches_def)

lemma customisations_prefix:
  assumes "set fs \<subseteq> set (customisations d m ic pp)" "assertable g" "foldOk (\<lambda>f g. f g) fs g = Ok g'"
  shows "assertable g'"
  using assms
proof (induction fs arbitrary: g)
  case (Cons f fs)
  then obtain h where "f g = Ok h" "foldOk (\<lambda>f g. f g) fs h = Ok g'" by (auto simp: outcome_simps)
  then show ?case using Cons customisation_keeps [of f d m ic pp g h] by auto
qed simp

section \<open>What the resolved graph holds\<close>

lemma resolved_typed:
  assumes "grows A g g'" "generators_typed A" "well_typed g"
  shows "well_typed g'"
  unfolding well_typed_def
proof (intro allI impI)
  fix n a assume a: "graph_Get g' n = Some a"
  show "has_type n a"
  proof (cases "graph_Get g n")
    case None
    from grows_new [OF assms(1) None a] show ?thesis using assms(2) by (auto simp: generators_typed_def)
  next
    case (Some b)
    with grows_mono [OF assms(1) Some] a assms(3) show ?thesis by (simp add: well_typed_def)
  qed
qed

lemma well_typed_Nil [simp]: "well_typed []"
  by (simp add: well_typed_def)

lemma initial_typed: "well_typed (initial_graph m ia img key)" "graph_Get (initial_graph m ia img key) bootstrap_asset = None"
proof -
  show "well_typed (initial_graph m ia img key)"
    unfolding initial_graph_def by (rule well_typed_Set) (simp_all add: has_type_def asset_names)
  show "graph_Get (initial_graph m ia img key) bootstrap_asset = None"
    by (simp add: initial_graph_def graph_Set_def sm_get_put asset_names)
qed

lemma resolved_assertable:
  assumes "ranked rk (cd_assets d)" "\<forall>t \<in> set ignition_targets. rk t < k" "generators_typed (cd_assets d)"
    and deps: "{cvo_name, root_ca_name} \<subseteq> set (as_deps (cd_assets d) bootstrap_asset)"
    and "Resolve_deps k (cd_assets d) ignition_targets (initial_graph m ia img key) = Some (Ok (), g)"
  shows "assertable g"
proof -
  let ?g = "initial_graph m ia img key"
  have r: "resolved (cd_assets d) rk k ignition_targets ?g (Ok ()) g" using Resolve_resolved(2) [OF assms(1,5,2)] .
  then have t: "graph_Get g n \<noteq> None" if "n \<in> set ignition_targets" for n using that by (simp add: resolved_def)
  then obtain b where b: "graph_Get g bootstrap_asset = Some b" by (fastforce simp: ignition_targets_def)
  have gr: "grows (cd_assets d) ?g g" using r by (simp add: resolved_def)
  from grows_new [OF gr initial_typed(2) b] obtain p where
    "\<forall>x \<in> set (as_deps (cd_assets d) bootstrap_asset). graph_Get p x \<noteq> None" "\<forall>y w. graph_Get p y = Some w \<longrightarrow> graph_Get g y = Some w"
    by blast
  then have "graph_Get g x \<noteq> None" if "x \<in> {cvo_name, root_ca_name}" for x using deps that by (metis not_None_eq subsetD)
  then show ?thesis
    using t b resolved_typed [OF gr assms(3) initial_typed(1)]
    by (simp add: assertable_def asserted_names_def ignition_targets_def)
qed

text \<open>C15: Every type assertion of the customisations holds: given that a generator makes an asset of its own type and
  that the bootstrap asset depends on the cluster-version overrides and on the root CA, the graph they
  start from and the graph after any number of them hold the five assets that they look up, each of the
  type that is asserted; so none of these look-ups panics.\<close>

theorem assertions_hold:
  assumes "ranked rk (cd_assets d)" "\<forall>t \<in> set ignition_targets. rk t < k" "generators_typed (cd_assets d)"
    and "{cvo_name, root_ca_name} \<subseteq> set (as_deps (cd_assets d) bootstrap_asset)"
    and "Resolve_deps k (cd_assets d) ignition_targets (initial_graph m ia img key) = Some (Ok (), g0)"
    and "foldOk (\<lambda>f g. f g) (take n (customisations d m ic pp)) g0 = Ok g"
  shows "customise d m ic pp g0 = foldOk (\<lambda>f g. f g) (customisations d m ic pp) g0 \<and> well_typed g
    \<and> (\<exists>b p q fs ca. bootstrap_in g = Ok b \<and> master_in g = Ok p \<and> worker_in g = Ok q \<and> cvo_in g = Ok fs \<and> rootCA_in g = Ok ca)"
proof -
  have "assertable g"
    using customisations_prefix [OF _ resolved_assertable [OF assms(1-5)] assms(6)] set_take_subset by metis
  then show ?thesis using customise_composition assertable_Ok by (simp add: assertable_def)
qed

lemma demo_typed: "generators_typed demo_custom_assets"
proof -
  have "well_typed demo_custom_graph"
    unfolding demo_custom_graph_def by (rule well_typed_Set) (simp_all add: has_type_def asset_names)
  moreover have "has_type n (AssetOther n)" if "graph_Get demo_custom_graph n = None" for n
    using that by (auto simp: demo_custom_graph_def graph_Set_def sm_get_put has_type_def split: if_splits)
  ultimately show ?thesis by (auto simp: generators_typed_def demo_custom_assets_def well_typed_def split: option.splits)
qed

theorem assertions_hold_witness:
  "\<exists>g0. Resolve_deps 2 demo_custom_assets ignition_targets (initial_graph demo_install demo_ia [] []) = Some (Ok (), g0)
     \<and> well_typed g0 \<and> isOk (rootCA_in g0)"
proof -
  have "case Resolve_deps 2 demo_custom_assets ignition_targets (initial_graph demo_install demo_ia [] []) of
      Some (Ok _, _) \<Rightarrow> True | _ \<Rightarrow> False" by code_simp
  then obtain g0 where g0: "Resolve_deps 2 demo_custom_assets ignition_targets (initial_graph demo_install demo_ia [] []) = Some (Ok (), g0)"
    by (auto split: option.splits outcome.splits)
  have "cd_assets demo_custom_deps = demo_custom_assets" by (simp add: demo_custom_deps_def)
  note f = this
  have rk: "ranked demo_rank demo_custom_assets" "\<forall>t \<in> set ignition_targets. demo_rank t < 2"
    by (simp_all add: ranked_def demo_rank_def demo_custom_assets_def asset_names)
  have deps: "{cvo_name, root_ca_name} \<subseteq> set (as_deps demo_custom_assets bootstrap_asset)"
    by (simp add: demo_custom_assets_def)
  from assertions_hold [where d = demo_custom_deps and n = 0, unfolded f, OF rk demo_typed deps g0] obtain ca
    where "rootCA_in g0 = Ok ca" "well_typed g0" by auto
  then show ?thesis using g0 by auto
qed

end
