(* ===== verification/Graph_Store.thy ===== *)
theory Graph_Store
  imports Asset_Graph
begin

text \<open>
  The graph manager against its specification. To a client the storage account is a cell that is empty or
  holds what loading returns: a graph is put into it once, and read from it any number of times. The
  manager over the blobs client, with its sealed document, refines that cell.
\<close>

section \<open>The specification\<close>

text \<open>The cell: nothing, or what a load of it gives (an error, if the blob cannot be opened or decoded).\<close>

type_synonym cell = "persisted result option"

definition cell_of :: "('s \<Rightarrow> string \<Rightarrow> string \<Rightarrow> string option) \<Rightarrow> ('a, 's) graph_manager \<Rightarrow> 's \<Rightarrow> cell" where
  "cell_of content m s = map_option (\<lambda>b. andThen (aead_open (gm_aead m) b) decode_persisted) (content s graphContainer graphBlob)"

datatype 'a request = AskExists | AskLoad | AskPersist "'a graph"
datatype answer = Stored bool | Loaded persisted | Persisted

text \<open>\<open>None\<close>: the specification does not allow the request to succeed.\<close>

fun cell_step :: "('a \<Rightarrow> json) \<Rightarrow> 'a request \<Rightarrow> cell \<Rightarrow> (answer \<times> cell) option" where
  "cell_step enc AskExists c = Some (Stored (c \<noteq> None), c)"
| "cell_step enc AskLoad c = (case c of Some (Ok pg) \<Rightarrow> Some (Loaded pg, c) | _ \<Rightarrow> None)"
| "cell_step enc (AskPersist g) c = Some (Persisted, case c of None \<Rightarrow> Some (Ok (encoded enc g)) | Some r \<Rightarrow> Some r)"

fun cell_run :: "('a \<Rightarrow> json) \<Rightarrow> 'a request list \<Rightarrow> cell \<Rightarrow> (answer list \<times> cell) option" where
  "cell_run enc [] c = Some ([], c)"
| "cell_run enc (q # qs) c =
     (case cell_step enc q c of
        None \<Rightarrow> None
      | Some (a, c') \<Rightarrow> map_option (\<lambda>(as, c''). (a # as, c'')) (cell_run enc qs c'))"

section \<open>The manager as a server of requests\<close>

fun answer_request ::
  "('a, 's) graph_manager \<Rightarrow> string \<Rightarrow> string \<Rightarrow> 'a request \<Rightarrow> 's \<times> string \<Rightarrow> answer result \<times> 's \<times> string" where
  "answer_request m rgID suf AskExists (s, rnd) =
     (case Exists m (LastTokenByte rgID slash) (''cluster'' @ suf) s of (r, s') \<Rightarrow> (andThen r (\<lambda>b. Ok (Stored b)), s', rnd))"
| "answer_request m rgID suf AskLoad (s, rnd) =
     (case LoadPersisted m (LastTokenByte rgID slash) (''cluster'' @ suf) s of (r, s') \<Rightarrow> (andThen r (\<lambda>pg. Ok (Loaded pg)), s', rnd))"
| "answer_request m rgID suf (AskPersist g) (s, rnd) =
     (case persistGraph m rgID suf g s rnd of (r, s', rnd') \<Rightarrow> (andThen r (\<lambda>_. Ok Persisted), s', rnd'))"

fun answer_all ::
  "('a, 's) graph_manager \<Rightarrow> string \<Rightarrow> string \<Rightarrow> 'a request list \<Rightarrow> 's \<times> string \<Rightarrow> answer list result \<times> 's \<times> string" where
  "answer_all m rgID suf [] st = (Ok [], st)"
| "answer_all m rgID suf (q # qs) st =
     st_bind (answer_request m rgID suf q st) (\<lambda>a st.
     st_bind (answer_all m rgID suf qs st) (\<lambda>as st. (Ok (a # as), st)))"

fun encodable_request :: "('a, 's) graph_manager \<Rightarrow> ('a \<Rightarrow> json) \<Rightarrow> 'a request \<Rightarrow> bool" where
  "encodable_request m enc (AskPersist g) = (sm_invar g \<and> (\<forall>(n, a) \<in> set g. gm_encode m a = Ok (enc a) \<and> json_wf (enc a)))"
| "encodable_request m enc q = True"

section \<open>The operations on the cell\<close>

lemma Exists_cell:
  assumes "blob_laws content blobs" "serves m rg acc blobs" "Exists m rg acc s = (Ok e, s')"
  shows "cell_of content m s' = cell_of content m s \<and> e = (cell_of content m s \<noteq> None)"
proof -
  have "BlobExists blobs graphContainer graphBlob s = (Ok e, s')" using assms(2,3) by (simp add: Exists_def serves_def)
  from BlobExists_sound [OF assms(1) this] show ?thesis by (simp add: cell_of_def)
qed

lemma Load_cell:
  assumes "blob_laws content blobs" "serves m rg acc blobs" "LoadPersisted m rg acc s = (Ok pg, s')"
  shows "cell_of content m s = Some (Ok pg) \<and> cell_of content m s' = cell_of content m s"
proof -
  obtain b where d: "bc_DownloadStream blobs graphContainer graphBlob s = (Ok b, s')"
    and o: "andThen (aead_open (gm_aead m) b) decode_persisted = Ok pg"
    using assms(2,3) by (auto simp: LoadPersisted_def serves_def outcome_simps)
  from blob_downloaded [OF assms(1) d] o show ?thesis by (simp add: cell_of_def)
qed

lemma sealed_document:
  assumes "lawful (gm_aead m)" "sm_invar g" "\<forall>(n, a) \<in> set g. gm_encode m a = Ok (enc a) \<and> json_wf (enc a)"
    and "graph_document (gm_encode m) g = Ok t" "aead_seal (gm_aead m) t rnd = (Ok c, rnd')"
  shows "andThen (aead_open (gm_aead m) c) decode_persisted = Ok (encoded enc g)"
proof -
  have enc: "\<And>n a. (n, a) \<in> set g \<Longrightarrow> gm_encode m a = Ok (enc a)" using assms(3) by auto
  then have t: "t = print_json (JObj (encoded enc g))" using assms(4) graph_document_Ok [of g "gm_encode m" enc] by simp
  have wf: "json_wf (JObj (encoded enc g))" using assms(3) by (auto simp: encoded_def)
  obtain x where "aead_open (gm_aead m) c = Ok x" "parse_json x = Some (JObj (encoded enc g))"
    using aead.sealed_text [of _ print_json _ _ _ _ parse_json, OF assms(1) assms(5) [unfolded t] parse_print [OF wf]] by auto
  then show ?thesis using assms(2) by (simp add: decode_persisted_def sm_of_list_id encoded_invar)
qed

lemma Save_cell:
  assumes "blob_laws content blobs" "serves m rg acc blobs" "lawful (gm_aead m)"
    and "sm_invar g" "\<forall>(n, a) \<in> set g. gm_encode m a = Ok (enc a) \<and> json_wf (enc a)"
    and "Save m rg acc g s rnd = (Ok (), s', rnd')"
  shows "cell_of content m s' = Some (Ok (encoded enc g))"
  using assms(2,6)
proof (cases rule: Save_cases)
  case (both a d s1 t c rnd1)
  have "content s' graphContainer graphBlob = Some c" using blob_uploaded [OF assms(1) both(6)] .
  then show ?thesis using sealed_document [OF assms(3-5) both(4,5)] by (simp add: cell_of_def)
qed simp_all

lemma persist_cell:
  assumes "blob_laws content blobs" "serves m (LastTokenByte rgID slash) (''cluster'' @ suf) blobs" "lawful (gm_aead m)"
    and "sm_invar g" "\<forall>(n, a) \<in> set g. gm_encode m a = Ok (enc a) \<and> json_wf (enc a)"
    and "persistGraph m rgID suf g s rnd = (Ok (), s', rnd')"
  shows "cell_step enc (AskPersist g) (cell_of content m s) = Some (Persisted, cell_of content m s')"
proof -
  obtain e s1 where ex: "Exists m (LastTokenByte rgID slash) (''cluster'' @ suf) s = (Ok e, s1)"
    and p: "if e then s' = s1 else Save m (LastTokenByte rgID slash) (''cluster'' @ suf) g s1 rnd = (Ok (), s', rnd')"
    using assms(6) by (auto simp: persistGraph_def Let_def split: prod.splits outcome.splits if_splits)
  note c = Exists_cell [OF assms(1,2) ex]
  show ?thesis
  proof (cases e)
    case True
    then show ?thesis using c p by auto
  next
    case False
    then have "cell_of content m s' = Some (Ok (encoded enc g))" using Save_cell [OF assms(1-5)] p by simp
    then show ?thesis using c False by simp
  qed
qed

lemma answer_request_refines:
  assumes "blob_laws content blobs" "serves m (LastTokenByte rgID slash) (''cluster'' @ suf) blobs" "lawful (gm_aead m)"
    and "encodable_request m enc q" "answer_request m rgID suf q (s, rnd) = (Ok a, s', rnd')"
  shows "cell_step enc q (cell_of content m s) = Some (a, cell_of content m s')"
proof (cases q)
  case AskExists
  then show ?thesis using Exists_cell [OF assms(1,2)] assms(5) by (auto simp: outcome_simps split: prod.splits)
next
  case AskLoad
  then obtain pg where "LoadPersisted m (LastTokenByte rgID slash) (''cluster'' @ suf) s = (Ok pg, s')" "a = Loaded pg"
    using assms(5) by (auto simp: outcome_simps split: prod.splits)
  with Load_cell [OF assms(1,2)] show ?thesis using AskLoad by fastforce
next
  case (AskPersist g)
  then have "persistGraph m rgID suf g s rnd = (Ok (), s', rnd')" "a = Persisted"
    using assms(5) by (auto simp: outcome_simps split: prod.splits)
  with persist_cell [OF assms(1-3)] AskPersist assms(4) show ?thesis by simp
qed

section \<open>The refinement\<close>

text \<open>C11: Every run of requests to the graph manager that succeeds is a run of the specification with the same
  answers: the account is a cell that is written once. So a graph is stored after the first persist,
  every load before the next change returns the document of the first graph persisted, and no later
  persist changes it.\<close>

theorem graph_store_refines_cell:
  assumes "blob_laws content blobs" "serves m (LastTokenByte rgID slash) (''cluster'' @ suf) blobs" "lawful (gm_aead m)"
    and "\<forall>q \<in> set qs. encodable_request m enc q" "answer_all m rgID suf qs (s, rnd) = (Ok as, s', rnd')"
  shows "cell_run enc qs (cell_of content m s) = Some (as, cell_of content m s')"
  using assms(4,5)
proof (induction qs arbitrary: s rnd as)
  case (Cons q qs)
  then obtain a bs s1 rnd1 where "answer_request m rgID suf q (s, rnd) = (Ok a, s1, rnd1)"
    "answer_all m rgID suf qs (s1, rnd1) = (Ok bs, s', rnd')" "as = a # bs"
    by (auto simp: outcome_simps)
  then show ?case using Cons.IH [of s1 rnd1 bs] answer_request_refines [OF assms(1-3), of enc q s rnd a s1 rnd1] Cons.prems(1) by simp
qed simp

definition demo_requests :: "string request list" where
  "demo_requests = [AskExists, AskPersist demo_graph, AskExists, AskPersist [], AskLoad]"

lemma isOk_value: "isOk r \<Longrightarrow> \<exists>a. r = Ok a"
  by (cases r) auto

lemma demo_run:
  "isOk (fst (answer_all demo_manager ''/x/rg'' ''1'' demo_requests (\<lambda>_. None, [])))
   \<and> snd (snd (answer_all demo_manager ''/x/rg'' ''1'' demo_requests (\<lambda>_. None, []))) = []"
  by code_simp

theorem graph_store_refines_cell_witness:
  "\<exists>s'. answer_all demo_manager ''/x/rg'' ''1'' demo_requests (\<lambda>_. None, []) =
      (Ok [Stored False, Persisted, Stored True, Persisted, Loaded (encoded JStr demo_graph)], s', [])"
proof -
  let ?st = "(\<lambda>_. None, []) :: memory \<times> string"
  obtain as s' rnd' where a: "answer_all demo_manager ''/x/rg'' ''1'' demo_requests ?st = (Ok as, s', rnd')" "rnd' = []"
    using demo_run by (cases "answer_all demo_manager ''/x/rg'' ''1'' demo_requests ?st") (auto dest: isOk_value)
  have ok: "\<forall>q \<in> set demo_requests. encodable_request demo_manager JStr q"
    by (simp add: demo_requests_def demo_manager_def demo_graph_def sm_invar_def)
  have l: "lawful (gm_aead demo_manager)" by (simp add: demo_manager_def tag_cipher_ok)
  from graph_store_refines_cell [OF memory_client_laws demo_serves l ok a(1)]
  have "as = [Stored False, Persisted, Stored True, Persisted, Loaded (encoded JStr demo_graph)]"
    by (simp add: demo_requests_def cell_of_def)
  then show ?thesis using a by blast
qed

end
