(* ===== verification/Generated_Files.thy ===== *)
theory Generated_Files
  imports Customised
begin

text \<open>
  The files that the wrapper makes up, against the ones that the repository expects
  (pkg/installer/storage_files_testdata.go, systemd_files_testdata.go), and what becomes of the values that a template of
  html/template puts into them.
\<close>

section \<open>The values of the repository's test\<close>

definition test_logging :: logging_config where
  "test_logging =
     \<lparr>lg_Certificate = ''# This is not a real certificate'', lg_Key = ''# This is not a real private key'',
      lg_Namespace = ''test-logging-namespace'', lg_Environment = ''test-logging-environment'',
      lg_Account = ''test-logging-account'', lg_ConfigVersion = ''42'', lg_ResourceID = ''test-cluster-resource-id'',
      lg_SubscriptionID = ''test-subscription'', lg_Region = ''centralus'', lg_ResourceName = ''test-logging-resource'',
      lg_ResourceGroupName = ''test-resource-group'', lg_FluentbitImage = ''registry.example.com/fluentbit:latest'',
      lg_MdsdImage = ''registry.example.com/mdsd:latest''\<rparr>"

definition test_dns :: dns_config where
  "test_dns =
     \<lparr>dc_APIIntIP = ''203.0.113.1'', dc_IngressIP = ''192.0.2.1'',
      dc_GatewayDomains = [''gateway.mock1.example.com'', ''gateway.mock2.example.com''],
      dc_GatewayPrivateEndpointIP = ''203.0.113.2''\<rparr>"

definition test_sources :: "(string \<times> string list) list" where
  "test_sources =
     [(''quay.io/openshift-release-dev/ocp-release'', [''registry.example.com/openshift-release-dev/ocp-release'']),
      (''quay.io/openshift-release-dev/ocp-release-nightly'', [''registry.example.com/openshift-release-dev/ocp-release-nightly'']),
      (''quay.io/openshift-release-dev/ocp-v4.0-art-dev'', [''registry.example.com/openshift-release-dev/ocp-v4.0-art-dev''])]"

definition test_manifests :: "string \<Rightarrow> manifests_config" where
  "test_manifests secret =
     \<lparr>mf_AROWorkerRegistries = AroWorkerRegistries test_sources, mf_HTTPSecret = secret,
      mf_AccountName = ''test-image-registry-storage-acct'', mf_ContainerName = ''image-registry'', mf_CloudName = ''AzurePublicCloud'',
      mf_AROIngressInternal = False, mf_AROIngressIP = ''192.0.2.1''\<rparr>"

text \<open>The secret of the image registry is random; the test's pattern for it is one of letters and digits.\<close>

definition alphanumeric :: "string \<Rightarrow> bool" where
  "alphanumeric s \<longleftrightarrow> set s \<subseteq> set ''ABCDEFGHIJKLMNOPQRSTUVWXYZabcdefghijklmnopqrstuvwxyz0123456789''"

lemma alphanumeric_escape: "alphanumeric s \<Longrightarrow> html_escape s = s"
proof -
  assume "alphanumeric s"
  moreover have "set ''ABCDEFGHIJKLMNOPQRSTUVWXYZabcdefghijklmnopqrstuvwxyz0123456789'' \<inter> html_special = {}"
    by (simp add: html_special_def)
  ultimately show ?thesis unfolding html_escape_id alphanumeric_def by blast
qed

text \<open>The manager, the install configuration and the prepared values of the test: the larger MTU, the cluster test-cluster of
  test.example.com, published outside, with three mirrored registries, and no manifests of its own.\<close>

definition test_case :: "'s manager \<Rightarrow> install_config \<Rightarrow> prepared \<Rightarrow> bool" where
  "test_case m ic pp \<longleftrightarrow>
     MTUSize (NetworkProfile (mg_oc m)) = MTU3900 \<and> ImageRegistryStorageAccountName (mg_oc m) = ''test-image-registry-storage-acct''
     \<and> ic_Name ic = ''test-cluster'' \<and> ic_BaseDomain ic = ''test.example.com'' \<and> ic_Publish ic = ''External''
     \<and> ap_CloudName (ic_Azure ic) = ''AzurePublicCloud'' \<and> ic_ImageDigestSources ic = test_sources
     \<and> pp_logging pp = test_logging \<and> pp_dns pp = test_dns \<and> \<not> pp_manifestsExist pp \<and> alphanumeric (pp_httpSecret pp)"

lemma test_case_values:
  assumes "test_case m ic pp"
  shows "manifests_config_of m ic pp = test_manifests (pp_httpSecret pp)" "ClusterDomain ic = ''test-cluster.test.example.com''"
proof -
  show "manifests_config_of m ic pp = test_manifests (pp_httpSecret pp)"
    using assms by (simp add: test_case_def manifests_config_of_def test_manifests_def test_dns_def)
  have "trim_suffix ''test.example.com'' ''.'' = ''test.example.com''" by code_simp
  then show "ClusterDomain ic = ''test-cluster.test.example.com''" using assms by (simp add: test_case_def ClusterDomain_def)
qed

lemma escaped_test_values:
  "html_escape (lg_Key test_logging) = lg_Key test_logging"
  "html_escape (lg_Certificate test_logging) = lg_Certificate test_logging"
  "mdsd_env test_logging = expected_mdsd_env"
  "lines_text [''FLUENTIMAGE='' @ html_escape (lg_FluentbitImage test_logging)] = expected_fluentbit"
  "lines_text [''MDSDIMAGE='' @ html_escape (lg_MdsdImage test_logging)] = expected_mdsd"
  "ingress_service_text (test_manifests r) = expected_ingress_service"
  by (simp_all add: test_logging_def test_manifests_def html_escape_def html_escape_char_def mdsd_env_def
      ingress_service_text_def expected_mdsd_env_def expected_fluentbit_def expected_mdsd_def
      expected_ingress_service_def ingress_head_def ingress_middle_def ingress_tail_def lines_text_def)

lemma expected_registry:
  assumes "alphanumeric s"
  shows "imageregistry_text (test_manifests s) = expected_imageregistry s"
proof -
  have "html_escape ''test-image-registry-storage-acct'' = ''test-image-registry-storage-acct''"
    "html_escape ''image-registry'' = ''image-registry''" "html_escape ''AzurePublicCloud'' = ''AzurePublicCloud''"
    by (simp_all add: html_escape_def html_escape_char_def)
  then show ?thesis
    by (simp add: imageregistry_text_def expected_imageregistry_def test_manifests_def alphanumeric_escape [OF assms])
qed

text \<open>The two escapes that the text of the registries goes through, for its characters and for its pieces.\<close>

definition registries_escape :: "string \<Rightarrow> string" where
  "registries_escape t = html_escape (percent_escape isUnreserved t)"

definition escape_char :: "char \<Rightarrow> string" where
  "escape_char c = registries_escape [c]"

lemma registries_escape_append: "registries_escape (s @ t) = registries_escape s @ registries_escape t"
  by (simp add: registries_escape_def html_escape_def percent_escape_def)

lemma registries_escape_Cons: "registries_escape (c # t) = escape_char c @ registries_escape t" "registries_escape [] = []"
  by (simp_all add: escape_char_def registries_escape_def html_escape_def percent_escape_def)

lemma escape_chars:
  \<open>escape_char (CHR 0x0A) = ''%0A''\<close> \<open>escape_char (CHR '' '') = ''%20''\<close>
  \<open>escape_char (CHR 0x22) = ''%22''\<close> \<open>escape_char (CHR '','') = ''%2C''\<close>
  \<open>escape_char (CHR ''-'') = ''-''\<close> \<open>escape_char (CHR ''.'') = ''.''\<close>
  \<open>escape_char (CHR ''/'') = ''%2F''\<close> \<open>escape_char (CHR ''0'') = ''0''\<close>
  \<open>escape_char (CHR ''4'') = ''4''\<close> \<open>escape_char (CHR ''='') = ''%3D''\<close>
  \<open>escape_char (CHR ''['') = ''%5B''\<close> \<open>escape_char (CHR '']'') = ''%5D''\<close>
  \<open>escape_char (CHR ''a'') = ''a''\<close> \<open>escape_char (CHR ''b'') = ''b''\<close>
  \<open>escape_char (CHR ''c'') = ''c''\<close> \<open>escape_char (CHR ''d'') = ''d''\<close>
  \<open>escape_char (CHR ''e'') = ''e''\<close> \<open>escape_char (CHR ''f'') = ''f''\<close>
  \<open>escape_char (CHR ''g'') = ''g''\<close> \<open>escape_char (CHR ''h'') = ''h''\<close>
  \<open>escape_char (CHR ''i'') = ''i''\<close> \<open>escape_char (CHR ''k'') = ''k''\<close>
  \<open>escape_char (CHR ''l'') = ''l''\<close> \<open>escape_char (CHR ''m'') = ''m''\<close>
  \<open>escape_char (CHR ''n'') = ''n''\<close> \<open>escape_char (CHR ''o'') = ''o''\<close>
  \<open>escape_char (CHR ''p'') = ''p''\<close> \<open>escape_char (CHR ''q'') = ''q''\<close>
  \<open>escape_char (CHR ''r'') = ''r''\<close> \<open>escape_char (CHR ''s'') = ''s''\<close>
  \<open>escape_char (CHR ''t'') = ''t''\<close> \<open>escape_char (CHR ''u'') = ''u''\<close>
  \<open>escape_char (CHR ''v'') = ''v''\<close> \<open>escape_char (CHR ''x'') = ''x''\<close>
  \<open>escape_char (CHR ''y'') = ''y''\<close>
  by code_simp+

lemma escape_pieces:
  \<open>registries_escape ''unqualified-search-registries = ["registry.access.redhat.com", "docker.io"]'' = ''unqualified-search-registries%20%3D%20%5B%22registry.access.redhat.com%22%2C%20%22docker.io%22%5D''\<close>
  \<open>registries_escape ''[[registry]]'' = ''%5B%5Bregistry%5D%5D''\<close>
  \<open>registries_escape ''  prefix = ""'' = ''%20%20prefix%20%3D%20%22%22''\<close>
  \<open>registries_escape ''  location = "'' = ''%20%20location%20%3D%20%22''\<close>
  \<open>registries_escape ''"'' = ''%22''\<close>
  \<open>registries_escape ''  mirror-by-digest-only = true'' = ''%20%20mirror-by-digest-only%20%3D%20true''\<close>
  \<open>registries_escape ''  [[registry.mirror]]'' = ''%20%20%5B%5Bregistry.mirror%5D%5D''\<close>
  \<open>registries_escape ''    location = "'' = ''%20%20%20%20location%20%3D%20%22''\<close>
  \<open>registries_escape ''quay.io/openshift-release-dev/ocp-release'' = ''quay.io%2Fopenshift-release-dev%2Focp-release''\<close>
  \<open>registries_escape ''quay.io/openshift-release-dev/ocp-release-nightly'' = ''quay.io%2Fopenshift-release-dev%2Focp-release-nightly''\<close>
  \<open>registries_escape ''quay.io/openshift-release-dev/ocp-v4.0-art-dev'' = ''quay.io%2Fopenshift-release-dev%2Focp-v4.0-art-dev''\<close>
  \<open>registries_escape ''registry.example.com/openshift-release-dev/ocp-release'' = ''registry.example.com%2Fopenshift-release-dev%2Focp-release''\<close>
  \<open>registries_escape ''registry.example.com/openshift-release-dev/ocp-release-nightly'' = ''registry.example.com%2Fopenshift-release-dev%2Focp-release-nightly''\<close>
  \<open>registries_escape ''registry.example.com/openshift-release-dev/ocp-v4.0-art-dev'' = ''registry.example.com%2Fopenshift-release-dev%2Focp-v4.0-art-dev''\<close>
  "registries_escape [nl] = ''%0A''" "registries_escape [] = []"
  by (simp_all only: registries_escape_Cons escape_chars append.simps)

lemma expected_registries: "worker_registries_text (test_manifests s) = expected_worker_registries"
proof -
  have pre: "html_escape (''data:text/plain,'' @ t) = ''data:text/plain,'' @ html_escape t" for t
    by (simp add: html_escape_def html_escape_char_def)
  have src: "html_escape (mf_AROWorkerRegistries (test_manifests s)) = ''data:text/plain,'' @ registries_escape (registries_text test_sources)"
    unfolding registries_escape_def pre [symmetric] by (simp add: test_manifests_def AroWorkerRegistries_def dataurl_ASCII_def)
  show ?thesis
    unfolding worker_registries_text_def src registries_text_def test_sources_def expected_worker_registries_def
    by (simp only: list.map prod.case concat.simps lines_text_def append_Nil append_Nil2 append_assoc registries_escape_append escape_pieces)
      (simp only: append.simps)
qed

lemma expected_texts:
  "nl # lines_text (dnsmasq_lines ''test-cluster.test.example.com'' (dc_APIIntIP test_dns) (dc_IngressIP test_dns)
      (dc_GatewayDomains test_dns) (dc_GatewayPrivateEndpointIP test_dns)) = expected_dnsmasq_conf"
  "aro_conf ''test-cluster.test.example.com'' (dc_APIIntIP test_dns) (dc_GatewayDomains test_dns) (dc_GatewayPrivateEndpointIP test_dns)
     = expected_aro_conf"
  "lines_text [html_escape (lg_Key test_logging), html_escape (lg_Certificate test_logging)] = expected_mdsdcert"
  "journal_conf = expected_journal_conf" "ingress_namespace = expected_ingress_namespace"
  "fluentbit_service = expected_fluentbit_service" "mdsd_service = expected_mdsd_service"
  unfolding escaped_test_values
  by (simp_all add: dnsmasq_lines_def aro_conf_def test_dns_def test_logging_def lines_text_def expected_dnsmasq_conf_def
      expected_aro_conf_def expected_mdsdcert_def journal_conf_def expected_journal_conf_def ingress_namespace_def
      expected_ingress_namespace_def fluentbit_service_def expected_fluentbit_service_def mdsd_service_def expected_mdsd_service_def)

lemma other_expected_texts:
  "IgnFileData = expected_mtu" "user_data_text ''master-user-data'' c = expected_master_user_data c"
  "user_data_text ''worker-user-data'' c = expected_worker_user_data c"
  by (simp_all add: IgnFileData_def expected_mtu_def user_data_text_def expected_master_user_data_def expected_worker_user_data_def
      lines_text_def)

section \<open>The files of a customised bootstrap\<close>

text \<open>The first four customisations, which add files and units, in the order in which \<open>customise\<close> has them.\<close>

definition add_files :: "ign_lib \<Rightarrow> install_config \<Rightarrow> dns_config \<Rightarrow> logging_config \<Rightarrow> manifests_config \<Rightarrow> bootstrap \<Rightarrow> bootstrap result" where
  "add_files l ic dns lg mf b =
     andThen (CreatednsmasqIgnitionFiles l b ic dns) (\<lambda>b.
     andThen (AppendMdsdFiles l b lg) (\<lambda>b.
     andThen (AppendManifestsFilesToBootstrap l b mf) (\<lambda>b.
       AppendEtcHostFiles l b ic dns)))"

definition machine_config_paths :: "string set" where
  "machine_config_paths =
     {''/opt/openshift/openshift/99_openshift-machineconfig_99-master-aro-dns.yaml'',
      ''/opt/openshift/openshift/99_openshift-machineconfig_99-worker-aro-dns.yaml'',
      ''/opt/openshift/openshift/99_openshift-machineconfig_99-master-aro-etc-hosts-gateway-domains.yaml'',
      ''/opt/openshift/openshift/99_openshift-machineconfig_99-worker-aro-etc-hosts-gateway-domains.yaml''}"

definition dns_mc_path :: "string \<Rightarrow> string" where
  "dns_mc_path role = ''/opt/openshift/openshift/99_openshift-machineconfig_99-'' @ role @ ''-aro-dns.yaml''"

definition hosts_mc_path :: "string \<Rightarrow> string" where
  "hosts_mc_path role = ''/opt/openshift/openshift/99_openshift-machineconfig_99-'' @ role @ ''-aro-etc-hosts-gateway-domains.yaml''"

text \<open>The machine configurations that they write.\<close>

definition machine_configs :: "ign_lib \<Rightarrow> string \<Rightarrow> dns_config \<Rightarrow> (string \<times> machine_config) list" where
  "machine_configs l cd dns =
     [(dns_mc_path ''master'', dnsmasq_machine_config l cd dns ''master''), (dns_mc_path ''worker'', dnsmasq_machine_config l cd dns ''worker''),
      (hosts_mc_path ''master'', etc_hosts_machine_config l cd dns ''master''), (hosts_mc_path ''worker'', etc_hosts_machine_config l cd dns ''worker'')]"

lemma machine_config_texts:
  "q \<in> machine_config_paths \<Longrightarrow> q \<notin> fst ` set (logging_texts c) \<and> q \<notin> fst ` set (manifests_texts m)"
  by (auto simp: machine_config_paths_def logging_texts_def manifests_texts_def)

text \<open>The files that they add, the last ones first, except for those of the hosts, which are appended, so that an earlier
  file at their paths would hide them.\<close>

definition added_files :: "ign_lib \<Rightarrow> string \<Rightarrow> dns_config \<Rightarrow> logging_config \<Rightarrow> manifests_config \<Rightarrow> ign_file list" where
  "added_files l cd dns lg mf =
     private_files l (manifests_texts mf) @ private_files l (logging_texts lg) @ dnsmasq_files l cd dns @ etc_hosts_files l cd dns"

definition added_units :: "ign_unit list" where
  "added_units = dnsmasq_unit # logging_units @ [etc_hosts_unit]"

lemma find_key: "find (\<lambda>x. key x = k) xs = at_key key k xs"
  by (simp add: at_key_def)

lemma at_key_append: "at_key key k (xs @ ys) = (case at_key key k xs of Some x \<Rightarrow> Some x | None \<Rightarrow> at_key key k ys)"
  by (simp add: at_key_def find_append split: option.splits)

lemma at_key_None: "at_key key k xs = None \<longleftrightarrow> k \<notin> key ` set xs"
  by (auto simp: at_key_def find_None_iff)

lemma at_key_distinct: "distinct (map key xs) \<Longrightarrow> x \<in> set xs \<Longrightarrow> at_key key (key x) xs = Some x"
  by (induction xs) (force simp: at_key_def)+

lemma find_rev_None: "k \<notin> key ` set xs \<Longrightarrow> find (\<lambda>x. key x = k) (rev xs) = None"
  by (auto simp: find_None_iff)

lemma find_rev_distinct: "distinct (map key xs) \<Longrightarrow> find (\<lambda>x. key x = k) (rev xs) = at_key key k xs"
proof (cases "k \<in> key ` set xs")
  case True
  assume d: "distinct (map key xs)"
  from True obtain x where x: "x \<in> set xs" "k = key x" by blast
  have "at_key key (key x) (rev xs) = Some x"
    using d x(1) by (intro at_key_distinct) (simp_all flip: rev_map)
  then show ?thesis using at_key_distinct [OF d x(1)] x(2) by (simp add: at_key_def)
next
  case False
  then have "at_key key k xs = None" "at_key key k (rev xs) = None" by (simp_all add: at_key_None)
  then show ?thesis by (simp add: at_key_def)
qed

lemma added_paths:
  "map fi_Path (added_files l cd dns lg mf) =
     [''/opt/openshift/manifests/aro-imageregistry.yaml'', ''/opt/openshift/manifests/aro-ingress-namespace.yaml'',
      ''/opt/openshift/manifests/aro-ingress-service.yaml'', ''/opt/openshift/manifests/aro-worker-registries.yaml'',
      ''/etc/fluentbit/journal.conf'', ''/etc/mdsd.d/mdsd.env'', ''/etc/mdsd.d/secret/mdsdcert.pem'',
      ''/etc/sysconfig/fluentbit'', ''/etc/sysconfig/mdsd'', ''/etc/dnsmasq.conf'', ''/usr/local/bin/aro-dnsmasq-pre.sh'',
      ''/etc/hosts.d/aro.conf'', ''/usr/local/bin/aro-etchosts-resolver.sh'']"
  by (simp add: added_files_def dnsmasq_files_def private_files_def logging_texts_def manifests_texts_def etc_hosts_files_def FileFromBytes_def)

lemma added_paths_distinct: "distinct (map fi_Path (added_files l cd dns lg mf))"
  unfolding added_paths by simp

lemma added_no_machine_config: "f \<in> set (added_files l cd dns lg mf) \<Longrightarrow> fi_Path f \<notin> machine_config_paths"
proof -
  assume "f \<in> set (added_files l cd dns lg mf)"
  then have "fi_Path f \<in> set (map fi_Path (added_files l cd dns lg mf))" by simp
  then show ?thesis unfolding added_paths by (auto simp: machine_config_paths_def)
qed

definition appended_paths :: "string set" where
  "appended_paths = {''/etc/hosts.d/aro.conf'', ''/usr/local/bin/aro-etchosts-resolver.sh''}"

definition appended_units :: "string set" where
  "appended_units = {''fluentbit.service'', ''mdsd.service'', ''aro-etchosts-resolver.service''}"

lemma etc_hosts_paths: "f \<in> set (etc_hosts_files l cd dns) \<Longrightarrow> fi_Path f \<in> appended_paths"
  by (auto simp: etc_hosts_files_def FileFromBytes_def appended_paths_def)

definition unhidden :: "bootstrap \<Rightarrow> bool" where
  "unhidden b \<longleftrightarrow> fi_Path ` set (ig_Files (bs_Config b)) \<inter> appended_paths = {}
     \<and> un_Name ` set (ig_Units (bs_Config b)) \<inter> appended_units = {}"

lemma add_files_at_key:
  assumes "marshals l"
  obtains b' where "add_files l ic dns lg mf b = Ok b'"
    "\<And>p. p \<notin> machine_config_paths \<Longrightarrow> at_key fi_Path p (ig_Files (bs_Config b')) =
       (case at_key fi_Path p (private_files l (manifests_texts mf)) of Some f \<Rightarrow> Some f | None \<Rightarrow>
       (case at_key fi_Path p (private_files l (logging_texts lg)) of Some f \<Rightarrow> Some f | None \<Rightarrow>
       (case at_key fi_Path p (dnsmasq_files l (ClusterDomain ic) dns) of Some f \<Rightarrow> Some f | None \<Rightarrow>
       (case at_key fi_Path p (ig_Files (bs_Config b)) of Some f \<Rightarrow> Some f | None \<Rightarrow>
          at_key fi_Path p (etc_hosts_files l (ClusterDomain ic) dns)))))"
    "ig_Units (bs_Config b') = ReplaceOrAppendSystemd (ig_Units (bs_Config b)) [dnsmasq_unit] @ logging_units @ [etc_hosts_unit]"
    "\<And>p mc. (p, mc) \<in> set (machine_configs l (ClusterDomain ic) dns) \<Longrightarrow>
       \<exists>t. gl_yaml_MachineConfig l mc = Ok t \<and> at_key fi_Path p (ig_Files (bs_Config b')) = Some (FileFromBytes l p ''root'' 420 t)"
proof -
  let ?F = "ig_Files (bs_Config b)" and ?D = "dnsmasq_files l (ClusterDomain ic) dns"
  let ?L = "private_files l (logging_texts lg)" and ?M = "private_files l (manifests_texts mf)"
  let ?E = "etc_hosts_files l (ClusterDomain ic) dns"
  obtain f h where 1: "CreatednsmasqIgnitionFiles l b ic dns = Ok (b\<lparr>bs_Config := (bs_Config b)
      \<lparr>ig_Files := ReplaceOrAppend ?F (?D @ [f, h]), ig_Units := ReplaceOrAppendSystemd (ig_Units (bs_Config b)) [dnsmasq_unit]\<rparr>\<rparr>)"
    and f: "machine_config_at l (dns_mc_path ''master'') (dnsmasq_machine_config l (ClusterDomain ic) dns ''master'') f"
    and h: "machine_config_at l (dns_mc_path ''worker'') (dnsmasq_machine_config l (ClusterDomain ic) dns ''worker'') h"
    using CreatednsmasqIgnitionFiles_Ok [OF assms] unfolding dns_mc_path_def append.simps by metis
  have at1: "fi_Path f = dns_mc_path ''master''" "fi_Path h = dns_mc_path ''worker''"
    using f h machine_config_at_path by blast+
  then have fh: "fi_Path f \<in> machine_config_paths" "fi_Path h \<in> machine_config_paths" by (simp_all add: machine_config_paths_def dns_mc_path_def)
  let ?b3 = "b\<lparr>bs_Config := (bs_Config b)
      \<lparr>ig_Files := ReplaceOrAppend (ReplaceOrAppend (ReplaceOrAppend ?F (?D @ [f, h])) ?L) ?M,
       ig_Units := ReplaceOrAppendSystemd (ig_Units (bs_Config b)) [dnsmasq_unit] @ logging_units\<rparr>\<rparr>"
  obtain f' h' where 4: "AppendEtcHostFiles l ?b3 ic dns = Ok (?b3\<lparr>bs_Config := (bs_Config ?b3)
      \<lparr>ig_Files := ReplaceOrAppend (ig_Files (bs_Config ?b3) @ ?E) [f', h'], ig_Units := ig_Units (bs_Config ?b3) @ [etc_hosts_unit]\<rparr>\<rparr>)"
    and f': "machine_config_at l (hosts_mc_path ''master'') (etc_hosts_machine_config l (ClusterDomain ic) dns ''master'') f'"
    and h': "machine_config_at l (hosts_mc_path ''worker'') (etc_hosts_machine_config l (ClusterDomain ic) dns ''worker'') h'"
    using AppendEtcHostFiles_Ok [OF assms] unfolding hosts_mc_path_def append.simps by metis
  have at2: "fi_Path f' = hosts_mc_path ''master''" "fi_Path h' = hosts_mc_path ''worker''"
    using f' h' machine_config_at_path by blast+
  then have fh': "fi_Path f' \<in> machine_config_paths" "fi_Path h' \<in> machine_config_paths" by (simp_all add: machine_config_paths_def hosts_mc_path_def)
  let ?b' = "?b3\<lparr>bs_Config := (bs_Config ?b3)
      \<lparr>ig_Files := ReplaceOrAppend (ig_Files (bs_Config ?b3) @ ?E) [f', h'], ig_Units := ig_Units (bs_Config ?b3) @ [etc_hosts_unit]\<rparr>\<rparr>"
  let ?b1 = "b\<lparr>bs_Config := (bs_Config b)
      \<lparr>ig_Files := ReplaceOrAppend ?F (?D @ [f, h]), ig_Units := ReplaceOrAppendSystemd (ig_Units (bs_Config b)) [dnsmasq_unit]\<rparr>\<rparr>"
  let ?b2 = "b\<lparr>bs_Config := (bs_Config b)\<lparr>ig_Files := ReplaceOrAppend (ReplaceOrAppend ?F (?D @ [f, h])) ?L,
       ig_Units := ReplaceOrAppendSystemd (ig_Units (bs_Config b)) [dnsmasq_unit] @ logging_units\<rparr>\<rparr>"
  have 2: "AppendMdsdFiles l ?b1 lg = Ok ?b2" by (simp add: AppendMdsdFiles_Ok)
  have 3: "AppendManifestsFilesToBootstrap l ?b2 mf = Ok ?b3" by (simp add: AppendManifestsFilesToBootstrap_Ok)
  have all: "add_files l ic dns lg mf b = Ok ?b'"
    unfolding add_files_def 1 andThen.simps 2 3 by (rule 4)
  have d: "distinct (map fi_Path ?D)" "distinct (map fi_Path ?L)" "distinct (map fi_Path ?M)"
    using added_paths_distinct [of l "ClusterDomain ic" dns lg mf] by (simp_all add: added_files_def)
  show thesis
  proof (rule that [OF all])
    fix p assume p: "p \<notin> machine_config_paths"
    with fh fh' have ne: "fi_Path f \<noteq> p" "fi_Path h \<noteq> p" "fi_Path f' \<noteq> p" "fi_Path h' \<noteq> p" by metis+
    have "find (\<lambda>x. fi_Path x = p) (rev (?D @ [f, h])) = at_key fi_Path p ?D" using ne d(1) by (simp add: find_rev_distinct)
    then show "at_key fi_Path p (ig_Files (bs_Config ?b')) =
       (case at_key fi_Path p ?M of Some f \<Rightarrow> Some f | None \<Rightarrow> (case at_key fi_Path p ?L of Some f \<Rightarrow> Some f | None \<Rightarrow>
       (case at_key fi_Path p ?D of Some f \<Rightarrow> Some f | None \<Rightarrow> (case at_key fi_Path p ?F of Some f \<Rightarrow> Some f | None \<Rightarrow> at_key fi_Path p ?E))))"
      using ne d(2,3)
      by (simp add: at_key_ReplaceOrAppend at_key_append find_rev_distinct del: rev_append split: option.splits)
  next
    fix p mc assume pmc: "(p, mc) \<in> set (machine_configs l (ClusterDomain ic) dns)"
    have none: "find (\<lambda>x. fi_Path x = q) (rev ?L) = None" "find (\<lambda>x. fi_Path x = q) (rev ?M) = None" if "q \<in> machine_config_paths" for q
      using machine_config_texts [OF that] by (simp_all add: find_rev_None private_paths)
    have a: "at_key fi_Path (hosts_mc_path ''master'') (ig_Files (bs_Config ?b')) = Some f'"
      "at_key fi_Path (hosts_mc_path ''worker'') (ig_Files (bs_Config ?b')) = Some h'"
      using at2 by (simp_all add: at_key_ReplaceOrAppend hosts_mc_path_def)
    have c: "at_key fi_Path (dns_mc_path ''master'') (ig_Files (bs_Config ?b')) = Some f"
      "at_key fi_Path (dns_mc_path ''worker'') (ig_Files (bs_Config ?b')) = Some h"
      using at1 at2 none fh by (simp_all add: at_key_ReplaceOrAppend at_key_append hosts_mc_path_def dns_mc_path_def)
    have t: "\<exists>t. gl_yaml_MachineConfig l mc = Ok t \<and> at_key fi_Path p (ig_Files (bs_Config ?b')) = Some (FileFromBytes l p ''root'' 420 t)"
      if "machine_config_at l p mc x" "at_key fi_Path p (ig_Files (bs_Config ?b')) = Some x" for x
      using that(1) unfolding that(2) machine_config_at_def by (elim exE conjE) (intro exI conjI, assumption, simp only:)
    consider "p = dns_mc_path ''master''" "mc = dnsmasq_machine_config l (ClusterDomain ic) dns ''master''"
      | "p = dns_mc_path ''worker''" "mc = dnsmasq_machine_config l (ClusterDomain ic) dns ''worker''"
      | "p = hosts_mc_path ''master''" "mc = etc_hosts_machine_config l (ClusterDomain ic) dns ''master''"
      | "p = hosts_mc_path ''worker''" "mc = etc_hosts_machine_config l (ClusterDomain ic) dns ''worker''"
      using pmc unfolding machine_configs_def by auto
    then show "\<exists>t. gl_yaml_MachineConfig l mc = Ok t \<and> at_key fi_Path p (ig_Files (bs_Config ?b')) = Some (FileFromBytes l p ''root'' 420 t)"
    proof cases
      case 1 show ?thesis by (rule t [of f]) (simp_all only: 1 f c)
    next
      case 2 show ?thesis by (rule t [of h]) (simp_all only: 2 h c)
    next
      case 3 show ?thesis by (rule t [of f']) (simp_all only: 3 f' a)
    next
      case 4 show ?thesis by (rule t [of h']) (simp_all only: 4 h' a)
    qed
  qed simp
qed

lemma add_files_file:
  assumes "marshals l" "unhidden b" "f \<in> set (added_files l (ClusterDomain ic) dns lg mf)" "add_files l ic dns lg mf b = Ok b'"
  shows "at_key fi_Path (fi_Path f) (ig_Files (bs_Config b')) = Some f"
proof -
  let ?p = "fi_Path f"
  have at: "at_key fi_Path ?p (added_files l (ClusterDomain ic) dns lg mf) = Some f"
    by (rule at_key_distinct [OF added_paths_distinct assms(3)])
  obtain b1 where b1: "add_files l ic dns lg mf b = Ok b1" "at_key fi_Path ?p (ig_Files (bs_Config b1)) =
       (case at_key fi_Path ?p (private_files l (manifests_texts mf)) of Some f \<Rightarrow> Some f | None \<Rightarrow>
       (case at_key fi_Path ?p (private_files l (logging_texts lg)) of Some f \<Rightarrow> Some f | None \<Rightarrow>
       (case at_key fi_Path ?p (dnsmasq_files l (ClusterDomain ic) dns) of Some f \<Rightarrow> Some f | None \<Rightarrow>
       (case at_key fi_Path ?p (ig_Files (bs_Config b)) of Some f \<Rightarrow> Some f | None \<Rightarrow>
          at_key fi_Path ?p (etc_hosts_files l (ClusterDomain ic) dns)))))"
    using add_files_at_key [OF assms(1)] added_no_machine_config [OF assms(3)] by metis
  have "at_key fi_Path ?p (ig_Files (bs_Config b)) = None" if "at_key fi_Path ?p (etc_hosts_files l (ClusterDomain ic) dns) = Some f"
  proof -
    from that have "f \<in> set (etc_hosts_files l (ClusterDomain ic) dns)" by (auto simp: at_key_def find_Some_iff)
    then show ?thesis using etc_hosts_paths [of f] assms(2) by (auto simp: unhidden_def at_key_None)
  qed
  then show ?thesis using b1 at assms(4)
    by (auto simp: added_files_def at_key_append split: option.splits)
qed

lemma add_files_unit:
  assumes "marshals l" "unhidden b" "u \<in> set added_units" "add_files l ic dns lg mf b = Ok b'"
  shows "at_key un_Name (un_Name u) (ig_Units (bs_Config b')) = Some u"
proof -
  have us: "ig_Units (bs_Config b') = ReplaceOrAppendSystemd (ig_Units (bs_Config b)) [dnsmasq_unit] @ logging_units @ [etc_hosts_unit]"
    using add_files_at_key [OF assms(1)] assms(4) by (metis outcome.inject(1))
  have at: "at_key un_Name n (ReplaceOrAppendSystemd (ig_Units (bs_Config b)) [dnsmasq_unit])
      = (if n = ''dnsmasq.service'' then Some dnsmasq_unit else at_key un_Name n (ig_Units (bs_Config b)))" for n
    by (simp add: ReplaceOrAppendSystemd_def un.at_key_put dnsmasq_unit_def)
  have "at_key un_Name n (ig_Units (bs_Config b)) = None" if "n \<in> appended_units" for n
    using that assms(2) by (auto simp: unhidden_def at_key_None)
  then have none: "at_key un_Name ''fluentbit.service'' (ig_Units (bs_Config b)) = None"
    "at_key un_Name ''mdsd.service'' (ig_Units (bs_Config b)) = None"
    "at_key un_Name ''aro-etchosts-resolver.service'' (ig_Units (bs_Config b)) = None"
    by (simp_all add: appended_units_def)
  show ?thesis using assms(3) none
    unfolding us at_key_append at by (auto simp: added_units_def logging_units_def etc_hosts_unit_def dnsmasq_unit_def at_key_def)
qed

text \<open>What they add with the values of the test: the path, the mode and the text of each file.\<close>

definition test_texts :: "string \<Rightarrow> (string \<times> int \<times> string) list" where
  "test_texts secret =
     [(''/opt/openshift/manifests/aro-imageregistry.yaml'', 384, expected_imageregistry secret),
      (''/opt/openshift/manifests/aro-ingress-namespace.yaml'', 384, expected_ingress_namespace),
      (''/opt/openshift/manifests/aro-ingress-service.yaml'', 384, expected_ingress_service),
      (''/opt/openshift/manifests/aro-worker-registries.yaml'', 384, expected_worker_registries),
      (''/etc/fluentbit/journal.conf'', 384, expected_journal_conf), (''/etc/mdsd.d/mdsd.env'', 384, expected_mdsd_env),
      (''/etc/mdsd.d/secret/mdsdcert.pem'', 384, expected_mdsdcert), (''/etc/sysconfig/fluentbit'', 384, expected_fluentbit),
      (''/etc/sysconfig/mdsd'', 384, expected_mdsd), (''/etc/dnsmasq.conf'', 420, expected_dnsmasq_conf),
      (''/usr/local/bin/aro-dnsmasq-pre.sh'', 484, expected_prescript), (''/etc/hosts.d/aro.conf'', 420, expected_aro_conf),
      (''/usr/local/bin/aro-etchosts-resolver.sh'', 484, expected_resolver_script)]"

lemma test_logging_texts:
  "logging_texts test_logging =
     [(''/etc/fluentbit/journal.conf'', expected_journal_conf), (''/etc/mdsd.d/mdsd.env'', expected_mdsd_env),
      (''/etc/mdsd.d/secret/mdsdcert.pem'', expected_mdsdcert), (''/etc/sysconfig/fluentbit'', expected_fluentbit),
      (''/etc/sysconfig/mdsd'', expected_mdsd)]"
  unfolding logging_texts_def expected_texts escaped_test_values(3,4,5) by (rule refl)

lemma test_manifests_texts:
  assumes "alphanumeric s"
  shows "manifests_texts (test_manifests s) =
     [(''/opt/openshift/manifests/aro-imageregistry.yaml'', expected_imageregistry s),
      (''/opt/openshift/manifests/aro-ingress-namespace.yaml'', expected_ingress_namespace),
      (''/opt/openshift/manifests/aro-ingress-service.yaml'', expected_ingress_service),
      (''/opt/openshift/manifests/aro-worker-registries.yaml'', expected_worker_registries)]"
  unfolding manifests_texts_def expected_texts escaped_test_values(6) expected_registry [OF assms] expected_registries by (rule refl)

lemma added_test_files:
  assumes "alphanumeric s"
  shows "added_files l ''test-cluster.test.example.com'' test_dns test_logging (test_manifests s) =
     map (\<lambda>(p, m, t). FileFromBytes l p ''root'' m t) (test_texts s)"
  unfolding added_files_def dnsmasq_files_def etc_hosts_files_def private_files_def test_logging_texts test_manifests_texts [OF assms]
    test_texts_def expected_texts
  by (simp only: list.map prod.case append.simps)

lemma expected_units_added:
  "(n, t) \<in> set expected_units \<Longrightarrow> \<lparr>un_Name = n, un_Enabled = Some True, un_Contents = Some t, un_Dropins = []\<rparr> \<in> set added_units"
  unfolding expected_units_def added_units_def logging_units_def dnsmasq_unit_def etc_hosts_unit_def expected_texts by fastforce

lemma path_FileFromBytes: "fi_Path (FileFromBytes l p u m t) = p"
  by (simp add: FileFromBytes_def)

section \<open>The files after all customisations\<close>

definition later_paths :: "string set" where
  "later_paths = mcs_paths \<union> {user_data_path ''master'', user_data_path ''worker'', dns_config_path}"

lemma later_paths_fixed:
  "user_data_path ''master'' = ''/opt/openshift/openshift/99_openshift-cluster-api_master-user-data-secret.yaml''"
  "user_data_path ''worker'' = ''/opt/openshift/openshift/99_openshift-cluster-api_worker-user-data-secret.yaml''"
  "dns_config_path = ''/opt/openshift/manifests/cluster-dns-02-config.yml''"
  by (simp_all add: user_data_path_def dns_config_path_def rooted_def)

lemma added_not_later: "f \<in> set (added_files l cd dns lg mf) \<Longrightarrow> fi_Path f \<notin> later_paths"
proof -
  assume "f \<in> set (added_files l cd dns lg mf)"
  then have "fi_Path f \<in> set (map fi_Path (added_files l cd dns lg mf))" by simp
  then show ?thesis
    unfolding added_paths later_paths_def later_paths_fixed mcs_paths_def mcsCertKeyFilepath_def mcsKeyFile_def mcsCertFile_def by auto
qed

lemma machine_configs_not_later: "(p, mc) \<in> set (machine_configs l cd dns) \<Longrightarrow> p \<notin> later_paths"
  by (auto simp: machine_configs_def dns_mc_path_def hosts_mc_path_def later_paths_def later_paths_fixed mcs_paths_def
      mcsCertKeyFilepath_def mcsKeyFile_def mcsCertFile_def)

text \<open>The renewal of the certificate keeps every other file, the units and the pointers.\<close>

lemma updateMCSCertKey_kept:
  assumes "updateMCSCertKey l ic dns g = Ok g'" "bootstrap_in g = Ok b"
  obtains b' where "bootstrap_in g' = Ok b'" "ig_Units (bs_Config b') = ig_Units (bs_Config b)"
    "master_in g' = master_in g" "worker_in g' = worker_in g"
    "\<And>q. q \<notin> mcs_paths \<Longrightarrow> at_key fi_Path q (ig_Files (bs_Config b')) = at_key fi_Path q (ig_Files (bs_Config b))"
proof (cases "dc_APIIntIP dns = []")
  case True
  then have "g' = g" using assms(1) by (simp add: updateMCSCertKey_def)
  then show thesis using that [of b] assms(2) by simp
next
  case False
  from updateMCSCertKey_Ok [OF assms(1) False] obtain key crt fs where
    u: "list_all2 (mcs_updated l key crt) (ig_Files (bs_Config b)) fs" "g' = put_bootstrap (with_files (\<lambda>_. fs) b) g"
    using assms(2) by (metis outcome.inject(1))
  show thesis
    by (rule that [of "with_files (\<lambda>_. fs) b"]) (use u at_key_updated [OF u(1)] in \<open>simp_all add: with_files_def\<close>)
qed

text \<open>The bootstrap after the customisations, for the larger MTU and without manifests of its own, by the path of its files.\<close>

lemma customise_files:
  assumes "customise d m ic pp g = Ok g'" "\<not> pp_manifestsExist pp" "MTUSize (NetworkProfile (mg_oc m)) = MTU3900"
    and "names_manifests (cd_libs d)" "bootstrap_in g = Ok b"
  obtains t u b6 y p p' w w' b' where
    "add_files (cl_ign (cd_libs d)) ic (pp_dns pp) (pp_logging pp) (manifests_config_of m ic pp)
       (marshalled (cl_ign (cd_libs d)) (with_files (\<lambda>fs. fs @ mtu_files (cl_ign (cd_libs d)) t u) b)) = Ok b6"
    "cl_yaml_DNS (cd_libs d) (ClusterDomain ic) = Ok y"
    "points_to (cd_libs d) (pp_dns pp) ''master'' p p'" "points_to (cd_libs d) (pp_dns pp) ''worker'' w w'"
    "bootstrap_in g' = Ok b'" "master_in g' = Ok p'" "worker_in g' = Ok w'"
    "\<And>q. q \<notin> mcs_paths \<Longrightarrow> at_key fi_Path q (ig_Files (bs_Config b')) =
       (if q = user_data_path ''worker'' then Some (user_data_file (cd_libs d) ''worker'' w')
        else if q = user_data_path ''master'' then Some (user_data_file (cd_libs d) ''master'' p')
        else if q = dns_config_path then Some (FileFromBytes (cl_ign (cd_libs d)) dns_config_path ''root'' 420 y)
        else at_key fi_Path q (ig_Files (bs_Config b6)))"
    "ig_Units (bs_Config b') = ig_Units (bs_Config b6)"
    "bs_Data b' = ignition_Marshal (cl_ign (cd_libs d)) (bs_Config b')"
proof -
  let ?l = "cd_libs d"
  from assms(1) obtain g1 g2 g3 g4 g5 g6 g7 g8 g9 where
    1: "(if MTUSize (NetworkProfile (mg_oc m)) = MTU3900 then overrideEthernetMTU ?l g else Ok g) = Ok g1" and
    2: "(if pp_manifestsExist pp
               then andThen (appendFilesToCvoOverrides ?l (pp_manifests pp) g1) (appendFilesToBootstrap ?l (cd_mkdir d) (pp_manifests pp))
               else Ok g1) = Ok g2" and
    3: "on_bootstrap (\<lambda>b. CreatednsmasqIgnitionFiles (cl_ign ?l) b ic (pp_dns pp)) g2 = Ok g3" and
    4: "on_bootstrap (\<lambda>b. AppendMdsdFiles (cl_ign ?l) b (pp_logging pp)) g3 = Ok g4" and
    5: "on_bootstrap (\<lambda>b. AppendManifestsFilesToBootstrap (cl_ign ?l) b (manifests_config_of m ic pp)) g4 = Ok g5" and
    6: "on_bootstrap (\<lambda>b. AppendEtcHostFiles (cl_ign ?l) b ic (pp_dns pp)) g5 = Ok g6" and
    7: "removeDNSConfigData ?l ic g6 = Ok g7" and 8: "replacePointerIgnition ?l (pp_dns pp) g7 = Ok g8" and
    9: "updateMCSCertKey ?l ic (pp_dns pp) g8 = Ok g9" and
    10: "on_bootstrap (\<lambda>b. Ok (marshalled (cl_ign ?l) b)) g9 = Ok g'"
    unfolding customise_def Let_def andThen_Ok_iff by blast
  obtain t u where tu: "overrideEthernetMTU ?l g =
      Ok (put_bootstrap (marshalled (cl_ign ?l) (with_files (\<lambda>fs. fs @ mtu_files (cl_ign ?l) t u) b)) g)"
    by (rule overrideEthernetMTU_files [OF assms(4,5)])
  let ?b1 = "marshalled (cl_ign ?l) (with_files (\<lambda>fs. fs @ mtu_files (cl_ign ?l) t u) b)"
  have g2: "bootstrap_in g2 = Ok ?b1" using 1 2 tu assms(2,3) by auto
  obtain b3 where b3: "CreatednsmasqIgnitionFiles (cl_ign ?l) ?b1 ic (pp_dns pp) = Ok b3" "g3 = put_bootstrap b3 g2"
    using 3 g2 by (auto simp: on_bootstrap_Ok)
  obtain b4 where b4: "AppendMdsdFiles (cl_ign ?l) b3 (pp_logging pp) = Ok b4" "g4 = put_bootstrap b4 g3"
    using 4 by (auto simp: on_bootstrap_Ok b3(2))
  obtain b5 where b5: "AppendManifestsFilesToBootstrap (cl_ign ?l) b4 (manifests_config_of m ic pp) = Ok b5" "g5 = put_bootstrap b5 g4"
    using 5 by (auto simp: on_bootstrap_Ok b4(2))
  obtain b6 where b6: "AppendEtcHostFiles (cl_ign ?l) b5 ic (pp_dns pp) = Ok b6" "g6 = put_bootstrap b6 g5"
    using 6 by (auto simp: on_bootstrap_Ok b5(2))
  have add: "add_files (cl_ign ?l) ic (pp_dns pp) (pp_logging pp) (manifests_config_of m ic pp) ?b1 = Ok b6"
    unfolding add_files_def b3(1) andThen.simps b4(1) b5(1) by (rule b6(1))
  obtain y where y: "cl_yaml_DNS ?l (ClusterDomain ic) = Ok y"
    and g7: "bootstrap_in g7 = Ok (with_files (\<lambda>fs. ReplaceOrAppend fs [FileFromBytes (cl_ign ?l) dns_config_path ''root'' 420 y]) b6)"
    using 7 by (auto simp: removeDNSConfigData_def outcome_simps b6(2) dns_config_path_def)
  obtain p w p' w' where p: "points_to ?l (pp_dns pp) ''master'' p p'" "points_to ?l (pp_dns pp) ''worker'' w w'"
    and g8: "g8 = graph_Set [(master_name, AssetMaster p'), (worker_name, AssetWorker w'),
       (bootstrap_asset, AssetBootstrap (with_files (\<lambda>fs. ReplaceOrAppend fs [user_data_file ?l ''master'' p', user_data_file ?l ''worker'' w'])
          (with_files (\<lambda>fs. ReplaceOrAppend fs [FileFromBytes (cl_ign ?l) dns_config_path ''root'' 420 y]) b6)))] g7"
    by (rule replacePointerIgnition_Ok [OF 8]) (simp add: g7)
  let ?b8 = "with_files (\<lambda>fs. ReplaceOrAppend fs [user_data_file ?l ''master'' p', user_data_file ?l ''worker'' w'])
      (with_files (\<lambda>fs. ReplaceOrAppend fs [FileFromBytes (cl_ign ?l) dns_config_path ''root'' 420 y]) b6)"
  have in8: "bootstrap_in g8 = Ok ?b8" "master_in g8 = Ok p'" "worker_in g8 = Ok w'"
    by (simp_all add: g8 bootstrap_in_def master_in_def worker_in_def graph_Set_def sm_get_put asset_names)
  have dns: "at_key fi_Path q (ReplaceOrAppend fs [FileFromBytes (cl_ign ?l) dns_config_path ''root'' 420 y]) =
      (if q = dns_config_path then Some (FileFromBytes (cl_ign ?l) dns_config_path ''root'' 420 y) else at_key fi_Path q fs)" for q fs
    by (simp add: at_key_ReplaceOrAppend FileFromBytes_def)
  have at8: "at_key fi_Path q (ig_Files (bs_Config ?b8)) =
       (if q = user_data_path ''worker'' then Some (user_data_file ?l ''worker'' w')
        else if q = user_data_path ''master'' then Some (user_data_file ?l ''master'' p')
        else if q = dns_config_path then Some (FileFromBytes (cl_ign ?l) dns_config_path ''root'' 420 y)
        else at_key fi_Path q (ig_Files (bs_Config b6)))" for q
    unfolding files_with_files user_data_files_at dns ..
  obtain b9 where b9: "bootstrap_in g9 = Ok b9" "ig_Units (bs_Config b9) = ig_Units (bs_Config ?b8)"
    "master_in g9 = master_in g8" "worker_in g9 = worker_in g8"
    "\<And>q. q \<notin> mcs_paths \<Longrightarrow> at_key fi_Path q (ig_Files (bs_Config b9)) = at_key fi_Path q (ig_Files (bs_Config ?b8))"
    by (rule updateMCSCertKey_kept [OF 9 in8(1)]) (rule that)
  have g': "g' = put_bootstrap (marshalled (cl_ign ?l) b9) g9" using 10 b9(1) by (auto simp: on_bootstrap_Ok)
  show thesis
  proof (rule that [OF add y p, of "marshalled (cl_ign ?l) b9"])
    fix q assume "q \<notin> mcs_paths"
    then show "at_key fi_Path q (ig_Files (bs_Config (marshalled (cl_ign ?l) b9))) =
       (if q = user_data_path ''worker'' then Some (user_data_file ?l ''worker'' w')
        else if q = user_data_path ''master'' then Some (user_data_file ?l ''master'' p')
        else if q = dns_config_path then Some (FileFromBytes (cl_ign ?l) dns_config_path ''root'' 420 y)
        else at_key fi_Path q (ig_Files (bs_Config b6)))"
      unfolding at8 [symmetric] using b9(5) by (simp add: marshalled_def)
  qed (use b9 in8 in \<open>simp_all add: g' marshalled_def with_files_def\<close>)
qed

text \<open>What the test expects at each path: the texts of the data, the text of the DNS of the cluster's domain, and those of
  the four machine configurations, whose ignition is made of the same texts.\<close>

definition expected_dns_ignition :: "ign_lib \<Rightarrow> ign_config" where
  "expected_dns_ignition l =
     \<lparr>ig_Version = ''3.2.0'',
      ig_Files = [FileFromBytes l ''/etc/dnsmasq.conf'' ''root'' 420 expected_dnsmasq_conf,
                  FileFromBytes l ''/usr/local/bin/aro-dnsmasq-pre.sh'' ''root'' 484 expected_prescript],
      ig_Units = [\<lparr>un_Name = ''dnsmasq.service'', un_Enabled = Some True, un_Contents = Some expected_dnsmasq_service, un_Dropins = []\<rparr>]\<rparr>"

definition expected_hosts_ignition :: "ign_lib \<Rightarrow> ign_config" where
  "expected_hosts_ignition l =
     \<lparr>ig_Version = ''3.2.0'',
      ig_Files = [FileFromBytes l ''/etc/hosts.d/aro.conf'' ''root'' 420 expected_aro_conf,
                  FileFromBytes l ''/usr/local/bin/aro-etchosts-resolver.sh'' ''root'' 484 expected_resolver_script],
      ig_Units = [\<lparr>un_Name = ''aro-etchosts-resolver.service'', un_Enabled = Some True, un_Contents = Some expected_resolver_service,
                   un_Dropins = []\<rparr>]\<rparr>"

definition expected_machine_configs :: "ign_lib \<Rightarrow> (string \<times> machine_config) list" where
  "expected_machine_configs l =
     (let dns = print_json (canon (gl_config_json l (expected_dns_ignition l)));
          hosts = ignition_Marshal l (expected_hosts_ignition l) in
      [(''/opt/openshift/openshift/99_openshift-machineconfig_99-master-aro-dns.yaml'',
          \<lparr>mc_Name = ''99-master-aro-dns'', mc_Role = ''master'', mc_Config = dns\<rparr>),
       (''/opt/openshift/openshift/99_openshift-machineconfig_99-worker-aro-dns.yaml'',
          \<lparr>mc_Name = ''99-worker-aro-dns'', mc_Role = ''worker'', mc_Config = dns\<rparr>),
       (''/opt/openshift/openshift/99_openshift-machineconfig_99-master-aro-etc-hosts-gateway-domains.yaml'',
          \<lparr>mc_Name = ''99-master-aro-etc-hosts-gateway-domains'', mc_Role = ''master'', mc_Config = hosts\<rparr>),
       (''/opt/openshift/openshift/99_openshift-machineconfig_99-worker-aro-etc-hosts-gateway-domains.yaml'',
          \<lparr>mc_Name = ''99-worker-aro-etc-hosts-gateway-domains'', mc_Role = ''worker'', mc_Config = hosts\<rparr>)])"

definition expected_contents :: "custom_libs \<Rightarrow> string \<Rightarrow> string \<Rightarrow> string \<Rightarrow> (string \<times> string result) list" where
  "expected_contents l secret masterData workerData =
     map (\<lambda>(p, t). (p, Ok t)) (expected_files secret masterData workerData)
     @ [(''/opt/openshift/manifests/cluster-dns-02-config.yml'', cl_yaml_DNS l ''test-cluster.test.example.com'')]
     @ map (\<lambda>(p, mc). (p, gl_yaml_MachineConfig (cl_ign l) mc)) (expected_machine_configs (cl_ign l))"

lemma expected_contents_listed: "set (map fst (expected_contents l s c c')) = set expectedBootstrapStorageFileList"
proof -
  have "map fst (expected_contents l s c c') = map fst (expected_files s c c')
      @ [''/opt/openshift/manifests/cluster-dns-02-config.yml''] @ map fst (expected_machine_configs (cl_ign l))"
    by (simp add: expected_contents_def case_prod_unfold comp_def)
  also have "set \<dots> = set expectedBootstrapStorageFileList"
    by (simp add: expected_files_def expected_machine_configs_def expectedBootstrapStorageFileList_def Let_def insert_commute)
  finally show ?thesis .
qed

lemma test_machine_configs:
  "machine_configs l ''test-cluster.test.example.com'' test_dns = expected_machine_configs l"
proof -
  have "dnsmasq_ignition l ''test-cluster.test.example.com'' test_dns = expected_dns_ignition l"
    unfolding dnsmasq_ignition_def expected_dns_ignition_def dnsmasq_files_def dnsmasq_unit_def expected_texts ..
  moreover have "etc_hosts_ignition l ''test-cluster.test.example.com'' test_dns = expected_hosts_ignition l"
    unfolding etc_hosts_ignition_def expected_hosts_ignition_def etc_hosts_files_def etc_hosts_unit_def expected_texts ..
  ultimately show ?thesis
    by (simp add: machine_configs_def expected_machine_configs_def dnsmasq_machine_config_def etc_hosts_machine_config_def Let_def
        dns_mc_path_def hosts_mc_path_def)
qed

definition mtu_file_path :: string where
  "mtu_file_path = ''/etc/NetworkManager/dispatcher.d/30-eth0-mtu-3900''"

text \<open>The expected texts by the step that writes them.\<close>

definition other_texts :: "string \<Rightarrow> string \<Rightarrow> (string \<times> string) list" where
  "other_texts c c' =
     [(mtu_file_path, expected_mtu), (user_data_path ''master'', expected_master_user_data c),
      (user_data_path ''worker'', expected_worker_user_data c')]"

lemma expected_by_step:
  "\<forall>(p, t) \<in> set (expected_files s c c'). (\<exists>m. (p, m, t) \<in> set (test_texts s)) \<or> (p, t) \<in> set (other_texts c c')"
  unfolding other_texts_def later_paths_fixed mtu_file_path_def by (simp add: expected_files_def test_texts_def)

text \<open>A bootstrap in which nothing is at the paths and names that are appended.\<close>

definition nothing_hidden :: "bootstrap \<Rightarrow> bool" where
  "nothing_hidden b \<longleftrightarrow> unhidden b \<and> mtu_file_path \<notin> fi_Path ` set (ig_Files (bs_Config b))"

lemma unhidden_mtu:
  "unhidden b \<Longrightarrow> unhidden (marshalled l (with_files (\<lambda>fs. fs @ mtu_files l t u) b))"
  by (simp add: unhidden_def marshalled_def with_files_def appended_paths_def mtu_files_def newMTUIgnitionFile_def FileFromBytes_def mtu_path_def
      image_Un Int_Un_distrib2)

lemma mtu_file_kept:
  assumes "marshals l" "nothing_hidden b" "add_files l ic dns lg mf (marshalled l (with_files (\<lambda>fs. fs @ mtu_files l t u) b)) = Ok b'"
  shows "at_key fi_Path mtu_file_path (ig_Files (bs_Config b')) = Some (FileFromBytes l mtu_file_path ''root'' 365 expected_mtu)"
proof -
  let ?b1 = "marshalled l (with_files (\<lambda>fs. fs @ mtu_files l t u) b)"
  have "at_key fi_Path mtu_file_path (ig_Files (bs_Config b)) = None" using assms(2) by (simp add: nothing_hidden_def at_key_None)
  then have b1: "at_key fi_Path mtu_file_path (ig_Files (bs_Config ?b1)) = Some (newMTUIgnitionFile l)"
    by (simp add: marshalled_def find_append mtu_files_def newMTUIgnitionFile_def mtu_file_path_def FileFromBytes_def at_key_def)
  have other: "mtu_file_path \<notin> machine_config_paths" "at_key fi_Path mtu_file_path (private_files l (manifests_texts mf)) = None"
    "at_key fi_Path mtu_file_path (private_files l (logging_texts lg)) = None" "at_key fi_Path mtu_file_path (dnsmasq_files l cd dns) = None" for cd
    by (simp_all add: at_key_None private_paths mtu_file_path_def machine_config_paths_def manifests_texts_def logging_texts_def
        dnsmasq_files_def FileFromBytes_def)
  obtain b2 where "add_files l ic dns lg mf ?b1 = Ok b2" "at_key fi_Path mtu_file_path (ig_Files (bs_Config b2)) = Some (newMTUIgnitionFile l)"
    using add_files_at_key [OF assms(1), of ic dns lg mf ?b1] other b1 by (metis option.case)
  then show ?thesis using assms(3) by (simp add: newMTUIgnitionFile_def other_expected_texts(1) mtu_file_path_def)
qed

text \<open>Each of the files of the test, after its customisations.\<close>

lemma test_contents:
  assumes "test_case m ic pp" "marshals (cl_ign (cd_libs d))" "names_manifests (cd_libs d)" "bootstrap_in g = Ok b" "nothing_hidden b"
    and "customise d m ic pp g = Ok g'"
  obtains b' p w p' w' where "bootstrap_in g' = Ok b'" "master_in g' = Ok p'" "worker_in g' = Ok w'"
    "points_to (cd_libs d) test_dns ''master'' p p'" "points_to (cd_libs d) test_dns ''worker'' w w'"
    "bs_Data b' = ignition_Marshal (cl_ign (cd_libs d)) (bs_Config b')"
    "\<And>q r. (q, r) \<in> set (expected_contents (cd_libs d) (pp_httpSecret pp) (b64_encode (pt_Data p')) (b64_encode (pt_Data w'))) \<Longrightarrow>
       \<exists>mode t. r = Ok t \<and> at_key fi_Path q (ig_Files (bs_Config b')) = Some (FileFromBytes (cl_ign (cd_libs d)) q ''root'' mode t)"
    "\<And>n t. (n, t) \<in> set expected_units \<Longrightarrow> at_key un_Name n (ig_Units (bs_Config b')) =
       Some \<lparr>un_Name = n, un_Enabled = Some True, un_Contents = Some t, un_Dropins = []\<rparr>"
proof -
  let ?l = "cd_libs d" and ?ign = "cl_ign (cd_libs d)" and ?s = "pp_httpSecret pp" and ?cd = "''test-cluster.test.example.com''"
  have tc: "\<not> pp_manifestsExist pp" "MTUSize (NetworkProfile (mg_oc m)) = MTU3900" "pp_logging pp = test_logging" "pp_dns pp = test_dns"
    "alphanumeric ?s" using assms(1) by (simp_all add: test_case_def)
  note v = test_case_values [OF assms(1)]
  obtain t u b6 y p p' w w' b' where c:
    "add_files ?ign ic test_dns test_logging (test_manifests ?s) (marshalled ?ign (with_files (\<lambda>fs. fs @ mtu_files ?ign t u) b)) = Ok b6"
    "cl_yaml_DNS ?l ?cd = Ok y" "points_to ?l test_dns ''master'' p p'" "points_to ?l test_dns ''worker'' w w'"
    "bootstrap_in g' = Ok b'" "master_in g' = Ok p'" "worker_in g' = Ok w'"
    and at: "\<And>q. q \<notin> mcs_paths \<Longrightarrow> at_key fi_Path q (ig_Files (bs_Config b')) =
       (if q = user_data_path ''worker'' then Some (user_data_file ?l ''worker'' w')
        else if q = user_data_path ''master'' then Some (user_data_file ?l ''master'' p')
        else if q = dns_config_path then Some (FileFromBytes ?ign dns_config_path ''root'' 420 y)
        else at_key fi_Path q (ig_Files (bs_Config b6)))"
    and us: "ig_Units (bs_Config b') = ig_Units (bs_Config b6)" and data: "bs_Data b' = ignition_Marshal ?ign (bs_Config b')"
    by (rule customise_files [OF assms(6) tc(1,2) assms(3,4), unfolded v tc(3,4)]) (rule that)
  let ?b1 = "marshalled ?ign (with_files (\<lambda>fs. fs @ mtu_files ?ign t u) b)"
  have un: "unhidden ?b1" using assms(5) unhidden_mtu by (simp add: nothing_hidden_def)
  let ?has = "\<lambda>q t. \<exists>mode. at_key fi_Path q (ig_Files (bs_Config b')) = Some (FileFromBytes ?ign q ''root'' mode t)"
  have early: "at_key fi_Path q (ig_Files (bs_Config b')) = at_key fi_Path q (ig_Files (bs_Config b6))" if "q \<notin> later_paths" for q
    using at [of q] that by (simp add: later_paths_def)
  have added: "?has q x" if "(q, mode, x) \<in> set (test_texts ?s)" for q mode x
  proof -
    let ?f = "FileFromBytes ?ign q ''root'' mode x"
    have "?f \<in> (\<lambda>(p, m, t). FileFromBytes ?ign p ''root'' m t) ` set (test_texts ?s)" using imageI [OF that] by force
    then have f: "?f \<in> set (added_files ?ign (ClusterDomain ic) test_dns test_logging (test_manifests ?s))"
      unfolding v(2) added_test_files [OF tc(5)] set_map .
    show ?thesis
      using add_files_file [OF assms(2) un f c(1)] early [OF added_not_later [OF f]] unfolding path_FileFromBytes by auto
  qed
  have mtu: "?has mtu_file_path expected_mtu"
  proof -
    have "mtu_file_path \<notin> later_paths"
      by (simp add: mtu_file_path_def later_paths_def later_paths_fixed mcs_paths_def mcsCertKeyFilepath_def mcsKeyFile_def mcsCertFile_def)
    then show ?thesis using early mtu_file_kept [OF assms(2,5) c(1)] by auto
  qed
  have nd: "user_data_path ''master'' \<noteq> user_data_path ''worker''" "dns_config_path \<notin> mcs_paths" "dns_config_path \<noteq> user_data_path ''master''"
    "dns_config_path \<noteq> user_data_path ''worker''" using dns_config_path_kept by (simp_all add: later_paths_fixed)
  have secrets: "?has (user_data_path ''master'') (expected_master_user_data (b64_encode (pt_Data p')))"
    "?has (user_data_path ''worker'') (expected_worker_user_data (b64_encode (pt_Data w')))"
    using at [OF mcs_paths_other(9)] at [OF mcs_paths_other(10)] nd(1) by (auto simp: user_data_file_def other_expected_texts)
  have dns: "?has dns_config_path y" using at [OF nd(2)] nd(3,4) by auto
  have texts: "?has q x" if "(q, x) \<in> set (expected_files ?s (b64_encode (pt_Data p')) (b64_encode (pt_Data w')))" for q x
    using bspec [OF expected_by_step that] added mtu secrets unfolding prod.case other_texts_def by (auto simp only: set_simps prod.inject empty_iff)
  have mcs: "\<exists>x. gl_yaml_MachineConfig ?ign mc = Ok x \<and> ?has q x" if "(q, mc) \<in> set (expected_machine_configs ?ign)" for q mc
  proof -
    have q: "(q, mc) \<in> set (machine_configs ?ign (ClusterDomain ic) test_dns)" unfolding v(2) test_machine_configs by (rule that)
    obtain b7 where "add_files ?ign ic test_dns test_logging (test_manifests ?s) ?b1 = Ok b7"
      "\<exists>t. gl_yaml_MachineConfig ?ign mc = Ok t \<and> at_key fi_Path q (ig_Files (bs_Config b7)) = Some (FileFromBytes ?ign q ''root'' 420 t)"
      by (rule add_files_at_key [OF assms(2)]) (use q in blast)
    then show ?thesis using c(1) early [OF machine_configs_not_later [OF q]] by auto
  qed
  show thesis
  proof (rule that [OF c(5,6,7,3,4) data])
    fix q r assume "(q, r) \<in> set (expected_contents ?l ?s (b64_encode (pt_Data p')) (b64_encode (pt_Data w')))"
    then consider x where "r = Ok x" "(q, x) \<in> set (expected_files ?s (b64_encode (pt_Data p')) (b64_encode (pt_Data w')))"
      | "q = dns_config_path" "r = Ok y"
      | mc where "r = gl_yaml_MachineConfig ?ign mc" "(q, mc) \<in> set (expected_machine_configs ?ign)"
      unfolding expected_contents_def c(2) later_paths_fixed(3) by auto
    then show "\<exists>mode t. r = Ok t \<and> at_key fi_Path q (ig_Files (bs_Config b')) = Some (FileFromBytes ?ign q ''root'' mode t)"
      by cases (use texts dns mcs in blast)+
  next
    fix n x assume "(n, x) \<in> set expected_units"
    from add_files_unit [OF assms(2) un expected_units_added [OF this] c(1)]
    show "at_key un_Name n (ig_Units (bs_Config b')) = Some \<lparr>un_Name = n, un_Enabled = Some True, un_Contents = Some x, un_Dropins = []\<rparr>"
      by (simp add: us)
  qed
qed

section \<open>Properties\<close>

text \<open>C7: With the values of the repository's own test the customisations succeed, and what they leave is what that test
  expects. Each of the 21 paths of its list of files has, first at that path and owned by root, the data URL of the expected
  text: that of the test's data for sixteen files, among them the script of the larger MTU, the mirrored registries and the two
  user-data secrets; what the library for YAML makes of the cluster's DNS; and what it makes of the four machine
  configurations, whose ignition has exactly the expected texts again. Each of the four units of its list is there, enabled, with
  the expected text, and the pointers are to the internal address. As in the test, the random secret of the image registry
  and the contents of the user-data secrets stand where the data has \<open>test\<close>; those contents are the texts of the two pointers
  in base64. The libraries must be able to write texts, the installer's helper must name its manifests as it does,
  and the resolved graph must be ready for the certificate and have nothing yet at the paths and names that are appended.\<close>

theorem customised_as_expected:
  assumes "test_case m ic pp" "writes_texts (cd_libs d)" "names_manifests (cd_libs d)" "ready (cd_libs d) key crt ca g"
    and "regenerateMCSCertKey (cd_libs d) ic ca ''203.0.113.1'' = Ok (key, crt)" "bootstrap_in g = Ok b" "nothing_hidden b"
  shows "\<exists>g' b' p w. customise d m ic pp g = Ok g' \<and> bootstrap_in g' = Ok b' \<and> master_in g' = Ok p \<and> worker_in g' = Ok w
    \<and> hd (pc_Merge (pt_Config p)) = Some ''https://203.0.113.1:22623/config/master''
    \<and> hd (pc_Merge (pt_Config w)) = Some ''https://203.0.113.1:22623/config/worker''
    \<and> cl_pointer_json (cd_libs d) (pt_Config p) = Ok (pt_Data p) \<and> cl_pointer_json (cd_libs d) (pt_Config w) = Ok (pt_Data w)
    \<and> set (map fst (expected_contents (cd_libs d) (pp_httpSecret pp) (b64_encode (pt_Data p)) (b64_encode (pt_Data w))))
        = set expectedBootstrapStorageFileList
    \<and> (\<forall>(q, r) \<in> set (expected_contents (cd_libs d) (pp_httpSecret pp) (b64_encode (pt_Data p)) (b64_encode (pt_Data w))).
         \<exists>mode t. r = Ok t \<and> at_key fi_Path q (ig_Files (bs_Config b')) = Some (FileFromBytes (cl_ign (cd_libs d)) q ''root'' mode t))
    \<and> set (map fst expected_units) = set expectedBootstrapSystemdFileList
    \<and> (\<forall>(n, t) \<in> set expected_units. at_key un_Name n (ig_Units (bs_Config b')) =
         Some \<lparr>un_Name = n, un_Enabled = Some True, un_Contents = Some t, un_Dropins = []\<rparr>)
    \<and> bs_Data b' = ignition_Marshal (cl_ign (cd_libs d)) (bs_Config b')"
proof -
  have v: "pp_dns pp = test_dns" "\<not> pp_manifestsExist pp" "dc_APIIntIP test_dns = ''203.0.113.1''"
    using assms(1) by (simp_all add: test_case_def test_dns_def)
  obtain g' where c: "customise d m ic pp g = Ok g'"
    using customise_succeeds [OF assms(2,4) _ assms(3) v(2), of ic m] assms(5) by (auto simp: v)
  have m: "marshals (cl_ign (cd_libs d))" using assms(2) by (simp add: writes_texts_def)
  obtain b' p0 w0 p w where r: "bootstrap_in g' = Ok b'" "master_in g' = Ok p" "worker_in g' = Ok w"
    "points_to (cd_libs d) test_dns ''master'' p0 p" "points_to (cd_libs d) test_dns ''worker'' w0 w"
    "bs_Data b' = ignition_Marshal (cl_ign (cd_libs d)) (bs_Config b')"
    and files: "\<And>q r. (q, r) \<in> set (expected_contents (cd_libs d) (pp_httpSecret pp) (b64_encode (pt_Data p)) (b64_encode (pt_Data w))) \<Longrightarrow>
       \<exists>mode t. r = Ok t \<and> at_key fi_Path q (ig_Files (bs_Config b')) = Some (FileFromBytes (cl_ign (cd_libs d)) q ''root'' mode t)"
    and us: "\<And>n t. (n, t) \<in> set expected_units \<Longrightarrow> at_key un_Name n (ig_Units (bs_Config b')) =
       Some \<lparr>un_Name = n, un_Enabled = Some True, un_Contents = Some t, un_Dropins = []\<rparr>"
    by (rule test_contents [OF assms(1) m assms(3,6,7) c]) (rule that)
  have src: "pointer_source test_dns ''master'' = ''https://203.0.113.1:22623/config/master''"
    "pointer_source test_dns ''worker'' = ''https://203.0.113.1:22623/config/worker''" by code_simp+
  have names: "set (map fst expected_units) = set expectedBootstrapSystemdFileList"
    by (simp add: expected_units_def expectedBootstrapSystemdFileList_def insert_commute)
  have h: "hd (pc_Merge (pt_Config p)) = Some ''https://203.0.113.1:22623/config/master''"
    "hd (pc_Merge (pt_Config w)) = Some ''https://203.0.113.1:22623/config/worker''"
    "cl_pointer_json (cd_libs d) (pt_Config p) = Ok (pt_Data p)" "cl_pointer_json (cd_libs d) (pt_Config w) = Ok (pt_Data w)"
    using r(4,5) by (simp_all add: points_to_def src)
  have f: "\<forall>(q, r) \<in> set (expected_contents (cd_libs d) (pp_httpSecret pp) (b64_encode (pt_Data p)) (b64_encode (pt_Data w))).
      \<exists>mode t. r = Ok t \<and> at_key fi_Path q (ig_Files (bs_Config b')) = Some (FileFromBytes (cl_ign (cd_libs d)) q ''root'' mode t)"
    by (intro ballI case_prodI2) (rule files, simp only:)
  have u: "\<forall>(n, t) \<in> set expected_units. at_key un_Name n (ig_Units (bs_Config b')) =
      Some \<lparr>un_Name = n, un_Enabled = Some True, un_Contents = Some t, un_Dropins = []\<rparr>"
    by (intro ballI case_prodI2) (rule us, simp only:)
  show ?thesis by (intro exI conjI) (rule c r(1,2,3,6) h expected_contents_listed f names u)+
qed

definition test_config :: install_config where
  "test_config = demo_config\<lparr>ic_Name := ''test-cluster'', ic_BaseDomain := ''test.example.com'', ic_Publish := ''External'',
     ic_Azure := (ic_Azure demo_config)\<lparr>ap_CloudName := ''AzurePublicCloud''\<rparr>, ic_ImageDigestSources := test_sources\<rparr>"

definition test_manager :: "unit manager" where
  "test_manager = demo_install\<lparr>mg_oc := (mg_oc demo_install)\<lparr>ImageRegistryStorageAccountName := ''test-image-registry-storage-acct'',
     NetworkProfile := (NetworkProfile (mg_oc demo_install))\<lparr>MTUSize := MTU3900\<rparr>\<rparr>\<rparr>"

definition test_prepared :: prepared where
  "test_prepared = \<lparr>pp_logging = test_logging, pp_httpSecret = ''72616e646f6d'', pp_dns = test_dns, pp_manifests = [],
     pp_manifestsExist = False, pp_signingKey = []\<rparr>"

theorem customised_as_expected_witness:
  "\<exists>g' b'. customise demo_custom_deps test_manager test_config test_prepared demo_custom_graph = Ok g' \<and> bootstrap_in g' = Ok b'
    \<and> (\<exists>mode. at_key fi_Path ''/opt/openshift/manifests/aro-worker-registries.yaml'' (ig_Files (bs_Config b')) =
         Some (FileFromBytes demo_ign_lib ''/opt/openshift/manifests/aro-worker-registries.yaml'' ''root'' mode expected_worker_registries))"
proof -
  let ?d = demo_custom_deps and ?ca = "\<lparr>ca_Key = ''k'', ca_Cert = ''c''\<rparr>"
  have libs: "cd_libs ?d = demo_custom_libs" by (simp add: demo_custom_deps_def)
  have t: "test_case test_manager test_config test_prepared"
    by (simp add: test_case_def test_manager_def test_config_def test_prepared_def alphanumeric_def)
  have w: "writes_texts (cd_libs ?d)" "names_manifests (cd_libs ?d)"
    by (simp_all add: libs writes_texts_def names_manifests_def marshals_def demo_custom_libs_def demo_ign_lib_def)
  have r: "ready (cd_libs ?d) ''KEY'' ''CERT'' ?ca demo_custom_graph"
    using demo_renewable by (simp add: libs ready_def demo_custom_graph_assets demo_pointer_def)
  have c: "regenerateMCSCertKey (cd_libs ?d) test_config ?ca ''203.0.113.1'' = Ok (''KEY'', ''CERT'')"
    by (simp add: libs regenerateMCSCertKey_def regenerateSignedCertKey_def demo_custom_libs_def wrap_def)
  have n: "nothing_hidden demo_bootstrap"
    by (simp add: nothing_hidden_def unhidden_def demo_bootstrap_def demo_file_def appended_paths_def mtu_file_path_def rooted_def
        cvoOverridesFilename_def mcsKeyFile_def mcsCertKeyFilepath_def)
  obtain g' b' and p w :: pointer_asset where g: "customise ?d test_manager test_config test_prepared demo_custom_graph = Ok g'" "bootstrap_in g' = Ok b'"
    and all: "\<forall>(q, r) \<in> set (expected_contents (cd_libs ?d) (pp_httpSecret test_prepared) (b64_encode (pt_Data p)) (b64_encode (pt_Data w))).
         \<exists>mode t. r = Ok t \<and> at_key fi_Path q (ig_Files (bs_Config b')) = Some (FileFromBytes (cl_ign (cd_libs ?d)) q ''root'' mode t)"
    using customised_as_expected [OF t w r c demo_custom_graph_assets(1) n] by (elim exE conjE) (rule that, assumption+)
  have "(''/opt/openshift/manifests/aro-worker-registries.yaml'', Ok expected_worker_registries)
      \<in> set (expected_contents (cd_libs ?d) (pp_httpSecret test_prepared) (b64_encode (pt_Data p)) (b64_encode (pt_Data w)))"
    by (simp add: expected_contents_def expected_files_def)
  from bspec [OF all this] g show ?thesis by (auto simp: libs demo_custom_libs_def)
qed

text \<open>C38: The file with the key and the certificate of the logging agents is executed as a template for HTML: it gets the key
  and the certificate with every character that is special there replaced by a reference. It is the file that the template
  says exactly if neither text has such a character; the plus sign of base64 is one of them.\<close>

theorem logging_certificate_escaped:
  "\<exists>b'. AppendMdsdFiles l b c = Ok b'
    \<and> at_key fi_Path ''/etc/mdsd.d/secret/mdsdcert.pem'' (ig_Files (bs_Config b')) =
        Some (FileFromBytes l ''/etc/mdsd.d/secret/mdsdcert.pem'' ''root'' 384 (lines_text [html_escape (lg_Key c), html_escape (lg_Certificate c)]))
    \<and> (lines_text [html_escape (lg_Key c), html_escape (lg_Certificate c)] = lines_text [lg_Key c, lg_Certificate c]
        \<longleftrightarrow> set (lg_Key c @ lg_Certificate c) \<inter> {CHR 0x00, CHR 0x22, CHR ''&'', CHR 0x27, CHR ''+'', CHR ''<'', CHR ''>''} = {})"
proof -
  have at: "at_key fi_Path ''/etc/mdsd.d/secret/mdsdcert.pem'' (ReplaceOrAppend fs (private_files l (logging_texts c))) =
      Some (FileFromBytes l ''/etc/mdsd.d/secret/mdsdcert.pem'' ''root'' 384 (lines_text [html_escape (lg_Key c), html_escape (lg_Certificate c)]))" for fs
    by (simp add: at_key_ReplaceOrAppend private_files_def logging_texts_def FileFromBytes_def)
  have "(lines_text [html_escape k, html_escape t] = lines_text [k, t]) \<longleftrightarrow> html_escape (k @ t) = k @ t" for k t
  proof
    assume eq: "lines_text [html_escape k, html_escape t] = lines_text [k, t]"
    then have "length (html_escape k) + length (html_escape t) = length k + length t"
      by (auto simp: lines_text_def dest: arg_cong [where f = length])
    then have "length (html_escape k) = length k" using html_escape_length [of k] html_escape_length [of t] by linarith
    then show "html_escape (k @ t) = k @ t" using eq by (simp add: lines_text_def)
  next
    assume eq: "html_escape (k @ t) = k @ t"
    then have "html_escape k = k" "html_escape t = t"
      unfolding html_escape_id by auto
    then show "lines_text [html_escape k, html_escape t] = lines_text [k, t]" by simp
  qed
  then show ?thesis unfolding AppendMdsdFiles_Ok html_escape_id html_special_def using at by simp
qed

text \<open>C20: The customisations end with a graph, and without an error, when an installation with the default MTU brings no manifests
  of its own, provided that the assets can be resolved and those that are customised are there, that the configurations, the
  pointers and the DNS can be written as texts, and that a certificate of the machine-config server can be made
  which every bootstrap file that gets it can take.\<close>

theorem customisations_succeed:
  assumes "prepare d m = Ok pp" "\<not> pp_manifestsExist pp"
    and "Resolve_deps k (cd_assets d) ignition_targets (initial_graph m ia img (pp_signingKey pp)) = Some (Ok (), g)"
    and "writes_texts (cd_libs d)" "ready (cd_libs d) key crt ca g"
    and "regenerateMCSCertKey (cd_libs d) (ia_Config ia) ca (dc_APIIntIP (pp_dns pp)) = Ok (key, crt)"
    and "MTUSize (NetworkProfile (mg_oc m)) \<noteq> MTU3900"
  shows "\<exists>g'. applyInstallConfigCustomisations k d m ia img = Some (Ok g')"
proof -
  have "\<exists>g'. customise d m (ia_Config ia) pp g = Ok g'"
    by (rule customise_succeeds [OF assms(4-6) _ assms(2)]) (use assms(7) in simp)
  then show ?thesis using customised_if [OF assms(1,3)] by blast
qed

theorem customisations_succeed_witness:
  "\<exists>g'. applyInstallConfigCustomisations 2 demo_custom_deps demo_install demo_ia ''release'' = Some (Ok g')"
  by (rule demo_customisable [of demo_ia], rule customisations_succeed)

end
