(* ===== verification/Commands.thy ===== *)
theory Commands
  imports Cli
begin

text \<open>
  cmd/aro/main.go and the tree of commands of cmd/aro/create.go, with what they use of the library cobra and of its flags
  (vendor/github.com/spf13): the search for a command among the arguments, the flags, and the order in which a command is
  executed. The library's own commands (help, completion) are a parameter; an action is a function on the options.
\<close>

section \<open>Flags\<close>

text \<open>The two persistent flags with their defaults, and the flag for help, which the library adds.\<close>

record flag_values =
  fv_dir :: string
  fv_logLevel :: string
  fv_help :: bool

definition flag_defaults :: flag_values where
  "flag_defaults = \<lparr>fv_dir = ''.'', fv_logLevel = ''info'', fv_help = False\<rparr>"

definition parse_bool :: "string \<Rightarrow> bool option" where
  "parse_bool s =
     (if s \<in> set [''1'', ''t'', ''T'', ''TRUE'', ''true'', ''True''] then Some True
      else if s \<in> set [''0'', ''f'', ''F'', ''FALSE'', ''false'', ''False''] then Some False
      else None)"

definition set_help :: "string \<Rightarrow> flag_values \<Rightarrow> go_error + flag_values" where
  "set_help v fv =
     (case parse_bool v of
        Some b \<Rightarrow> Inr (fv\<lparr>fv_help := b\<rparr>)
      | None \<Rightarrow> Inl (ErrMsg (''invalid argument '' @ quote_text v @ '' for '' @ quote_text ''-h, --help'' @
                  '' flag: strconv.ParseBool: parsing '' @ quote_text v @ '': invalid syntax'')))"

definition quote_char :: "char \<Rightarrow> string" where
  "quote_char c = [CHR 0x27, c, CHR 0x27]"

text \<open>Short flags in one argument; there is only one, and it takes a value only after an equals sign.\<close>

fun parse_short :: "string \<Rightarrow> flag_values \<Rightarrow> go_error + flag_values" where
  "parse_short [] fv = Inr fv"
| "parse_short (c # cs) fv =
     (if prefix ''test.'' (c # cs) then Inr fv
      else if c \<noteq> CHR ''h'' then Inl (ErrMsg (''unknown shorthand flag: '' @ quote_char c @ '' in -'' @ c # cs))
      else if length cs > 1 \<and> hd cs = CHR ''='' then set_help (tl cs) fv
      else (case set_help ''true'' fv of Inl e \<Rightarrow> Inl e | Inr fv \<Rightarrow> parse_short cs fv))"

text \<open>The name and the value of a long flag are split at the first equals sign.\<close>

definition cut_equals :: "string \<Rightarrow> string \<times> string option" where
  "cut_equals s =
     (let n = takeWhile (\<lambda>c. c \<noteq> CHR ''='') s in
      (n, if CHR ''='' \<in> set s then Some (drop (Suc (length n)) s) else None))"

definition bad_long :: "string \<Rightarrow> bool" where
  "bad_long name = (case name of [] \<Rightarrow> True | c # cs \<Rightarrow> c = CHR ''-'' \<or> c = CHR ''='')"

definition set_text :: "string \<Rightarrow> string \<Rightarrow> flag_values \<Rightarrow> flag_values" where
  "set_text name v fv = (if name = ''dir'' then fv\<lparr>fv_dir := v\<rparr> else fv\<lparr>fv_logLevel := v\<rparr>)"

text \<open>A text flag without a value takes the next argument, whatever it is. Flags and other arguments may be mixed.\<close>

fun parse_flags :: "string list \<Rightarrow> flag_values \<Rightarrow> go_error + flag_values \<times> string list" where
  "parse_flags [] fv = Inr (fv, [])"
| "parse_flags (s # args) fv =
     (if length s \<le> 1 \<or> hd s \<noteq> CHR ''-'' then map_sum id (apsnd ((#) s)) (parse_flags args fv)
      else if s = ''--'' then Inr (fv, args)
      else if s ! 1 = CHR ''-'' then
        (case cut_equals (drop 2 s) of (name, v) \<Rightarrow>
           if bad_long (drop 2 s) then Inl (ErrMsg (''bad flag syntax: '' @ s))
           else if name = ''help'' then
             (case set_help (case v of Some x \<Rightarrow> x | None \<Rightarrow> ''true'') fv of Inl e \<Rightarrow> Inl e | Inr fv \<Rightarrow> parse_flags args fv)
           else if name \<noteq> ''dir'' \<and> name \<noteq> ''log-level'' then Inl (ErrMsg (''unknown flag: --'' @ name))
           else (case v of
               Some x \<Rightarrow> parse_flags args (set_text name x fv)
             | None \<Rightarrow>
                 (case args of
                    [] \<Rightarrow> Inl (ErrMsg (''flag needs an argument: '' @ s))
                  | x # args \<Rightarrow> parse_flags args (set_text name x fv))))
      else (case parse_short (tl s) fv of Inl e \<Rightarrow> Inl e | Inr fv \<Rightarrow> parse_flags args fv))"

section \<open>Commands\<close>

text \<open>A command either has an action, or its action is to print its help, or it has none.\<close>

datatype 'r cmd_run = RunWith "flag_values \<Rightarrow> 'r" | RunHelp

datatype 'r command =
  Command (cm_Use: string) (cm_Short: string) (cm_Args: "nat option") (cm_run: "'r cmd_run option") (cm_commands: "'r command list")

definition cm_Name :: "'r command \<Rightarrow> string" where
  "cm_Name c = takeWhile (\<lambda>x. x \<noteq> CHR '' '') (cm_Use c)"

fun AddCommand :: "'r command \<Rightarrow> 'r command \<Rightarrow> 'r command" where
  "AddCommand (Command u s a r cs) c = Command u s a r (cs @ [c])"

fun with_exact_args :: "nat \<Rightarrow> 'r command \<Rightarrow> 'r command" where
  "with_exact_args n (Command u s a r cs) = Command u s (Some n) r cs"

text \<open>While a command is searched, no flag is known to do without a value: an argument follows each that has no equals sign.\<close>

definition takes_value :: "string \<Rightarrow> bool" where
  "takes_value s = ((prefix ''--'' s \<or> prefix ''-'' s \<and> length s = 2) \<and> CHR ''='' \<notin> set s)"

fun strip_flags :: "string list \<Rightarrow> string list" where
  "strip_flags [] = []"
| "strip_flags (s # args) =
     (if s = ''--'' then []
      else if takes_value s then (case args of [] \<Rightarrow> [] | x # args \<Rightarrow> strip_flags args)
      else if s \<noteq> [] \<and> \<not> prefix ''-'' s then s # strip_flags args
      else strip_flags args)"

fun args_minus_first :: "string list \<Rightarrow> string \<Rightarrow> string list" where
  "args_minus_first [] x = []"
| "args_minus_first (s # args) x =
     (if s = ''--'' then s # args
      else if takes_value s then (case args of [] \<Rightarrow> [s] | v # args \<Rightarrow> s # v # args_minus_first args x)
      else if \<not> prefix ''-'' s \<and> s = x then args
      else s # args_minus_first args x)"

lemma size_found: "find P (cm_commands c) = Some d \<Longrightarrow> size d < size c"
proof -
  assume "find P (cm_commands c) = Some d"
  then have "d \<in> set (cm_commands c)" by (auto simp: find_Some_iff)
  then show ?thesis by (cases c) (auto dest: size_list_estimation' [of _ _ "size d" size])
qed

text \<open>Whether the root itself is found is returned, too: only it turns arguments that are no command of it down.\<close>

function find_command :: "bool \<Rightarrow> 'r command \<Rightarrow> string list \<Rightarrow> bool \<times> 'r command \<times> string list" where
  "find_command root c args =
     (case strip_flags args of
        [] \<Rightarrow> (root, c, args)
      | n # ns \<Rightarrow>
          (case find (\<lambda>d. cm_Name d = n) (cm_commands c) of
             None \<Rightarrow> (root, c, args)
           | Some d \<Rightarrow> find_command False d (args_minus_first args n)))"
  by pat_completeness auto
termination by (relation "measure (\<lambda>(root, c, args). size c)") (auto dest: size_found)

declare find_command.simps [simp del]

definition Find_command :: "(string \<Rightarrow> string) \<Rightarrow> 'r command \<Rightarrow> string list \<Rightarrow> go_error + 'r command \<times> string list" where
  "Find_command suggestions c args =
     (case find_command True c args of (root, d, a) \<Rightarrow>
        if cm_Args d = None \<and> root \<and> cm_commands d \<noteq> [] \<and> strip_flags a \<noteq> []
        then Inl (ErrMsg (''unknown command '' @ quote_text (hd (strip_flags a)) @ '' for '' @ quote_text (cm_Name c) @ suggestions (hd (strip_flags a))))
        else Inr (d, a))"

text \<open>How a run of the program ends: with the result of an action, with the help of a command, or at a fatal error.\<close>

datatype 'r ending = Ended 'r | HelpShown string | FatalExit go_error

definition wrong_args :: "nat option \<Rightarrow> string list \<Rightarrow> go_error option" where
  "wrong_args n args =
     (case n of
        None \<Rightarrow> None
      | Some n \<Rightarrow> if length args = n then None
                  else Some (ErrMsg (''accepts '' @ show_nat n @ '' arg(s), received '' @ show_nat (length args))))"

definition execute_command :: "'r command \<Rightarrow> string list \<Rightarrow> go_error + 'r ending" where
  "execute_command c a =
     (case parse_flags a flag_defaults of
        Inl e \<Rightarrow> Inl e
      | Inr (fv, args) \<Rightarrow>
          if fv_help fv then Inr (HelpShown (cm_Name c))
          else (case cm_run c of
              None \<Rightarrow> Inr (HelpShown (cm_Name c))
            | Some r \<Rightarrow>
                (case wrong_args (cm_Args c) args of
                   Some e \<Rightarrow> Inl e
                 | None \<Rightarrow>
                     (case runRootCmd (fv_logLevel fv) of
                        (hook, Err e) \<Rightarrow> Inr (FatalExit e)
                      | _ \<Rightarrow> Inr (case r of RunHelp \<Rightarrow> HelpShown (cm_Name c) | RunWith f \<Rightarrow> Ended (f fv))))))"

definition Execute :: "(string \<Rightarrow> string) \<Rightarrow> 'r command \<Rightarrow> string list \<Rightarrow> go_error + 'r ending" where
  "Execute suggestions c args =
     (case Find_command suggestions c args of
        Inl e \<Rightarrow> Inl e
      | Inr (d, a) \<Rightarrow> execute_command d a)"

section \<open>The commands of the program\<close>

text \<open>The actions take the assets directory.\<close>

record 'r actions =
  ac_manifests :: "string \<Rightarrow> 'r"
  ac_cluster :: "string \<Rightarrow> 'r"

definition manifestsTarget :: "'r actions \<Rightarrow> 'r command" where
  "manifestsTarget ac =
     Command ''manifests'' ''Generates the Kubernetes manifests'' None (Some (RunWith (\<lambda>fv. ac_manifests ac (fv_dir fv)))) []"

definition ignitionConfigsTarget :: "'r actions \<Rightarrow> 'r command" where
  "ignitionConfigsTarget ac = Command ''ignition-configs'' ''Generates the Ignition Config asset'' None None []"

definition clusterTarget :: "'r actions \<Rightarrow> 'r command" where
  "clusterTarget ac =
     Command ''cluster'' ''Create an OpenShift cluster'' None (Some (RunWith (\<lambda>fv. ac_cluster ac (fv_dir fv)))) []"

definition targets :: "'r actions \<Rightarrow> 'r command list" where
  "targets ac = [manifestsTarget ac, ignitionConfigsTarget ac, clusterTarget ac]"

definition newCreateCmd :: "'r actions \<Rightarrow> 'r command" where
  "newCreateCmd ac =
     fold (\<lambda>t cmd. AddCommand cmd (with_exact_args 0 t)) (targets ac)
       (Command ''create'' ''Create part of an OpenShift cluster'' None (Some RunHelp) [])"

definition newRootCmd :: "string \<Rightarrow> 'r command" where
  "newRootCmd arg0 = Command (path_base arg0) ''Creates OpenShift clusters'' None None []"

definition aro_main :: "(string \<Rightarrow> string) \<Rightarrow> 'r command list \<Rightarrow> 'r actions \<Rightarrow> string \<Rightarrow> string list \<Rightarrow> 'r ending" where
  "aro_main suggestions lib ac arg0 args =
     (case Execute suggestions (fold (\<lambda>c cmd. AddCommand cmd c) (newCreateCmd ac # lib) (newRootCmd arg0)) args of
        Inl e \<Rightarrow> FatalExit (Wrapped ''Error executing openshift-install'' e)
      | Inr r \<Rightarrow> r)"

fun main_status :: "('r \<Rightarrow> nat) \<Rightarrow> 'r ending \<Rightarrow> nat" where
  "main_status status (Ended r) = status r"
| "main_status status (HelpShown c) = 0"
| "main_status status (FatalExit e) = 1"

text \<open>The actions over the models of the two commands.\<close>

definition aro_actions ::
  "clock list \<Rightarrow> ('e, 's) cli_deps \<Rightarrow> (string \<Rightarrow> ('f, 's) manifests_deps) \<Rightarrow> ('k, 'r, 'c, 's, 'e) install_deps \<Rightarrow> ('u, 'dk, 'q, 's) deploy_deps
     \<Rightarrow> 'e \<Rightarrow> ('f, 's) manifests_state \<Rightarrow> ((nat \<times> ('f, 's) manifests_state) option + (nat \<times> ('c, 's) install_state) option) actions" where
  "aro_actions clocks d md insd dd w m =
     \<lparr>ac_manifests = (\<lambda>dir. Inl (manifests_command clocks d (md dir) w m)),
      ac_cluster = (\<lambda>dir. Inr (cluster_command clocks d insd dd w (ms_store m)))\<rparr>"

section \<open>Properties\<close>

lemma create_commands:
  "newCreateCmd ac = Command ''create'' ''Create part of an OpenShift cluster'' None (Some RunHelp) (map (with_exact_args 0) (targets ac))"
  by (simp add: newCreateCmd_def targets_def)

lemma root_commands:
  "fold (\<lambda>c cmd. AddCommand cmd c) cs (Command u s a r ds) = Command u s a r (ds @ cs)"
  by (induction cs arbitrary: ds) simp_all

definition plain_word :: "string \<Rightarrow> bool" where
  "plain_word s \<longleftrightarrow> s \<noteq> [] \<and> hd s \<noteq> CHR ''-''"

lemma plain_word_step:
  assumes "plain_word s"
  shows "strip_flags (s # args) = s # strip_flags args" "args_minus_first (s # args) s = args"
  using assms by (cases s; simp add: plain_word_def takes_value_def)+

lemma find_step:
  assumes "plain_word n" "find (\<lambda>d. cm_Name d = n) (cm_commands c) = Some d"
  shows "find_command root c (n # args) = find_command False d args"
  using assms(2) by (subst find_command.simps) (simp add: plain_word_step [OF assms(1)] del: strip_flags.simps args_minus_first.simps)

lemma find_leaf: "cm_commands c = [] \<Longrightarrow> find_command root c args = (root, c, args)"
  by (subst find_command.simps) (simp split: list.split)

lemma target_names:
  "cm_Name (manifestsTarget ac) = ''manifests''" "cm_Name (ignitionConfigsTarget ac) = ''ignition-configs''"
  "cm_Name (clusterTarget ac) = ''cluster''" "cm_Name (newCreateCmd ac) = ''create''"
  by (simp_all add: cm_Name_def manifestsTarget_def ignitionConfigsTarget_def clusterTarget_def create_commands)

lemma with_exact_args_simps [simp]:
  "cm_Name (with_exact_args n c) = cm_Name c" "cm_commands (with_exact_args n c) = cm_commands c" "cm_Args (with_exact_args n c) = Some n"
  by (cases c; simp add: cm_Name_def)+

lemma list_members: "x \<in> set [a, b, c] \<Longrightarrow> (x = a \<Longrightarrow> P) \<Longrightarrow> (x = b \<Longrightarrow> P) \<Longrightarrow> (x = c \<Longrightarrow> P) \<Longrightarrow> P"
  by auto

lemma find_target:
  assumes "t \<in> set (targets ac)"
  shows "find_command True (Command u s a r (newCreateCmd ac # lib)) (''create'' # cm_Name t # rest) = (False, with_exact_args 0 t, rest)"
proof -
  have words: "plain_word ''create''" "plain_word ''manifests''" "plain_word ''ignition-configs''" "plain_word ''cluster''"
    by (simp_all add: plain_word_def)
  have create: "cm_commands (newCreateCmd ac) = map (with_exact_args 0) (targets ac)" by (simp add: create_commands)
  have "cm_commands t = []" using assms
    by (auto simp: targets_def manifestsTarget_def ignitionConfigsTarget_def clusterTarget_def)
  moreover have "find (\<lambda>d. cm_Name d = cm_Name t) (cm_commands (newCreateCmd ac)) = Some (with_exact_args 0 t)"
    using assms unfolding create targets_def
    by (elim list_members) (simp_all add: target_names)
  moreover have "plain_word (cm_Name t)"
    using assms unfolding targets_def by (elim list_members) (simp_all only: target_names words)
  ultimately have "find_command False (newCreateCmd ac) (cm_Name t # rest) = (False, with_exact_args 0 t, rest)"
    by (simp add: find_step find_leaf)
  moreover have "find_command True (Command u s a r (newCreateCmd ac # lib)) (''create'' # cm_Name t # rest) =
      find_command False (newCreateCmd ac) (cm_Name t # rest)"
    by (rule find_step) (simp_all add: words target_names)
  ultimately show ?thesis by simp
qed

lemma main_target:
  assumes "t \<in> set (targets ac)"
  shows "aro_main sg lib ac arg0 (''create'' # cm_Name t # rest) =
    (case execute_command (with_exact_args 0 t) rest of Inl e \<Rightarrow> FatalExit (Wrapped ''Error executing openshift-install'' e) | Inr r \<Rightarrow> r)"
proof -
  show ?thesis
    by (simp add: aro_main_def newRootCmd_def root_commands Execute_def Find_command_def find_target [OF assms])
qed

text \<open>The specification of a command that acts on a directory.\<close>

definition target_run :: "string \<Rightarrow> (string \<Rightarrow> 'r) \<Rightarrow> string list \<Rightarrow> 'r ending" where
  "target_run name act rest =
     (case parse_flags rest flag_defaults of
        Inl e \<Rightarrow> FatalExit (Wrapped ''Error executing openshift-install'' e)
      | Inr (fv, args) \<Rightarrow>
          if fv_help fv then HelpShown name
          else if args \<noteq> []
          then FatalExit (Wrapped ''Error executing openshift-install'' (ErrMsg (''accepts 0 arg(s), received '' @ show_nat (length args))))
          else (case ParseLevel (fv_logLevel fv) of
              Ok l \<Rightarrow> Ended (act (fv_dir fv))
            | Err e \<Rightarrow> FatalExit (Wrapped ''invalid log-level'' e)))"

lemma ParseLevel_no_panic: "ParseLevel s \<noteq> Panic"
  by (simp add: ParseLevel_def Let_def)

lemma show_nat_0: "show_nat 0 = ''0''"
  by code_simp

lemma execute_target:
  "(case execute_command (Command u d (Some 0) (Some (RunWith (\<lambda>fv. act (fv_dir fv)))) []) rest of
      Inl e \<Rightarrow> FatalExit (Wrapped ''Error executing openshift-install'' e) | Inr r \<Rightarrow> r) = target_run (takeWhile (\<lambda>x. x \<noteq> CHR '' '') u) act rest"
  using ParseLevel_no_panic
  by (auto simp: execute_command_def target_run_def wrong_args_def runRootCmd_def cm_Name_def show_nat_0
      split: sum.splits outcome.splits)

text \<open>C21: What the three commands under create do with the arguments that follow their name. The commands for the manifests and
  the cluster act on the directory that is given (the current one, if none is) exactly if the flags can be read, help is not
  asked for, no argument is left and the log level is valid; in every other case nothing is done: the help is shown,
  or the program ends with status 1. The command for the ignition configurations, whose summary says that it generates
  them, never acts: whatever follows, it shows its help, or ends with status 1 at a flag that cannot be read.\<close>

theorem create_dispatch:
  "aro_main sg lib ac arg0 (''create'' # ''manifests'' # rest) = target_run ''manifests'' (ac_manifests ac) rest
   \<and> aro_main sg lib ac arg0 (''create'' # ''cluster'' # rest) = target_run ''cluster'' (ac_cluster ac) rest
   \<and> aro_main sg lib ac arg0 (''create'' # ''ignition-configs'' # rest) =
      (case parse_flags rest flag_defaults of
         Inl e \<Rightarrow> FatalExit (Wrapped ''Error executing openshift-install'' e)
       | Inr _ \<Rightarrow> HelpShown ''ignition-configs'')"
proof -
  have t: "manifestsTarget ac \<in> set (targets ac)" "clusterTarget ac \<in> set (targets ac)" "ignitionConfigsTarget ac \<in> set (targets ac)"
    by (simp_all add: targets_def)
  have "aro_main sg lib ac arg0 (''create'' # ''manifests'' # rest) = target_run ''manifests'' (ac_manifests ac) rest"
    using main_target [OF t(1), of sg lib arg0 rest, unfolded target_names]
    by (simp add: manifestsTarget_def execute_target [where act = "ac_manifests ac"])
  moreover have "aro_main sg lib ac arg0 (''create'' # ''cluster'' # rest) = target_run ''cluster'' (ac_cluster ac) rest"
    using main_target [OF t(2), of sg lib arg0 rest, unfolded target_names]
    by (simp add: clusterTarget_def execute_target [where act = "ac_cluster ac"])
  moreover have "aro_main sg lib ac arg0 (''create'' # ''ignition-configs'' # rest) =
      (case parse_flags rest flag_defaults of Inl e \<Rightarrow> FatalExit (Wrapped ''Error executing openshift-install'' e) | Inr _ \<Rightarrow> HelpShown ''ignition-configs'')"
    using main_target [OF t(3), of sg lib arg0 rest, unfolded target_names]
    by (auto simp: ignitionConfigsTarget_def execute_command_def cm_Name_def split: sum.splits)
  ultimately show ?thesis by blast
qed

text \<open>Without one of its commands, create shows its help; without a command, so does the program; and an argument that
  is no command ends it with status 1.\<close>

lemma no_target:
  "aro_main sg [] ac ''aro'' [] = HelpShown ''aro''"
  "aro_main sg [] ac ''aro'' [''create''] = HelpShown ''create''"
  "aro_main (\<lambda>s. []) [] ac ''aro'' [''delete''] =
     FatalExit (Wrapped ''Error executing openshift-install'' (ErrMsg (''unknown command '' @ quote_text ''delete'' @ '' for '' @ quote_text ''aro'')))"
proof -
  have b: "path_base ''aro'' = ''aro''" by code_simp
  have r: "case runRootCmd ''info'' of (hook, Ok u) \<Rightarrow> True | _ \<Rightarrow> False" by code_simp
  then obtain hook u where r: "runRootCmd ''info'' = (hook, Ok u)" by (auto split: prod.splits outcome.splits)
  show "aro_main sg [] ac ''aro'' [] = HelpShown ''aro''"
    by (simp add: aro_main_def newRootCmd_def Execute_def Find_command_def find_command.simps create_commands b execute_command_def
        flag_defaults_def cm_Name_def)
  show "aro_main sg [] ac ''aro'' [''create''] = HelpShown ''create''"
    by (simp add: aro_main_def newRootCmd_def Execute_def Find_command_def find_command.simps create_commands b execute_command_def
        flag_defaults_def cm_Name_def takes_value_def wrong_args_def r)
  show "aro_main (\<lambda>s. []) [] ac ''aro'' [''delete''] =
     FatalExit (Wrapped ''Error executing openshift-install'' (ErrMsg (''unknown command '' @ quote_text ''delete'' @ '' for '' @ quote_text ''aro'')))"
    by (simp add: aro_main_def newRootCmd_def Execute_def Find_command_def find_command.simps create_commands b
        cm_Name_def takes_value_def)
qed

text \<open>The two flags, in both forms, before and after each other.\<close>

lemma flags_read:
  "parse_flags [''--dir'', d, ''--log-level'', l] flag_defaults = Inr (\<lparr>fv_dir = d, fv_logLevel = l, fv_help = False\<rparr>, [])"
  "parse_flags [''--log-level='' @ l, ''--dir='' @ d] flag_defaults = Inr (\<lparr>fv_dir = d, fv_logLevel = l, fv_help = False\<rparr>, [])"
  by (simp_all add: cut_equals_def bad_long_def set_text_def flag_defaults_def)

end
