(* ===== verification/Spec2Isabelle.thy ===== *)
theory Spec2Isabelle
  imports Json Go_Errors Polling Steps Deployments Base64 Azure_Clients Key_Vault Encryption Storage
    Resource_Ids Asset_Graph Pull_Secret Compute_Skus Pem Certificates Go_Std Instance_Metadata
    Dialer Features Refresher Cluster_Doc Env Install_Config Ignition Dns_Files Customise
    Customised Arm_Template Deploy_Resources Install Transitions Load_Test Proxy Go_Path Licenses
    Client_Addons Client_Constructors Cli Typed_Graph Graph_Store Go_Template Expected_Files
    Embedded_Files Generated_Files Commands
begin

text \<open>
  The ARO wrapper of the OpenShift installer: \<open>cmd/aro\<close> with the packages under \<open>pkg\<close>, and the two
  tools under \<open>hack\<close>.

  The program. The command \<open>manifests\<close> builds the install configuration of a cluster from its document and
  from the environment, lets the installer resolve its graph of assets, changes the resolved assets, stores
  the graph and the bootstrap ignition in the cluster's storage account and writes the assets to disk. The
  command \<open>cluster\<close> reads the graph back, deploys an ARM template with the bootstrap and control-plane
  machines, connects to the API server and waits for the end of the bootstrap. Both run as a list of steps.

  Conventions. A call of Go is a value of \<open>outcome\<close>: \<open>Ok\<close>, \<open>Err\<close> with an error value, or \<open>Panic\<close>
  (theory Prelude). Code that acts on a service is a function on that service's state, which it returns;
  the service itself (storage, vault, deployments, HTTP, the file system) is a parameter, a record of its
  calls. Text is a list of bytes. A pointer that may be nil is an option, and a dereference of nil is
  \<open>Panic\<close>. Concurrency is an inductive step relation with a step per atomic action of a goroutine.
  Messages of the log are left out.

  The theories, with the code they model:
  \<^item> Prelude, Go_Map, Go_Strings, Go_Std, Go_Path, Base64, Json, Pem: the parts of the language and of its
    library that the rest uses: maps, strings, paths and directory walks, base64, encoding/json and
    encoding/pem on texts.
  \<^item> Go_Template: the part of text/template and html/template that the templates of the program use: lexing,
    parsing, execution, and the escaping of html/template.
  \<^item> Go_Errors: the classification of error values (\<open>azureerrors\<close>).
  \<^item> Polling, Steps: \<open>wait.PollUntilContextTimeout\<close> over a schedule of wake-ups, and the runner with its
    three kinds of step (\<open>pkg/util/steps\<close>).
  \<^item> Deployments, Arm_Template, Deploy_Resources: the deployments client and \<open>DeployTemplate\<close>; the encoding of
    a template (\<open>pkg/util/arm\<close>); the template of the machines (\<open>pkg/installer/deployresources*.go\<close>).
  \<^item> Azure_Clients, Client_Addons, Client_Constructors: the hand-written additions to the clients of the SDK, what
    their constructors set, and the sender that logs requests (\<open>pkg/util/azureclient\<close>).
  \<^item> Key_Vault, Certificates, Encryption, Storage: the vault manager, keys and certificates, the AEADs, the
    storage manager and the blobs client.
  \<^item> Resource_Ids, Compute_Skus, Pull_Secret: identifiers, clouds and API versions; VM sizes and zones; pull
    secrets.
  \<^item> Asset_Graph, Graph_Store, Typed_Graph: the graph of assets and its persisted form (\<open>pkg/cluster/graph\<close>,
    \<open>pkg/installer/graph.go\<close>), the cell that is written once as the specification of the graph manager, and
    the types of the assets that are looked up in the graph.
  \<^item> Instance_Metadata, Features, Refresher, Env: the environment of the program (\<open>pkg/env\<close>,
    \<open>pkg/util/instancemetadata\<close>), its feature flags and its certificate refresher.
  \<^item> Cluster_Doc, Install_Config: the part of the cluster document that is read, and the install configuration
    (\<open>generateconfig.go\<close>).
  \<^item> Embedded_Files, Ignition, Dns_Files, Customise, Customised: the files embedded into the program, the files
    added to the bootstrap configuration from them (\<open>pkg/data\<close>, \<open>dnsmasq\<close>, \<open>etchost\<close>, \<open>mdsd\<close>) and the
    changes to the assets (\<open>custominstallconfig.go\<close> and what it calls).
  \<^item> Expected_Files, Generated_Files: the files and units that the repository's test expects
    (\<open>storage_files_testdata.go\<close>, \<open>systemd_files_testdata.go\<close>), against those that are made.
  \<^item> Install: \<open>Manifests\<close> and \<open>Install\<close> (\<open>install.go\<close>, \<open>condition.go\<close>).
  \<^item> Dialer, Proxy: connections to an API server, and the development proxy (\<open>pkg/proxy\<close>,
    \<open>pkg/util/net\<close>), whose two copies of a connection run at once.
  \<^item> Transitions, Load_Test, Licenses: contracts of step relations; the load test with its limiter, wait group
    and status goroutine (\<open>hack/installtest\<close>); the licence tool (\<open>hack/licenses\<close>).
  \<^item> Cli, Commands: the actions of the commands and the log hook; the tree of commands, how the arguments and the
    flags choose one of them, and the program's end (\<open>cmd/aro\<close>).

  What is shown. Each component's operations have their behaviour on every branch, errors and panics included.
  Across components: the manifests that are stored and written are those of the customised graph of the
  generated configuration, and the ignition that the bootstrap machine fetches is the text of that graph's
  final bootstrap configuration; an installation that returns nil has deployed the machines, has a client
  for the private endpoint and has read a bootstrap map whose status is complete, and one whose
  bootstrap completes in time does return nil; the resolution of assets, deployments and waits return; what is saved is what is loaded, a stored graph
  implies a stored ignition and is never replaced; the machines that are deployed are those of the
  configuration and the pointer ignition in that graph (this theory); the assets that the customisations
  look up are of the types that are asserted, and customising succeeds whenever its texts can be written and a
  certificate can be made. The templates are executed as they stand in the code: with the values of the
  repository's test, customising leaves each of the 21 files and the four units of that test's lists, with the
  expected texts (where a library writes the text, what it makes of the expected configuration).
  Of the concurrent parts, the proxy delivers a prefix of what was sent and closes both connections only
  after both copies are done, the load test never runs more scripts than allowed, and both can always still
  return (the load test if its commands can be started).

  Interfaces. \<open>go_map\<close> (a canonical map), \<open>keyed_list\<close> (replace by key, or append), \<open>aead_contract\<close> (a
  sealed text opens to itself), \<open>poll_condition\<close> (what a poll's result says of its last call),
  \<open>guarded_steps\<close> and \<open>progressing\<close> (invariants, and a goal that stays reachable) are locales, each
  interpreted on the definitions of the components that provide it.

  Bounds. \<open>Resolve\<close> takes a bound on the depth of its recursion; it is enough whenever it exceeds the rank
  of the asset in the acyclic graph of dependencies. A poll takes the schedule of its wake-ups: the properties
  say what holds for every schedule, and the ideal ones (a wake-up per interval, then the deadline) give the
  numbers of calls. A list call that the service never ends is a partial function. Machine integers appear
  as bytes of addresses and masks (\<open>8 word\<close>); the other numbers of the code are small counts, ports and
  durations, which are integers.

  Not modelled. Mocks and generated assertion code hold no logic of the program; of the test data, the files that
  only libraries render (YAML of machine configurations and of the DNS) and the script for NetworkManager, which
  no code makes, are left out; so are \<open>recover.Panic\<close>, which logs a panic of the proxy's goroutine, and the
  assertion on logs of the tests (\<open>test/util/log\<close>). Calls that block for ever are not represented in the
  sequential parts, and case is mapped for ASCII only (\<open>strings.ToLower\<close>, \<open>strings.EqualFold\<close>). The code of others (under \<open>vendor\<close>: the installer,
  the SDK, the ciphers, YAML; and ASN.1) is a parameter, but for what the program uses of the flags and commands of cobra.
\<close>

section \<open>From the manifests to the machines\<close>

lemma customised_graph:
  assumes "applyInstallConfigCustomisations k d m ia img = Some (Ok g)"
    and "ranked rk (cd_assets d)" "\<forall>t \<in> set ignition_targets. rk t < k"
  shows "\<exists>pp p q. prepare d m = Ok pp \<and> sm_invar g \<and> graph_Get g install_config_name = Some (AssetInstallConfig ia)
    \<and> points_to (cd_libs d) (pp_dns pp) ''master'' p q \<and> graph_Get g master_name = Some (AssetMaster q)"
proof -
  from assms(1) obtain pp where pp: "prepare d m = Ok pp"
    by (cases "prepare d m") (auto simp: applyInstallConfigCustomisations_def)
  let ?g = "initial_graph m ia img (pp_signingKey pp)"
  from pp assms(1) obtain g0 where r: "Resolve_deps k (cd_assets d) ignition_targets ?g = Some (Ok (), g0)"
    and c: "customise d m (ia_Config ia) pp g0 = Ok g"
    by (auto simp: applyInstallConfigCustomisations_def outcome_simps split: option.splits)
  have res: "resolved (cd_assets d) rk k ignition_targets ?g (Ok ()) g0" using Resolve_resolved(2) [OF assms(2) r assms(3)] .
  have "sm_invar ?g" unfolding initial_graph_def by (rule sm_invar_Set) (simp add: sm_invar_def)
  then have inv: "sm_invar g" using customised_invar [OF c] res by (simp add: resolved_def)
  have "graph_Get ?g install_config_name = Some (AssetInstallConfig ia)"
    by (simp add: initial_graph_def graph_Set_def sm_get_put asset_names)
  then have "graph_Get g0 install_config_name = Some (AssetInstallConfig ia)"
    using res grows_mono by (fastforce simp: resolved_def)
  moreover have "touches wrapper_assets g0 g" using customise_Ok [OF c] by blast
  ultimately have "graph_Get g install_config_name = Some (AssetInstallConfig ia)"
    by (simp add: touches_def wrapper_assets_def asset_names)
  then show ?thesis using pp inv customised_master [OF c] by blast
qed

lemma manifests_cell:
  assumes "Manifests clocks i m w = Some (g, Ok (), w')"
    and "blob_laws content blobs" "serves (in_graph i) (resource_group m) (storage_account m) blobs" "lawful (gm_aead (in_graph i))"
    and "content (ms_store w) graphContainer graphBlob = None"
    and "sm_invar g" "\<forall>(n, a) \<in> set g. gm_encode (in_graph i) a = Ok (enc a) \<and> json_wf (enc a)"
  shows "cell_of content (in_graph i) (ms_store w') = Some (Ok (encoded enc g))"
proof -
  from assms(1) have "Run clocks [Action (generate_action i m), Action (customise_action i m), Action (persist_action i m)]
      (w\<lparr>ms_config := None, ms_graph := []\<rparr>) = Some (Ok (), w')" by (auto simp: Manifests_def)
  then obtain w1 w2 where r: "generate_action i m (w\<lparr>ms_config := None, ms_graph := []\<rparr>) = (Ok (), w1)"
    "customise_action i m w1 = (Ok (), w2)" "persist_action i m w2 = (Ok (), w')" using Run_three by meson
  have st: "ms_store w2 = ms_store w"
    using r(1,2) by (auto simp: generate_action_def customise_action_def split: prod.splits outcome.splits option.splits)
  have g: "ms_graph w2 = g"
    using assms(1) r(3) by (auto simp: Manifests_def persist_action_def split: prod.splits)
  have sv: "serves (in_graph i) (LastTokenByte (ResourceGroupID (ClusterProfile (mg_oc m))) slash) (''cluster'' @ StorageSuffix (mg_oc m)) blobs"
    using assms(3) by (simp add: resource_group_def storage_account_def)
  obtain rnd' where "persistGraph (in_graph i) (ResourceGroupID (ClusterProfile (mg_oc m))) (StorageSuffix (mg_oc m)) g
      (ms_store w) (ms_random w2) = (Ok (), ms_store w', rnd')"
    using r(3) st g by (auto simp: persist_action_def split: prod.splits)
  from persist_cell [OF assms(2) sv assms(4,6,7) this] show ?thesis using assms(5) by (simp add: cell_of_def)
qed

text \<open>C5: The machines are those of the manifests: when a deployment succeeds from the store that the manifests
  command left in an account that was empty, the template it deployed was made from the configuration
  that command generated and from the customised pointer of its graph, whose machines fetch their
  configuration from the internal address of the API server. (The encoders and decoders of these two
  assets are parameters; they have to agree on them.)\<close>

theorem machines_of_the_manifests:
  assumes "Manifests clocks i m w = Some (g, Ok (), w')"
    and "blob_laws content blobs" "serves (in_graph i) (resource_group m) (storage_account m) blobs" "lawful (gm_aead (in_graph i))"
    and "content (ms_store w) graphContainer graphBlob = None"
    and "ranked rk (cd_assets (in_custom i))" "\<forall>t \<in> set ignition_targets. rk t < in_depth i"
    and "\<forall>(n, a) \<in> set g. gm_encode (in_graph i) a = Ok (enc a) \<and> json_wf (enc a)"
    and "\<forall>ia. graph_Get g install_config_name = Some (AssetInstallConfig ia) \<longrightarrow> dd_read_config d (enc (AssetInstallConfig ia)) = Ok ia"
    and "\<forall>p. graph_Get g master_name = Some (AssetMaster p) \<longrightarrow> dd_read_master d (enc (AssetMaster p)) = Ok p"
    and "dd_graph d = in_graph i" "deployResourceTemplate d m (ms_store w') = Some (Ok (), s')"
  shows "\<exists>ia img pp p q sas s1 s2. fst (generateInstallConfig (in_libs i) m (ms_files w)) = Ok (ia, img)
    \<and> applyInstallConfigCustomisations (in_depth i) (in_custom i) m ia img = Some (Ok g) \<and> prepare (in_custom i) m = Ok pp
    \<and> points_to (cd_libs (in_custom i)) (pp_dns pp) ''master'' p q \<and> sas_parameter d m s1 = (Ok sas, s2)
    \<and> DeployTemplate (dd_clock d) (dd_deployments d) (resource_group m) ''resources''
        (resource_template (mg_oc m) (endpoint_suffix m) (ia_Config ia) (pt_Data q), template_parameters sas (ia_Config ia)) s2
        = Some (Ok (), s')"
proof -
  from Manifests_Ok [OF assms(1)] obtain ia img where gen: "fst (generateInstallConfig (in_libs i) m (ms_files w)) = Ok (ia, img)"
    and app: "applyInstallConfigCustomisations (in_depth i) (in_custom i) m ia img = Some (Ok g)" by blast
  from customised_graph [OF app assms(6,7)] obtain pp p q where cg: "prepare (in_custom i) m = Ok pp" "sm_invar g"
    "graph_Get g install_config_name = Some (AssetInstallConfig ia)" "points_to (cd_libs (in_custom i)) (pp_dns pp) ''master'' p q"
    "graph_Get g master_name = Some (AssetMaster q)" by blast
  have cell: "cell_of content (in_graph i) (ms_store w') = Some (Ok (encoded enc g))"
    using manifests_cell [OF assms(1-5) cg(2) assms(8)] .
  obtain pg s1 where l: "LoadPersisted (dd_graph d) (resource_group m) (storage_account m) (ms_store w') = (Ok pg, s1)"
    using assms(12) by (auto simp: deployResourceTemplate_def prepare_deployment_def outcome_simps split: prod.splits outcome.splits)
  have "pg = encoded enc g" using Load_cell [OF assms(2,3) l [unfolded assms(11)]] cell by simp
  then have pg: "sm_get pg install_config_name = Some (enc (AssetInstallConfig ia))" "sm_get pg master_name = Some (enc (AssetMaster q))"
    using cg(3,5) by (simp_all add: encoded_get)
  from deployed_assets [OF l assms(12)] pg assms(9,10) cg(3,5) obtain sas s2 where
    "sas_parameter d m s1 = (Ok sas, s2)"
    "DeployTemplate (dd_clock d) (dd_deployments d) (resource_group m) ''resources''
        (resource_template (mg_oc m) (endpoint_suffix m) (ia_Config ia) (pt_Data q), template_parameters sas (ia_Config ia)) s2
        = Some (Ok (), s')" by auto
  then show ?thesis using gen app cg(1,4) by blast
qed

lemma memory_load:
  assumes "serves m rg acc memory_client" "cell_of (\<lambda>s k b. s (k, b)) m s = Some (Ok pg)"
  shows "LoadPersisted m rg acc s = (Ok pg, s)"
  using assms by (auto simp: LoadPersisted_def serves_def cell_of_def memory_client_def)

lemma demo_deployment:
  assumes "LoadPersisted G rg acc s = (Ok (encoded (\<lambda>a. JStr ''asset'') g), s)" "rg = resource_group demo_install" "acc = storage_account demo_install"
    and "graph_Get g install_config_name \<noteq> None" "graph_Get g master_name \<noteq> None"
    and "d = demo_deploy\<lparr>dd_graph := G, dd_read_config := \<lambda>j. Ok ia, dd_read_master := \<lambda>j. Ok q\<rparr>"
  shows "deployResourceTemplate d demo_install s = Some (Ok (), s)"
proof -
  have names: "master_name \<noteq> install_config_name" by (simp add: asset_names)
  have p: "persisted_Get (decode_asset d) [install_config_name, master_name] (encoded (\<lambda>a. JStr ''asset'') g)
      = Ok [AssetInstallConfig ia, AssetMaster q]"
    using assms(4,5) names by (auto simp: persisted_Get_def decode_asset_def encoded_get assms(6))
  have sas: "sas_parameter d demo_install s = (Ok (account_sas (dd_rfc3339 d) 0), s)"
    by (simp add: sas_parameter_def demo_fields) (simp add: demo_cluster_def)
  have "dd_graph d = G" "dd_deployments d = dd_deployments demo_deploy" by (simp_all add: assms(6))
  then show ?thesis
    unfolding deployResourceTemplate_def prepare_deployment_def
    by (simp add: assms(1) [unfolded assms(2,3)] p sas deployment_of_def DeployTemplate_def demo_deploy_calls error_of_def IsDeploymentActiveError_def)
qed

theorem machines_of_the_manifests_witness:
  "\<exists>g w' q (d :: (unit, unit, unit, memory) deploy_deps). Manifests (replicate 3 demo_clock) demo_installer demo_install demo_start = Some (g, Ok (), w')
     \<and> graph_Get g master_name = Some (AssetMaster q) \<and> deployResourceTemplate d demo_install (ms_store w') = Some (Ok (), ms_store w')
     \<and> (\<exists>pp p. prepare demo_custom_deps demo_install = Ok pp \<and> points_to demo_custom_libs (pp_dns pp) ''master'' p q)"
proof -
  obtain g w' where m: "Manifests (replicate 3 demo_clock) demo_installer demo_install demo_start = Some (g, Ok (), w')"
    using demo_manifests by blast
  have f: "in_custom demo_installer = demo_custom_deps" "in_depth demo_installer = 2" "cd_libs demo_custom_deps = demo_custom_libs"
    "ms_store demo_start = (\<lambda>_. None)" "gm_storage (in_graph demo_installer) = gm_storage demo_manager"
    by (simp_all add: demo_installer_def demo_custom_deps_def demo_start_def)
  obtain ia img where app: "applyInstallConfigCustomisations 2 demo_custom_deps demo_install ia img = Some (Ok g)"
    using Manifests_Ok [OF m] by (auto simp: f)
  from customised_graph [OF app demo_ranked] obtain pp p q where pp: "prepare demo_custom_deps demo_install = Ok pp"
    and cg: "sm_invar g" "graph_Get g install_config_name = Some (AssetInstallConfig ia)"
    "points_to demo_custom_libs (pp_dns pp) ''master'' p q" "graph_Get g master_name = Some (AssetMaster q)"
    unfolding f by blast
  define d where "d = demo_deploy\<lparr>dd_graph := in_graph demo_installer, dd_read_config := \<lambda>j. Ok ia, dd_read_master := \<lambda>j. Ok q\<rparr>"
  have sv: "serves (in_graph demo_installer) rg acc memory_client" for rg acc using demo_serves by (simp add: serves_def f)
  have l: "lawful (gm_aead (in_graph demo_installer))" by (simp add: demo_installer_def demo_manager_def tag_cipher_ok)
  have e: "\<forall>(n, a) \<in> set g. gm_encode (in_graph demo_installer) a = Ok (JStr ''asset'') \<and> json_wf (JStr ''asset'')"
    by (simp add: demo_installer_def)
  have emp: "ms_store demo_start (graphContainer, graphBlob) = None" by (simp add: f)
  have "LoadPersisted (in_graph demo_installer) (resource_group demo_install) (storage_account demo_install) (ms_store w')
      = (Ok (encoded (\<lambda>a. JStr ''asset'') g), ms_store w')"
    using memory_load [OF sv manifests_cell [OF m memory_client_laws sv l emp cg(1) e]] .
  from demo_deployment [OF this refl refl _ _ d_def] cg(2,4)
  have dep: "deployResourceTemplate d demo_install (ms_store w') = Some (Ok (), ms_store w')" by simp
  have dd: "dd_graph d = in_graph demo_installer" "\<forall>x. graph_Get g install_config_name = Some (AssetInstallConfig x) \<longrightarrow> dd_read_config d (JStr ''asset'') = Ok x"
    "\<forall>x. graph_Get g master_name = Some (AssetMaster x) \<longrightarrow> dd_read_master d (JStr ''asset'') = Ok x"
    using cg(2,4) by (auto simp: d_def)
  from machines_of_the_manifests [OF m memory_client_laws sv l emp _ _ e dd(2,3,1) dep, unfolded f, OF demo_ranked]
  show ?thesis using m cg dep pp by blast
qed

end
